(* ===== verification/Prelude.thy ===== *)
theory Prelude
  imports Main "HOL-Library.Word"
begin

text \<open>
  What every component shares: JavaScript strings, numbers and byte arrays.

  A JavaScript string is a \<^typ>\<open>string\<close>, its UTF-8 bytes. Every string the console measures or
  cuts (addresses, hashes, hexadecimal keys) is ASCII, where a byte is a UTF-16 code unit; the
  functions below that depend on the unit (\<open>slice\<close>, \<open>trim\<close>, \<open>to_lower\<close>) are exact on ASCII.
  An integral number is an \<^typ>\<open>int\<close> or a \<^typ>\<open>nat\<close> (the console's numbers stay far below
  \<open>2 ^ 53\<close>), a BigInt is an \<^typ>\<open>int\<close>, and a \<open>Uint8Array\<close> is a list of \<^typ>\<open>8 word\<close>.
\<close>

named_theorems js_simps \<open>evaluation of the string and number primitives\<close>

type_synonym byte = "8 word"

subsection \<open>Strings\<close>

definition starts_with :: "string \<Rightarrow> string \<Rightarrow> bool" where
  "starts_with p s \<longleftrightarrow> take (length p) s = p"

definition slice :: "nat \<Rightarrow> nat \<Rightarrow> string \<Rightarrow> string" where
  "slice i j s = take (j - i) (drop i s)"

definition is_space :: "char \<Rightarrow> bool" where
  "is_space c \<longleftrightarrow> c \<in> {CHR '' '', CHR 0x09, CHR 0x0A, CHR 0x0B, CHR 0x0C, CHR 0x0D}"

definition trim :: "string \<Rightarrow> string" where
  "trim s = rev (dropWhile is_space (rev (dropWhile is_space s)))"

definition lower_char :: "char \<Rightarrow> char" where
  "lower_char c = (let n = (of_char c :: nat) in if 65 \<le> n \<and> n \<le> 90 then char_of (n + 32) else c)"

definition to_lower :: "string \<Rightarrow> string" where
  "to_lower s = map lower_char s"

fun split_on :: "char \<Rightarrow> string \<Rightarrow> string list" where
  "split_on d [] = [[]]"
| "split_on d (c # cs) =
     (if c = d then [] # split_on d cs
      else (case split_on d cs of [] \<Rightarrow> [[c]] | w # ws \<Rightarrow> (c # w) # ws))"

fun join_with :: "string \<Rightarrow> string list \<Rightarrow> string" where
  "join_with d [] = []"
| "join_with d [w] = w"
| "join_with d (w # v # ws) = w @ d @ join_with d (v # ws)"

definition pad_start :: "nat \<Rightarrow> char \<Rightarrow> string \<Rightarrow> string" where
  "pad_start n c s = replicate (n - length s) c @ s"

fun is_infix :: "string \<Rightarrow> string \<Rightarrow> bool" where
  "is_infix p [] = (p = [])"
| "is_infix p (c # cs) = (starts_with p (c # cs) \<or> is_infix p cs)"

text \<open>The characters of the console's texts beyond ASCII, as UTF-8.\<close>

definition em_dash :: string where "em_dash = [CHR 0xE2, CHR 0x80, CHR 0x94]"
definition en_dash :: string where "en_dash = [CHR 0xE2, CHR 0x80, CHR 0x93]"
definition ellipsis :: string where "ellipsis = [CHR 0xE2, CHR 0x80, CHR 0xA6]"
definition middle_dot :: string where "middle_dot = [CHR 0xC2, CHR 0xB7]"

text \<open>The truthiness tests of the source: the empty string counts as absent.\<close>

definition truthy_str :: "string option \<Rightarrow> bool" where
  "truthy_str x \<longleftrightarrow> x \<noteq> None \<and> x \<noteq> Some []"

definition or_else :: "string option \<Rightarrow> string \<Rightarrow> string" where
  \<comment> \<open>\<open>x || d\<close> on an optional string\<close>
  "or_else x d = (case x of None \<Rightarrow> d | Some s \<Rightarrow> if s = [] then d else s)"

lemma starts_with_append [simp]: "starts_with p (p @ s)"
  by (simp add: starts_with_def)

lemma starts_with_iff: "starts_with p s \<longleftrightarrow> (\<exists>r. s = p @ r)"
  unfolding starts_with_def by (metis append_take_drop_id append_eq_conv_conj)

lemma starts_with_Nil [simp]: "starts_with [] s"
  by (simp add: starts_with_def)

lemma starts_with_Cons [simp]: "starts_with (p # ps) (c # cs) \<longleftrightarrow> p = c \<and> starts_with ps cs"
  by (auto simp: starts_with_def)

lemma starts_with_Cons_Nil [simp]: "\<not> starts_with (p # ps) []"
  by (simp add: starts_with_def)

lemma starts_with_drop: "starts_with p s \<Longrightarrow> p @ drop (length p) s = s"
  unfolding starts_with_def by (metis append_take_drop_id)

lemma lower_char_idem [simp]: "lower_char (lower_char c) = lower_char c"
  by (simp add: lower_char_def Let_def)

lemma to_lower_idem [simp]: "to_lower (to_lower s) = to_lower s"
  by (simp add: to_lower_def)

lemma length_to_lower [simp]: "length (to_lower s) = length s"
  by (simp add: to_lower_def)

lemma to_lower_Nil_iff [simp]: "to_lower s = [] \<longleftrightarrow> s = []"
  by (simp add: to_lower_def)

lemma trim_Nil [simp]: "trim [] = []"
  by (simp add: trim_def)

lemma dropWhile_rev_no_space:
  "s \<noteq> [] \<Longrightarrow> \<not> is_space (hd s) \<Longrightarrow> dropWhile is_space s = s"
  by (cases s) auto

lemma hd_dropWhile_space: "dropWhile is_space s \<noteq> [] \<Longrightarrow> \<not> is_space (hd (dropWhile is_space s))"
  by (rule hd_dropWhile)

lemma dropWhile_snoc: "\<not> P x \<Longrightarrow> dropWhile P (ys @ [x]) = dropWhile P ys @ [x]"
  by (induction ys) auto

lemma dropWhile_rev_snoc:
  "\<not> P x \<Longrightarrow> \<exists>ys. rev (dropWhile P (rev (x # xs))) = x # ys"
  by (simp add: dropWhile_snoc)

lemma dropWhile_idem [simp]: "dropWhile P (dropWhile P xs) = dropWhile P xs"
  by (induction xs) auto

lemma trim_hd_not_space: "trim s \<noteq> [] \<Longrightarrow> \<not> is_space (hd (trim s))"
proof -
  assume ne: "trim s \<noteq> []"
  show ?thesis
  proof (cases "dropWhile is_space s")
    case Nil
    with ne show ?thesis by (simp add: trim_def)
  next
    case (Cons x xs)
    then have x: "\<not> is_space x" using hd_dropWhile_space [of s] by simp
    with dropWhile_rev_snoc [of is_space x xs] Cons show ?thesis
      by (auto simp: trim_def)
  qed
qed

lemma trim_idem [simp]: "trim (trim s) = trim s"
proof (cases "trim s = []")
  case False
  then have 1: "dropWhile is_space (trim s) = trim s"
    by (intro dropWhile_rev_no_space trim_hd_not_space)
  have 2: "dropWhile is_space (rev (trim s)) = rev (trim s)"
    by (simp add: trim_def)
  show ?thesis
    by (subst (1) trim_def) (simp add: 1 2)
qed simp

lemma split_on_not_Nil [simp]: "split_on d s \<noteq> []"
  by (induction s) (auto split: list.splits)

lemma join_split: "join_with [d] (split_on d s) = s"
proof (induction s)
  case (Cons c cs)
  then show ?case
    by (cases "split_on d cs"; cases "tl (split_on d cs)") auto
qed simp

lemma split_on_no_sep: "d \<notin> set w \<Longrightarrow> split_on d w = [w]"
  by (induction w) auto

lemma split_on_append: "d \<notin> set w \<Longrightarrow> split_on d (w @ d # s) = w # split_on d s"
  by (induction w) auto

lemma split_join:
  "ws \<noteq> [] \<Longrightarrow> \<forall>w \<in> set ws. d \<notin> set w \<Longrightarrow> split_on d (join_with [d] ws) = ws"
  by (induction "[d]" ws rule: join_with.induct) (auto simp: split_on_no_sep split_on_append)

lemma length_pad_start: "length (pad_start n c s) = max n (length s)"
  by (simp add: pad_start_def)

subsection \<open>Digits\<close>

text \<open>\<open>n.toString(b)\<close>, as the list of digit values, and the value of a digit list.\<close>

function digits :: "nat \<Rightarrow> nat \<Rightarrow> nat list" where
  "digits b n = (if b < 2 \<or> n < b then [n] else digits b (n div b) @ [n mod b])"
  by pat_completeness auto
termination
  by (relation "measure snd") auto

declare digits.simps [simp del]

definition value_of :: "nat \<Rightarrow> nat list \<Rightarrow> nat" where
  "value_of b ds = foldl (\<lambda>acc d. acc * b + d) 0 ds"

lemma value_of_Nil [simp]: "value_of b [] = 0"
  by (simp add: value_of_def)

lemma value_of_snoc [simp]: "value_of b (ds @ [d]) = value_of b ds * b + d"
  by (simp add: value_of_def)

lemma value_of_digits [simp]: "value_of b (digits b n) = n"
proof (induction b n rule: digits.induct)
  case (1 b n)
  then show ?case
    by (subst digits.simps) (auto simp: value_of_def)
qed

lemma digits_less: "2 \<le> b \<Longrightarrow> d \<in> set (digits b n) \<Longrightarrow> d < b"
proof (induction b n rule: digits.induct)
  case (1 b n)
  then show ?case
    by (cases "n < b") (auto simp: digits.simps [of b n])
qed

lemma digits_not_Nil [simp]: "digits b n \<noteq> []"
  by (subst digits.simps) simp

lemma digits_hd: "2 \<le> b \<Longrightarrow> 0 < n \<Longrightarrow> hd (digits b n) \<noteq> 0"
proof (induction b n rule: digits.induct)
  case (1 b n)
  show ?case
  proof (cases "n < b")
    case True
    with 1 show ?thesis by (simp add: digits.simps [of b n])
  next
    case False
    with 1 have "0 < n div b" by (simp add: div_greater_zero_iff)
    with False 1 show ?thesis by (simp add: digits.simps [of b n])
  qed
qed

lemma length_digits: "2 \<le> b \<Longrightarrow> n < b ^ k \<Longrightarrow> 0 < k \<Longrightarrow> length (digits b n) \<le> k"
proof (induction b n arbitrary: k rule: digits.induct)
  case (1 b n)
  show ?case
  proof (cases "n < b")
    case True
    with 1 show ?thesis by (simp add: digits.simps [of b n])
  next
    case False
    obtain j where k: "k = Suc j" using \<open>0 < k\<close> by (cases k) auto
    have j: "0 < j" using False 1(3) k by (cases j) auto
    have "n div b < b ^ j" using 1(3) k by (simp add: less_mult_imp_div_less mult.commute)
    with 1 False j have "length (digits b (n div b)) \<le> j" by simp
    with False 1(2) k show ?thesis by (simp add: digits.simps [of b n])
  qed
qed

lemma value_of_zeros [simp]: "value_of b (replicate k 0 @ ds) = value_of b ds"
proof -
  have "foldl (\<lambda>acc d. acc * b + d) 0 (replicate k 0) = 0" by (induction k) auto
  then show ?thesis by (simp add: value_of_def)
qed

subsection \<open>Hexadecimal and decimal text\<close>

definition hex_digit :: "nat \<Rightarrow> char" where
  "hex_digit d = (if d < 10 then char_of (48 + d) else char_of (87 + d))"

definition hex_digit_val :: "char \<Rightarrow> nat option" where
  "hex_digit_val c = (let n = (of_char c :: nat) in
     if 48 \<le> n \<and> n \<le> 57 then Some (n - 48)
     else if 97 \<le> n \<and> n \<le> 102 then Some (n - 87)
     else if 65 \<le> n \<and> n \<le> 70 then Some (n - 55)
     else None)"

definition is_hex :: "char \<Rightarrow> bool" where
  "is_hex c \<longleftrightarrow> hex_digit_val c \<noteq> None"

definition is_lower_hex :: "char \<Rightarrow> bool" where
  "is_lower_hex c \<longleftrightarrow> (let n = (of_char c :: nat) in 48 \<le> n \<and> n \<le> 57 \<or> 97 \<le> n \<and> n \<le> 102)"

text \<open>\<open>n.toString(16)\<close> and \<open>n.toString()\<close> for a non-negative integer.\<close>

definition hex_of_nat :: "nat \<Rightarrow> string" where
  "hex_of_nat n = map hex_digit (digits 16 n)"

definition dec_of_nat :: "nat \<Rightarrow> string" where
  "dec_of_nat n = map hex_digit (digits 10 n)"

definition dec_of_int :: "int \<Rightarrow> string" where
  "dec_of_int i = (if i < 0 then CHR ''-'' # dec_of_nat (nat (- i)) else dec_of_nat (nat i))"

text \<open>The value of a run of hexadecimal digits; \<^const>\<open>None\<close> where a character is not one.\<close>

definition hex_val :: "string \<Rightarrow> nat option" where
  "hex_val s = (if s \<noteq> [] \<and> list_all is_hex s then Some (value_of 16 (map (the \<circ> hex_digit_val) s)) else None)"

lemma of_char_hex_digit: "d < 16 \<Longrightarrow> of_char (hex_digit d) = (if d < 10 then 48 + d else 87 + d)"
  by (simp add: hex_digit_def)

lemma hex_digit_val_digit [simp]: "d < 16 \<Longrightarrow> hex_digit_val (hex_digit d) = Some d"
  by (simp add: hex_digit_val_def of_char_hex_digit Let_def)

lemma is_hex_digit [simp]: "d < 16 \<Longrightarrow> is_hex (hex_digit d)"
  by (simp add: is_hex_def)

lemma is_lower_hex_digit [simp]: "d < 16 \<Longrightarrow> is_lower_hex (hex_digit d)"
  by (simp add: is_lower_hex_def of_char_hex_digit Let_def)

lemma is_lower_hex_is_hex: "is_lower_hex c \<Longrightarrow> is_hex c"
  by (auto simp: is_lower_hex_def is_hex_def hex_digit_val_def Let_def)

lemma hex_digit_of_val: "is_lower_hex c \<Longrightarrow> hex_digit (the (hex_digit_val c)) = c"
  by (auto simp: is_lower_hex_def hex_digit_val_def hex_digit_def Let_def)

lemma hex_digit_val_less: "hex_digit_val c = Some d \<Longrightarrow> d < 16"
  by (auto simp: hex_digit_val_def Let_def split: if_splits)

lemma hex_of_nat_not_Nil [simp]: "hex_of_nat n \<noteq> []"
  by (simp add: hex_of_nat_def)

lemma hex_of_nat_lower: "c \<in> set (hex_of_nat n) \<Longrightarrow> is_lower_hex c"
  by (auto simp: hex_of_nat_def dest!: digits_less [rotated])

lemma map_hex_digit_val:
  "\<forall>d \<in> set ds. d < 16 \<Longrightarrow> map (the \<circ> hex_digit_val) (map hex_digit ds) = ds"
  by (induction ds) auto

lemma hex_val_map_digits:
  "ds \<noteq> [] \<Longrightarrow> \<forall>d \<in> set ds. d < 16 \<Longrightarrow> hex_val (map hex_digit ds) = Some (value_of 16 ds)"
  using map_hex_digit_val [of ds] by (simp add: hex_val_def list_all_iff)

lemma digits16_less: "\<forall>d \<in> set (digits 16 n). d < 16"
  using digits_less [of 16] by auto

lemma hex_val_hex_of_nat [simp]: "hex_val (hex_of_nat n) = Some n"
  by (simp add: hex_of_nat_def hex_val_map_digits digits16_less)

lemma hex_digit_0: "hex_digit 0 = CHR ''0''"
  by (simp add: hex_digit_def char_of_def bit_0)

lemma pad_hex_of_nat: "pad_start k (CHR ''0'') (hex_of_nat n) =
    map hex_digit (replicate (k - length (digits 16 n)) 0 @ digits 16 n)"
  by (simp add: pad_start_def hex_of_nat_def hex_digit_0)

lemma hex_val_pad [simp]: "hex_val (pad_start k (CHR ''0'') (hex_of_nat n)) = Some n"
proof -
  have "\<forall>d \<in> set (replicate (k - length (digits 16 n)) 0 @ digits 16 n). d < 16"
    using digits16_less by auto
  then show ?thesis unfolding pad_hex_of_nat by (subst hex_val_map_digits) auto
qed

lemma length_pad_hex: "n < 16 ^ k \<Longrightarrow> 0 < k \<Longrightarrow> length (pad_start k (CHR ''0'') (hex_of_nat n)) = k"
  using length_digits [of 16 n k] by (simp add: length_pad_start hex_of_nat_def)

lemma pad_hex_lower: "c \<in> set (pad_start k (CHR ''0'') (hex_of_nat n)) \<Longrightarrow> is_lower_hex c"
  by (auto simp: pad_start_def is_lower_hex_def dest: hex_of_nat_lower split: if_splits)

subsection \<open>Machines and their invariants\<close>

inductive reachable :: "('s \<Rightarrow> bool) \<Rightarrow> ('s \<Rightarrow> 's \<Rightarrow> bool) \<Rightarrow> 's \<Rightarrow> bool" for I S where
  reach_init: "I s \<Longrightarrow> reachable I S s"
| reach_next: "reachable I S s \<Longrightarrow> S s s' \<Longrightarrow> reachable I S s'"

locale machine =
  fixes start :: "'s \<Rightarrow> bool"
    and step :: "'s \<Rightarrow> 's \<Rightarrow> bool"
    and inv :: "'s \<Rightarrow> bool"
  assumes inv_start: "start s \<Longrightarrow> inv s"
    and inv_step: "inv s \<Longrightarrow> step s s' \<Longrightarrow> inv s'"
begin

lemma invariant: "reachable start step s \<Longrightarrow> inv s"
  by (induction rule: reachable.induct) (auto intro: inv_start inv_step)

lemma invariant_from: "inv s \<Longrightarrow> step\<^sup>*\<^sup>* s s' \<Longrightarrow> inv s'"
  by (rotate_tac, induction rule: rtranclp_induct) (auto intro: inv_step)

end

end
