(* ===== verification/Json.thy ===== *)
theory Json
  imports Prelude
begin

text \<open>
  JSON as the console uses it: values, field access with the semantics of a JavaScript object,
  \<open>JSON.stringify\<close> (\<open>json_print\<close>) and \<open>JSON.parse\<close> (\<open>json_parse\<close>, a recursive-descent parser
  whose fuel is the length of the text). Integral numbers are \<open>JNum\<close>; a number with a fraction
  or an exponent keeps its lexeme in \<open>JDec\<close>, since the console never computes with one.
  The result of the theory is that parsing a printed value gives it back.
\<close>

datatype json =
    JNull
  | JBool bool
  | JNum int
  | JDec string
  | JStr string
  | JArr "json list"
  | JObj "(string \<times> json) list"

subsection \<open>Field access\<close>

text \<open>\<open>o[k]\<close>: the last binding of a key wins; a missing key is \<open>undefined\<close> (\<^const>\<open>None\<close>).\<close>

fun jget :: "string \<Rightarrow> json \<Rightarrow> json option" where
  "jget k (JObj kvs) = map_of (rev kvs) k"
| "jget k _ = None"

fun jstr :: "json option \<Rightarrow> string option" where
  "jstr (Some (JStr s)) = Some s"
| "jstr _ = None"

text \<open>An object literal: \<open>JSON.stringify\<close> leaves out the properties that are \<open>undefined\<close>.\<close>

fun jobj_fields :: "(string \<times> json option) list \<Rightarrow> (string \<times> json) list" where
  "jobj_fields [] = []"
| "jobj_fields ((k, None) # r) = jobj_fields r"
| "jobj_fields ((k, Some v) # r) = (k, v) # jobj_fields r"

definition jobj :: "(string \<times> json option) list \<Rightarrow> json" where
  "jobj fs = JObj (jobj_fields fs)"

fun jnullable :: "string option \<Rightarrow> json" where
  "jnullable None = JNull"
| "jnullable (Some s) = JStr s"

subsection \<open>Printing\<close>

definition escape_char :: "char \<Rightarrow> string" where
  "escape_char c =
     (if c = CHR 0x22 then [CHR 0x5C, CHR 0x22]
      else if c = CHR 0x5C then [CHR 0x5C, CHR 0x5C]
      else if c = CHR 0x08 then [CHR 0x5C, CHR ''b'']
      else if c = CHR 0x0C then [CHR 0x5C, CHR ''f'']
      else if c = CHR 0x0A then [CHR 0x5C, CHR ''n'']
      else if c = CHR 0x0D then [CHR 0x5C, CHR ''r'']
      else if c = CHR 0x09 then [CHR 0x5C, CHR ''t'']
      else if (of_char c :: nat) < 32
        then [CHR 0x5C, CHR ''u'', CHR ''0'', CHR ''0''] @ pad_start 2 (CHR ''0'') (hex_of_nat (of_char c))
      else [c])"

definition print_string :: "string \<Rightarrow> string" where
  "print_string s = CHR 0x22 # concat (map escape_char s) @ [CHR 0x22]"

fun json_print :: "json \<Rightarrow> string"
  and print_elems :: "json list \<Rightarrow> string"
  and print_members :: "(string \<times> json) list \<Rightarrow> string" where
  "json_print JNull = ''null''"
| "json_print (JBool b) = (if b then ''true'' else ''false'')"
| "json_print (JNum i) = dec_of_int i"
| "json_print (JDec l) = l"
| "json_print (JStr s) = print_string s"
| "json_print (JArr js) = CHR ''['' # print_elems js @ '']''"
| "json_print (JObj kvs) = CHR ''{'' # print_members kvs @ ''}''"
| "print_elems [] = []"
| "print_elems [j] = json_print j"
| "print_elems (j # j' # js) = json_print j @ '','' @ print_elems (j' # js)"
| "print_members [] = []"
| "print_members [(k, v)] = print_string k @ '':'' @ json_print v"
| "print_members ((k, v) # kv # kvs) = print_string k @ '':'' @ json_print v @ '','' @ print_members (kv # kvs)"

subsection \<open>Parsing\<close>

definition is_ws :: "char \<Rightarrow> bool" where
  "is_ws c \<longleftrightarrow> c \<in> {CHR '' '', CHR 0x09, CHR 0x0A, CHR 0x0D}"

definition skip_ws :: "string \<Rightarrow> string" where
  "skip_ws s = dropWhile is_ws s"

definition is_digit :: "char \<Rightarrow> bool" where
  "is_digit c \<longleftrightarrow> (let n = (of_char c :: nat) in 48 \<le> n \<and> n \<le> 57)"

definition dec_val :: "string \<Rightarrow> nat" where
  "dec_val s = value_of 10 (map (the \<circ> hex_digit_val) s)"

definition is_num_char :: "char \<Rightarrow> bool" where
  "is_num_char c \<longleftrightarrow> is_digit c \<or> c \<in> {CHR ''+'', CHR ''-'', CHR ''.'', CHR ''e'', CHR ''E''}"

text \<open>The unsigned integer part: \<open>0\<close>, or digits that do not start with a zero.\<close>

definition int_lexeme :: "string \<Rightarrow> bool" where
  "int_lexeme s \<longleftrightarrow> s = ''0'' \<or> s \<noteq> [] \<and> list_all is_digit s \<and> hd s \<noteq> CHR ''0''"

definition strip_minus :: "string \<Rightarrow> string" where
  "strip_minus s = (if starts_with ''-'' s then drop 1 s else s)"

definition exp_ok :: "string \<Rightarrow> bool" where
  "exp_ok r \<longleftrightarrow> r = [] \<or> hd r \<in> {CHR ''e'', CHR ''E''} \<and>
     (let d = (if tl r \<noteq> [] \<and> hd (tl r) \<in> {CHR ''+'', CHR ''-''} then tl (tl r) else tl r)
      in d \<noteq> [] \<and> list_all is_digit d)"

text \<open>The grammar of a number that is not a plain integer: a fraction, an exponent or both.\<close>

definition dec_lexeme :: "string \<Rightarrow> bool" where
  "dec_lexeme s = (let u = strip_minus s; i = takeWhile is_digit u; r = dropWhile is_digit u in
     int_lexeme i \<and> r \<noteq> [] \<and>
     (if hd r = CHR ''.''
      then takeWhile is_digit (tl r) \<noteq> [] \<and> exp_ok (dropWhile is_digit (tl r))
      else exp_ok r))"

definition number_value :: "string \<Rightarrow> json option" where
  "number_value s =
     (if int_lexeme (strip_minus s)
      then Some (JNum (if starts_with ''-'' s then - int (dec_val (strip_minus s)) else int (dec_val s)))
      else if dec_lexeme s then Some (JDec s) else None)"

definition parse_number :: "string \<Rightarrow> (json \<times> string) option" where
  "parse_number s = (case number_value (takeWhile is_num_char s) of
     None \<Rightarrow> None | Some v \<Rightarrow> Some (v, dropWhile is_num_char s))"

text \<open>The characters of a string up to its closing quote, escapes decoded. An escape
  \<open>\uXXXX\<close> beyond one byte is outside the model and is refused.\<close>

fun parse_chars :: "string \<Rightarrow> (string \<times> string) option" where
  "parse_chars [] = None"
| "parse_chars (c # cs) =
     (if c = CHR 0x22 then Some ([], cs)
      else if c = CHR 0x5C then
        (case cs of
           [] \<Rightarrow> None
         | e # r \<Rightarrow>
           (if e = CHR ''u'' then
              (case r of
                 a # b # x # y # r' \<Rightarrow>
                   (if a = CHR ''0'' \<and> b = CHR ''0'' then
                      (case hex_val [x, y] of None \<Rightarrow> None
                       | Some n \<Rightarrow> map_option (\<lambda>(s, t). (char_of n # s, t)) (parse_chars r'))
                    else None)
               | _ \<Rightarrow> None)
            else
              (case map_of [(CHR 0x22, CHR 0x22), (CHR 0x5C, CHR 0x5C), (CHR ''/'', CHR ''/''),
                            (CHR ''b'', CHR 0x08), (CHR ''f'', CHR 0x0C), (CHR ''n'', CHR 0x0A),
                            (CHR ''r'', CHR 0x0D), (CHR ''t'', CHR 0x09)] e of
                 None \<Rightarrow> None
               | Some d \<Rightarrow> map_option (\<lambda>(s, t). (d # s, t)) (parse_chars r))))
      else if (of_char c :: nat) < 32 then None
      else map_option (\<lambda>(s, t). (c # s, t)) (parse_chars cs))"

fun parse_value :: "nat \<Rightarrow> string \<Rightarrow> (json \<times> string) option"
  and parse_elems :: "nat \<Rightarrow> string \<Rightarrow> (json list \<times> string) option"
  and parse_members :: "nat \<Rightarrow> string \<Rightarrow> ((string \<times> json) list \<times> string) option" where
  "parse_value 0 s = None"
| "parse_value (Suc n) s =
     (let s = skip_ws s in
      if starts_with ''null'' s then Some (JNull, drop 4 s)
      else if starts_with ''true'' s then Some (JBool True, drop 4 s)
      else if starts_with ''false'' s then Some (JBool False, drop 5 s)
      else (case s of
          [] \<Rightarrow> None
        | c # cs \<Rightarrow>
          (if c = CHR 0x22 then map_option (\<lambda>(t, r). (JStr t, r)) (parse_chars cs)
           else if c = CHR ''['' then
             (if starts_with '']'' (skip_ws cs) then Some (JArr [], drop 1 (skip_ws cs))
              else map_option (\<lambda>(js, r). (JArr js, r)) (parse_elems n cs))
           else if c = CHR ''{'' then
             (if starts_with ''}'' (skip_ws cs) then Some (JObj [], drop 1 (skip_ws cs))
              else map_option (\<lambda>(kvs, r). (JObj kvs, r)) (parse_members n cs))
           else parse_number s)))"
| "parse_elems 0 s = None"
| "parse_elems (Suc n) s =
     (case parse_value n s of
        None \<Rightarrow> None
      | Some (j, r) \<Rightarrow>
        (let r = skip_ws r in
         if starts_with '','' r then map_option (\<lambda>(js, r'). (j # js, r')) (parse_elems n (drop 1 r))
         else if starts_with '']'' r then Some ([j], drop 1 r)
         else None))"
| "parse_members 0 s = None"
| "parse_members (Suc n) s =
     (let s = skip_ws s in
      if \<not> starts_with [CHR 0x22] s then None
      else (case parse_chars (drop 1 s) of
          None \<Rightarrow> None
        | Some (k, r) \<Rightarrow>
          (let r = skip_ws r in
           if \<not> starts_with '':'' r then None
           else (case parse_value n (drop 1 r) of
               None \<Rightarrow> None
             | Some (v, r) \<Rightarrow>
               (let r = skip_ws r in
                if starts_with '','' r
                then map_option (\<lambda>(kvs, r'). ((k, v) # kvs, r')) (parse_members n (drop 1 r))
                else if starts_with ''}'' r then Some ([(k, v)], drop 1 r)
                else None)))))"

definition json_parse :: "string \<Rightarrow> json option" where
  "json_parse s = (case parse_value (Suc (length s)) s of
     Some (j, r) \<Rightarrow> if skip_ws r = [] then Some j else None
   | None \<Rightarrow> None)"

declare parse_value.simps(2) [simp del] parse_elems.simps(2) [simp del] parse_members.simps(2) [simp del]

subsection \<open>Round trip\<close>

fun json_ok :: "json \<Rightarrow> bool" where
  "json_ok (JDec l) \<longleftrightarrow> number_value l = Some (JDec l) \<and> list_all is_num_char l"
| "json_ok (JArr js) \<longleftrightarrow> list_all json_ok js"
| "json_ok (JObj kvs) \<longleftrightarrow> list_all (\<lambda>(k, v). json_ok v) kvs"
| "json_ok _ \<longleftrightarrow> True"

definition stops_number :: "string \<Rightarrow> bool" where
  "stops_number r \<longleftrightarrow> r = [] \<or> \<not> is_num_char (hd r)"

lemma escape_two_digits:
  assumes "(of_char c :: nat) < 32"
  obtains x y where "pad_start 2 (CHR ''0'') (hex_of_nat (of_char c)) = [x, y]"
    and "hex_val [x, y] = Some (of_char c)"
proof -
  let ?p = "pad_start 2 (CHR ''0'') (hex_of_nat (of_char c :: nat))"
  have "length ?p = 2" using assms by (intro length_pad_hex) auto
  then obtain x y where p: "?p = [x, y]" by (auto simp: length_Suc_conv numeral_2_eq_2)
  moreover have "hex_val ?p = Some (of_char c)" by simp
  ultimately show ?thesis using that by simp
qed

lemma parse_chars_escape:
  "parse_chars (escape_char c @ t) = map_option (\<lambda>(s, r). (c # s, r)) (parse_chars t)"
proof (cases "c \<in> {CHR 0x22, CHR 0x5C, CHR 0x08, CHR 0x0C, CHR 0x0A, CHR 0x0D, CHR 0x09}")
  case True
  then show ?thesis by (elim insertE) (simp_all add: escape_char_def)
next
  case False
  show ?thesis
  proof (cases "(of_char c :: nat) < 32")
    case True
    obtain x y where "pad_start 2 (CHR ''0'') (hex_of_nat (of_char c :: nat)) = [x, y]"
      and "hex_val [x, y] = Some (of_char c :: nat)" using True by (rule escape_two_digits)
    with True False show ?thesis by (simp add: escape_char_def)
  next
    case nc: False
    with False show ?thesis by (simp add: escape_char_def)
  qed
qed

lemma parse_chars_print:
  "parse_chars (concat (map escape_char s) @ CHR 0x22 # r) = Some (s, r)"
  by (induction s) (simp_all add: parse_chars_escape del: parse_chars.simps(2), simp)

lemma is_digit_hex: "is_digit c \<Longrightarrow> hex_digit_val c \<noteq> None"
  by (auto simp: is_digit_def hex_digit_val_def Let_def)

lemma dec_digit: "d < 10 \<Longrightarrow> is_digit (hex_digit d)"
  by (simp add: is_digit_def of_char_hex_digit Let_def)

lemma digits10: "\<forall>d \<in> set (digits 10 n). d < 10"
  using digits_less [of 10] by auto

lemma dec_of_nat_digits: "list_all is_digit (dec_of_nat n)"
  using digits10 by (auto simp: dec_of_nat_def list_all_iff dec_digit)

lemma dec_of_nat_not_Nil [simp]: "dec_of_nat n \<noteq> []"
  by (simp add: dec_of_nat_def)

lemma dec_val_dec_of_nat [simp]: "dec_val (dec_of_nat n) = n"
proof -
  have "\<forall>d \<in> set (digits 10 n). d < 16" using digits10 by fastforce
  then show ?thesis by (simp only: dec_val_def dec_of_nat_def map_hex_digit_val value_of_digits)
qed

lemma hex_digit_eq_0: "d < 16 \<Longrightarrow> hex_digit d = CHR ''0'' \<longleftrightarrow> d = 0"
proof
  assume "d < 16" and "hex_digit d = CHR ''0''"
  moreover have "hex_digit_val (CHR ''0'') = Some 0" by (simp add: hex_digit_val_def)
  ultimately show "d = 0" using hex_digit_val_digit [of d] by simp
qed (simp add: hex_digit_0)

lemma int_lexeme_dec_of_nat: "int_lexeme (dec_of_nat n)"
proof (cases "n = 0")
  case True
  then show ?thesis by (simp add: int_lexeme_def dec_of_nat_def digits.simps hex_digit_0)
next
  case False
  then have nz: "hd (digits 10 n) \<noteq> 0" by (intro digits_hd) auto
  have "hd (digits 10 n) < 16" using digits10 [of n] by (cases "digits 10 n") auto
  with nz have "hd (dec_of_nat n) \<noteq> CHR ''0''"
    by (simp add: dec_of_nat_def hd_map hex_digit_eq_0)
  then show ?thesis using dec_of_nat_digits by (simp add: int_lexeme_def)
qed

lemma dec_of_nat_no_minus: "\<not> starts_with ''-'' (dec_of_nat n)"
  using dec_of_nat_digits [of n] by (cases "dec_of_nat n") (auto simp: is_digit_def)

lemma number_value_dec_of_int: "number_value (dec_of_int i) = Some (JNum i)"
  using dec_of_nat_no_minus int_lexeme_dec_of_nat
  by (simp add: number_value_def dec_of_int_def strip_minus_def)

lemma dec_of_int_num_chars: "list_all is_num_char (dec_of_int i)"
  using dec_of_nat_digits by (auto simp: dec_of_int_def is_num_char_def list_all_iff)

lemma parse_number_append:
  assumes "list_all is_num_char l" and "number_value l = Some v" and "stops_number r"
  shows "parse_number (l @ r) = Some (v, r)"
proof -
  have "takeWhile is_num_char (l @ r) = l" and "dropWhile is_num_char (l @ r) = r"
    using assms(1,3) by (cases r; auto simp: stops_number_def list_all_iff)+
  with assms(2) show ?thesis by (simp add: parse_number_def)
qed

lemma num_char_first:
  assumes "is_num_char c"
  shows "\<not> is_ws c" "c \<noteq> CHR ''n''" "c \<noteq> CHR ''t''" "c \<noteq> CHR ''f''" "c \<noteq> CHR 0x22"
    "c \<noteq> CHR ''[''" "c \<noteq> CHR ''{''"
  using assms by (auto simp: is_num_char_def is_ws_def is_digit_def)

lemma parse_value_number:
  assumes "list_all is_num_char l" and "number_value l = Some v" and "stops_number r" and "0 < n"
  shows "parse_value n (l @ r) = Some (v, r)"
proof -
  obtain m where n: "n = Suc m" using \<open>0 < n\<close> by (cases n) auto
  have "l \<noteq> []" using assms(2)
    by (auto simp: number_value_def int_lexeme_def dec_lexeme_def strip_minus_def)
  then obtain c cs where l: "l = c # cs" by (cases l) auto
  with assms(1) have c: "is_num_char c" by simp
  have ws: "skip_ws (l @ r) = l @ r" using l num_char_first(1) [OF c] by (simp add: skip_ws_def)
  show ?thesis
    using parse_number_append [OF assms(1-3)] num_char_first [OF c] ws l
    by (simp add: n parse_value.simps(2) Let_def)
qed

lemma skip_ws_first: "\<not> is_ws c \<Longrightarrow> skip_ws (c # s) = c # s"
  by (simp add: skip_ws_def)

lemma not_ws [simp]: "\<not> is_ws (CHR 0x22)" "\<not> is_ws (CHR ''['')" "\<not> is_ws (CHR '']'')"
  "\<not> is_ws (CHR ''{'')" "\<not> is_ws (CHR ''}'')" "\<not> is_ws (CHR '','')" "\<not> is_ws (CHR '':'')"
  "\<not> is_ws (CHR ''n'')" "\<not> is_ws (CHR ''t'')" "\<not> is_ws (CHR ''f'')"
  by (simp_all add: is_ws_def)

lemma stops [simp]: "stops_number []" "stops_number (CHR '','' # r)" "stops_number (CHR '']'' # r)"
  "stops_number (CHR ''}'' # r)"
  by (simp_all add: stops_number_def is_num_char_def is_digit_def)

lemma print_first:
  assumes "json_ok j"
  obtains c cs where "json_print j = c # cs" and "\<not> is_ws c" and "c \<noteq> CHR '']''"
proof (cases j)
  case (JNum i)
  have "dec_of_int i \<noteq> []" by (simp add: dec_of_int_def)
  then obtain c cs where d: "dec_of_int i = c # cs" by (cases "dec_of_int i") auto
  with dec_of_int_num_chars [of i] have "is_num_char c" by simp
  then have "\<not> is_ws c" "c \<noteq> CHR '']''" by (auto simp: is_num_char_def is_ws_def is_digit_def)
  with d JNum that show ?thesis by simp
next
  case (JDec l)
  with assms obtain c cs where d: "l = c # cs"
    by (cases l) (auto simp: number_value_def int_lexeme_def dec_lexeme_def strip_minus_def)
  with assms JDec have "is_num_char c" by simp
  then have "\<not> is_ws c" "c \<noteq> CHR '']''" by (auto simp: is_num_char_def is_ws_def is_digit_def)
  with d JDec that show ?thesis by simp
next
  case (JBool b)
  with that show ?thesis by (cases b) auto
qed (use that in \<open>auto simp: print_string_def\<close>)

lemma parse_print:
  "json_ok j \<Longrightarrow> length (json_print j) < n \<Longrightarrow> stops_number r \<Longrightarrow>
     parse_value n (json_print j @ r) = Some (j, r)"
  "list_all json_ok js \<Longrightarrow> js \<noteq> [] \<Longrightarrow> length (print_elems js) + 1 < n \<Longrightarrow>
     parse_elems n (print_elems js @ CHR '']'' # r) = Some (js, r)"
  "list_all (\<lambda>(k, v). json_ok v) kvs \<Longrightarrow> kvs \<noteq> [] \<Longrightarrow> length (print_members kvs) + 1 < n \<Longrightarrow>
     parse_members n (print_members kvs @ CHR ''}'' # r) = Some (kvs, r)"
proof (induction j and js and kvs arbitrary: n r and n r and n r
    rule: json_print_print_elems_print_members.induct)
  case 1
  then show ?case by (cases n) (simp_all add: parse_value.simps(2) skip_ws_first)
next
  case (2 b)
  then show ?case by (cases n; cases b) (simp_all add: parse_value.simps(2) skip_ws_first)
next
  case (3 i)
  then show ?case
    using parse_value_number [OF dec_of_int_num_chars number_value_dec_of_int] by simp
next
  case (4 l)
  then show ?case using parse_value_number by simp
next
  case (5 s)
  then show ?case
    by (cases n) (simp_all add: parse_value.simps(2) skip_ws_first print_string_def parse_chars_print)
next
  case (6 js)
  obtain m where n: "n = Suc m" using 6 by (cases n) auto
  show ?case
  proof (cases js)
    case Nil
    then show ?thesis by (simp add: n parse_value.simps(2) skip_ws_first)
  next
    case (Cons j js')
    with 6 obtain c cs where "json_print j = c # cs" "\<not> is_ws c" "c \<noteq> CHR '']''"
      by (auto elim: print_first)
    then obtain ds where "print_elems js = c # ds" using Cons by (cases js') auto
    with 6 Cons \<open>\<not> is_ws c\<close> \<open>c \<noteq> CHR '']''\<close> show ?thesis
      by (simp add: n parse_value.simps(2) skip_ws_first)
  qed
next
  case (7 kvs)
  obtain m where n: "n = Suc m" using 7 by (cases n) auto
  show ?case
  proof (cases kvs)
    case Nil
    then show ?thesis by (simp add: n parse_value.simps(2) skip_ws_first)
  next
    case (Cons kv kvs')
    then obtain ds where "print_members kvs = CHR 0x22 # ds"
      by (cases kv; cases kvs') (auto simp: print_string_def)
    with 7 Cons show ?thesis by (simp add: n parse_value.simps(2) skip_ws_first)
  qed
next
  case 8
  then show ?case by simp
next
  case (9 j)
  then show ?case
    by (cases n) (simp_all add: parse_elems.simps(2) skip_ws_first)
next
  case (10 j j' js)
  then show ?case
    by (cases n) (simp_all add: parse_elems.simps(2) skip_ws_first)
next
  case 11
  then show ?case by simp
next
  case (12 k v)
  then show ?case
    by (cases n) (simp_all add: parse_members.simps(2) skip_ws_first print_string_def parse_chars_print)
next
  case (13 k v kv kvs)
  then show ?case
    by (cases n) (simp_all add: parse_members.simps(2) skip_ws_first print_string_def parse_chars_print)
qed

lemma json_parse_print: "json_ok j \<Longrightarrow> json_parse (json_print j) = Some j"
  using parse_print(1) [of j "Suc (length (json_print j))" "[]"]
  by (simp add: json_parse_def skip_ws_def)

end
