(* ===== verification/World.thy ===== *)
theory World
  imports Json
begin

text \<open>
  The browser tab an asynchronous function runs in. A function of the console is an \<open>io\<close>: from a
  tab it gives a result (\<^const>\<open>Inl\<close> what it throws, \<^const>\<open>Inr\<close> what it returns) and the tab it leaves
  behind, so that what was done before an exception is still seen after it. The tab holds the two
  web storages and the trace of what the code did to the outside: requests, wallet calls, calls
  into the SDK, stage callbacks, navigation and toasts.

  What is not under \<open>src/\<close> (the network, the wallet, the clock, the SDK, the environment variables)
  is the argument \<open>env\<close>: each of its functions sees the whole trace, so it may answer the same
  question differently at different moments, and nothing is assumed of it. Components that call
  more of the SDK extend the record. An asynchronous function runs alone: other handlers run
  before or after it; the hooks that exist because of interleaving are modelled as step relations
  (theory \<open>Hooks\<close>).
\<close>

named_theorems io_simps \<open>evaluation of the sequencing combinators\<close>
named_theorems keeps_intros \<open>frame rules for programs built from the combinators\<close>

datatype jserr =
    Error string
  | TypeError string
  | ApiError int json
  | NoSigningSessionError

record http_request =
  url :: string
  http_method :: string
  headers :: "(string \<times> string) list"
  http_body :: "string option"
  with_credentials :: bool

datatype http_reply = Rejected string | Reply int string

definition reply_ok :: "int \<Rightarrow> bool" where
  "reply_ok st \<longleftrightarrow> 200 \<le> st \<and> st \<le> 299"

text \<open>The messages shown in a corner of the console (\<open>web/providers/ToastProvider.tsx\<close>).\<close>

datatype toast_kind = Toast_success | Toast_error | Toast_info

datatype event =
    Fetch http_request
  | Wallet string "json list"
  | Sdk string "string list"
  | Stage string
  | Sleep int
  | Navigate string
  | Toast toast_kind string string

record env =
  e_now :: "event list \<Rightarrow> int"
  e_fetch :: "event list \<Rightarrow> http_request \<Rightarrow> http_reply"
  e_wallet :: "(event list \<Rightarrow> string \<Rightarrow> json list \<Rightarrow> string + json) option"
  e_var :: "string \<Rightarrow> string option"
  e_ss_get_throws :: "string \<Rightarrow> bool"
  e_ss_set_throws :: "string \<Rightarrow> bool"
  e_ls_throws :: bool

record tab =
  trace :: "event list"
  session_storage :: "string \<rightharpoonup> string"
  local_storage :: "string \<rightharpoonup> string"

type_synonym ('t, 'a) io = "'t tab_scheme \<Rightarrow> (jserr + 'a) \<times> 't tab_scheme"

subsection \<open>Sequencing\<close>

definition ret :: "'a \<Rightarrow> 't \<Rightarrow> (jserr + 'a) \<times> 't" where
  "ret x t = (Inr x, t)"

definition throw :: "jserr \<Rightarrow> 't \<Rightarrow> (jserr + 'a) \<times> 't" where
  "throw e t = (Inl e, t)"

definition await :: "('t \<Rightarrow> (jserr + 'a) \<times> 't) \<Rightarrow> ('a \<Rightarrow> 't \<Rightarrow> (jserr + 'b) \<times> 't) \<Rightarrow> 't \<Rightarrow> (jserr + 'b) \<times> 't" where
  "await m f t = (case m t of (Inl e, t') \<Rightarrow> (Inl e, t') | (Inr x, t') \<Rightarrow> f x t')"

definition seq :: "('t \<Rightarrow> (jserr + 'a) \<times> 't) \<Rightarrow> ('t \<Rightarrow> (jserr + 'b) \<times> 't) \<Rightarrow> 't \<Rightarrow> (jserr + 'b) \<times> 't" where
  "seq m n = await m (\<lambda>_. n)"

definition try_catch :: "('t \<Rightarrow> (jserr + 'a) \<times> 't) \<Rightarrow> (jserr \<Rightarrow> 't \<Rightarrow> (jserr + 'a) \<times> 't) \<Rightarrow> 't \<Rightarrow> (jserr + 'a) \<times> 't" where
  "try_catch m h t = (case m t of (Inl e, t') \<Rightarrow> h e t' | (Inr x, t') \<Rightarrow> (Inr x, t'))"

text \<open>\<open>try m finally f\<close>, for a clean-up that does not throw.\<close>

definition finally_do :: "('t \<Rightarrow> (jserr + 'a) \<times> 't) \<Rightarrow> ('t \<Rightarrow> 't) \<Rightarrow> 't \<Rightarrow> (jserr + 'a) \<times> 't" where
  "finally_do m f t = (case m t of (r, t') \<Rightarrow> (r, f t'))"

definition update_tab :: "('t \<Rightarrow> 't) \<Rightarrow> 't \<Rightarrow> (jserr + unit) \<times> 't" where
  "update_tab f t = (Inr (), f t)"

definition only_when :: "bool \<Rightarrow> ('t \<Rightarrow> (jserr + unit) \<times> 't) \<Rightarrow> 't \<Rightarrow> (jserr + unit) \<times> 't" where
  "only_when b m = (if b then m else ret ())"

fun for_each :: "'a list \<Rightarrow> ('a \<Rightarrow> 't \<Rightarrow> (jserr + unit) \<times> 't) \<Rightarrow> 't \<Rightarrow> (jserr + unit) \<times> 't" where
  "for_each [] f = ret ()"
| "for_each (x # xs) f = seq (f x) (for_each xs f)"

text \<open>A synchronous computation that may throw, a value read from the tab.\<close>

definition lift_err :: "jserr + 'a \<Rightarrow> 't \<Rightarrow> (jserr + 'a) \<times> 't" where
  "lift_err r t = (r, t)"

definition reads :: "('t \<Rightarrow> 'a) \<Rightarrow> 't \<Rightarrow> (jserr + 'a) \<times> 't" where
  "reads f t = (Inr (f t), t)"

lemma ret_apply [io_simps]: "ret x t = (Inr x, t)"
  by (simp add: ret_def)

lemma throw_apply [io_simps]: "throw e t = (Inl e, t)"
  by (simp add: throw_def)

lemma update_tab_apply [io_simps]: "update_tab f t = (Inr (), f t)"
  by (simp add: update_tab_def)

lemma lift_err_apply [io_simps]: "lift_err r t = (r, t)"
  by (simp add: lift_err_def)

lemma reads_apply [io_simps]: "reads f t = (Inr (f t), t)"
  by (simp add: reads_def)

lemma only_when_simps [io_simps]: "only_when True m = m" "only_when False m = ret ()"
  by (simp_all add: only_when_def)

lemma await_Inr [io_simps]: "m t = (Inr x, t') \<Longrightarrow> await m f t = f x t'"
  by (simp add: await_def)

lemma await_Inl [io_simps]: "m t = (Inl e, t') \<Longrightarrow> await m f t = (Inl e, t')"
  by (simp add: await_def)

lemma seq_Inr [io_simps]: "m t = (Inr x, t') \<Longrightarrow> seq m n t = n t'"
  by (simp add: seq_def await_def)

lemma seq_Inl [io_simps]: "m t = (Inl e, t') \<Longrightarrow> seq m n t = (Inl e, t')"
  by (simp add: seq_def await_def)

lemma try_catch_Inr [io_simps]: "m t = (Inr x, t') \<Longrightarrow> try_catch m h t = (Inr x, t')"
  by (simp add: try_catch_def)

lemma try_catch_Inl [io_simps]: "m t = (Inl e, t') \<Longrightarrow> try_catch m h t = h e t'"
  by (simp add: try_catch_def)

lemma finally_do_apply [io_simps]: "m t = (r, t') \<Longrightarrow> finally_do m f t = (r, f t')"
  by (simp add: finally_do_def)

text \<open>The monad laws, and inversion of a run that returned.\<close>

lemma await_ret_left [simp]: "await (ret x) f = f x"
  by (rule ext) (simp add: await_def ret_def)

lemma await_ret_right [simp]: "await m ret = m"
  by (rule ext) (auto simp: await_def ret_def split: prod.splits sum.splits)

lemma await_assoc: "await (await m f) g = await m (\<lambda>x. await (f x) g)"
  by (rule ext) (auto simp: await_def split: prod.splits sum.splits)

lemma await_returns:
  "await m f t = (Inr y, t'') \<longleftrightarrow> (\<exists>x t'. m t = (Inr x, t') \<and> f x t' = (Inr y, t''))"
  by (auto simp: await_def split: prod.splits sum.splits)

lemma seq_returns:
  "seq m n t = (Inr y, t'') \<longleftrightarrow> (\<exists>x t'. m t = (Inr x, t') \<and> n t' = (Inr y, t''))"
  by (simp add: seq_def await_returns)

lemma finally_do_returns:
  "finally_do m f t = (r, t'') \<longleftrightarrow> (\<exists>t'. m t = (r, t') \<and> t'' = f t')"
  by (auto simp: finally_do_def split: prod.splits)

lemma only_when_returns: "only_when b m t = (Inr y, t') \<longleftrightarrow> (if b then m t = (Inr y, t') else t' = t)"
  by (simp add: only_when_def ret_def) blast

lemmas io_returns = await_returns seq_returns finally_do_returns only_when_returns

subsection \<open>Frames\<close>

text \<open>
  \<open>keeps R m\<close>: whatever \<open>m\<close> does, returning or throwing, relates the tab before to the tab after.
  For a reflexive and transitive relation the rules follow the structure of the program.
\<close>

definition keeps :: "('t \<Rightarrow> 't \<Rightarrow> bool) \<Rightarrow> ('t \<Rightarrow> (jserr + 'a) \<times> 't) \<Rightarrow> bool" where
  "keeps R m \<longleftrightarrow> (\<forall>t. R t (snd (m t)))"

lemma keepsD: "keeps R m \<Longrightarrow> m t = (r, t') \<Longrightarrow> R t t'"
  unfolding keeps_def by (metis snd_conv)

lemma keepsI: "(\<And>t r t'. m t = (r, t') \<Longrightarrow> R t t') \<Longrightarrow> keeps R m"
  unfolding keeps_def by (metis surjective_pairing)

locale frame =
  fixes R :: "'t \<Rightarrow> 't \<Rightarrow> bool"
  assumes frame_refl: "R t t"
    and frame_trans: "R a b \<Longrightarrow> R b c \<Longrightarrow> R a c"
begin

lemma keeps_ret [keeps_intros]: "keeps R (ret x)"
  by (simp add: keeps_def ret_def frame_refl)

lemma keeps_throw [keeps_intros]: "keeps R (throw e)"
  by (simp add: keeps_def throw_def frame_refl)

lemma keeps_lift_err [keeps_intros]: "keeps R (lift_err r)"
  by (simp add: keeps_def lift_err_def frame_refl)

lemma keeps_reads [keeps_intros]: "keeps R (reads f)"
  by (simp add: keeps_def reads_def frame_refl)

lemma keeps_await [keeps_intros]: "keeps R m \<Longrightarrow> (\<And>x. keeps R (f x)) \<Longrightarrow> keeps R (await m f)"
  unfolding keeps_def await_def
  by (metis (mono_tags, lifting) frame_trans old.sum.simps(5,6) prod.case prod.collapse sum.collapse(1,2) snd_conv)

lemma keeps_seq [keeps_intros]: "keeps R m \<Longrightarrow> keeps R n \<Longrightarrow> keeps R (seq m n)"
  unfolding seq_def by (rule keeps_await)

lemma keeps_try_catch [keeps_intros]:
  "keeps R m \<Longrightarrow> (\<And>e. keeps R (h e)) \<Longrightarrow> keeps R (try_catch m h)"
  by (rule keepsI) (auto simp: try_catch_def split: prod.splits sum.splits
      dest!: keepsD intro: frame_trans)

lemma keeps_finally [keeps_intros]:
  "keeps R m \<Longrightarrow> (\<And>t. R t (f t)) \<Longrightarrow> keeps R (finally_do m f)"
  by (rule keepsI) (auto simp: finally_do_returns dest: keepsD intro: frame_trans)

lemma keeps_only_when [keeps_intros]: "keeps R m \<Longrightarrow> keeps R (only_when b m)"
  by (simp add: only_when_def keeps_ret)

lemma keeps_for_each [keeps_intros]: "(\<And>x. keeps R (f x)) \<Longrightarrow> keeps R (for_each xs f)"
  by (induction xs) (auto intro: keeps_ret keeps_seq)

lemma keeps_update [keeps_intros]: "(\<And>t. R t (f t)) \<Longrightarrow> keeps R (update_tab f)"
  by (simp add: keeps_def update_tab_def)

end

lemma keeps_if [keeps_intros]: "(b \<Longrightarrow> keeps R m) \<Longrightarrow> (\<not> b \<Longrightarrow> keeps R n) \<Longrightarrow> keeps R (if b then m else n)"
  by simp

lemma keeps_option [keeps_intros]:
  "keeps R m \<Longrightarrow> (\<And>x. keeps R (f x)) \<Longrightarrow> keeps R (case y of None \<Rightarrow> m | Some x \<Rightarrow> f x)"
  by (cases y) auto

lemma keeps_sum [keeps_intros]:
  "(\<And>x. keeps R (f x)) \<Longrightarrow> (\<And>x. keeps R (g x)) \<Longrightarrow> keeps R (case y of Inl x \<Rightarrow> f x | Inr x \<Rightarrow> g x)"
  by (cases y) auto

lemma keeps_reply [keeps_intros]:
  "(\<And>x. keeps R (f x)) \<Longrightarrow> (\<And>x y. keeps R (g x y)) \<Longrightarrow> keeps R (case z of Rejected x \<Rightarrow> f x | Reply x y \<Rightarrow> g x y)"
  by (cases z) auto

lemma keeps_list [keeps_intros]:
  "keeps R m \<Longrightarrow> (\<And>x xs. keeps R (f x xs)) \<Longrightarrow> keeps R (case z of [] \<Rightarrow> m | x # xs \<Rightarrow> f x xs)"
  by (cases z) auto

text \<open>Two frames: only events of a kind are added to the trace; the session storage is untouched.\<close>

definition appends :: "(event \<Rightarrow> bool) \<Rightarrow> 't tab_scheme \<Rightarrow> 't tab_scheme \<Rightarrow> bool" where
  "appends P t t' \<longleftrightarrow> (\<exists>es. trace t' = trace t @ es \<and> list_all P es)"

definition same_session :: "'t tab_scheme \<Rightarrow> 't tab_scheme \<Rightarrow> bool" where
  "same_session t t' \<longleftrightarrow> session_storage t' = session_storage t"

interpretation appending: frame "appends P" for P
proof
  show "appends P t t" for t by (simp add: appends_def)
  show "appends P a b \<Longrightarrow> appends P b c \<Longrightarrow> appends P a c" for a b c
    unfolding appends_def by force
qed

interpretation session_frame: frame same_session
  by unfold_locales (simp_all add: same_session_def)

lemmas frames [keeps_intros] = appending.frame_axioms session_frame.frame_axioms

lemma appends_mono: "appends P t t' \<Longrightarrow> (\<And>e. P e \<Longrightarrow> Q e) \<Longrightarrow> appends Q t t'"
  unfolding appends_def by (auto simp: list_all_iff)

lemma appends_trace: "appends P t t' \<Longrightarrow> trace t = [] \<Longrightarrow> e \<in> set (trace t') \<Longrightarrow> P e"
  unfolding appends_def by (auto simp: list_all_iff)

subsection \<open>What the tab can do\<close>

definition log_event :: "event \<Rightarrow> ('t, unit) io" where
  "log_event e = update_tab (\<lambda>t. t\<lparr>trace := trace t @ [e]\<rparr>)"

text \<open>An answer of the outside that may be a rejected promise, logged as \<open>e\<close>.\<close>

definition external :: "event \<Rightarrow> (event list \<Rightarrow> string + 'a) \<Rightarrow> ('t, 'a) io" where
  "external e f = await (reads (\<lambda>t. f (trace t))) (\<lambda>r. seq (log_event e)
     (case r of Inl m \<Rightarrow> throw (Error m) | Inr x \<Rightarrow> ret x))"

definition fetch :: "('e env_scheme) \<Rightarrow> http_request \<Rightarrow> ('t, int \<times> string) io" where
  "fetch E req = await (reads (\<lambda>t. e_fetch E (trace t) req)) (\<lambda>r. seq (log_event (Fetch req))
     (case r of Rejected m \<Rightarrow> throw (TypeError m) | Reply st txt \<Rightarrow> ret (st, txt)))"

definition date_now :: "('e env_scheme) \<Rightarrow> ('t, int) io" where
  "date_now E = reads (\<lambda>t. e_now E (trace t))"

definition stage_cb :: "string \<Rightarrow> ('t, unit) io" where
  "stage_cb s = log_event (Stage s)"

definition ss_get :: "('e env_scheme) \<Rightarrow> string \<Rightarrow> ('t, string option) io" where
  "ss_get E k = (if e_ss_get_throws E k then throw (Error ''storage access denied'')
     else reads (\<lambda>t. session_storage t k))"

definition ss_set :: "('e env_scheme) \<Rightarrow> string \<Rightarrow> string \<Rightarrow> ('t, unit) io" where
  "ss_set E k v = (if e_ss_set_throws E k then throw (Error ''storage access denied'')
     else update_tab (\<lambda>t. t\<lparr>session_storage := (session_storage t)(k \<mapsto> v)\<rparr>))"

definition ss_remove :: "('e env_scheme) \<Rightarrow> string \<Rightarrow> ('t, unit) io" where
  "ss_remove E k = (if e_ss_set_throws E k then throw (Error ''storage access denied'')
     else update_tab (\<lambda>t. t\<lparr>session_storage := (session_storage t)(k := None)\<rparr>))"

definition toast :: "toast_kind \<Rightarrow> string \<Rightarrow> string \<Rightarrow> ('t, unit) io" where
  "toast kind message detail = log_event (Toast kind message detail)"

lemma log_event_apply [io_simps]: "log_event e t = (Inr (), t\<lparr>trace := trace t @ [e]\<rparr>)"
  by (simp add: log_event_def update_tab_def)

lemma stage_cb_apply [io_simps]: "stage_cb s t = (Inr (), t\<lparr>trace := trace t @ [Stage s]\<rparr>)"
  by (simp add: stage_cb_def io_simps)

lemma external_apply [io_simps]: "external e f t =
    (case f (trace t) of Inl m \<Rightarrow> (Inl (Error m), t\<lparr>trace := trace t @ [e]\<rparr>)
     | Inr x \<Rightarrow> (Inr x, t\<lparr>trace := trace t @ [e]\<rparr>))"
  by (simp add: external_def await_def seq_def reads_def log_event_def update_tab_def
      throw_def ret_def split: sum.splits)

lemma fetch_apply [io_simps]: "fetch E req t =
    (case e_fetch E (trace t) req of Rejected m \<Rightarrow> (Inl (TypeError m), t\<lparr>trace := trace t @ [Fetch req]\<rparr>)
     | Reply st txt \<Rightarrow> (Inr (st, txt), t\<lparr>trace := trace t @ [Fetch req]\<rparr>))"
  by (simp add: fetch_def await_def seq_def reads_def log_event_def update_tab_def
      throw_def ret_def split: http_reply.splits)

lemma date_now_apply [io_simps]: "date_now E t = (Inr (e_now E (trace t)), t)"
  by (simp add: date_now_def reads_def)

lemma ss_get_apply [io_simps]: "\<not> e_ss_get_throws E k \<Longrightarrow> ss_get E k t = (Inr (session_storage t k), t)"
  by (simp add: ss_get_def reads_def)

lemma ss_set_apply [io_simps]: "\<not> e_ss_set_throws E k \<Longrightarrow>
    ss_set E k v t = (Inr (), t\<lparr>session_storage := (session_storage t)(k \<mapsto> v)\<rparr>)"
  by (simp add: ss_set_def update_tab_def)

lemma ss_remove_apply [io_simps]: "\<not> e_ss_set_throws E k \<Longrightarrow>
    ss_remove E k t = (Inr (), t\<lparr>session_storage := (session_storage t)(k := None)\<rparr>)"
  by (simp add: ss_remove_def update_tab_def)

text \<open>Inversion: what is known when a step has returned.\<close>

lemma prim_returns:
  "ret x t = (Inr y, t') \<longleftrightarrow> y = x \<and> t' = t"
  "throw e t = (Inr y, t') \<longleftrightarrow> False"
  "lift_err r t = (Inr y, t') \<longleftrightarrow> r = Inr y \<and> t' = t"
  "reads f t = (Inr z, t') \<longleftrightarrow> z = f t \<and> t' = t"
  "update_tab g t = (Inr u, t') \<longleftrightarrow> t' = g t"
  by (auto simp: ret_def throw_def lift_err_def reads_def update_tab_def)

lemma op_returns:
  "log_event e t = (Inr u, t') \<longleftrightarrow> t' = t\<lparr>trace := trace t @ [e]\<rparr>"
  "stage_cb st t = (Inr u, t') \<longleftrightarrow> t' = t\<lparr>trace := trace t @ [Stage st]\<rparr>"
  "date_now E t = (Inr n, t') \<longleftrightarrow> n = e_now E (trace t) \<and> t' = t"
  "ss_get E k t = (Inr v, t') \<longleftrightarrow> \<not> e_ss_get_throws E k \<and> v = session_storage t k \<and> t' = t"
  "external e f t = (Inr x, t') \<longleftrightarrow> f (trace t) = Inr x \<and> t' = t\<lparr>trace := trace t @ [e]\<rparr>"
  "fetch E req t = (Inr y, t') \<longleftrightarrow> e_fetch E (trace t) req = Reply (fst y) (snd y) \<and> t' = t\<lparr>trace := trace t @ [Fetch req]\<rparr>"
  by (auto simp: io_simps ss_get_def split: sum.splits http_reply.splits)

lemmas run_returns = io_returns prim_returns op_returns

text \<open>How a run ended, either way.\<close>

lemma await_ends: "await m f t = (r, t'') \<longleftrightarrow>
    (\<exists>x t'. m t = (Inr x, t') \<and> f x t' = (r, t'')) \<or> (\<exists>e. r = Inl e \<and> m t = (Inl e, t''))"
  by (auto simp: await_def split: prod.splits sum.splits)

lemma seq_ends: "seq m n t = (r, t'') \<longleftrightarrow>
    (\<exists>x t'. m t = (Inr x, t') \<and> n t' = (r, t'')) \<or> (\<exists>e. r = Inl e \<and> m t = (Inl e, t''))"
  by (simp add: seq_def await_ends)

fun is_stage :: "event \<Rightarrow> bool" where
  "is_stage (Stage s) = True"
| "is_stage e = False"

lemma try_catch_unit: "\<exists>t'. try_catch m (\<lambda>_. ret ()) t = (Inr (), t')"
  by (cases "m t"; cases "fst (m t)") (auto simp: try_catch_def ret_def)

lemma try_catch_total: "(\<And>e t. \<exists>r t'. h e t = (Inr r, t')) \<Longrightarrow> \<exists>r t'. try_catch m h t = (Inr r, t')"
  by (cases "m t"; cases "fst (m t)") (auto simp: try_catch_def)

subsection \<open>Frames of the primitives\<close>

lemma log_event_appends [keeps_intros]: "P e \<Longrightarrow> keeps (appends P) (log_event e)"
  unfolding log_event_def by (rule appending.keeps_update) (simp add: appends_def)

lemma stage_cb_appends [keeps_intros]: "P (Stage s) \<Longrightarrow> keeps (appends P) (stage_cb s)"
  unfolding stage_cb_def by (rule log_event_appends)

lemma external_appends [keeps_intros]: "P e \<Longrightarrow> keeps (appends P) (external e f)"
  unfolding external_def by (intro keeps_intros)

lemma fetch_appends [keeps_intros]: "P (Fetch req) \<Longrightarrow> keeps (appends P) (fetch E req)"
  unfolding fetch_def by (intro keeps_intros)

lemma date_now_appends [keeps_intros]: "keeps (appends P) (date_now E)"
  unfolding date_now_def by (intro keeps_intros)

lemma ss_appends [keeps_intros]:
  "keeps (appends P) (ss_get E k)" "keeps (appends P) (ss_set E k v)" "keeps (appends P) (ss_remove E k)"
  unfolding ss_get_def ss_set_def ss_remove_def
  by (intro keeps_intros; simp add: appends_def)+

lemma same_session_prims [keeps_intros]:
  "keeps same_session (log_event e)" "keeps same_session (stage_cb s)"
  "keeps same_session (external e f)" "keeps same_session (fetch E req)"
  "keeps same_session (date_now E)" "keeps same_session (ss_get E k)"
  unfolding log_event_def stage_cb_def external_def fetch_def date_now_def ss_get_def
  by (intro keeps_intros; simp add: same_session_def)+

subsection \<open>A concrete environment\<close>

text \<open>Used where a theorem is shown to apply at a concrete input: a clock that stands still, a
  network that answers \<open>{}\<close>, no wallet, a storage that works.\<close>

definition demo_env :: env where
  "demo_env = \<lparr>e_now = (\<lambda>_. 1000000), e_fetch = (\<lambda>_ _. Reply 200 ''{}''), e_wallet = None,
     e_var = (\<lambda>_. None), e_ss_get_throws = (\<lambda>_. False), e_ss_set_throws = (\<lambda>_. False), e_ls_throws = False\<rparr>"

definition empty_tab :: tab where
  "empty_tab = \<lparr>trace = [], session_storage = Map.empty, local_storage = Map.empty\<rparr>"

end
