(* ===== verification/Codec.thy ===== *)
theory Codec
  imports Prelude
begin

text \<open>
  Bytes as hexadecimal text: \<open>hexToBytes\<close> and \<open>bytesToHex\<close> of \<open>web/lib/signet.ts\<close>. Decoding is
  written with the behaviour of \<open>parseInt(_, 16)\<close> and of a store into a \<open>Uint8Array\<close>, so it is
  defined on malformed text too. The locales state what the rest of the console relies on; the
  other copies of the pair (\<open>session-key.ts\<close>, the credentials page) interpret them again.
\<close>

text \<open>\<open>parseInt(s, 16)\<close>: leading space, a sign, a \<open>0x\<close>, then the longest run of digits;
  \<^const>\<open>None\<close> is \<open>NaN\<close>.\<close>

definition parse_int16 :: "string \<Rightarrow> int option" where
  "parse_int16 s =
     (let u = dropWhile is_space s;
          neg = starts_with ''-'' u;
          v = (if starts_with ''-'' u \<or> starts_with ''+'' u then drop 1 u else u);
          w = (if starts_with ''0x'' v \<or> starts_with ''0X'' v then drop 2 v else v)
      in map_option (\<lambda>n. if neg then - int n else int n) (hex_val (takeWhile is_hex w)))"

definition to_uint8 :: "int option \<Rightarrow> byte" where
  "to_uint8 x = (case x of None \<Rightarrow> 0 | Some n \<Rightarrow> word_of_int n)"

definition strip_0x :: "string \<Rightarrow> string" where
  "strip_0x h = (if starts_with ''0x'' h then drop 2 h else h)"

definition hex_to_bytes :: "string \<Rightarrow> byte list" where
  "hex_to_bytes hex =
     (let clean = strip_0x hex
      in map (\<lambda>i. to_uint8 (parse_int16 (slice (i * 2) (i * 2 + 2) clean))) [0..<length clean div 2])"

definition byte_to_hex :: "byte \<Rightarrow> string" where
  "byte_to_hex b = pad_start 2 (CHR ''0'') (hex_of_nat (unat b))"

definition bytes_to_hex :: "byte list \<Rightarrow> string" where
  "bytes_to_hex bytes = concat (map byte_to_hex bytes)"

subsection \<open>One byte\<close>

lemma length_byte_to_hex: "length (byte_to_hex b) = 2"
proof -
  have "unat b < 2 ^ LENGTH(8)" by (rule unsigned_less)
  then have "unat b < 16 ^ 2" by simp
  then show ?thesis unfolding byte_to_hex_def by (intro length_pad_hex) auto
qed

lemma byte_to_hex_lower: "c \<in> set (byte_to_hex b) \<Longrightarrow> is_lower_hex c"
  unfolding byte_to_hex_def by (rule pad_hex_lower)

lemma lower_hex_plain: "is_lower_hex c \<Longrightarrow> \<not> is_space c \<and> CHR ''-'' \<noteq> c \<and> CHR ''+'' \<noteq> c
    \<and> CHR ''x'' \<noteq> c \<and> CHR ''X'' \<noteq> c"
  by (auto simp: is_lower_hex_def is_space_def Let_def)

lemma parse_int16_pair:
  assumes "is_lower_hex x" and "is_lower_hex y"
  shows "parse_int16 [x, y] = map_option int (hex_val [x, y])"
proof -
  have "takeWhile is_hex [x, y] = [x, y]" using assms by (simp add: is_lower_hex_is_hex)
  then show ?thesis
    using lower_hex_plain [OF assms(1)] lower_hex_plain [OF assms(2)]
    by (simp add: parse_int16_def Let_def)
qed

lemma byte_to_hex_pair:
  obtains x y where "byte_to_hex b = [x, y]" "is_lower_hex x" "is_lower_hex y"
proof -
  obtain x y where "byte_to_hex b = [x, y]"
    using length_byte_to_hex [of b] by (auto simp: length_Suc_conv numeral_2_eq_2)
  with byte_to_hex_lower [of x b] byte_to_hex_lower [of y b] that show ?thesis by simp
qed

lemma byte_roundtrip: "to_uint8 (parse_int16 (byte_to_hex b)) = b"
proof -
  obtain x y where xy: "byte_to_hex b = [x, y]" "is_lower_hex x" "is_lower_hex y"
    by (rule byte_to_hex_pair)
  have "hex_val (byte_to_hex b) = Some (unat b)" by (simp add: byte_to_hex_def)
  with xy show ?thesis by (simp add: parse_int16_pair to_uint8_def)
qed

lemma digit_val_lower: "is_lower_hex x \<Longrightarrow> \<exists>a < 16. hex_digit_val x = Some a \<and> hex_digit a = x"
  by (metis hex_digit_of_val hex_digit_val_less is_hex_def is_lower_hex_is_hex option.collapse)

lemma pair_value_bound: "\<lbrakk>(a::nat) < 16; b < 16\<rbrakk> \<Longrightarrow> a * 16 + b < 256"
  by simp

lemma unat_word_of_int: "n < 256 \<Longrightarrow> unat (word_of_int (int n) :: byte) = n"
  by (simp add: unsigned_of_nat take_bit_eq_mod)

lemma digits_two: "\<lbrakk>a < 16; b < 16; a \<noteq> 0\<rbrakk> \<Longrightarrow> digits 16 (a * 16 + b) = [a, b]"
  by (subst digits.simps, simp, subst digits.simps, simp)

lemma digits_one: "b < 16 \<Longrightarrow> digits 16 b = [b]"
  by (subst digits.simps) simp

lemma pair_roundtrip:
  assumes "is_lower_hex x" and "is_lower_hex y"
  shows "byte_to_hex (to_uint8 (parse_int16 [x, y])) = [x, y]"
proof -
  obtain a b where a: "a < 16" "hex_digit_val x = Some a" "hex_digit a = x"
    and b: "b < 16" "hex_digit_val y = Some b" "hex_digit b = y"
    using digit_val_lower [OF assms(1)] digit_val_lower [OF assms(2)] by blast
  have v: "hex_val [x, y] = Some (a * 16 + b)"
    using a b by (simp add: hex_val_def is_hex_def value_of_def)
  have "unat (word_of_int (int (a * 16 + b)) :: byte) = a * 16 + b"
    using pair_value_bound [OF a(1) b(1)] by (rule unat_word_of_int)
  then have "byte_to_hex (to_uint8 (parse_int16 [x, y])) = pad_start 2 (CHR ''0'') (hex_of_nat (a * 16 + b))"
    using parse_int16_pair [OF assms] v by (simp add: byte_to_hex_def to_uint8_def)
  also have "\<dots> = [x, y]"
    using a b by (cases "a = 0")
      (simp_all add: pad_start_def hex_of_nat_def digits_two digits_one hex_digit_0 [symmetric])
  finally show ?thesis .
qed

subsection \<open>The codec contract\<close>

locale byte_codec =
  fixes enc :: "byte list \<Rightarrow> string" and dec :: "string \<Rightarrow> byte list"
  assumes dec_enc: "dec (enc bs) = bs"
    and enc_width: "length (enc bs) = 2 * length bs"
begin

lemma enc_inj: "enc as = enc bs \<longleftrightarrow> as = bs"
  by (metis dec_enc)

lemma enc_Nil_iff: "enc bs = [] \<longleftrightarrow> bs = []"
  using enc_width [of bs] by auto

end

locale hex_codec = byte_codec +
  assumes enc_chars: "c \<in> set (enc bs) \<Longrightarrow> is_lower_hex c"
    and enc_dec: "even (length h) \<Longrightarrow> list_all is_lower_hex h \<Longrightarrow> enc (dec h) = h"
begin

lemma dec_inj_on_hex:
  assumes "even (length g)" "list_all is_lower_hex g" "even (length h)" "list_all is_lower_hex h"
  shows "dec g = dec h \<longleftrightarrow> g = h"
  using enc_dec assms by metis

end

subsection \<open>The pair of \<open>signet.ts\<close> meets it\<close>

lemma length_bytes_to_hex: "length (bytes_to_hex bs) = 2 * length bs"
  by (induction bs) (simp_all add: bytes_to_hex_def length_byte_to_hex)

lemma bytes_to_hex_lower: "c \<in> set (bytes_to_hex bs) \<Longrightarrow> is_lower_hex c"
  by (auto simp: bytes_to_hex_def dest: byte_to_hex_lower)

lemma strip_0x_lower: "list_all is_lower_hex h \<Longrightarrow> strip_0x h = h"
proof -
  assume h: "list_all is_lower_hex h"
  have "\<not> is_lower_hex (CHR ''x'')" by (simp add: is_lower_hex_def)
  with h have "\<not> starts_with ''0x'' h" by (auto simp: starts_with_iff)
  then show ?thesis by (simp add: strip_0x_def)
qed

lemma slice_Cons_pair: "slice (2 + i) (2 + j) (x # y # s) = slice i j s"
  by (simp add: slice_def)

lemma chunks_Cons2:
  "map (\<lambda>i. f (slice (i * 2) (i * 2 + 2) (x # y # s))) [0..<length (x # y # s) div 2] =
   f [x, y] # map (\<lambda>i. f (slice (i * 2) (i * 2 + 2) s)) [0..<length s div 2]"
proof -
  have n: "length (x # y # s) div 2 = Suc (length s div 2)" by simp
  show ?thesis
    unfolding n map_upt_Suc by (simp add: slice_def)
qed

lemma hex_to_bytes_Cons2:
  assumes "list_all is_lower_hex (x # y # s)"
  shows "hex_to_bytes (x # y # s) = to_uint8 (parse_int16 [x, y]) # hex_to_bytes s"
proof -
  have "list_all is_lower_hex s" using assms by simp
  then show ?thesis
    using chunks_Cons2 [of "\<lambda>w. to_uint8 (parse_int16 w)" x y s] assms
    by (simp only: hex_to_bytes_def strip_0x_lower Let_def)
qed

lemma hex_to_bytes_Nil [simp]: "hex_to_bytes [] = []"
  by (simp add: hex_to_bytes_def strip_0x_def)

lemma hex_bytes_roundtrip: "hex_to_bytes (bytes_to_hex bs) = bs"
proof (induction bs)
  case Nil
  show ?case by (simp add: bytes_to_hex_def)
next
  case (Cons b bs)
  obtain x y where xy: "byte_to_hex b = [x, y]" by (rule byte_to_hex_pair)
  have l: "list_all is_lower_hex (bytes_to_hex (b # bs))"
    using bytes_to_hex_lower by (auto simp: list_all_iff)
  have s: "bytes_to_hex (b # bs) = x # y # bytes_to_hex bs"
    using xy by (simp add: bytes_to_hex_def)
  show ?case
    using l byte_roundtrip [of b] Cons.IH unfolding s by (simp add: hex_to_bytes_Cons2 xy)
qed

lemma bytes_hex_roundtrip: "even (length h) \<Longrightarrow> list_all is_lower_hex h \<Longrightarrow> bytes_to_hex (hex_to_bytes h) = h"
proof (induction h rule: induct_list012)
  case (3 x y h)
  then show ?case
    by (simp add: hex_to_bytes_Cons2 bytes_to_hex_def pair_roundtrip)
qed (simp_all add: bytes_to_hex_def)

interpretation signet_hex: hex_codec bytes_to_hex hex_to_bytes
  by unfold_locales (simp_all add: hex_bytes_roundtrip length_bytes_to_hex bytes_hex_roundtrip,
    erule bytes_to_hex_lower)

end
