(* ===== verification/Session_Key.thy ===== *)
theory Session_Key
  imports World Codec
begin

text \<open>
  \<open>web/lib/session-key.ts\<close>: the ephemeral signing session a tab keeps in its session storage,
  written after sign-in, read by everything that signs, cleared when it has expired or the user
  signs out. The claims are the JSON object of the token; a storage operation may throw (private
  browsing), for each key separately, and the code's \<open>try\<close> blocks are kept as they are.
\<close>

record keypair =
  private_key :: "byte list"
  public_key_hex :: string

record signing_session =
  keypair :: keypair
  claims :: json
  group_public_key :: string
  identity :: "string option"
  node_url :: "string option"

definition PRIV_KEY :: string where "PRIV_KEY = ''signet_session_priv''"
definition PUB_KEY :: string where "PUB_KEY = ''signet_session_pub''"
definition CLAIMS_KEY :: string where "CLAIMS_KEY = ''signet_session_claims''"
definition GROUP_KEY :: string where "GROUP_KEY = ''signet_group_public_key''"
definition IDENTITY_KEY :: string where "IDENTITY_KEY = ''signet_session_identity''"
definition NODE_KEY :: string where "NODE_KEY = ''signet_session_node''"

definition session_keys :: "string list" where
  "session_keys = [PRIV_KEY, PUB_KEY, CLAIMS_KEY, GROUP_KEY, IDENTITY_KEY, NODE_KEY]"

subsection \<open>The module's own hexadecimal pair\<close>

definition to_hex :: "byte list \<Rightarrow> string" where
  "to_hex bytes = concat (map (\<lambda>b. pad_start 2 (CHR ''0'') (hex_of_nat (unat b))) bytes)"

definition from_hex :: "string \<Rightarrow> byte list" where
  "from_hex hex =
     (let clean = (if starts_with ''0x'' hex then drop 2 hex else hex)
      in map (\<lambda>i. to_uint8 (parse_int16 (slice (i * 2) (i * 2 + 2) clean))) [0..<length clean div 2])"

lemma to_hex_eq: "to_hex = bytes_to_hex"
  by (rule ext) (simp add: to_hex_def bytes_to_hex_def byte_to_hex_def [abs_def])

lemma from_hex_eq: "from_hex = hex_to_bytes"
  by (rule ext) (simp add: from_hex_def hex_to_bytes_def strip_0x_def)

interpretation session_hex: hex_codec to_hex from_hex
  unfolding to_hex_eq from_hex_eq by (rule signet_hex.hex_codec_axioms)

subsection \<open>Expiry\<close>

text \<open>A property read: of \<open>null\<close> it throws, of an object it may be \<open>undefined\<close>. An expiry is a JWT
  NumericDate, an integer; milliseconds are \<^typ>\<open>int\<close>.\<close>

definition read_field :: "string \<Rightarrow> json \<Rightarrow> jserr + json option" where
  "read_field k j = (if j = JNull then Inl (TypeError ''Cannot read properties of null'') else Inr (jget k j))"

definition signing_session_expires_at :: "json \<Rightarrow> jserr + int option" where
  "signing_session_expires_at c = (case read_field ''exp'' c of
     Inl e \<Rightarrow> Inl e
   | Inr (Some (JNum n)) \<Rightarrow> Inr (if n > 0 then Some (n * 1000) else None)
   | Inr _ \<Rightarrow> Inr None)"

definition EXPIRY_SKEW_SECONDS :: int where "EXPIRY_SKEW_SECONDS = 120"

subsection \<open>Operations\<close>

definition store_signing_session :: "('e env_scheme) \<Rightarrow> signing_session \<Rightarrow> ('t, unit) io" where
  "store_signing_session E s = try_catch
     (seq (ss_set E PRIV_KEY (to_hex (private_key (keypair s))))
     (seq (ss_set E PUB_KEY (public_key_hex (keypair s)))
     (seq (ss_set E CLAIMS_KEY (json_print (claims s)))
     (seq (ss_set E GROUP_KEY (group_public_key s))
     (seq (if truthy_str (identity s) then ss_set E IDENTITY_KEY (the (identity s)) else ret ())
          (if truthy_str (node_url s) then ss_set E NODE_KEY (the (node_url s))
           else ss_remove E IDENTITY_KEY))))))
     (\<lambda>_. ret ())"

definition clear_signing_session :: "('e env_scheme) \<Rightarrow> ('t, unit) io" where
  "clear_signing_session E = try_catch (for_each session_keys (ss_remove E)) (\<lambda>_. ret ())"

definition parse_json :: "string \<Rightarrow> jserr + json" where
  "parse_json s = (case json_parse s of None \<Rightarrow> Inl (Error ''SyntaxError'') | Some j \<Rightarrow> Inr j)"

definition load_signing_session :: "('e env_scheme) \<Rightarrow> ('t, signing_session option) io" where
  "load_signing_session E = try_catch
     (await (ss_get E PRIV_KEY) (\<lambda>priv.
      await (ss_get E PUB_KEY) (\<lambda>pub.
      await (ss_get E CLAIMS_KEY) (\<lambda>clms.
      await (ss_get E GROUP_KEY) (\<lambda>grp.
      if \<not> truthy_str priv \<or> \<not> truthy_str pub \<or> \<not> truthy_str clms \<or> \<not> truthy_str grp then ret None
      else
        await (lift_err (parse_json (the clms))) (\<lambda>parsed.
        await (lift_err (signing_session_expires_at parsed)) (\<lambda>expires_at.
        await (date_now E) (\<lambda>now.
        if (case expires_at of None \<Rightarrow> False | Some ms \<Rightarrow> now \<ge> ms - EXPIRY_SKEW_SECONDS * 1000)
        then seq (clear_signing_session E) (ret None)
        else
          await (ss_get E IDENTITY_KEY) (\<lambda>ident.
          await (ss_get E NODE_KEY) (\<lambda>node.
          ret (Some \<lparr>keypair = \<lparr>private_key = from_hex (the priv), public_key_hex = the pub\<rparr>,
                     claims = parsed, group_public_key = the grp,
                     identity = ident, node_url = node\<rparr>)))))))))))
     (\<lambda>_. ret None)"

subsection \<open>When the storage works\<close>

definition storage_works :: "('e env_scheme) \<Rightarrow> bool" where
  "storage_works E \<longleftrightarrow> (\<forall>k. \<not> e_ss_get_throws E k \<and> \<not> e_ss_set_throws E k)"

definition stored :: "signing_session \<Rightarrow> (string \<rightharpoonup> string) \<Rightarrow> (string \<rightharpoonup> string)" where
  "stored s m =
     (let m1 = m(PRIV_KEY \<mapsto> to_hex (private_key (keypair s)), PUB_KEY \<mapsto> public_key_hex (keypair s),
                 CLAIMS_KEY \<mapsto> json_print (claims s), GROUP_KEY \<mapsto> group_public_key s);
          m2 = (if truthy_str (identity s) then m1(IDENTITY_KEY \<mapsto> the (identity s)) else m1)
      in if truthy_str (node_url s) then m2(NODE_KEY \<mapsto> the (node_url s)) else m2(IDENTITY_KEY := None))"

definition cleared :: "(string \<rightharpoonup> string) \<Rightarrow> (string \<rightharpoonup> string)" where
  "cleared m = m(PRIV_KEY := None, PUB_KEY := None, CLAIMS_KEY := None, GROUP_KEY := None,
     IDENTITY_KEY := None, NODE_KEY := None)"

lemmas key_defs = PRIV_KEY_def PUB_KEY_def CLAIMS_KEY_def GROUP_KEY_def IDENTITY_KEY_def NODE_KEY_def

lemma keys_distinct [simp]: "distinct [PRIV_KEY, PUB_KEY, CLAIMS_KEY, GROUP_KEY, IDENTITY_KEY, NODE_KEY]"
  by (simp add: key_defs)

lemmas key_neqs = keys_distinct [unfolded distinct.simps list.set insert_iff empty_iff de_Morgan_disj]

lemma store_apply: "storage_works E \<Longrightarrow>
    store_signing_session E s t = (Inr (), t\<lparr>session_storage := stored s (session_storage t)\<rparr>)"
  by (simp add: store_signing_session_def storage_works_def stored_def io_simps Let_def)

lemma clear_apply: "storage_works E \<Longrightarrow>
    clear_signing_session E t = (Inr (), t\<lparr>session_storage := cleared (session_storage t)\<rparr>)"
  by (simp add: clear_signing_session_def session_keys_def storage_works_def cleared_def io_simps)

lemma clear_returns: "\<exists>t'. clear_signing_session E t = (Inr (), t')"
  by (cases "for_each session_keys (ss_remove E) t")
    (auto simp: clear_signing_session_def try_catch_def ret_def split: sum.splits)

text \<open>The record found in the storage, once the four mandatory entries are there.\<close>

definition session_of :: "(string \<rightharpoonup> string) \<Rightarrow> json \<Rightarrow> signing_session" where
  "session_of m parsed = \<lparr>keypair = \<lparr>private_key = from_hex (the (m PRIV_KEY)), public_key_hex = the (m PUB_KEY)\<rparr>,
     claims = parsed, group_public_key = the (m GROUP_KEY), identity = m IDENTITY_KEY, node_url = m NODE_KEY\<rparr>"

definition complete :: "(string \<rightharpoonup> string) \<Rightarrow> bool" where
  "complete m \<longleftrightarrow> truthy_str (m PRIV_KEY) \<and> truthy_str (m PUB_KEY) \<and> truthy_str (m CLAIMS_KEY) \<and> truthy_str (m GROUP_KEY)"

definition expired :: "('e env_scheme) \<Rightarrow> json \<Rightarrow> event list \<Rightarrow> bool" where
  "expired E c h \<longleftrightarrow> (case signing_session_expires_at c of
     Inr (Some ms) \<Rightarrow> e_now E h \<ge> ms - EXPIRY_SKEW_SECONDS * 1000 | _ \<Rightarrow> False)"

lemma load_incomplete:
  "storage_works E \<Longrightarrow> \<not> complete (session_storage t) \<Longrightarrow> load_signing_session E t = (Inr None, t)"
  by (auto simp: load_signing_session_def storage_works_def complete_def io_simps)

lemma load_complete:
  assumes "storage_works E" and "complete (session_storage t)"
    and "json_parse (the (session_storage t CLAIMS_KEY)) = Some c"
    and "signing_session_expires_at c = Inr x"
  shows "load_signing_session E t =
    (if expired E c (trace t) then (Inr None, t\<lparr>session_storage := cleared (session_storage t)\<rparr>)
     else (Inr (Some (session_of (session_storage t) c)), t))"
  using assms clear_apply [OF assms(1), of t]
  by (auto simp: load_signing_session_def storage_works_def complete_def parse_json_def
      expired_def session_of_def io_simps split: option.splits)

text \<open>Clearing never throws and never logs anything; it only touches the session storage.\<close>

lemma session_ops_silent [keeps_intros]:
  "keeps (appends P) (clear_signing_session E)"
  "keeps (appends P) (store_signing_session E s)"
  "keeps (appends P) (load_signing_session E)"
  unfolding clear_signing_session_def store_signing_session_def load_signing_session_def
  by (intro keeps_intros)+

subsection \<open>The contract of a session slot\<close>

text \<open>
  What the rest of the console relies on, whatever the storage does inside: after a store a load
  gives the session back as long as it is fit to be used, after a clear it gives nothing, and
  neither operation ever throws into the screen that called it.
\<close>

locale session_slot =
  fixes store :: "'s \<Rightarrow> 't \<Rightarrow> (jserr + unit) \<times> 't"
    and load :: "'t \<Rightarrow> (jserr + 's option) \<times> 't"
    and clear :: "'t \<Rightarrow> (jserr + unit) \<times> 't"
    and fit :: "'s \<Rightarrow> 't \<Rightarrow> bool"
  assumes slot_store_returns: "\<exists>t'. store s t = (Inr (), t')"
    and slot_clear_returns: "\<exists>t'. clear t = (Inr (), t')"
    and slot_load_returns: "\<exists>r t'. load t = (Inr r, t')"
    and slot_load_store: "fit s t \<Longrightarrow> load (snd (store s t)) = (Inr (Some s), snd (store s t))"
    and slot_load_clear: "load (snd (clear t)) = (Inr None, snd (clear t))"
begin

lemma store_then_load: "fit s t \<Longrightarrow> seq (store s) load t = (Inr (Some s), snd (store s t))"
  using slot_store_returns [of s t] slot_load_store [of s t] by (auto simp: seq_def await_def)

lemma clear_then_load: "seq clear load t = (Inr None, snd (clear t))"
  using slot_clear_returns [of t] slot_load_clear [of t] by (auto simp: seq_def await_def)

lemma clear_wins: "seq (store s) (seq clear load) t = (Inr None, snd (clear (snd (store s t))))"
  using slot_store_returns [of s t] clear_then_load [of "snd (store s t)"]
  by (auto simp: seq_def [of "store s"] await_def)

end

subsection \<open>Loading\<close>

lemma load_total: "\<exists>r t'. load_signing_session E t = (Inr r, t')"
  unfolding load_signing_session_def by (rule try_catch_total) (simp add: ret_def)

lemma store_total: "\<exists>t'. store_signing_session E s t = (Inr (), t')"
  unfolding store_signing_session_def by (rule try_catch_unit)

lemma load_returns_SomeD:
  assumes "load_signing_session E t = (Inr (Some s), t')"
  shows "t' = t" and "\<not> expired E (claims s) (trace t)"
    and "json_parse (the (session_storage t CLAIMS_KEY)) = Some (claims s)"
    and "complete (session_storage t)" and "s = session_of (session_storage t) (claims s)"
  using assms
  by (auto simp: load_signing_session_def try_catch_def run_returns expired_def complete_def session_of_def
      parse_json_def split: prod.splits sum.splits if_splits option.splits)

text \<open>A key the storage keeps is the key that was put in.\<close>

lemma stored_get:
  "stored s m PRIV_KEY = Some (to_hex (private_key (keypair s)))"
  "stored s m PUB_KEY = Some (public_key_hex (keypair s))"
  "stored s m CLAIMS_KEY = Some (json_print (claims s))"
  "stored s m GROUP_KEY = Some (group_public_key s)"
  "stored s m NODE_KEY = (if truthy_str (node_url s) then node_url s else m NODE_KEY)"
  "stored s m IDENTITY_KEY = (if \<not> truthy_str (node_url s) then None
     else if truthy_str (identity s) then identity s else m IDENTITY_KEY)"
  by (auto simp: stored_def key_defs Let_def truthy_str_def)

lemma cleared_get: "k \<in> set session_keys \<Longrightarrow> cleared m k = None"
  by (auto simp: cleared_def session_keys_def)

lemma json_print_not_Nil: "json_ok j \<Longrightarrow> json_print j \<noteq> []"
  by (metis list.distinct(1) print_first)

text \<open>Sessions as sign-in makes them: a key, its claims, and the node that opened the session.\<close>

definition storable :: "signing_session \<Rightarrow> bool" where
  "storable s \<longleftrightarrow> private_key (keypair s) \<noteq> [] \<and> public_key_hex (keypair s) \<noteq> [] \<and>
     group_public_key s \<noteq> [] \<and> json_ok (claims s) \<and> claims s \<noteq> JNull \<and>
     truthy_str (node_url s)"

lemma storable_complete: "storable s \<Longrightarrow> complete (stored s m)"
  by (simp add: complete_def stored_get truthy_str_def storable_def session_hex.enc_Nil_iff json_print_not_Nil)

lemma expires_at_returns: "c \<noteq> JNull \<Longrightarrow> \<exists>x. signing_session_expires_at c = Inr x"
  by (auto simp: signing_session_expires_at_def read_field_def split: option.splits json.splits)

lemma load_after_store:
  assumes "storage_works E" and "storable s" and "\<not> expired E (claims s) (trace t)"
  shows "load_signing_session E (snd (store_signing_session E s t)) =
    (Inr (Some (s\<lparr>identity := (if truthy_str (identity s) then identity s else session_storage t IDENTITY_KEY)\<rparr>)),
     snd (store_signing_session E s t))"
proof -
  let ?m = "stored s (session_storage t)"
  obtain x where x: "signing_session_expires_at (claims s) = Inr x"
    using assms(2) expires_at_returns [of "claims s"] by (auto simp: storable_def)
  have p: "json_parse (the (?m CLAIMS_KEY)) = Some (claims s)"
    using assms(2) by (simp add: stored_get storable_def json_parse_print)
  have "session_of ?m (claims s) =
      s\<lparr>identity := (if truthy_str (identity s) then identity s else session_storage t IDENTITY_KEY)\<rparr>"
    using assms(2) by (simp add: session_of_def stored_get storable_def session_hex.dec_enc)
  then show ?thesis
    using load_complete [OF assms(1) _ _ x, of "t\<lparr>session_storage := ?m\<rparr>"] storable_complete [OF assms(2)]
      p assms(3) by (simp add: store_apply [OF assms(1)])
qed

text \<open>The slot itself, on a storage that does not throw.\<close>

definition reliable :: "('e env_scheme) \<Rightarrow> ('e env_scheme)" where
  "reliable E = E\<lparr>e_ss_get_throws := (\<lambda>_. False), e_ss_set_throws := (\<lambda>_. False)\<rparr>"

lemma reliable_works [simp]: "storage_works (reliable E)"
  by (simp add: reliable_def storage_works_def)

lemma reliable_id: "storage_works E \<Longrightarrow> reliable E = E"
proof -
  assume "storage_works E"
  then have "e_ss_get_throws E = (\<lambda>_. False)" "e_ss_set_throws E = (\<lambda>_. False)"
    by (simp_all add: storage_works_def fun_eq_iff)
  then show ?thesis by (simp add: reliable_def)
qed

definition fit :: "('e env_scheme) \<Rightarrow> signing_session \<Rightarrow> 't tab_scheme \<Rightarrow> bool" where
  "fit E s t \<longleftrightarrow> storable s \<and> \<not> expired E (claims s) (trace t) \<and>
     (truthy_str (identity s) \<or> identity s = session_storage t IDENTITY_KEY)"

interpretation slot: session_slot "store_signing_session (reliable E)" "load_signing_session (reliable E)"
    "clear_signing_session (reliable E)" "fit (reliable E)" for E
proof
  show "\<exists>t'. store_signing_session (reliable E) s t = (Inr (), t')" for s t by (rule store_total)
  show "\<exists>t'. clear_signing_session (reliable E) t = (Inr (), t')" for t by (rule clear_returns)
  show "\<exists>r t'. load_signing_session (reliable E) t = (Inr r, t')" for t by (rule load_total)
  show "fit (reliable E) s t \<Longrightarrow> load_signing_session (reliable E) (snd (store_signing_session (reliable E) s t)) =
      (Inr (Some s), snd (store_signing_session (reliable E) s t))" for s t
    using load_after_store [OF reliable_works, of s E t] by (auto simp: fit_def)
  show "load_signing_session (reliable E) (snd (clear_signing_session (reliable E) t)) =
      (Inr None, snd (clear_signing_session (reliable E) t))" for t
    by (simp add: clear_apply load_incomplete complete_def cleared_get session_keys_def truthy_str_def)
qed

subsection \<open>Properties\<close>

definition demo_session :: "string option \<Rightarrow> string option \<Rightarrow> signing_session" where
  "demo_session ident node = \<lparr>keypair = \<lparr>private_key = [7, 255], public_key_hex = ''02ab''\<rparr>,
     claims = JObj [(''iss'', JStr []), (''exp'', JNum 5000)], group_public_key = ''0x03cd'',
     identity = ident, node_url = node\<rparr>"

lemma demo_session_facts:
  "storage_works demo_env"
  "storable (demo_session i (Some ''https://n1''))"
  "\<not> expired demo_env (claims (demo_session i n)) (trace t)"
  "signing_session_expires_at (claims (demo_session i n)) = Inr (Some 5000000)"
  by (simp_all add: storage_works_def demo_env_def storable_def demo_session_def truthy_str_def expired_def
      signing_session_expires_at_def read_field_def EXPIRY_SKEW_SECONDS_def)

lemma demo_session_fit: "fit demo_env (demo_session (Some ''ops'') (Some ''https://n1'')) empty_tab"
  using demo_session_facts by (simp add: fit_def) (simp add: demo_session_def truthy_str_def)

text \<open>A session handed out is never dead or about to die. Whatever the storage holds and
  however it fails, when \<open>loadSigningSession\<close> returns a session, its expiry (when it carries one)
  is more than the 120-second skew away, and the load has changed nothing.\<close>

theorem load_never_expired:
  assumes "load_signing_session E t = (Inr (Some s), t')"
    and "signing_session_expires_at (claims s) = Inr (Some ms)"
  shows "e_now E (trace t) + 120 * 1000 < ms \<and> t' = t"
  using load_returns_SomeD(1,2) [OF assms(1)] assms(2) by (simp add: expired_def EXPIRY_SKEW_SECONDS_def)

theorem load_never_expired_witness:
  "e_now demo_env [] + 120 * 1000 < 5000000 \<and>
   snd (load_signing_session demo_env (snd (store_signing_session demo_env (demo_session (Some ''ops'') (Some ''https://n1'')) empty_tab)))
     = snd (store_signing_session demo_env (demo_session (Some ''ops'') (Some ''https://n1'')) empty_tab)"
proof -
  let ?s = "demo_session (Some ''ops'') (Some ''https://n1'')"
  let ?t = "snd (store_signing_session demo_env ?s empty_tab)"
  have "load_signing_session demo_env ?t = (Inr (Some ?s), ?t)"
    using slot.slot_load_store [of demo_env ?s empty_tab] demo_session_fit
    by (simp add: reliable_id demo_session_facts(1))
  moreover have "trace ?t = []"
    by (simp add: store_apply demo_session_facts(1) empty_tab_def)
  ultimately show ?thesis
    using load_never_expired [of demo_env ?t ?s ?t 5000000] demo_session_facts(4) by simp
qed



text \<open>An expired session does not linger. On a storage that works, loading a complete session
  whose expiry is within the skew returns nothing and removes all six entries, so the next load
  finds nothing either.\<close>

theorem expired_session_cleared:
  assumes "storage_works E" and "complete (session_storage t)"
    and "json_parse (the (session_storage t CLAIMS_KEY)) = Some c"
    and "signing_session_expires_at c = Inr (Some ms)" and "ms \<le> e_now E (trace t) + 120 * 1000"
  shows "fst (load_signing_session E t) = Inr None \<and>
    (\<forall>k. k \<in> set session_keys \<longrightarrow> session_storage (snd (load_signing_session E t)) k = None)"
  using load_complete [OF assms(1-4)] assms(4,5)
  by (simp add: expired_def EXPIRY_SKEW_SECONDS_def cleared_get)

theorem expired_session_cleared_witness:
  "fst (load_signing_session (demo_env\<lparr>e_now := (\<lambda>_. 4900000)\<rparr>)
     (empty_tab\<lparr>session_storage := stored (demo_session None (Some ''https://n1'')) Map.empty\<rparr>)) = Inr None"
proof -
  let ?E = "demo_env\<lparr>e_now := (\<lambda>_. 4900000)\<rparr>"
  let ?s = "demo_session None (Some ''https://n1'')"
  let ?t = "empty_tab\<lparr>session_storage := stored ?s Map.empty\<rparr>"
  have "complete (session_storage ?t)" by (simp add: storable_complete demo_session_facts(2))
  moreover have "json_ok (claims ?s)" by (simp add: demo_session_def)
  then have "json_parse (the (session_storage ?t CLAIMS_KEY)) = Some (claims ?s)"
    by (simp add: stored_get json_parse_print)
  moreover have "storage_works ?E" "5000000 \<le> e_now ?E (trace ?t) + 120 * 1000"
    by (simp_all add: storage_works_def demo_env_def)
  ultimately show ?thesis
    using expired_session_cleared [of ?E ?t "claims ?s" 5000000] demo_session_facts(4) by blast
qed

text \<open>The dangling \<open>else\<close> of \<open>storeSigningSession\<close>. Its last line removes the stored identity
  exactly when the node is missing, not when the identity is. So a session without an identity
  (an OAuth sign-in) that replaces one that had an identity \<open>i\<close> (a wallet sign-in) is loaded back
  with \<open>i\<close>, and signs under a namespace that is not its own.\<close>

theorem stale_identity_survives:
  assumes "storage_works E" and "storable s" and "\<not> expired E (claims s) (trace t)"
    and "identity s = None" and "session_storage t IDENTITY_KEY = Some i"
  shows "fst (seq (store_signing_session E s) (load_signing_session E) t) = Inr (Some (s\<lparr>identity := Some i\<rparr>))"
proof -
  obtain t' where "store_signing_session E s t = (Inr (), t')" using store_total by blast
  then show ?thesis
    using load_after_store [OF assms(1-3)] assms(4,5) by (simp add: seq_def await_def truthy_str_def)
qed

theorem stale_identity_survives_witness:
  "fst (seq (store_signing_session demo_env (demo_session None (Some ''https://n1''))) (load_signing_session demo_env)
     (empty_tab\<lparr>session_storage := [IDENTITY_KEY \<mapsto> ''wallet-user'']\<rparr>)) =
   Inr (Some (demo_session (Some ''wallet-user'') (Some ''https://n1'')))"
proof -
  let ?t = "empty_tab\<lparr>session_storage := [IDENTITY_KEY \<mapsto> ''wallet-user'']\<rparr>"
  have "identity (demo_session None (Some ''https://n1'')) = None" "session_storage ?t IDENTITY_KEY = Some ''wallet-user''"
    by (simp_all add: demo_session_def)
  then have "fst (seq (store_signing_session demo_env (demo_session None (Some ''https://n1''))) (load_signing_session demo_env) ?t) =
      Inr (Some (demo_session None (Some ''https://n1'')\<lparr>identity := Some ''wallet-user''\<rparr>))"
    by (rule stale_identity_survives [OF demo_session_facts(1,2,3)])
  then show ?thesis by (simp add: demo_session_def)
qed

end
