(* ===== verification/Siwe.thy ===== *)
theory Siwe
  imports Json Codec
begin

text \<open>
  The ERC-4361 message, from both ends. \<open>buildSiweMessage\<close> of \<open>web/lib/signet.ts\<close> writes it;
  \<open>ParseSIWE\<close> and \<open>NormalizeAddress\<close> of \<open>backend/internal/auth\<close> read it. The theory models
  \<open>Date.toISOString\<close> (by counting years and months, which is what makes the day of the month
  valid by construction) and the RFC 3339 check of Go's \<open>time.Parse\<close> on such stamps, and proves
  that the server reads from the console's message exactly the fields the console put in.
\<close>

subsection \<open>Calendar\<close>

definition leap :: "nat \<Rightarrow> bool" where
  "leap y \<longleftrightarrow> y mod 4 = 0 \<and> (y mod 100 \<noteq> 0 \<or> y mod 400 = 0)"

definition days_in_year :: "nat \<Rightarrow> nat" where
  "days_in_year y = (if leap y then 366 else 365)"

definition month_lengths :: "nat \<Rightarrow> nat list" where
  "month_lengths y = [31, if leap y then 29 else 28, 31, 30, 31, 30, 31, 31, 30, 31, 30, 31]"

function year_day :: "nat \<Rightarrow> nat \<Rightarrow> nat \<times> nat" where
  "year_day y d = (if d < days_in_year y then (y, d) else year_day (Suc y) (d - days_in_year y))"
  by pat_completeness auto
termination
  by (relation "measure snd") (auto simp: days_in_year_def split: if_splits)

declare year_day.simps [simp del]

fun month_day :: "nat \<Rightarrow> nat list \<Rightarrow> nat \<Rightarrow> nat \<times> nat" where
  "month_day m [] d = (m, d)"
| "month_day m (l # ls) d = (if d < l then (m, d) else month_day (Suc m) ls (d - l))"

definition dec_pad :: "nat \<Rightarrow> nat \<Rightarrow> string" where
  "dec_pad k n = pad_start k (CHR ''0'') (dec_of_nat n)"

text \<open>\<open>toISOString\<close> of a time in milliseconds since 1970, for years up to 9999.\<close>

definition iso_string :: "nat \<Rightarrow> string" where
  "iso_string ms =
     (let s = ms div 1000; (y, doy) = year_day 1970 (s div 86400);
          (m, d) = month_day 1 (month_lengths y) doy
      in dec_pad 4 y @ ''-'' @ dec_pad 2 m @ ''-'' @ dec_pad 2 (d + 1) @ ''T'' @
         dec_pad 2 (s mod 86400 div 3600) @ '':'' @ dec_pad 2 (s mod 3600 div 60) @ '':'' @
         dec_pad 2 (s mod 60) @ ''.'' @ dec_pad 3 (ms mod 1000) @ ''Z'')"

subsection \<open>RFC 3339\<close>

definition digits_val :: "string \<Rightarrow> nat option" where
  "digits_val s = (if s \<noteq> [] \<and> list_all is_digit s then Some (dec_val s) else None)"

definition in_range :: "nat \<Rightarrow> nat \<Rightarrow> string \<Rightarrow> bool" where
  "in_range lo hi s = (case digits_val s of None \<Rightarrow> False | Some n \<Rightarrow> lo \<le> n \<and> n \<le> hi)"

definition zone_ok :: "string \<Rightarrow> bool" where
  "zone_ok z \<longleftrightarrow> z = ''Z'' \<or> length z = 6 \<and> hd z \<in> {CHR ''+'', CHR ''-''} \<and>
     in_range 0 24 (slice 1 3 z) \<and> slice 3 4 z = '':'' \<and> in_range 0 60 (slice 4 6 z)"

definition rfc3339_ok :: "string \<Rightarrow> bool" where
  "rfc3339_ok s \<longleftrightarrow>
     (case (digits_val (slice 0 4 s), digits_val (slice 5 7 s)) of
        (Some y, Some m) \<Rightarrow>
          1 \<le> m \<and> m \<le> 12 \<and> in_range 1 (month_lengths y ! (m - 1)) (slice 8 10 s) \<and>
          slice 4 5 s = ''-'' \<and> slice 7 8 s = ''-'' \<and> slice 10 11 s = ''T'' \<and>
          in_range 0 23 (slice 11 13 s) \<and> slice 13 14 s = '':'' \<and> in_range 0 59 (slice 14 16 s) \<and>
          slice 16 17 s = '':'' \<and> in_range 0 59 (slice 17 19 s) \<and>
          (let r = drop 19 s in
             if starts_with ''.'' r
             then takeWhile is_digit (drop 1 r) \<noteq> [] \<and> zone_ok (dropWhile is_digit (drop 1 r))
             else zone_ok r)
      | _ \<Rightarrow> False)"

subsection \<open>Building\<close>

record siwe_fields =
  sf_domain :: string
  sf_address :: string
  sf_statement :: string
  sf_uri :: string
  sf_chain_id :: int
  sf_nonce :: string

definition newline :: char where "newline = CHR 0x0A"

definition preamble_suffix :: string where
  "preamble_suffix = '' wants you to sign in with your Ethereum account:''"

definition siwe_lines :: "siwe_fields \<Rightarrow> nat \<Rightarrow> string list" where
  "siwe_lines f now =
     [sf_domain f @ preamble_suffix, sf_address f, [], sf_statement f, [],
      ''URI: '' @ sf_uri f, ''Version: 1'', ''Chain ID: '' @ dec_of_int (sf_chain_id f),
      ''Nonce: '' @ sf_nonce f, ''Issued At: '' @ iso_string now]"

definition build_siwe_message :: "siwe_fields \<Rightarrow> nat \<Rightarrow> string" where
  "build_siwe_message f now = join_with [newline] (siwe_lines f now)"

subsection \<open>Parsing\<close>

record siwe_message =
  m_domain :: string
  m_address :: string
  m_statement :: string
  m_uri :: string
  m_version :: string
  m_chain_id :: int
  m_nonce :: string
  m_issued_at :: "string option"
  m_expiration :: "string option"
  m_not_before :: "string option"

datatype siwe_error =
    Too_short
  | No_preamble
  | No_domain
  | Bad_address
  | Unparsable string
  | Bad_chain_id string
  | Bad_time string
  | Unknown_field string
  | No_nonce
  | Bad_version string

fun replace_crlf :: "string \<Rightarrow> string" where
  "replace_crlf (a # b # s) =
     (if a = CHR 0x0D \<and> b = CHR 0x0A then b # replace_crlf s else a # replace_crlf (b # s))"
| "replace_crlf s = s"

definition ends_with :: "string \<Rightarrow> string \<Rightarrow> bool" where
  "ends_with x s \<longleftrightarrow> starts_with (rev x) (rev s)"

definition normalize_address :: "string \<Rightarrow> string option" where
  "normalize_address a = (let t = strip_0x (to_lower (trim a)) in
     if length t \<noteq> 40 \<or> \<not> list_all is_hex t then None else Some (''0x'' @ t))"

text \<open>\<open>strings.Cut\<close>\<close>

fun cut_at :: "string \<Rightarrow> string \<Rightarrow> (string \<times> string) option" where
  "cut_at sep [] = None"
| "cut_at sep (c # cs) =
     (if starts_with sep (c # cs) then Some ([], drop (length sep) (c # cs))
      else map_option (\<lambda>(a, b). (c # a, b)) (cut_at sep cs))"

definition parse_int64 :: "string \<Rightarrow> int option" where
  "parse_int64 s =
     (let neg = starts_with ''-'' s; u = (if neg \<or> starts_with ''+'' s then drop 1 s else s)
      in case digits_val u of None \<Rightarrow> None
         | Some n \<Rightarrow> (let v = (if neg then - int n else int n) in if - (2 ^ 63) \<le> v \<and> v < 2 ^ 63 then Some v else None))"

definition parse_field :: "string \<Rightarrow> string \<Rightarrow> siwe_message \<Rightarrow> siwe_error + siwe_message" where
  "parse_field key v msg =
     (if key = ''URI'' then Inr (msg\<lparr>m_uri := v\<rparr>)
      else if key = ''Version'' then Inr (msg\<lparr>m_version := v\<rparr>)
      else if key = ''Chain ID'' then
        (case parse_int64 v of None \<Rightarrow> Inl (Bad_chain_id v) | Some n \<Rightarrow> Inr (msg\<lparr>m_chain_id := n\<rparr>))
      else if key = ''Nonce'' then Inr (msg\<lparr>m_nonce := v\<rparr>)
      else if key = ''Issued At'' then
        (if rfc3339_ok v then Inr (msg\<lparr>m_issued_at := Some v\<rparr>) else Inl (Bad_time v))
      else if key = ''Expiration Time'' then
        (if rfc3339_ok v then Inr (msg\<lparr>m_expiration := Some v\<rparr>) else Inl (Bad_time v))
      else if key = ''Not Before'' then
        (if rfc3339_ok v then Inr (msg\<lparr>m_not_before := Some v\<rparr>) else Inl (Bad_time v))
      else if key = ''Request ID'' then Inr msg
      else Inl (Unknown_field key))"

fun parse_fields :: "bool \<Rightarrow> string list \<Rightarrow> siwe_message \<Rightarrow> siwe_error + siwe_message" where
  "parse_fields res [] msg = Inr msg"
| "parse_fields res (line # ls) msg =
     (if line = [] then parse_fields res ls msg
      else if res \<and> starts_with ''- '' line then parse_fields res ls msg
      else (case cut_at '': '' line of
          None \<Rightarrow> if trim line = ''Resources:'' then parse_fields True ls msg else Inl (Unparsable line)
        | Some (key, v) \<Rightarrow>
          (case parse_field key v msg of Inl e \<Rightarrow> Inl e | Inr msg' \<Rightarrow> parse_fields False ls msg')))"

definition skip_blank :: "string list \<Rightarrow> string list" where
  "skip_blank ls = (case ls of [] # r \<Rightarrow> r | _ \<Rightarrow> ls)"

text \<open>The optional statement and the lines after it.\<close>

definition take_statement :: "string list \<Rightarrow> string \<times> string list" where
  "take_statement ls = (case ls of
     l # r \<Rightarrow> if l \<noteq> [] \<and> cut_at '': '' l = None then (l, skip_blank r) else ([], ls)
   | [] \<Rightarrow> ([], []))"

definition parse_siwe :: "string \<Rightarrow> siwe_error + siwe_message" where
  "parse_siwe raw =
     (let lines = split_on newline (replace_crlf raw) in
      if length lines < 6 then Inl Too_short
      else if \<not> ends_with preamble_suffix (lines ! 0) then Inl No_preamble
      else (let domain = take (length (lines ! 0) - length preamble_suffix) (lines ! 0) in
        if domain = [] then Inl No_domain
        else (case normalize_address (lines ! 1) of
            None \<Rightarrow> Inl Bad_address
          | Some addr \<Rightarrow>
            (let (st, ls) = take_statement (skip_blank (drop 2 lines)) in
             case parse_fields False ls \<lparr>m_domain = domain, m_address = addr, m_statement = st, m_uri = [],
               m_version = [], m_chain_id = 0, m_nonce = [], m_issued_at = None, m_expiration = None,
               m_not_before = None\<rparr> of
               Inl e \<Rightarrow> Inl e
             | Inr msg \<Rightarrow> if m_nonce msg = [] then Inl No_nonce
                 else if m_version msg \<noteq> ''1'' then Inl (Bad_version (m_version msg)) else Inr msg))))"

subsection \<open>The stamp is valid\<close>

lemma sum_month_lengths: "sum_list (month_lengths y) = days_in_year y"
  by (simp add: month_lengths_def days_in_year_def)

lemma year_day_bound: "year_day y d = (y', d') \<Longrightarrow> d' < days_in_year y'"
proof (induction y d rule: year_day.induct)
  case (1 y d)
  then show ?case by (cases "d < days_in_year y") (auto simp: year_day.simps [of y d])
qed

lemma month_day_spec:
  "month_day m ls d = (m', d') \<Longrightarrow> d < sum_list ls \<Longrightarrow>
     m \<le> m' \<and> m' < m + length ls \<and> d' < ls ! (m' - m)"
proof (induction ls arbitrary: m d)
  case (Cons l ls)
  show ?case
  proof (cases "d < l")
    case True
    with Cons.prems show ?thesis by auto
  next
    case False
    with Cons.prems have "Suc m \<le> m' \<and> m' < Suc m + length ls \<and> d' < ls ! (m' - Suc m)"
      by (intro Cons.IH [of "Suc m" "d - l"]) auto
    moreover then have "m' - m = Suc (m' - Suc m)" by auto
    ultimately show ?thesis by auto
  qed
qed simp

lemma month_length_le: "i < 12 \<Longrightarrow> month_lengths y ! i \<le> 31"
proof -
  have "\<forall>l \<in> set (month_lengths y). l \<le> 31" by (simp add: month_lengths_def)
  moreover have "length (month_lengths y) = 12" by (simp add: month_lengths_def)
  ultimately show "i < 12 \<Longrightarrow> month_lengths y ! i \<le> 31" by (metis nth_mem)
qed

lemma length_dec_pad: "n < 10 ^ k \<Longrightarrow> 0 < k \<Longrightarrow> length (dec_pad k n) = k"
  using length_digits [of 10 n k] by (simp add: dec_pad_def length_pad_start dec_of_nat_def)

lemma dec_pad_eq: "dec_pad k n = map hex_digit (replicate (k - length (digits 10 n)) 0 @ digits 10 n)"
  by (simp add: dec_pad_def pad_start_def dec_of_nat_def hex_digit_0)

lemma digits_val_pad [simp]: "digits_val (dec_pad k n) = Some n"
proof -
  let ?ds = "replicate (k - length (digits 10 n)) 0 @ digits 10 n"
  have d: "\<forall>d \<in> set ?ds. d < 10" using digits10 by auto
  then have "\<forall>d \<in> set ?ds. d < 16" by fastforce
  then have "dec_val (dec_pad k n) = n"
    unfolding dec_val_def dec_pad_eq by (subst map_hex_digit_val) simp_all
  moreover have "list_all is_digit (dec_pad k n)" unfolding dec_pad_eq
    using d by (auto simp: list_all_iff dec_digit)
  moreover have "dec_pad k n \<noteq> []" by (simp add: dec_pad_eq)
  ultimately show ?thesis by (simp add: digits_val_def)
qed

lemma slice_append_left: "length a = j - i \<Longrightarrow> i = 0 \<Longrightarrow> slice i j (a @ s) = a"
  by (simp add: slice_def)

lemma slice_append_right: "length a \<le> i \<Longrightarrow> slice i j (a @ s) = slice (i - length a) (j - length a) s"
  by (simp add: slice_def)

lemma in_range_pad [simp]: "in_range lo hi (dec_pad k n) \<longleftrightarrow> lo \<le> n \<and> n \<le> hi"
  by (simp add: in_range_def)

lemma rfc3339_stamp:
  assumes l: "length Y = 4" "length M = 2" "length D = 2" "length h = 2" "length mi = 2" "length s = 2"
    and v: "digits_val Y = Some y" "digits_val M = Some m" "1 \<le> m" "m \<le> 12"
      "in_range 1 (month_lengths y ! (m - 1)) D" "in_range 0 23 h" "in_range 0 59 mi" "in_range 0 59 s"
      "digits_val f = Some k"
  shows "rfc3339_ok (Y @ ''-'' @ M @ ''-'' @ D @ ''T'' @ h @ '':'' @ mi @ '':'' @ s @ ''.'' @ f @ ''Z'')"
proof -
  have f: "f \<noteq> []" "list_all is_digit f" using v(9) by (auto simp: digits_val_def split: if_splits)
  have z: "\<not> is_digit (CHR ''Z'')" by (simp add: is_digit_def)
  have "takeWhile is_digit (f @ ''Z'') = f" "dropWhile is_digit (f @ ''Z'') = ''Z''"
    using f(2) z by (simp_all add: list_all_iff takeWhile_append2 dropWhile_append2)
  then show ?thesis
    using l v f(1) by (simp add: rfc3339_ok_def slice_def zone_ok_def)
qed

lemma iso_string_valid:
  assumes "fst (year_day 1970 (now div 86400000)) \<le> 9999"
  shows "rfc3339_ok (iso_string now)"
proof -
  obtain y doy where yd: "year_day 1970 (now div 86400000) = (y, doy)" by (cases "year_day 1970 (now div 86400000)")
  obtain m d where md: "month_day 1 (month_lengths y) doy = (m, d)" by (cases "month_day 1 (month_lengths y) doy")
  have "doy < sum_list (month_lengths y)" using year_day_bound [OF yd] by (simp add: sum_month_lengths)
  moreover have len: "length (month_lengths y) = 12" by (simp add: month_lengths_def)
  ultimately have m: "1 \<le> m" "m \<le> 12" "d < month_lengths y ! (m - 1)"
    using month_day_spec [OF md] by auto
  have "m - 1 < 12" using m by simp
  then have d: "d + 1 < 100" using m month_length_le [of "m - 1" y] by linarith
  have r: "now div 1000 mod 86400 div 3600 < 24" "now div 1000 mod 3600 div 60 < 60" "now div 1000 mod 60 < 60"
    by (simp_all add: less_mult_imp_div_less)
  have s: "iso_string now = dec_pad 4 y @ ''-'' @ dec_pad 2 m @ ''-'' @ dec_pad 2 (d + 1) @ ''T'' @
         dec_pad 2 (now div 1000 mod 86400 div 3600) @ '':'' @ dec_pad 2 (now div 1000 mod 3600 div 60) @ '':'' @
         dec_pad 2 (now div 1000 mod 60) @ ''.'' @ dec_pad 3 (now mod 1000) @ ''Z''"
    using yd md by (simp add: iso_string_def Let_def div_mult2_eq [symmetric])
  show ?thesis unfolding s
    using m d r assms yd by (intro rfc3339_stamp) (simp_all add: length_dec_pad Suc_le_eq)
qed

subsection \<open>The server reads what the console wrote\<close>

definition one_line :: "string \<Rightarrow> bool" where
  "one_line s \<longleftrightarrow> newline \<notin> set s \<and> CHR 0x0D \<notin> set s"

definition siwe_well_formed :: "siwe_fields \<Rightarrow> bool" where
  "siwe_well_formed f \<longleftrightarrow>
     one_line (sf_domain f) \<and> sf_domain f \<noteq> [] \<and> one_line (sf_address f) \<and>
     one_line (sf_statement f) \<and> cut_at '': '' (sf_statement f) = None \<and> one_line (sf_uri f) \<and>
     one_line (sf_nonce f) \<and> sf_nonce f \<noteq> [] \<and> - (2 ^ 63) \<le> sf_chain_id f \<and> sf_chain_id f < 2 ^ 63"

lemma replace_crlf_id: "CHR 0x0D \<notin> set s \<Longrightarrow> replace_crlf s = s"
  by (induction s rule: replace_crlf.induct) auto

lemma one_line_append [simp]: "one_line (a @ b) \<longleftrightarrow> one_line a \<and> one_line b"
  by (auto simp: one_line_def)

lemma one_line_Cons: "one_line (c # s) \<longleftrightarrow> c \<noteq> newline \<and> c \<noteq> CHR 0x0D \<and> one_line s"
  by (auto simp: one_line_def)

lemma one_line_digits: "list_all is_digit s \<Longrightarrow> one_line s"
  by (auto simp: one_line_def list_all_iff newline_def is_digit_def)

lemma one_line_dec_pad: "one_line (dec_pad k n)"
  using digits_val_pad [of k n] by (intro one_line_digits) (auto simp: digits_val_def split: if_splits)

lemma one_line_iso: "one_line (iso_string now)"
  by (simp add: iso_string_def Let_def one_line_dec_pad one_line_Cons newline_def one_line_def [of "[]"] split: prod.splits)

lemma one_line_dec_of_int: "one_line (dec_of_int i)"
proof -
  have "one_line (dec_of_nat n)" for n by (rule one_line_digits [OF dec_of_nat_digits])
  moreover have "one_line (CHR ''-'' # s) = one_line s" for s by (simp add: one_line_def newline_def)
  ultimately show ?thesis by (simp add: dec_of_int_def)
qed

lemma one_line_fixed: "one_line preamble_suffix" "one_line []" "one_line ''URI: ''" "one_line ''Version: 1''"
  "one_line ''Chain ID: ''" "one_line ''Nonce: ''" "one_line ''Issued At: ''"
  by (simp_all add: one_line_def newline_def preamble_suffix_def)

lemma siwe_lines_one_line:
  assumes "siwe_well_formed f" and "l \<in> set (siwe_lines f now)"
  shows "one_line l"
proof -
  have "\<forall>l \<in> set (siwe_lines f now). one_line l"
    unfolding siwe_lines_def using assms(1) one_line_fixed one_line_iso [of now] one_line_dec_of_int [of "sf_chain_id f"]
    by (simp only: list.set ball_simps siwe_well_formed_def one_line_append simp_thms)
  with assms(2) show ?thesis by blast
qed

lemma split_built:
  assumes "siwe_well_formed f"
  shows "split_on newline (replace_crlf (build_siwe_message f now)) = siwe_lines f now"
proof -
  have cr: "CHR 0x0D \<notin> set (join_with [newline] ls)" if "\<forall>l \<in> set ls. one_line l" for ls
    using that by (induction "[newline]" ls rule: join_with.induct) (auto simp: one_line_def newline_def)
  have "siwe_lines f now \<noteq> []" by (simp add: siwe_lines_def)
  then show ?thesis
    using siwe_lines_one_line [OF assms] cr [of "siwe_lines f now"]
    by (simp add: build_siwe_message_def replace_crlf_id split_join one_line_def)
qed

lemma parse_int64_dec: "- (2 ^ 63) \<le> i \<Longrightarrow> i < 2 ^ 63 \<Longrightarrow> parse_int64 (dec_of_int i) = Some i"
proof -
  have p: "\<not> starts_with ''+'' (dec_of_nat n)" for n
    using dec_of_nat_digits [of n] by (cases "dec_of_nat n") (auto simp: is_digit_def)
  have d: "digits_val (dec_of_nat n) = Some n" for n
    using dec_of_nat_digits by (simp add: digits_val_def)
  show "- (2 ^ 63) \<le> i \<Longrightarrow> i < 2 ^ 63 \<Longrightarrow> parse_int64 (dec_of_int i) = Some i"
    using p d dec_of_nat_no_minus by (auto simp: parse_int64_def dec_of_int_def Let_def)
qed

lemma ends_with_append: "ends_with b (a @ b)"
  by (simp add: ends_with_def)

lemma parse_fields_built:
  assumes "siwe_well_formed f" and "fst (year_day 1970 (now div 86400000)) \<le> 9999"
  shows "parse_fields False (drop 5 (siwe_lines f now)) msg =
    Inr (msg\<lparr>m_uri := sf_uri f, m_version := ''1'', m_chain_id := sf_chain_id f, m_nonce := sf_nonce f,
      m_issued_at := Some (iso_string now)\<rparr>)"
  using assms(1) iso_string_valid [OF assms(2)] parse_int64_dec [of "sf_chain_id f"]
  by (simp add: siwe_lines_def parse_field_def siwe_well_formed_def)

lemma statement_built:
  assumes "siwe_well_formed f"
  shows "take_statement (skip_blank (drop 2 (siwe_lines f now))) =
      (sf_statement f, if sf_statement f = [] then [] # [] # drop 5 (siwe_lines f now) else drop 5 (siwe_lines f now))"
  using assms by (simp add: siwe_lines_def skip_blank_def take_statement_def siwe_well_formed_def)

text \<open>C8: the message the console asks a wallet to sign is the message the server checks. For
  fields without line breaks, a statement without \<open>": "\<close>, a non-empty domain and nonce and a
  chain id that fits 64 bits, the server's \<open>ParseSIWE\<close> accepts \<open>buildSiweMessage\<close>'s text and reads
  back the same domain, statement, URI, chain and nonce, the normalized address and the stamp.\<close>

theorem siwe_server_reads_console:
  assumes "siwe_well_formed f" and "normalize_address (sf_address f) = Some addr"
    and "fst (year_day 1970 (now div 86400000)) \<le> 9999"
  shows "parse_siwe (build_siwe_message f now) = Inr \<lparr>m_domain = sf_domain f, m_address = addr,
    m_statement = sf_statement f, m_uri = sf_uri f, m_version = ''1'', m_chain_id = sf_chain_id f,
    m_nonce = sf_nonce f, m_issued_at = Some (iso_string now), m_expiration = None, m_not_before = None\<rparr>"
proof -
  have n: "length (siwe_lines f now) = 10" "siwe_lines f now ! 0 = sf_domain f @ preamble_suffix"
    "siwe_lines f now ! Suc 0 = sf_address f" "sf_domain f \<noteq> []" "sf_nonce f \<noteq> []"
    using assms(1) by (simp_all add: siwe_lines_def siwe_well_formed_def)
  show ?thesis
    using assms(2)
    by (simp add: parse_siwe_def split_built [OF assms(1)] statement_built [OF assms(1)]
        parse_fields_built [OF assms(1,3)] n ends_with_append Let_def)
qed

definition demo_siwe :: siwe_fields where
  "demo_siwe = \<lparr>sf_domain = ''console.signet.dev'', sf_address = ''0xAbCdef0123456789abcdef0123456789ABCDEF01'',
     sf_statement = ''Sign in to the Signet platform console.'', sf_uri = ''https://console.signet.dev'',
     sf_chain_id = 84532, sf_nonce = ''n0nce''\<rparr>"

theorem siwe_server_reads_console_witness:
  "m_nonce (projr (parse_siwe (build_siwe_message demo_siwe 1000))) = ''n0nce'' \<and>
   m_address (projr (parse_siwe (build_siwe_message demo_siwe 1000))) = ''0xabcdef0123456789abcdef0123456789abcdef01''"
proof -
  have "siwe_well_formed demo_siwe"
    by (simp add: demo_siwe_def siwe_well_formed_def one_line_def newline_def)
  moreover have "normalize_address (sf_address demo_siwe) = Some ''0xabcdef0123456789abcdef0123456789abcdef01''"
    by code_simp
  moreover have "fst (year_day 1970 (1000 div 86400000)) \<le> 9999"
    by (simp add: year_day.simps days_in_year_def)
  ultimately show ?thesis using siwe_server_reads_console [of demo_siwe _ 1000] by (simp add: demo_siwe_def)
qed

end
