(* ===== verification/Types.thy ===== *)
theory Types
  imports Json "HOL-Library.Monad_Syntax"
begin

text \<open>
  The data of \<open>web/lib/types.ts\<close> that the modelled components read, as records whose fields carry a
  prefix per interface, and the decoders that say when a JSON reply has the declared shape. The
  code casts replies (\<open>json as T\<close>) without checking them; in the model a reply that does not have
  the shape is an error where it arrives, while the code would fail where it first uses the
  missing field.
\<close>

named_theorems decoders \<open>field decoders, to evaluate a decoder on a concrete reply\<close>

subsection \<open>Field decoders\<close>

definition f_str :: "string \<Rightarrow> json \<Rightarrow> string option" where
  "f_str k j = (case jget k j of Some (JStr s) \<Rightarrow> Some s | _ \<Rightarrow> None)"

definition f_nullable :: "string \<Rightarrow> json \<Rightarrow> string option option" where
  "f_nullable k j = (case jget k j of Some (JStr s) \<Rightarrow> Some (Some s) | Some JNull \<Rightarrow> Some None | _ \<Rightarrow> None)"

definition f_optional :: "string \<Rightarrow> json \<Rightarrow> string option option" where
  "f_optional k j = (case jget k j of None \<Rightarrow> Some None | Some (JStr s) \<Rightarrow> Some (Some s) | _ \<Rightarrow> None)"

definition f_int :: "string \<Rightarrow> json \<Rightarrow> int option" where
  "f_int k j = (case jget k j of Some (JNum n) \<Rightarrow> Some n | _ \<Rightarrow> None)"

definition f_int_nullable :: "string \<Rightarrow> json \<Rightarrow> int option option" where
  "f_int_nullable k j = (case jget k j of Some (JNum n) \<Rightarrow> Some (Some n) | Some JNull \<Rightarrow> Some None | _ \<Rightarrow> None)"

definition f_int_optional :: "string \<Rightarrow> json \<Rightarrow> int option option" where
  "f_int_optional k j = (case jget k j of None \<Rightarrow> Some None | Some (JNum n) \<Rightarrow> Some (Some n) | _ \<Rightarrow> None)"

definition f_bool :: "string \<Rightarrow> json \<Rightarrow> bool option" where
  "f_bool k j = (case jget k j of Some (JBool b) \<Rightarrow> Some b | _ \<Rightarrow> None)"

definition f_bool_nullable :: "string \<Rightarrow> json \<Rightarrow> bool option option" where
  "f_bool_nullable k j = (case jget k j of Some (JBool b) \<Rightarrow> Some (Some b) | Some JNull \<Rightarrow> Some None | _ \<Rightarrow> None)"

definition f_list :: "(json \<Rightarrow> 'a option) \<Rightarrow> string \<Rightarrow> json \<Rightarrow> 'a list option" where
  "f_list d k j = (case jget k j of Some (JArr js) \<Rightarrow> those (map d js) | _ \<Rightarrow> None)"

definition f_obj :: "(json \<Rightarrow> 'a option) \<Rightarrow> string \<Rightarrow> json \<Rightarrow> 'a option" where
  "f_obj d k j = (case jget k j of Some v \<Rightarrow> d v | None \<Rightarrow> None)"

definition f_obj_nullable :: "(json \<Rightarrow> 'a option) \<Rightarrow> string \<Rightarrow> json \<Rightarrow> 'a option option" where
  "f_obj_nullable d k j = (case jget k j of Some JNull \<Rightarrow> Some None | Some v \<Rightarrow> map_option Some (d v) | None \<Rightarrow> None)"

definition d_str :: "json \<Rightarrow> string option" where
  "d_str j = (case j of JStr s \<Rightarrow> Some s | _ \<Rightarrow> None)"

definition f_enum :: "(string \<times> 'a) list \<Rightarrow> string \<Rightarrow> json \<Rightarrow> 'a option" where
  "f_enum tbl k j = (case f_str k j of Some s \<Rightarrow> map_of tbl s | None \<Rightarrow> None)"

lemmas decoder_defs [decoders] = f_str_def f_nullable_def f_optional_def f_int_def f_int_nullable_def
  f_int_optional_def f_bool_def f_bool_nullable_def f_list_def f_obj_def f_obj_nullable_def d_str_def f_enum_def

subsection \<open>Enumerations\<close>

datatype role = Owner | Admin | Developer | Viewer
datatype environment = Development | Production
datatype app_status = Provisioning | Live | Suspended | Archived
datatype curve = Frost_secp256k1 | Frost_ed25519 | Ecdsa_secp256k1
datatype onchain_status = Unknown | Pending | Active | Removed
datatype subject_kind = Signet_subject | Siwe_subject
datatype node_category = Enterprise | Infrastructure | Custodian | Independent | Signet_category
datatype node_status = Node_active | Node_pending | Node_removing
datatype credential_kind = App_secret | Auth_key

definition role_names :: "(string \<times> role) list" where
  "role_names = [(''owner'', Owner), (''admin'', Admin), (''developer'', Developer), (''viewer'', Viewer)]"

definition environment_names :: "(string \<times> environment) list" where
  "environment_names = [(''development'', Development), (''production'', Production)]"

definition app_status_names :: "(string \<times> app_status) list" where
  "app_status_names = [(''provisioning'', Provisioning), (''live'', Live), (''suspended'', Suspended), (''archived'', Archived)]"

definition subject_kind_names :: "(string \<times> subject_kind) list" where
  "subject_kind_names = [(''signet'', Signet_subject), (''siwe'', Siwe_subject)]"

lemmas name_tables [decoders] = role_names_def environment_names_def app_status_names_def subject_kind_names_def

text \<open>Roles are ordered by what they may do: an owner above an admin, down to a viewer.\<close>

instantiation role :: linorder
begin

fun role_rank :: "role \<Rightarrow> nat" where
  "role_rank Owner = 3" | "role_rank Admin = 2" | "role_rank Developer = 1" | "role_rank Viewer = 0"

definition less_eq_role :: "role \<Rightarrow> role \<Rightarrow> bool" where "less_eq_role a b \<longleftrightarrow> role_rank a \<le> role_rank b"
definition less_role :: "role \<Rightarrow> role \<Rightarrow> bool" where "less_role a b \<longleftrightarrow> role_rank a < role_rank b"

instance
proof
  fix x y z :: role
  show "x < y \<longleftrightarrow> x \<le> y \<and> \<not> y \<le> x" by (auto simp: less_eq_role_def less_role_def)
  show "x \<le> x" by (simp add: less_eq_role_def)
  show "x \<le> y \<Longrightarrow> y \<le> z \<Longrightarrow> x \<le> z" by (simp add: less_eq_role_def)
  show "x \<le> y \<Longrightarrow> y \<le> x \<Longrightarrow> x = y" by (cases x; cases y) (simp_all add: less_eq_role_def)
  show "x \<le> y \<or> y \<le> x" by (auto simp: less_eq_role_def)
qed

end

subsection \<open>Accounts and sessions\<close>

record user =
  u_id :: string
  u_subject :: string
  u_subject_kind :: subject_kind
  u_account_address :: "string option"
  u_group_public_key :: "string option"
  u_smart_account_address :: "string option"
  u_signet_key_id :: "string option"
  u_signet_key_address :: "string option"
  u_email :: "string option"
  u_display_name :: string
  u_avatar_url :: "string option"
  u_is_staff :: bool
  u_last_seen_at :: "string option"
  u_created_at :: string

definition user_of_json :: "json \<Rightarrow> user option" where
  "user_of_json j = do {
     i \<leftarrow> f_str ''id'' j; sub \<leftarrow> f_str ''subject'' j; kind \<leftarrow> f_enum subject_kind_names ''subject_kind'' j;
     acc \<leftarrow> f_nullable ''account_address'' j; gpk \<leftarrow> f_nullable ''group_public_key'' j;
     smart \<leftarrow> f_nullable ''smart_account_address'' j; kid \<leftarrow> f_nullable ''signet_key_id'' j;
     kaddr \<leftarrow> f_nullable ''signet_key_address'' j; em \<leftarrow> f_nullable ''email'' j;
     dn \<leftarrow> f_str ''display_name'' j; av \<leftarrow> f_nullable ''avatar_url'' j; st \<leftarrow> f_bool ''is_staff'' j;
     seen \<leftarrow> f_nullable ''last_seen_at'' j; cr \<leftarrow> f_str ''created_at'' j;
     Some \<lparr>u_id = i, u_subject = sub, u_subject_kind = kind, u_account_address = acc,
       u_group_public_key = gpk, u_smart_account_address = smart, u_signet_key_id = kid,
       u_signet_key_address = kaddr, u_email = em, u_display_name = dn, u_avatar_url = av,
       u_is_staff = st, u_last_seen_at = seen, u_created_at = cr\<rparr> }"

record network_config =
  n_chain_id :: int
  n_rpc_url :: string
  n_factory_address :: string
  n_account_factory_address :: string
  n_entrypoint_address :: string
  n_bundler_url :: string
  n_bootstrap_group :: string
  n_bootstrap_nodes :: "string list"
  n_siwe_enabled :: bool
  n_paymaster_url :: string
  n_paymaster_address :: string
  n_sponsor_group_creation :: bool
  n_first_party_category :: string
  n_development_policy :: string

definition network_of_json :: "json \<Rightarrow> network_config option" where
  "network_of_json j = do {
     cid \<leftarrow> f_int ''chain_id'' j; rpc \<leftarrow> f_str ''rpc_url'' j; fac \<leftarrow> f_str ''factory_address'' j;
     afac \<leftarrow> f_str ''account_factory_address'' j; ep \<leftarrow> f_str ''entrypoint_address'' j;
     bun \<leftarrow> f_str ''bundler_url'' j; bg \<leftarrow> f_str ''bootstrap_group'' j;
     bn \<leftarrow> f_list d_str ''bootstrap_nodes'' j; siwe \<leftarrow> f_bool ''siwe_enabled'' j;
     pmu \<leftarrow> f_str ''paymaster_url'' j; pma \<leftarrow> f_str ''paymaster_address'' j;
     spo \<leftarrow> f_bool ''sponsor_group_creation'' j; fpc \<leftarrow> f_str ''first_party_category'' j;
     pol \<leftarrow> f_str ''development_policy'' j;
     Some \<lparr>n_chain_id = cid, n_rpc_url = rpc, n_factory_address = fac, n_account_factory_address = afac,
       n_entrypoint_address = ep, n_bundler_url = bun, n_bootstrap_group = bg, n_bootstrap_nodes = bn,
       n_siwe_enabled = siwe, n_paymaster_url = pmu, n_paymaster_address = pma,
       n_sponsor_group_creation = spo, n_first_party_category = fpc, n_development_policy = pol\<rparr> }"

record organization =
  o_id :: string
  o_name :: string
  o_slug :: string
  o_logo_url :: "string option"
  o_website_url :: "string option"
  o_billing_email :: "string option"
  o_plan :: string
  o_role :: "string option"
  o_app_count :: int
  o_created_at :: string

definition organization_of_json :: "json \<Rightarrow> organization option" where
  "organization_of_json j = do {
     i \<leftarrow> f_str ''id'' j; n \<leftarrow> f_str ''name'' j; sl \<leftarrow> f_str ''slug'' j; lo \<leftarrow> f_nullable ''logo_url'' j;
     we \<leftarrow> f_nullable ''website_url'' j; be \<leftarrow> f_nullable ''billing_email'' j; pl \<leftarrow> f_str ''plan'' j;
     ro \<leftarrow> f_optional ''role'' j; ac \<leftarrow> f_int ''app_count'' j; cr \<leftarrow> f_str ''created_at'' j;
     Some \<lparr>o_id = i, o_name = n, o_slug = sl, o_logo_url = lo, o_website_url = we, o_billing_email = be,
       o_plan = pl, o_role = ro, o_app_count = ac, o_created_at = cr\<rparr> }"

record session =
  s_user :: user
  s_organizations :: "organization list"
  s_network :: network_config

definition session_of_json :: "json \<Rightarrow> session option" where
  "session_of_json j = do {
     u \<leftarrow> f_obj user_of_json ''user'' j; os \<leftarrow> f_list organization_of_json ''organizations'' j;
     n \<leftarrow> f_obj network_of_json ''network'' j;
     Some \<lparr>s_user = u, s_organizations = os, s_network = n\<rparr> }"

subsection \<open>Apps, operators, groups\<close>

record app =
  a_id :: string
  a_org_id :: string
  a_name :: string
  a_slug :: string
  a_description :: string
  a_environment :: environment
  a_status :: app_status
  a_chain_id :: int
  a_group_address :: "string option"
  a_group_public_key :: "string option"
  a_threshold :: "int option"
  a_node_count :: "int option"
  a_is_operational :: "bool option"
  a_logo_url :: "string option"
  a_website_url :: "string option"
  a_deployed_at :: "string option"
  a_synced_at :: "string option"
  a_created_at :: string
  a_updated_at :: string

definition app_of_json :: "json \<Rightarrow> app option" where
  "app_of_json j = do {
     i \<leftarrow> f_str ''id'' j; oi \<leftarrow> f_str ''org_id'' j; n \<leftarrow> f_str ''name'' j; sl \<leftarrow> f_str ''slug'' j;
     de \<leftarrow> f_str ''description'' j; en \<leftarrow> f_enum environment_names ''environment'' j;
     st \<leftarrow> f_enum app_status_names ''status'' j; ci \<leftarrow> f_int ''chain_id'' j;
     ga \<leftarrow> f_nullable ''group_address'' j; gk \<leftarrow> f_nullable ''group_public_key'' j;
     th \<leftarrow> f_int_nullable ''threshold'' j; nc \<leftarrow> f_int_nullable ''node_count'' j;
     op \<leftarrow> f_bool_nullable ''is_operational'' j; lo \<leftarrow> f_nullable ''logo_url'' j;
     we \<leftarrow> f_nullable ''website_url'' j; da \<leftarrow> f_nullable ''deployed_at'' j;
     sa \<leftarrow> f_nullable ''synced_at'' j; cr \<leftarrow> f_str ''created_at'' j; up \<leftarrow> f_str ''updated_at'' j;
     Some \<lparr>a_id = i, a_org_id = oi, a_name = n, a_slug = sl, a_description = de, a_environment = en,
       a_status = st, a_chain_id = ci, a_group_address = ga, a_group_public_key = gk, a_threshold = th,
       a_node_count = nc, a_is_operational = op, a_logo_url = lo, a_website_url = we,
       a_deployed_at = da, a_synced_at = sa, a_created_at = cr, a_updated_at = up\<rparr> }"

record node_health =
  h_online :: bool
  h_latency_ms :: "int option"
  h_peer_count :: "int option"
  h_uptime_pct_24h :: "string option"  \<comment> \<open>a decimal, as its lexeme\<close>
  h_last_error :: "string option"
  h_observed_at :: "string option"

record node_operator =
  op_address :: string
  op_name :: string
  op_slug :: string
  op_description :: string
  op_website_url :: "string option"
  op_logo_url :: "string option"
  op_api_url :: "string option"
  op_region :: string
  op_jurisdiction :: string
  op_category :: node_category
  op_verified :: bool
  op_is_open :: "bool option"
  op_registered_at :: "string option"
  op_operator_address :: "string option"
  op_group_count :: int
  op_synced_at :: "string option"
  op_health :: "node_health option"

record group_node =
  gn_address :: string
  gn_status :: node_status
  gn_execute_after :: "string option"
  gn_removal_initiator :: "string option"
  gn_joined_at :: "string option"
  gn_operator :: "node_operator option"

record onchain_issuer =
  oi_issuer :: string
  oi_client_ids :: "string list"

record onchain_removal =
  or_node :: string
  or_execute_after :: int
  or_initiator :: string

record onchain_auth_resolver =
  ar_chain_id :: int
  ar_resolver :: string
  ar_require_canonical_subject :: bool

record onchain_group_state =
  og_address :: string
  og_manager :: string
  og_threshold :: int
  og_removal_delay :: int
  og_is_operational :: bool
  og_active_nodes :: "string list"
  og_pending_nodes :: "string list"
  og_pending_removals :: "onchain_removal list"
  og_issuers :: "onchain_issuer list"
  og_auth_keys :: "string list"
  og_siwe_domains :: "string list"
  og_auth_resolver :: "onchain_auth_resolver option"
  og_pending_resolver :: "(int \<times> onchain_auth_resolver) option"

record group_view =
  gv_app :: app
  gv_nodes :: "group_node list"
  gv_onchain :: "onchain_group_state option"
  gv_sync_error :: "string option"

record credential =
  c_id :: string
  c_kind :: credential_kind
  c_label :: string
  c_last_four :: "string option"
  c_public_key :: "string option"
  c_key_hash :: "string option"
  c_onchain_status :: onchain_status
  c_last_used_at :: "string option"
  c_created_at :: string
  c_secret :: "string option"

record issuer =
  i_id :: string
  i_issuer :: string
  i_issuer_hash :: "string option"
  i_client_ids :: "string list"
  i_provider :: string
  i_label :: string
  i_enabled :: bool
  i_onchain_status :: onchain_status
  i_created_at :: string

text \<open>A platform-signed certificate, and where to present it. The certificate itself is passed on
  as the JSON object it is; the code reads its expiry only.\<close>

record node_certificate =
  nc_certificate :: json
  nc_expiry :: int
  nc_group_id :: string
  nc_node_urls :: "string list"
  nc_identity :: string

definition node_certificate_of_json :: "json \<Rightarrow> node_certificate option" where
  "node_certificate_of_json j = do {
     c \<leftarrow> jget ''certificate'' j; ex \<leftarrow> f_int ''expiry'' c; g \<leftarrow> f_str ''group_id'' j;
     ns \<leftarrow> f_list d_str ''node_urls'' j; i \<leftarrow> f_str ''identity'' j;
     Some \<lparr>nc_certificate = c, nc_expiry = ex, nc_group_id = g, nc_node_urls = ns, nc_identity = i\<rparr> }"

end
