(* ===== verification/Api.thy ===== *)
theory Api
  imports World Types
begin

text \<open>
  \<open>web/lib/api.ts\<close>: how the console talks to the platform. The URL encodings, the stored bearer
  token, the one \<open>request\<close> function every call goes through, its error, and the table of calls: a
  datatype per group of methods of the \<open>api\<close> object and the route (method, path, body) each sends.
\<close>

subsection \<open>Percent-encoding\<close>

definition is_alnum :: "char \<Rightarrow> bool" where
  "is_alnum c \<longleftrightarrow> (let n = (of_char c :: nat) in
     48 \<le> n \<and> n \<le> 57 \<or> 65 \<le> n \<and> n \<le> 90 \<or> 97 \<le> n \<and> n \<le> 122)"

definition upper_hex_digit :: "nat \<Rightarrow> char" where
  "upper_hex_digit d = (if d < 10 then char_of (48 + d) else char_of (55 + d))"

definition percent :: "char \<Rightarrow> string" where
  "percent c = [CHR ''%'', upper_hex_digit ((of_char c :: nat) div 16), upper_hex_digit ((of_char c :: nat) mod 16)]"

text \<open>\<open>encodeURIComponent\<close> on UTF-8 bytes.\<close>

definition uri_unreserved :: "char \<Rightarrow> bool" where
  "uri_unreserved c \<longleftrightarrow> is_alnum c \<or>
     c \<in> {CHR ''-'', CHR ''_'', CHR ''.'', CHR ''!'', CHR ''~'', CHR ''*'', CHR 0x27, CHR ''('', CHR '')''}"

definition encode_uri_component :: "string \<Rightarrow> string" where
  "encode_uri_component s = concat (map (\<lambda>c. if uri_unreserved c then [c] else percent c) s)"

text \<open>The serialiser of \<open>URLSearchParams\<close>: a space is a plus sign.\<close>

definition form_unreserved :: "char \<Rightarrow> bool" where
  "form_unreserved c \<longleftrightarrow> is_alnum c \<or> c \<in> {CHR ''*'', CHR ''-'', CHR ''.'', CHR ''_''}"

definition form_encode :: "string \<Rightarrow> string" where
  "form_encode s = concat (map (\<lambda>c. if c = CHR '' '' then ''+'' else if form_unreserved c then [c] else percent c) s)"

text \<open>The decoder at the other end: \<open>plus_space\<close> says whether a plus sign is a space.\<close>

fun percent_decode :: "bool \<Rightarrow> string \<Rightarrow> string option" where
  "percent_decode plus_space [] = Some []"
| "percent_decode plus_space (c # cs) =
     (if c = CHR ''%'' then
        (case cs of
           x # y # r \<Rightarrow> (case hex_val [x, y] of None \<Rightarrow> None
              | Some n \<Rightarrow> map_option (Cons (char_of n)) (percent_decode plus_space r))
         | _ \<Rightarrow> None)
      else map_option (Cons (if plus_space \<and> c = CHR ''+'' then CHR '' '' else c)) (percent_decode plus_space cs))"

datatype query_value = QStr string | QBool bool | QUndefined

definition keep_param :: "query_value \<Rightarrow> bool" where
  "keep_param v \<longleftrightarrow> v \<noteq> QUndefined \<and> v \<noteq> QStr [] \<and> v \<noteq> QBool False"

fun param_text :: "query_value \<Rightarrow> string" where
  "param_text (QStr s) = s"
| "param_text (QBool b) = (if b then ''true'' else ''false'')"
| "param_text QUndefined = ''undefined''"

definition search_params :: "(string \<times> string) list \<Rightarrow> string" where
  "search_params kvs = join_with ''&'' (map (\<lambda>(k, v). form_encode k @ ''='' @ form_encode v) kvs)"

text \<open>\<open>queryString\<close>: the keys of an object are distinct, so each \<open>set\<close> appends.\<close>

definition kept_params :: "(string \<times> query_value) list \<Rightarrow> (string \<times> string) list" where
  "kept_params ps = map (\<lambda>(k, v). (k, param_text v)) (filter (\<lambda>(k, v). keep_param v) ps)"

definition query_string :: "(string \<times> query_value) list option \<Rightarrow> string" where
  "query_string params = (case params of None \<Rightarrow> []
     | Some ps \<Rightarrow> (let s = search_params (kept_params ps) in if s \<noteq> [] then ''?'' @ s else []))"

subsection \<open>Errors\<close>

text \<open>\<open>String(v)\<close>\<close>

fun js_string :: "json \<Rightarrow> string" where
  "js_string JNull = ''null''"
| "js_string (JBool b) = (if b then ''true'' else ''false'')"
| "js_string (JNum n) = dec_of_int n"
| "js_string (JDec l) = l"
| "js_string (JStr s) = s"
| "js_string (JArr js) = join_with '','' (map (\<lambda>j. if j = JNull then [] else js_string j) js)"
| "js_string (JObj kvs) = ''[object Object]''"

definition api_error_message :: "int \<Rightarrow> json \<Rightarrow> string" where
  "api_error_message st body =
     or_else (map_option js_string (jget ''error'' body)) (''request failed ('' @ dec_of_int st @ '')'')"

definition no_session_message :: string where
  "no_session_message = ''The signing session for this tab has expired. Sign in again '' @ em_dash @ '' the key that signs on-chain actions is deliberately not kept beyond the tab.''"

fun err_message :: "jserr \<Rightarrow> string" where
  "err_message (Error m) = m"
| "err_message (TypeError m) = m"
| "err_message (ApiError st body) = api_error_message st body"
| "err_message NoSigningSessionError = no_session_message"

text \<open>The environment check carried by a refused promotion.\<close>

definition api_error_check :: "jserr \<Rightarrow> json option" where
  "api_error_check e = (case e of ApiError st body \<Rightarrow> jget ''check'' body | _ \<Rightarrow> None)"

subsection \<open>Requests\<close>

definition strip_slash :: "string \<Rightarrow> string" where
  "strip_slash s = (if s \<noteq> [] \<and> last s = CHR ''/'' then butlast s else s)"

definition api_base :: "('e env_scheme) \<Rightarrow> string" where
  "api_base E = or_else (map_option strip_slash (e_var E ''NEXT_PUBLIC_API_URL'')) ''http://localhost:8088''"

definition TOKEN_KEY :: string where "TOKEN_KEY = ''signet_platform_token''"

definition stored_token :: "('e env_scheme) \<Rightarrow> ('t, string option) io" where
  "stored_token E = (if e_ls_throws E then ret None else reads (\<lambda>t. local_storage t TOKEN_KEY))"

definition store_token :: "('e env_scheme) \<Rightarrow> string option \<Rightarrow> ('t, unit) io" where
  "store_token E token = (if e_ls_throws E then ret ()
     else if truthy_str token
       then update_tab (\<lambda>t. t\<lparr>local_storage := (local_storage t)(TOKEN_KEY \<mapsto> the token)\<rparr>)
       else update_tab (\<lambda>t. t\<lparr>local_storage := (local_storage t)(TOKEN_KEY := None)\<rparr>))"

definition bearer :: "string option \<Rightarrow> (string \<times> string) list" where
  "bearer token = (if truthy_str token then [(''Authorization'', ''Bearer '' @ the token)] else [])"

definition safe_parse :: "string \<Rightarrow> json" where
  "safe_parse text = (case json_parse text of Some j \<Rightarrow> j | None \<Rightarrow> JStr text)"

text \<open>What becomes of a reply: shared by \<open>request\<close> and \<open>nodeProxy\<close>.\<close>

definition reply_json :: "int \<times> string \<Rightarrow> jserr + json" where
  "reply_json r = (case r of (st, text) \<Rightarrow>
     (let j = (if text \<noteq> [] then safe_parse text else JNull)
      in if \<not> reply_ok st then Inl (ApiError st (if j = JNull then JStr text else j)) else Inr j))"

definition request_of :: "('e env_scheme) \<Rightarrow> string option \<Rightarrow> string \<times> string \<times> json option \<Rightarrow> http_request" where
  "request_of E token r = (case r of (meth, path, body) \<Rightarrow>
     \<lparr>url = api_base E @ path, http_method = meth,
      headers = (if body \<noteq> None then [(''Content-Type'', ''application/json'')] else []) @ bearer token,
      http_body = map_option json_print body, with_credentials = True\<rparr>)"

definition request :: "('e env_scheme) \<Rightarrow> string \<times> string \<times> json option \<Rightarrow> ('t, json) io" where
  "request E r = await (stored_token E) (\<lambda>token. await (fetch E (request_of E token r)) (\<lambda>reply.
     lift_err (reply_json reply)))"

text \<open>Forwarding a request to a node through the platform's proxy.\<close>

definition proxy_request :: "('e env_scheme) \<Rightarrow> string option \<Rightarrow> string \<Rightarrow> string \<Rightarrow> json option \<Rightarrow> string \<Rightarrow> http_request" where
  "proxy_request E token node path body meth =
     \<lparr>url = api_base E @ ''/v1/node/proxy'', http_method = ''POST'',
      headers = [(''Content-Type'', ''application/json''), (''x-node-url'', node), (''x-node-path'', path),
                 (''x-node-method'', meth)] @ bearer token,
      http_body = map_option json_print body, with_credentials = True\<rparr>"

definition node_proxy :: "('e env_scheme) \<Rightarrow> string \<Rightarrow> string \<Rightarrow> json option \<Rightarrow> string \<Rightarrow> ('t, json) io" where
  "node_proxy E node path body meth = await (stored_token E) (\<lambda>token.
     await (fetch E (proxy_request E token node path body meth)) (\<lambda>reply. lift_err (reply_json reply)))"

subsection \<open>The table of calls\<close>

type_synonym route = "string \<times> string \<times> json option"

definition p_get :: "string \<Rightarrow> route" where "p_get path = (''GET'', path, None)"
definition p_post :: "string \<Rightarrow> json option \<Rightarrow> route" where "p_post path body = (''POST'', path, body)"
definition p_patch :: "string \<Rightarrow> json option \<Rightarrow> route" where "p_patch path body = (''PATCH'', path, body)"
definition p_put :: "string \<Rightarrow> json option \<Rightarrow> route" where "p_put path body = (''PUT'', path, body)"
definition p_del :: "string \<Rightarrow> json option \<Rightarrow> route" where "p_del path body = (''DELETE'', path, body)"

lemmas verb_defs = p_get_def p_post_def p_patch_def p_put_def p_del_def

definition str_field :: "string \<Rightarrow> string \<Rightarrow> string \<times> json option" where
  "str_field k v = (k, Some (JStr v))"

definition opt_field :: "string \<Rightarrow> string option \<Rightarrow> string \<times> json option" where
  "opt_field k v = (k, map_option JStr v)"

text \<open>\<open>{ ...proof, k: v }\<close>\<close>

fun jspread :: "json \<Rightarrow> (string \<times> json option) list \<Rightarrow> json" where
  "jspread (JObj kvs) fs = JObj (filter (\<lambda>(k, v). k \<notin> set (map fst fs)) kvs @ jobj_fields fs)"
| "jspread _ fs = jobj fs"

datatype public_call =
    GetConfig
  | GetStatus
  | GetWebhookEvents
  | GetStaffOverview
  | GetNodeOperators "(string \<times> query_value) list option"
  | GetNodeOperator string

fun public_route :: "public_call \<Rightarrow> route" where
  "public_route GetConfig = p_get ''/v1/config''"
| "public_route GetStatus = p_get ''/v1/status''"
| "public_route GetWebhookEvents = p_get ''/v1/webhooks/events''"
| "public_route GetStaffOverview = p_get ''/v1/staff/overview''"
| "public_route (GetNodeOperators params) = p_get (''/v1/marketplace/nodes'' @ query_string params)"
| "public_route (GetNodeOperator address) = p_get (''/v1/marketplace/nodes/'' @ encode_uri_component address)"

datatype auth_call =
    PostChallenge string "string option"
  | PostVerify json
  | PostLogout
  | PostNodeCertificate string
  | PutSignetKey json
  | GetMe
  | PatchMe json
  | GetMyApps
  | PostAcceptInvite string

fun auth_route :: "auth_call \<Rightarrow> route" where
  "auth_route (PostChallenge meth address) =
     p_post ''/v1/auth/challenge'' (Some (jobj [str_field ''method'' meth, opt_field ''address'' address]))"
| "auth_route (PostVerify body) = p_post ''/v1/auth/verify'' (Some body)"
| "auth_route PostLogout = p_post ''/v1/auth/logout'' None"
| "auth_route (PostNodeCertificate session_pub) =
     p_post ''/v1/auth/node-certificate'' (Some (jobj [str_field ''session_pub'' session_pub]))"
| "auth_route (PutSignetKey body) = p_put ''/v1/me/signet-key'' (Some body)"
| "auth_route GetMe = p_get ''/v1/me''"
| "auth_route (PatchMe body) = p_patch ''/v1/me'' (Some body)"
| "auth_route GetMyApps = p_get ''/v1/me/apps''"
| "auth_route (PostAcceptInvite token) =
     p_post (''/v1/invites/'' @ encode_uri_component token @ ''/accept'') None"

definition org_path :: "string \<Rightarrow> string \<Rightarrow> string" where
  "org_path orgId rest = ''/v1/orgs/'' @ orgId @ rest"

datatype org_call =
    GetOrgs
  | PostOrg string "string option"
  | GetOrg string
  | PatchOrg string json
  | GetMembers string
  | PatchMemberRole string string string
  | DelMember string string
  | GetInvites string
  | PostInvite string string string
  | DelInvite string string
  | GetOrgAudit string
  | GetAssets string
  | DelAsset string string
  | GetBilling string
  | PatchBilling string json
  | GetInvoices string
  | PostDraftInvoice string "json option"

fun org_route :: "org_call \<Rightarrow> route" where
  "org_route GetOrgs = p_get ''/v1/orgs''"
| "org_route (PostOrg nm billing_email) =
     p_post ''/v1/orgs'' (Some (jobj [str_field ''name'' nm, opt_field ''billing_email'' billing_email]))"
| "org_route (GetOrg orgId) = p_get (org_path orgId [])"
| "org_route (PatchOrg orgId body) = p_patch (org_path orgId []) (Some body)"
| "org_route (GetMembers orgId) = p_get (org_path orgId ''/members'')"
| "org_route (PatchMemberRole orgId userId rl) =
     p_patch (org_path orgId (''/members/'' @ userId)) (Some (jobj [str_field ''role'' rl]))"
| "org_route (DelMember orgId userId) = p_del (org_path orgId (''/members/'' @ userId)) None"
| "org_route (GetInvites orgId) = p_get (org_path orgId ''/invites'')"
| "org_route (PostInvite orgId email rl) =
     p_post (org_path orgId ''/invites'') (Some (jobj [str_field ''email'' email, str_field ''role'' rl]))"
| "org_route (DelInvite orgId inviteId) = p_del (org_path orgId (''/invites/'' @ inviteId)) None"
| "org_route (GetOrgAudit orgId) = p_get (org_path orgId ''/audit'')"
| "org_route (GetAssets orgId) = p_get (org_path orgId ''/assets'')"
| "org_route (DelAsset orgId assetId) = p_del (org_path orgId (''/assets/'' @ assetId)) None"
| "org_route (GetBilling orgId) = p_get (org_path orgId ''/billing'')"
| "org_route (PatchBilling orgId body) = p_patch (org_path orgId ''/billing'') (Some body)"
| "org_route (GetInvoices orgId) = p_get (org_path orgId ''/invoices'')"
| "org_route (PostDraftInvoice orgId body) =
     p_post (org_path orgId ''/invoices/draft'') (Some (case body of None \<Rightarrow> JObj [] | Some b \<Rightarrow> b))"

definition app_path :: "string \<Rightarrow> string \<Rightarrow> string" where
  "app_path appId rest = ''/v1/apps/'' @ appId @ rest"

datatype app_call =
    GetApps string
  | PostApp string json
  | GetApp string
  | PatchApp string json
  | DelApp string
  | GetEnvironmentCheck string string
  | GetSettings string
  | PutSettings string string json
  | GetDomains string
  | PostDomain string string
  | DelDomain string string
  | GetCredentials string
  | PostCredential string json
  | DelCredential string string "json option"
  | GetIssuers string
  | PutIssuer string json
  | DelIssuer string string "json option"

fun app_route :: "app_call \<Rightarrow> route" where
  "app_route (GetApps orgId) = p_get (org_path orgId ''/apps'')"
| "app_route (PostApp orgId body) = p_post (org_path orgId ''/apps'') (Some body)"
| "app_route (GetApp appId) = p_get (app_path appId [])"
| "app_route (PatchApp appId body) = p_patch (app_path appId []) (Some body)"
| "app_route (DelApp appId) = p_del (app_path appId []) None"
| "app_route (GetEnvironmentCheck appId to) = p_get (app_path appId (''/environment/check?to='' @ to))"
| "app_route (GetSettings appId) = p_get (app_path appId ''/settings'')"
| "app_route (PutSettings appId sec doc) = p_put (app_path appId (''/settings/'' @ sec)) (Some doc)"
| "app_route (GetDomains appId) = p_get (app_path appId ''/domains'')"
| "app_route (PostDomain appId orig) = p_post (app_path appId ''/domains'') (Some (jobj [str_field ''origin'' orig]))"
| "app_route (DelDomain appId domainId) = p_del (app_path appId (''/domains/'' @ domainId)) None"
| "app_route (GetCredentials appId) = p_get (app_path appId ''/credentials'')"
| "app_route (PostCredential appId body) = p_post (app_path appId ''/credentials'') (Some body)"
| "app_route (DelCredential appId credentialId proof) = p_del (app_path appId (''/credentials/'' @ credentialId)) proof"
| "app_route (GetIssuers appId) = p_get (app_path appId ''/issuers'')"
| "app_route (PutIssuer appId body) = p_put (app_path appId ''/issuers'') (Some body)"
| "app_route (DelIssuer appId issuerId proof) = p_del (app_path appId (''/issuers/'' @ issuerId)) proof"

datatype group_call =
    GetGroup string
  | PostDeployGroup string json
  | PostExecuteGroupCall string json string
  | PostAttachGroup string string "string option"
  | PostSyncGroup string

fun group_route :: "group_call \<Rightarrow> route" where
  "group_route (GetGroup appId) = p_get (app_path appId ''/group'')"
| "group_route (PostDeployGroup appId body) = p_post (app_path appId ''/group/deploy'') (Some body)"
| "group_route (PostExecuteGroupCall appId proof act) =
     p_post (app_path appId ''/group/execute'') (Some (jspread proof [str_field ''action'' act]))"
| "group_route (PostAttachGroup appId group_address group_public_key) =
     p_post (app_path appId ''/group/attach'')
       (Some (jobj [str_field ''group_address'' group_address, opt_field ''group_public_key'' group_public_key]))"
| "group_route (PostSyncGroup appId) = p_post (app_path appId ''/group/sync'') None"

datatype wallet_call =
    GetKeys string "(string \<times> query_value) list option"
  | PostSyncKeys string json
  | PatchKey string string string json
  | GetAppUsers string "(string \<times> query_value) list option"
  | PatchAppUser string string string
  | GetDelegations string bool
  | PostDelegation string json
  | DelDelegation string string

fun wallet_route :: "wallet_call \<Rightarrow> route" where
  "wallet_route (GetKeys appId params) = p_get (app_path appId (''/keys'' @ query_string params))"
| "wallet_route (PostSyncKeys appId keys) = p_post (app_path appId ''/keys/sync'') (Some (jobj [(''keys'', Some keys)]))"
| "wallet_route (PatchKey appId crv keyId body) =
     p_patch (app_path appId (''/keys/'' @ crv @ ''/'' @ encode_uri_component keyId)) (Some body)"
| "wallet_route (GetAppUsers appId params) = p_get (app_path appId (''/users'' @ query_string params))"
| "wallet_route (PatchAppUser appId userId label) =
     p_patch (app_path appId (''/users/'' @ userId)) (Some (jobj [str_field ''label'' label]))"
| "wallet_route (GetDelegations appId include_revoked) =
     p_get (app_path appId (''/delegations'' @ (if include_revoked then ''?include_revoked=true'' else [])))"
| "wallet_route (PostDelegation appId body) = p_post (app_path appId ''/delegations'') (Some body)"
| "wallet_route (DelDelegation appId delegationId) = p_del (app_path appId (''/delegations/'' @ delegationId)) None"

datatype ops_call =
    GetPolicies string
  | PutPolicy string json
  | DelPolicy string string
  | GetWebhooks string
  | PostWebhook string json
  | PatchWebhook string string json
  | DelWebhook string string
  | GetDeliveries string string
  | PostTestWebhook string string
  | GetUsage string "(string \<times> query_value) list option"
  | GetAppAudit string
  | PostPresign json

fun ops_route :: "ops_call \<Rightarrow> route" where
  "ops_route (GetPolicies appId) = p_get (app_path appId ''/policies'')"
| "ops_route (PutPolicy appId body) = p_put (app_path appId ''/policies'') (Some body)"
| "ops_route (DelPolicy appId policyId) = p_del (app_path appId (''/policies/'' @ policyId)) None"
| "ops_route (GetWebhooks appId) = p_get (app_path appId ''/webhooks'')"
| "ops_route (PostWebhook appId body) = p_post (app_path appId ''/webhooks'') (Some body)"
| "ops_route (PatchWebhook appId webhookId body) = p_patch (app_path appId (''/webhooks/'' @ webhookId)) (Some body)"
| "ops_route (DelWebhook appId webhookId) = p_del (app_path appId (''/webhooks/'' @ webhookId)) None"
| "ops_route (GetDeliveries appId webhookId) = p_get (app_path appId (''/webhooks/'' @ webhookId @ ''/deliveries''))"
| "ops_route (PostTestWebhook appId webhookId) = p_post (app_path appId (''/webhooks/'' @ webhookId @ ''/test'')) None"
| "ops_route (GetUsage appId params) = p_get (app_path appId (''/usage'' @ query_string params))"
| "ops_route (GetAppAudit appId) = p_get (app_path appId ''/audit'')"
| "ops_route (PostPresign body) = p_post ''/v1/uploads/presign'' (Some body)"

text \<open>\<open>uploadFile\<close>: presign, then a PUT of the bytes, which carries no credential of the console.\<close>

record upload_opts =
  up_org_id :: string
  up_app_id :: "string option"
  up_scope :: "string option"

record upload =
  file_name :: string
  file_type :: string
  file_size :: int
  file_text :: string

definition upload_file :: "('e env_scheme) \<Rightarrow> upload \<Rightarrow> upload_opts \<Rightarrow> ('t, string) io" where
  "upload_file E f opts =
     (let ctype = (if file_type f = [] then ''application/octet-stream'' else file_type f) in
     await (request E (ops_route (PostPresign (jobj
       [str_field ''org_id'' (up_org_id opts), opt_field ''app_id'' (up_app_id opts),
        str_field ''filename'' (file_name f), str_field ''content_type'' ctype,
        str_field ''scope'' (case up_scope opts of None \<Rightarrow> ''misc'' | Some sc \<Rightarrow> sc),
        (''byte_size'', Some (JNum (file_size f)))])))) (\<lambda>j.
     case (f_str ''upload_url'' j, f_str ''public_url'' j) of
       (Some upload_url, Some public_url) \<Rightarrow>
         await (fetch E \<lparr>url = upload_url, http_method = ''PUT'', headers = [(''Content-Type'', ctype)],
           http_body = Some (file_text f), with_credentials = False\<rparr>) (\<lambda>(st, text).
         if \<not> reply_ok st then throw (Error (''upload failed ('' @ dec_of_int st @ '')'')) else ret public_url)
     | _ \<Rightarrow> throw (TypeError ''unexpected reply shape'')))"

text \<open>A call whose reply is read at its declared type.\<close>

definition typed :: "(json \<Rightarrow> 'a option) \<Rightarrow> ('t \<Rightarrow> (jserr + json) \<times> 't) \<Rightarrow> 't \<Rightarrow> (jserr + 'a) \<times> 't" where
  "typed d m = await m (\<lambda>j. case d j of Some x \<Rightarrow> ret x | None \<Rightarrow> throw (TypeError ''unexpected reply shape''))"

subsection \<open>Lemmas\<close>

lemma stored_token_apply [io_simps]: "stored_token E t = (Inr (if e_ls_throws E then None else local_storage t TOKEN_KEY), t)"
  by (simp add: stored_token_def io_simps)

lemma request_apply: "request E r t =
   (let req = request_of E (if e_ls_throws E then None else local_storage t TOKEN_KEY) r;
        t' = t\<lparr>trace := trace t @ [Fetch req]\<rparr>
    in (case e_fetch E (trace t) req of Rejected m \<Rightarrow> (Inl (TypeError m), t') | Reply st txt \<Rightarrow> (reply_json (st, txt), t')))"
  by (auto simp: request_def await_def io_simps Let_def split: http_reply.splits)

text \<open>Every request of the module adds exactly one fetch to the trace, and it goes to the platform.\<close>

definition to_platform :: "('e env_scheme) \<Rightarrow> event \<Rightarrow> bool" where
  "to_platform E e = (case e of Fetch req \<Rightarrow> starts_with (api_base E) (url req) | _ \<Rightarrow> False)"

lemma request_appends [keeps_intros]:
  "(\<And>token. P (Fetch (request_of E token r))) \<Longrightarrow> keeps (appends P) (request E r)"
  unfolding request_def stored_token_def by (intro keeps_intros)

lemma request_same_session [keeps_intros]: "keeps same_session (request E r)"
  unfolding request_def stored_token_def by (intro keeps_intros)

lemma request_to_platform: "keeps (appends (to_platform E)) (request E r)"
  by (intro request_appends) (simp add: to_platform_def request_of_def split: prod.splits)

lemma keeps_typed [keeps_intros]: "frame R \<Longrightarrow> keeps R m \<Longrightarrow> keeps R (typed d m)"
  unfolding typed_def by (auto intro!: frame.keeps_await frame.keeps_ret frame.keeps_throw split: option.splits)

lemma store_token_silent [keeps_intros]: "keeps (appends P) (store_token E tok)" "keeps same_session (store_token E tok)"
  unfolding store_token_def by (intro keeps_intros; simp add: appends_def same_session_def)+

subsection \<open>Percent-encoding is a code\<close>

lemma percent_decode_percent: "percent_decode b (percent c @ s) = map_option (Cons c) (percent_decode b s)"
proof -
  let ?n = "of_char c :: nat"
  have lt: "?n < 256" by simp
  have d: "hex_digit_val (upper_hex_digit d) = Some d" if "d < 16" for d
    using that by (simp add: upper_hex_digit_def hex_digit_val_def Let_def)
  have "?n div 16 < 16" and "?n mod 16 < 16" using lt by (simp_all add: less_mult_imp_div_less)
  with d have "hex_val [upper_hex_digit (?n div 16), upper_hex_digit (?n mod 16)] = Some ?n"
    by (simp add: hex_val_def is_hex_def value_of_def)
  then show ?thesis by (simp add: percent_def)
qed

lemma percent_decode_plain: "c \<noteq> CHR ''%'' \<Longrightarrow> \<not> (b \<and> c = CHR ''+'') \<Longrightarrow>
    percent_decode b (c # s) = map_option (Cons c) (percent_decode b s)"
  by (cases "b \<and> c = CHR ''+''") auto

lemma unreserved_plain: "uri_unreserved c \<Longrightarrow> c \<noteq> CHR ''%''"
  "form_unreserved c \<Longrightarrow> c \<noteq> CHR ''%'' \<and> c \<noteq> CHR ''+'' \<and> c \<noteq> CHR '' ''"
  by (auto simp: uri_unreserved_def form_unreserved_def is_alnum_def Let_def)

lemma encode_uri_Cons: "encode_uri_component (c # s) =
    (if uri_unreserved c then [c] else percent c) @ encode_uri_component s"
  by (simp add: encode_uri_component_def)

lemma uri_roundtrip: "percent_decode False (encode_uri_component s) = Some s"
proof (induction s)
  case (Cons c s)
  then show ?case
    using unreserved_plain(1) [of c]
    by (auto simp: encode_uri_Cons percent_decode_percent simp del: percent_decode.simps(2))
      (simp add: percent_decode_plain)
qed (simp add: encode_uri_component_def)

lemma form_encode_Cons: "form_encode (c # s) =
    (if c = CHR '' '' then ''+'' else if form_unreserved c then [c] else percent c) @ form_encode s"
  by (simp add: form_encode_def)

lemma form_roundtrip: "percent_decode True (form_encode s) = Some s"
proof (induction s)
  case (Cons c s)
  consider "c = CHR '' ''" | "c \<noteq> CHR '' ''" "form_unreserved c" | "c \<noteq> CHR '' ''" "\<not> form_unreserved c" by blast
  then show ?case
  proof cases
    case 1
    with Cons show ?thesis by (simp add: form_encode_Cons)
  next
    case 2
    with Cons unreserved_plain(2) [of c] show ?thesis by (simp add: form_encode_Cons)
  next
    case 3
    with Cons show ?thesis by (simp add: form_encode_Cons percent_decode_percent del: percent_decode.simps(2))
  qed
qed (simp add: form_encode_def)

lemma upper_hex_digit_alnum: "d < 16 \<Longrightarrow> is_alnum (upper_hex_digit d)"
  by (simp add: upper_hex_digit_def is_alnum_def Let_def)

lemma percent_chars: "x \<in> set (percent c) \<Longrightarrow> x = CHR ''%'' \<or> is_alnum x"
proof -
  have "(of_char c :: nat) div 16 < 16" "(of_char c :: nat) mod 16 < 16" by (simp_all add: less_mult_imp_div_less)
  then show "x \<in> set (percent c) \<Longrightarrow> x = CHR ''%'' \<or> is_alnum x"
    using upper_hex_digit_alnum by (auto simp: percent_def)
qed

lemma encode_uri_chars: "x \<in> set (encode_uri_component s) \<Longrightarrow> x = CHR ''%'' \<or> uri_unreserved x"
  by (auto simp: encode_uri_component_def uri_unreserved_def dest: percent_chars split: if_splits)

lemma form_encode_chars: "x \<in> set (form_encode s) \<Longrightarrow> x = CHR ''%'' \<or> x = CHR ''+'' \<or> form_unreserved x"
  by (auto simp: form_encode_def form_unreserved_def dest: percent_chars split: if_splits)

lemma encode_uri_no_delim: "CHR ''/'' \<notin> set (encode_uri_component s)"
  "CHR ''?'' \<notin> set (encode_uri_component s)" "CHR ''#'' \<notin> set (encode_uri_component s)"
  by (auto dest!: encode_uri_chars simp: uri_unreserved_def is_alnum_def)

lemma form_no_delim: "CHR ''&'' \<notin> set (form_encode s)" "CHR ''='' \<notin> set (form_encode s)"
  by (auto dest!: form_encode_chars simp: form_unreserved_def is_alnum_def)

text \<open>The contract of a URL encoding: it can be undone, and it never writes a delimiter.\<close>

locale url_encoding =
  fixes enc :: "string \<Rightarrow> string" and dec :: "string \<Rightarrow> string option" and delims :: "char set"
  assumes url_dec_enc: "dec (enc s) = Some s"
    and url_no_delim: "d \<in> delims \<Longrightarrow> d \<notin> set (enc s)"
begin

lemma url_enc_inj: "enc r = enc s \<longleftrightarrow> r = s"
  by (metis option.inject url_dec_enc)

lemma url_split_enc: "d \<in> delims \<Longrightarrow> split_on d (enc s) = [enc s]"
  by (simp add: split_on_no_sep url_no_delim)

lemma url_split_enc_append: "d \<in> delims \<Longrightarrow> split_on d (enc s @ d # r) = enc s # split_on d r"
  by (simp add: split_on_append url_no_delim)

lemma url_split_join: "d \<in> delims \<Longrightarrow> ss \<noteq> [] \<Longrightarrow> split_on d (join_with [d] (map enc ss)) = map enc ss"
  by (intro split_join) (auto simp: url_no_delim)

end

interpretation uri: url_encoding encode_uri_component "percent_decode False" "{CHR ''/'', CHR ''?'', CHR ''#''}"
  by unfold_locales (auto simp: uri_roundtrip encode_uri_no_delim)

interpretation form: url_encoding form_encode "percent_decode True" "{CHR ''&'', CHR ''=''}"
  by unfold_locales (auto simp: form_roundtrip form_no_delim)

text \<open>What a server reads back from a query string: pairs between ampersands, each split at its
  equals sign and decoded.\<close>

definition parse_pair :: "string \<Rightarrow> (string \<times> string) option" where
  "parse_pair p = (case split_on (CHR ''='') p of
     [k, v] \<Rightarrow> (case (percent_decode True k, percent_decode True v) of (Some k', Some v') \<Rightarrow> Some (k', v') | _ \<Rightarrow> None)
   | _ \<Rightarrow> None)"

definition parse_query :: "string \<Rightarrow> (string \<times> string) list option" where
  "parse_query q = (case q of [] \<Rightarrow> Some [] | c # s \<Rightarrow>
     if c = CHR ''?'' then those (map parse_pair (split_on (CHR ''&'') s)) else None)"

lemma parse_pair_encoded: "parse_pair (form_encode k @ ''='' @ form_encode v) = Some (k, v)"
  using form.url_split_enc_append [of "CHR ''=''" k "form_encode v"] form.url_split_enc [of "CHR ''=''" v]
  by (simp add: parse_pair_def form_roundtrip)

lemma those_map_Some: "those (map (\<lambda>x. Some (f x)) xs) = Some (map f xs)"
  by (induction xs) auto

lemma search_params_pairs:
  assumes "kvs \<noteq> []"
  shows "split_on (CHR ''&'') (search_params kvs) = map (\<lambda>(k, v). form_encode k @ ''='' @ form_encode v) kvs"
  unfolding search_params_def using assms form_no_delim by (intro split_join) auto

lemma search_params_Nil_iff: "search_params kvs = [] \<longleftrightarrow> kvs = []"
  by (cases kvs; cases "tl kvs") (auto simp: search_params_def)

text \<open>Whatever the parameters, the query string the console sends reads back as exactly the
  parameters that are set (not undefined, empty or false), in order, no matter which characters
  their names and values contain.\<close>

theorem query_string_roundtrip:
  "parse_query (query_string (Some ps)) = Some (kept_params ps)"
proof (cases "kept_params ps = []")
  case True
  then show ?thesis by (simp add: query_string_def parse_query_def search_params_def)
next
  case False
  have "those (map (parse_pair \<circ> (\<lambda>(k, v). form_encode k @ ''='' @ form_encode v)) (kept_params ps)) =
      those (map Some (kept_params ps))"
    by (intro arg_cong [where f = those] map_cong refl) (auto simp: parse_pair_encoded simp del: append_Cons append_Nil)
  also have "\<dots> = Some (kept_params ps)"
    using those_map_Some [of "\<lambda>x. x"] by simp
  finally show ?thesis
    using False search_params_pairs [OF False]
    by (simp add: query_string_def parse_query_def search_params_Nil_iff)
qed

text \<open>An invitation token, an operator address or a key id taken from outside stays one path
  segment: splitting the path at its slashes gives the fixed segments of the route and the
  encoded value, which decodes to the value sent.\<close>

theorem encoded_segment_safe:
  "split_on (CHR ''/'') (fst (snd (auth_route (PostAcceptInvite token)))) =
     [[], ''v1'', ''invites'', encode_uri_component token, ''accept''] \<and>
   split_on (CHR ''/'') (fst (snd (public_route (GetNodeOperator token)))) =
     [[], ''v1'', ''marketplace'', ''nodes'', encode_uri_component token] \<and>
   percent_decode False (encode_uri_component token) = Some token"
  using uri.url_split_enc_append [of "CHR ''/''" token] uri.url_split_enc [of "CHR ''/''" token]
  by (simp_all add: verb_defs uri.url_dec_enc)

end
