(* ===== verification/Signet.thy ===== *)
theory Signet
  imports Session_Key Siwe Api
begin

text \<open>
  \<open>web/lib/signet.ts\<close>: client-side sign-in. The login stages and their copy, the login nonce in
  the session storage, sign-in with an Ethereum wallet, the request that asks the bootstrap group
  to threshold-sign a digest, and the read of the counterfactual smart-account address. The
  SDK's \<open>signSignRequest\<close> and viem's contract read are arguments of the environment.
\<close>

record signet_env = env +
  e_host :: string
  e_origin :: string
  sdk_sign_request :: "event list \<Rightarrow> keypair \<Rightarrow> json \<Rightarrow> string \<Rightarrow> byte list \<Rightarrow> string option \<Rightarrow> string + json"
  sdk_account_address :: "event list \<Rightarrow> network_config \<Rightarrow> string \<Rightarrow> string + string"

subsection \<open>Stages and nonce\<close>

datatype login_stage =
    L_challenge | L_oauth | L_session_key | L_proving | L_registering | L_keygen | L_signing | L_verifying

fun stage_copy :: "login_stage \<Rightarrow> string" where
  "stage_copy L_challenge = ''Requesting a sign-in challenge''"
| "stage_copy L_oauth = ''Redirecting to your identity provider''"
| "stage_copy L_session_key = ''Generating an ephemeral session key''"
| "stage_copy L_proving = ''Proving your credential in zero knowledge''"
| "stage_copy L_registering = ''Registering the session with the signing group''"
| "stage_copy L_keygen = ''Locating your key across the group''"
| "stage_copy L_signing = ''Asking the group to sign the challenge''"
| "stage_copy L_verifying = ''Verifying the threshold signature''"

definition NONCE_KEY :: string where "NONCE_KEY = ''signet_login_nonce''"

definition remember_nonce :: "('e env_scheme) \<Rightarrow> string \<Rightarrow> ('t, unit) io" where
  "remember_nonce E nonce = ss_set E NONCE_KEY nonce"

definition recall_nonce :: "('e env_scheme) \<Rightarrow> ('t, string option) io" where
  "recall_nonce E = ss_get E NONCE_KEY"

definition forget_nonce :: "('e env_scheme) \<Rightarrow> ('t, unit) io" where
  "forget_nonce E = ss_remove E NONCE_KEY"

subsection \<open>Sign-in with Ethereum\<close>

type_synonym provider = "event list \<Rightarrow> string \<Rightarrow> json list \<Rightarrow> string + json"

definition injected_provider :: "('e env_scheme) \<Rightarrow> provider option" where
  "injected_provider E = e_wallet E"

definition wallet_request :: "provider \<Rightarrow> string \<Rightarrow> json list \<Rightarrow> ('t, json) io" where
  "wallet_request p meth params = external (Wallet meth params) (\<lambda>h. p h meth params)"

text \<open>\<open>accounts?.[0]\<close> of what \<open>eth_requestAccounts\<close> answers: the first account, if there is one.\<close>

fun first_account :: "json \<Rightarrow> string option" where
  "first_account (JArr (JStr a # _)) = Some a"
| "first_account _ = None"

definition as_string :: "json \<Rightarrow> jserr + string" where
  "as_string j = (case j of JStr s \<Rightarrow> Inr s | _ \<Rightarrow> Inl (TypeError ''not a string''))"

record challenge =
  ch_nonce :: string
  ch_statement :: string
  ch_digest :: "string option"
  ch_domain :: "string option"
  ch_chain_id :: "int option"
  ch_uri :: "string option"

definition challenge_of_json :: "json \<Rightarrow> challenge option" where
  "challenge_of_json j = do {
     n \<leftarrow> f_str ''nonce'' j; st \<leftarrow> f_str ''statement'' j; dg \<leftarrow> f_optional ''digest'' j;
     dm \<leftarrow> f_optional ''domain'' j; ci \<leftarrow> f_int_optional ''chain_id'' j; u \<leftarrow> f_optional ''uri'' j;
     Some \<lparr>ch_nonce = n, ch_statement = st, ch_digest = dg, ch_domain = dm, ch_chain_id = ci, ch_uri = u\<rparr> }"

definition dflt :: "'a option \<Rightarrow> 'a \<Rightarrow> 'a" where
  \<comment> \<open>\<open>x ?? d\<close>\<close>
  "dflt x d = (case x of None \<Rightarrow> d | Some v \<Rightarrow> v)"

definition siwe_fields_of :: "('e signet_env_scheme) \<Rightarrow> challenge \<Rightarrow> string \<Rightarrow> siwe_fields" where
  "siwe_fields_of E c address =
     \<lparr>sf_domain = dflt (ch_domain c) (e_host E), sf_address = address, sf_statement = ch_statement c,
      sf_uri = dflt (ch_uri c) (e_origin E), sf_chain_id = dflt (ch_chain_id c) 1, sf_nonce = ch_nonce c\<rparr>"

definition siwe_sign_in :: "('e signet_env_scheme) \<Rightarrow> challenge \<Rightarrow> ('t, string \<times> string \<times> string) io" where
  "siwe_sign_in E c = (case injected_provider E of
     None \<Rightarrow> throw (Error ''No Ethereum wallet was found in this browser. Install one, or sign in with Signet instead.'')
   | Some p \<Rightarrow>
       await (wallet_request p ''eth_requestAccounts'' []) (\<lambda>accounts.
       if \<not> truthy_str (first_account accounts) then throw (Error ''Your wallet did not return an account.'')
       else
         await (date_now E) (\<lambda>now.
         let address = the (first_account accounts);
             message = build_siwe_message (siwe_fields_of E c address) (nat now)
         in await (wallet_request p ''personal_sign'' [JStr message, JStr address]) (\<lambda>j.
            await (lift_err (as_string j)) (\<lambda>signature.
            ret (address, message, signature))))))"

subsection \<open>Threshold signing\<close>

text \<open>\<open>hostOf\<close>, on the http and https URLs operators have; anything else is shown as it is.\<close>

definition host_of :: "string \<Rightarrow> string" where
  "host_of u =
     (let l = to_lower u;
          rest = (if starts_with ''https://'' l then Some (drop 8 u)
                  else if starts_with ''http://'' l then Some (drop 7 u) else None)
      in case rest of None \<Rightarrow> u
         | Some r \<Rightarrow> to_lower (takeWhile (\<lambda>c. c \<notin> {CHR ''/'', CHR ''?'', CHR ''#''}) r))"

record sign_request =
  sr_network :: network_config
  sr_keypair :: keypair
  sr_claims :: json
  sr_digest_hex :: string
  sr_identity :: "string option"
  sr_node_url :: "string option"

text \<open>\<open>x ?? y\<close> on JSON: \<open>null\<close> counts as missing.\<close>

definition nullish :: "json option \<Rightarrow> json option \<Rightarrow> json option" where
  "nullish x y = (case x of None \<Rightarrow> y | Some JNull \<Rightarrow> y | Some v \<Rightarrow> Some v)"

definition expired_message :: string where
  "expired_message = ''Your signing session has expired '' @ em_dash @ '' they last about an hour, for as long as the '' @
     ''Google credential they were proved from. Sign in again to continue.''"

definition bootstrap_fetch :: "('e env_scheme) \<Rightarrow> string \<Rightarrow> string \<Rightarrow> json \<Rightarrow> http_request" where
  "bootstrap_fetch E node path body = \<lparr>url = api_base E @ ''/v1/node/bootstrap-proxy'', http_method = ''POST'',
     headers = [(''Content-Type'', ''application/json''), (''x-node-url'', node), (''x-node-path'', path)],
     http_body = Some (json_print body), with_credentials = False\<rparr>"

definition signature_of :: "string \<Rightarrow> jserr + string" where
  "signature_of text = (case parse_json text of Inl e \<Rightarrow> Inl e
   | Inr body \<Rightarrow> (case (read_field ''ethereum_signature'' body, read_field ''signature'' body) of
       (Inr a, Inr b) \<Rightarrow> (let s = jstr (nullish a b) in
          if truthy_str s then Inr (the s) else Inl (Error ''The group returned no signature.''))
     | (Inl e, _) \<Rightarrow> Inl e | (_, Inl e) \<Rightarrow> Inl e))"

definition chosen_node :: "sign_request \<Rightarrow> string option" where
  "chosen_node r = (case sr_node_url r of Some u \<Rightarrow> Some u
     | None \<Rightarrow> (case n_bootstrap_nodes (sr_network r) of [] \<Rightarrow> None | n # _ \<Rightarrow> Some n))"

definition sign_with_bootstrap_group :: "('e signet_env_scheme) \<Rightarrow> sign_request \<Rightarrow> ('t, string) io" where
  "sign_with_bootstrap_group E r =
     await (external (Sdk ''signSignRequest'' [n_bootstrap_group (sr_network r), sr_digest_hex r])
       (\<lambda>h. sdk_sign_request E h (sr_keypair r) (sr_claims r) (n_bootstrap_group (sr_network r))
              (hex_to_bytes (sr_digest_hex r)) (sr_identity r))) (\<lambda>sreq.
     if \<not> truthy_str (chosen_node r) then throw (Error ''This deployment has no bootstrap nodes configured.'')
     else
       (let node = the (chosen_node r) in
       await (fetch E (bootstrap_fetch E node ''/v1/sign''
         (jspread sreq [str_field ''curve'' ''frost_secp256k1'']))) (\<lambda>(st, text).
       if \<not> reply_ok st then
         (if st = 401 then seq (clear_signing_session E) (throw (Error expired_message))
          else throw (Error (host_of node @ '' could not sign the challenge: '' @ text)))
       else lift_err (signature_of text))))"

subsection \<open>The smart account\<close>

definition normalize_hex :: "string \<Rightarrow> string" where
  "normalize_hex v = (if starts_with ''0x'' v then v else ''0x'' @ v)"

definition counterfactual_account :: "('e signet_env_scheme) \<Rightarrow> network_config \<Rightarrow> string \<Rightarrow> ('t, string option) io" where
  "counterfactual_account E network group_key =
     (if n_account_factory_address network = [] \<or> n_account_factory_address network = ''0x'' then ret None
      else try_catch
        (await (external (Sdk ''readContract'' [''getAddress'', n_account_factory_address network,
             n_entrypoint_address network, normalize_hex group_key, ''0''])
           (\<lambda>h. sdk_account_address E h network (normalize_hex group_key))) (\<lambda>a. ret (Some a)))
        (\<lambda>_. ret None))"

subsection \<open>Frames\<close>

lemma wallet_request_appends [keeps_intros]: "P (Wallet m ps) \<Longrightarrow> keeps (appends P) (wallet_request p m ps)"
  unfolding wallet_request_def by (intro keeps_intros)

lemma wallet_request_session [keeps_intros]: "keeps same_session (wallet_request p m ps)"
  unfolding wallet_request_def by (intro keeps_intros)

lemma counterfactual_session [keeps_intros]: "keeps same_session (counterfactual_account E n k)"
  unfolding counterfactual_account_def by (intro keeps_intros)

lemma counterfactual_appends [keeps_intros]:
  "(\<And>as. P (Sdk ''readContract'' as)) \<Longrightarrow> keeps (appends P) (counterfactual_account E n k)"
  unfolding counterfactual_account_def by (intro keeps_intros)

lemma counterfactual_total: "\<exists>a t'. counterfactual_account E n k t = (Inr a, t')"
  unfolding counterfactual_account_def
  by (auto simp: ret_def intro!: try_catch_total [simplified ret_def])

text \<open>The two events of a signing request, and what it leaves in the session storage.\<close>

definition sign_events :: "('e env_scheme) \<Rightarrow> sign_request \<Rightarrow> event \<Rightarrow> bool" where
  "sign_events E r e \<longleftrightarrow> e = Sdk ''signSignRequest'' [n_bootstrap_group (sr_network r), sr_digest_hex r] \<or>
     (\<exists>node body. chosen_node r = Some node \<and> e = Fetch (bootstrap_fetch E node ''/v1/sign'' body))"

lemma sign_appends: "keeps (appends (sign_events E r)) (sign_with_bootstrap_group E r)"
  unfolding sign_with_bootstrap_group_def Let_def split_def
  by (intro keeps_intros) (auto simp: sign_events_def truthy_str_def)

lemma sign_returns:
  assumes "sign_with_bootstrap_group E r t = (Inr sig, t')"
  obtains node sreq tx where "chosen_node r = Some node" and "node \<noteq> []"
    and "trace t' = trace t @ [Sdk ''signSignRequest'' [n_bootstrap_group (sr_network r), sr_digest_hex r],
           Fetch (bootstrap_fetch E node ''/v1/sign'' (jspread sreq [str_field ''curve'' ''frost_secp256k1'']))]"
    and "sdk_sign_request E (trace t) (sr_keypair r) (sr_claims r) (n_bootstrap_group (sr_network r))
           (hex_to_bytes (sr_digest_hex r)) (sr_identity r) = Inr sreq"
    and "signature_of tx = Inr sig" and "session_storage t' = session_storage t"
    and "local_storage t' = local_storage t"
  using assms
  by (auto simp: sign_with_bootstrap_group_def run_returns truthy_str_def split: if_splits)

lemma signature_not_empty: "signature_of text = Inr sig \<Longrightarrow> sig \<noteq> []"
  by (auto simp: signature_of_def truthy_str_def Let_def split: sum.splits if_splits)

subsection \<open>Properties\<close>

text \<open>A 401 from the node ends the session, and nothing else does. Let the SDK sign the request
  and let a node be configured. When the node answers 401, the code throws the expired-session
  error and clears the stored session, so on a working storage the next load finds none; with any
  other answer, or none, the stored session is left as it was.\<close>

theorem sign_401_clears_session:
  assumes "storage_works E" and "sdk_sign_request E (trace t) (sr_keypair r) (sr_claims r)
      (n_bootstrap_group (sr_network r)) (hex_to_bytes (sr_digest_hex r)) (sr_identity r) = Inr sreq"
    and "chosen_node r = Some node" and "node \<noteq> []"
    and "req = bootstrap_fetch E node ''/v1/sign'' (jspread sreq [str_field ''curve'' ''frost_secp256k1''])"
    and "sign_with_bootstrap_group E r t = (res, t')"
    and "answer = e_fetch E (trace t @ [Sdk ''signSignRequest'' [n_bootstrap_group (sr_network r), sr_digest_hex r]]) req"
  shows "if (\<exists>text. answer = Reply 401 text)
    then res = Inl (Error expired_message) \<and> load_signing_session E t' = (Inr None, t')
    else session_storage t' = session_storage t"
proof -
  have "load_signing_session E (t0\<lparr>session_storage := cleared m\<rparr>) = (Inr None, t0\<lparr>session_storage := cleared m\<rparr>)" for t0 m
    using assms(1) by (intro load_incomplete) (simp_all add: complete_def cleared_get session_keys_def truthy_str_def)
  then show ?thesis
    using assms
    by (auto simp: sign_with_bootstrap_group_def await_def seq_def external_apply fetch_apply clear_apply
        truthy_str_def reply_ok_def throw_def lift_err_def split: http_reply.splits if_splits)
qed

definition demo_network :: network_config where
  "demo_network = \<lparr>n_chain_id = 31337, n_rpc_url = ''http://rpc'', n_factory_address = ''0xfac'',
     n_account_factory_address = ''0xacc'', n_entrypoint_address = ''0xe9'', n_bundler_url = [],
     n_bootstrap_group = ''0xB0'', n_bootstrap_nodes = [''https://n1'', ''https://n2''], n_siwe_enabled = True,
     n_paymaster_url = [], n_paymaster_address = [], n_sponsor_group_creation = True,
     n_first_party_category = ''signet'', n_development_policy = []\<rparr>"

definition demo_signet_env :: "http_reply \<Rightarrow> signet_env" where
  "demo_signet_env a = env.extend (demo_env\<lparr>e_fetch := (\<lambda>_ _. a)\<rparr>)
     (signet_env.fields ''console.dev'' ''https://console.dev'' (\<lambda>_ _ _ _ _ _. Inr (JObj []))
       (\<lambda>_ _ _. Inr ''0x5ma''))"

definition demo_sign_request :: sign_request where
  "demo_sign_request = \<lparr>sr_network = demo_network, sr_keypair = \<lparr>private_key = [1], public_key_hex = ''02''\<rparr>,
     sr_claims = JObj [], sr_digest_hex = ''0xab'', sr_identity = None, sr_node_url = None\<rparr>"

theorem sign_401_clears_session_witness:
  "fst (sign_with_bootstrap_group (demo_signet_env (Reply 401 ''unauthorized'')) demo_sign_request empty_tab) = Inl (Error expired_message)"
proof -
  let ?E = "demo_signet_env (Reply 401 ''unauthorized'')"
  obtain res t' where r: "sign_with_bootstrap_group ?E demo_sign_request empty_tab = (res, t')" by fastforce
  have 1: "storage_works ?E" by (simp add: storage_works_def demo_signet_env_def env.defs demo_env_def)
  have 2: "sdk_sign_request ?E (trace empty_tab) (sr_keypair demo_sign_request) (sr_claims demo_sign_request)
      (n_bootstrap_group (sr_network demo_sign_request)) (hex_to_bytes (sr_digest_hex demo_sign_request))
      (sr_identity demo_sign_request) = Inr (JObj [])"
    by (simp add: demo_signet_env_def env.defs signet_env.defs)
  have 3: "chosen_node demo_sign_request = Some ''https://n1''"
    by (simp add: chosen_node_def demo_sign_request_def demo_network_def)
  have 4: "e_fetch ?E h q = Reply 401 ''unauthorized''" for h q
    by (simp add: demo_signet_env_def env.defs)
  show ?thesis
    using sign_401_clears_session [OF 1 2 3 _ refl r refl] r by (simp add: 4)
qed

text \<open>A signature comes from one request to one node. When signing returns, the signature is not
  empty, the trace has grown by the SDK call and exactly one request, sent through the platform's
  bootstrap proxy to the node the session was opened against (or the first configured one), the
  body is what the SDK signed with the session key plus the curve, and neither storage changed.\<close>

theorem sign_one_request:
  assumes "sign_with_bootstrap_group E r t = (Inr sig, t')"
  shows "\<exists>node sreq. chosen_node r = Some node \<and> node \<noteq> [] \<and> sig \<noteq> [] \<and>
    sdk_sign_request E (trace t) (sr_keypair r) (sr_claims r) (n_bootstrap_group (sr_network r))
      (hex_to_bytes (sr_digest_hex r)) (sr_identity r) = Inr sreq \<and>
    trace t' = trace t @ [Sdk ''signSignRequest'' [n_bootstrap_group (sr_network r), sr_digest_hex r],
      Fetch (bootstrap_fetch E node ''/v1/sign'' (jspread sreq [str_field ''curve'' ''frost_secp256k1'']))] \<and>
    session_storage t' = session_storage t \<and> local_storage t' = local_storage t"
  using assms by (rule sign_returns) (auto dest: signature_not_empty)

definition demo_sign_env :: signet_env where
  "demo_sign_env = demo_signet_env (Reply 200 (json_print (JObj [(''signature'', JStr ''0x51'')])))"

lemma sign_apply:
  assumes "sdk_sign_request E (trace t) (sr_keypair r) (sr_claims r) (n_bootstrap_group (sr_network r))
      (hex_to_bytes (sr_digest_hex r)) (sr_identity r) = Inr sreq"
    and "chosen_node r = Some node" and "node \<noteq> []"
    and "e_fetch E (trace t @ [Sdk ''signSignRequest'' [n_bootstrap_group (sr_network r), sr_digest_hex r]])
      (bootstrap_fetch E node ''/v1/sign'' (jspread sreq [str_field ''curve'' ''frost_secp256k1''])) = Reply st tx"
    and "reply_ok st" and "signature_of tx = Inr sig"
  shows "sign_with_bootstrap_group E r t = (Inr sig, t\<lparr>trace := trace t @
    [Sdk ''signSignRequest'' [n_bootstrap_group (sr_network r), sr_digest_hex r],
     Fetch (bootstrap_fetch E node ''/v1/sign'' (jspread sreq [str_field ''curve'' ''frost_secp256k1'']))]\<rparr>)"
  using assms
  by (simp add: sign_with_bootstrap_group_def truthy_str_def await_def external_apply fetch_apply lift_err_def)

lemma demo_signature_of: "signature_of (json_print (JObj [(''signature'', JStr ''0x51'')])) = Inr ''0x51''"
proof -
  have "json_parse (json_print (JObj [(''signature'', JStr ''0x51'')])) = Some (JObj [(''signature'', JStr ''0x51'')])"
    by (rule json_parse_print) simp
  then show ?thesis
    by (simp add: signature_of_def parse_json_def read_field_def nullish_def truthy_str_def del: json_print.simps)
qed

lemma demo_signature:
  "sign_with_bootstrap_group demo_sign_env demo_sign_request t =
   (Inr ''0x51'', t\<lparr>trace := trace t @ [Sdk ''signSignRequest'' [''0xB0'', ''0xab''],
      Fetch (bootstrap_fetch demo_sign_env ''https://n1'' ''/v1/sign''
        (jspread (JObj []) [str_field ''curve'' ''frost_secp256k1'']))]\<rparr>)"
proof -
  have r: "n_bootstrap_group (sr_network demo_sign_request) = ''0xB0''" "sr_digest_hex demo_sign_request = ''0xab''"
    "chosen_node demo_sign_request = Some ''https://n1''"
    by (simp_all add: demo_sign_request_def demo_network_def chosen_node_def)
  have e: "sdk_sign_request demo_sign_env h k c g d i = Inr (JObj [])"
    "e_fetch demo_sign_env h q = Reply 200 (json_print (JObj [(''signature'', JStr ''0x51'')]))" for h k c g d i q
    by (simp_all add: demo_sign_env_def demo_signet_env_def env.defs signet_env.defs)
  show ?thesis
    using sign_apply [of demo_sign_env t demo_sign_request, unfolded r, OF e(1) refl _ e(2) _ demo_signature_of]
    by (simp add: reply_ok_def)
qed

theorem sign_one_request_witness:
  "\<exists>node. chosen_node demo_sign_request = Some node \<and>
    length (trace (snd (sign_with_bootstrap_group demo_sign_env demo_sign_request empty_tab))) = 2"
proof -
  have "\<exists>node. chosen_node demo_sign_request = Some node"
    using sign_one_request [OF demo_signature [of empty_tab]] by blast
  then show ?thesis by (simp add: demo_signature empty_tab_def)
qed

end
