(* ===== verification/UserOp.thy ===== *)
theory UserOp
  imports Signet
begin

text \<open>
  \<open>web/lib/userop.ts\<close>: building and signing the ERC-4337 operation of a console action. The SDK
  and the bundler are arguments of the environment: what they return is not assumed, only recorded.
  The packed operation is the SDK's record; \<open>serialize\<close> flattens it into the wire form. Stages are
  ordered as the progress bar shows them.
\<close>

subsection \<open>Operations\<close>

record packed_op =
  po_sender :: string
  po_nonce :: nat
  po_init_code :: string
  po_call_data :: string
  po_account_gas_limits :: string
  po_pre_verification_gas :: nat
  po_gas_fees :: string
  po_paymaster_and_data :: string
  po_signature :: string

record signed_user_op =
  su_sender :: string
  su_nonce :: string
  su_factory :: string
  su_factory_data :: string
  su_call_data :: string
  su_call_gas_limit :: string
  su_verification_gas_limit :: string
  su_pre_verification_gas :: string
  su_max_fee_per_gas :: string
  su_max_priority_fee_per_gas :: string
  su_paymaster :: string
  su_paymaster_data :: string
  su_signature :: string

definition json_of_user_op :: "signed_user_op \<Rightarrow> json" where
  "json_of_user_op u = jobj
     [str_field ''sender'' (su_sender u), str_field ''nonce'' (su_nonce u), str_field ''factory'' (su_factory u),
      str_field ''factoryData'' (su_factory_data u), str_field ''callData'' (su_call_data u),
      str_field ''callGasLimit'' (su_call_gas_limit u), str_field ''verificationGasLimit'' (su_verification_gas_limit u),
      str_field ''preVerificationGas'' (su_pre_verification_gas u), str_field ''maxFeePerGas'' (su_max_fee_per_gas u),
      str_field ''maxPriorityFeePerGas'' (su_max_priority_fee_per_gas u), str_field ''paymaster'' (su_paymaster u),
      str_field ''paymasterData'' (su_paymaster_data u), str_field ''signature'' (su_signature u)]"

subsection \<open>Stages\<close>

datatype userop_stage =
    Building | Sponsoring_stub | Estimating | Sponsoring | Signing | Submitting | Confirming | Done

fun stage_rank :: "userop_stage \<Rightarrow> nat" where
  "stage_rank Building = 0" | "stage_rank Sponsoring_stub = 1" | "stage_rank Estimating = 2"
| "stage_rank Sponsoring = 3" | "stage_rank Signing = 4" | "stage_rank Submitting = 5"
| "stage_rank Confirming = 6" | "stage_rank Done = 7"

instantiation userop_stage :: linorder
begin

definition less_eq_userop_stage :: "userop_stage \<Rightarrow> userop_stage \<Rightarrow> bool" where
  "less_eq_userop_stage a b \<longleftrightarrow> stage_rank a \<le> stage_rank b"

definition less_userop_stage :: "userop_stage \<Rightarrow> userop_stage \<Rightarrow> bool" where
  "less_userop_stage a b \<longleftrightarrow> stage_rank a < stage_rank b"

instance
proof
  fix x y z :: userop_stage
  show "x < y \<longleftrightarrow> x \<le> y \<and> \<not> y \<le> x" by (auto simp: less_eq_userop_stage_def less_userop_stage_def)
  show "x \<le> x" by (simp add: less_eq_userop_stage_def)
  show "x \<le> y \<Longrightarrow> y \<le> z \<Longrightarrow> x \<le> z" by (simp add: less_eq_userop_stage_def)
  show "x \<le> y \<Longrightarrow> y \<le> x \<Longrightarrow> x = y" by (cases x; cases y) (simp_all add: less_eq_userop_stage_def)
  show "x \<le> y \<or> y \<le> x" by (auto simp: less_eq_userop_stage_def)
qed

end

fun stage_key :: "userop_stage \<Rightarrow> string" where
  "stage_key Building = ''building''" | "stage_key Sponsoring_stub = ''sponsoring-stub''"
| "stage_key Estimating = ''estimating''" | "stage_key Sponsoring = ''sponsoring''"
| "stage_key Signing = ''signing''" | "stage_key Submitting = ''submitting''"
| "stage_key Confirming = ''confirming''" | "stage_key Done = ''done''"

fun userop_stage_copy :: "userop_stage \<Rightarrow> string" where
  "userop_stage_copy Building = ''Building the transaction''"
| "userop_stage_copy Sponsoring_stub = ''Requesting gas sponsorship''"
| "userop_stage_copy Estimating = ''Estimating gas''"
| "userop_stage_copy Sponsoring = ''Finalising sponsorship''"
| "userop_stage_copy Signing = ''Signing with your Signet key''"
| "userop_stage_copy Submitting = ''Submitting''"
| "userop_stage_copy Confirming = ''Waiting for confirmation''"
| "userop_stage_copy Done = ''Done''"

text \<open>\<open>onStage?.(st)\<close>: the callback may be absent.\<close>

definition on_stage :: "bool \<Rightarrow> userop_stage \<Rightarrow> ('t, unit) io" where
  "on_stage cb st = (if cb then stage_cb (stage_key st) else ret ())"

definition stage_events :: "bool \<Rightarrow> userop_stage \<Rightarrow> event list" where
  "stage_events cb st = (if cb then [Stage (stage_key st)] else [])"

subsection \<open>Flattening\<close>

text \<open>\<open>BigInt(`0x${s}`).toString(16)\<close> with the prefix put back.\<close>

definition big_hex :: "string \<Rightarrow> jserr + string" where
  "big_hex s = (case hex_val s of None \<Rightarrow> Inl (Error ''SyntaxError'') | Some n \<Rightarrow> Inr (''0x'' @ hex_of_nat n))"

definition head_address :: "string \<Rightarrow> string" where
  "head_address h = (if length h \<ge> 40 then ''0x'' @ slice 0 40 h else [])"

definition tail_data :: "string \<Rightarrow> string" where
  "tail_data h = (if length h > 40 then ''0x'' @ drop 40 h else [])"

definition serialize :: "packed_op \<Rightarrow> jserr + signed_user_op" where
  "serialize op =
     (let limits = pad_start 64 (CHR ''0'') (drop 2 (po_account_gas_limits op));
          fees = pad_start 64 (CHR ''0'') (drop 2 (po_gas_fees op));
          init = drop 2 (po_init_code op);
          pm = drop 2 (po_paymaster_and_data op)
      in case (big_hex (slice 32 64 limits), big_hex (slice 0 32 limits),
               big_hex (slice 32 64 fees), big_hex (slice 0 32 fees)) of
        (Inr cgl, Inr vgl, Inr mf, Inr mp) \<Rightarrow>
          Inr \<lparr>su_sender = po_sender op, su_nonce = ''0x'' @ hex_of_nat (po_nonce op),
            su_factory = head_address init, su_factory_data = tail_data init,
            su_call_data = po_call_data op, su_call_gas_limit = cgl, su_verification_gas_limit = vgl,
            su_pre_verification_gas = ''0x'' @ hex_of_nat (po_pre_verification_gas op),
            su_max_fee_per_gas = mf, su_max_priority_fee_per_gas = mp,
            su_paymaster = head_address pm, su_paymaster_data = tail_data pm,
            su_signature = po_signature op\<rparr>
      | _ \<Rightarrow> Inl (Error ''SyntaxError''))"

definition with_prefix :: "string \<Rightarrow> string" where
  "with_prefix v = (if starts_with ''0x'' v then v else ''0x'' @ v)"

definition pack_gas_limits :: "nat \<Rightarrow> nat \<Rightarrow> string" where
  "pack_gas_limits verification call =
     ''0x'' @ pad_start 32 (CHR ''0'') (hex_of_nat verification) @ pad_start 32 (CHR ''0'') (hex_of_nat call)"

subsection \<open>Building and signing\<close>

record gas_estimate =
  ge_verification_gas_limit :: nat
  ge_call_gas_limit :: nat
  ge_pre_verification_gas :: nat

record userop_env = signet_env +
  sdk_fetch_nonce :: "event list \<Rightarrow> string \<Rightarrow> string \<Rightarrow> string \<Rightarrow> string + nat"
  sdk_build_init_code :: "event list \<Rightarrow> network_config \<Rightarrow> string \<Rightarrow> string \<Rightarrow> string + string"
  sdk_build_user_op :: "string \<Rightarrow> nat \<Rightarrow> string \<Rightarrow> string \<Rightarrow> string \<Rightarrow> packed_op"
  sdk_user_op_hash :: "packed_op \<Rightarrow> string \<Rightarrow> int \<Rightarrow> string"
  sdk_paymaster_stub :: "event list \<Rightarrow> string \<Rightarrow> int \<Rightarrow> packed_op \<Rightarrow> string + json"
  sdk_paymaster_data :: "event list \<Rightarrow> string \<Rightarrow> int \<Rightarrow> packed_op \<Rightarrow> string + json"
  sdk_apply_sponsorship :: "packed_op \<Rightarrow> json \<Rightarrow> packed_op"
  sdk_estimate_gas :: "event list \<Rightarrow> string \<Rightarrow> packed_op \<Rightarrow> string + gas_estimate"

record build_request =
  br_network :: network_config
  br_session :: signing_session
  br_sender :: string
  br_dest :: string
  br_call_data :: string
  br_sponsored :: "bool option"
  br_on_stage :: bool

definition BUNDLER_PROXY :: string where "BUNDLER_PROXY = ''/api/bundler''"

definition use_paymaster :: "('e env_scheme) \<Rightarrow> bool option \<Rightarrow> bool" where
  "use_paymaster E sponsored \<longleftrightarrow> e_var E ''NEXT_PUBLIC_USE_PAYMASTER'' = Some ''true'' \<and> dflt sponsored True"

definition sponsor :: "('e userop_env_scheme) \<Rightarrow> build_request \<Rightarrow> userop_stage \<Rightarrow> string \<Rightarrow>
    (event list \<Rightarrow> string \<Rightarrow> int \<Rightarrow> packed_op \<Rightarrow> string + json) \<Rightarrow> packed_op \<Rightarrow> ('t, packed_op) io" where
  "sponsor E req st method_name call op =
     (if use_paymaster E (br_sponsored req) then
        seq (on_stage (br_on_stage req) st)
          (await (external (Sdk method_name [BUNDLER_PROXY, n_entrypoint_address (br_network req)])
             (\<lambda>h. call h (n_entrypoint_address (br_network req)) (n_chain_id (br_network req)) op)) (\<lambda>data.
           ret (sdk_apply_sponsorship E op data)))
      else ret op)"

definition with_gas :: "gas_estimate \<Rightarrow> packed_op \<Rightarrow> packed_op" where
  "with_gas gas op = op\<lparr>po_account_gas_limits := pack_gas_limits (ge_verification_gas_limit gas) (ge_call_gas_limit gas),
     po_pre_verification_gas := ge_pre_verification_gas gas\<rparr>"

definition sign_request_for :: "build_request \<Rightarrow> string \<Rightarrow> sign_request" where
  "sign_request_for req hash =
     \<lparr>sr_network = br_network req, sr_keypair = keypair (br_session req), sr_claims = claims (br_session req),
      sr_digest_hex = hash, sr_identity = identity (br_session req), sr_node_url = node_url (br_session req)\<rparr>"

definition build_signed_user_op :: "('e userop_env_scheme) \<Rightarrow> build_request \<Rightarrow> ('t, signed_user_op) io" where
  "build_signed_user_op E req =
     (let network = br_network req; ep = n_entrypoint_address network; cb = br_on_stage req;
          group_key = with_prefix (group_public_key (br_session req))
      in
      if ep = [] then throw (Error ''This deployment has no EntryPoint address configured.'')
      else if n_account_factory_address network = []
        then throw (Error ''This deployment has no account factory address configured.'')
      else
        seq (on_stage cb Building)
        (await (external (Sdk ''fetchNonce'' [n_rpc_url network, ep, br_sender req])
           (\<lambda>h. sdk_fetch_nonce E h (n_rpc_url network) ep (br_sender req))) (\<lambda>nonce.
         await (external (Sdk ''buildInitCode'' [br_sender req, group_key])
           (\<lambda>h. sdk_build_init_code E h network (br_sender req) group_key)) (\<lambda>init_code.
         await (sponsor E req Sponsoring_stub ''getPaymasterStubData'' (sdk_paymaster_stub E)
           (sdk_build_user_op E (br_sender req) nonce init_code (br_dest req) (br_call_data req))) (\<lambda>op1.
         seq (on_stage cb Estimating)
        (await (external (Sdk ''estimateUserOpGas'' [BUNDLER_PROXY, ep])
           (\<lambda>h. sdk_estimate_gas E h ep op1)) (\<lambda>gas.
         await (sponsor E req Sponsoring ''getPaymasterData'' (sdk_paymaster_data E) (with_gas gas op1)) (\<lambda>op2.
         seq (on_stage cb Signing)
        (await (sign_with_bootstrap_group E (sign_request_for req (sdk_user_op_hash E op2 ep (n_chain_id network)))) (\<lambda>sig.
         lift_err (serialize (op2\<lparr>po_signature := sig\<rparr>))))))))))))"

subsection \<open>What flattening keeps\<close>

text \<open>Unpacking a packed pair: the padded halves are read back.\<close>

lemma big_hex_pad: "big_hex (pad_start 32 (CHR ''0'') (hex_of_nat n)) = Inr (''0x'' @ hex_of_nat n)"
  by (simp add: big_hex_def)

lemma pack_halves:
  assumes "v < 2 ^ 128" and "c < 2 ^ 128" and "s = pad_start 64 (CHR ''0'') (drop 2 (pack_gas_limits v c))"
  shows "slice 0 32 s = pad_start 32 (CHR ''0'') (hex_of_nat v)"
    and "slice 32 64 s = pad_start 32 (CHR ''0'') (hex_of_nat c)"
proof -
  have l: "length (pad_start 32 (CHR ''0'') (hex_of_nat n)) = 32" if "n < 2 ^ 128" for n
    using that length_pad_hex [of n 32] by simp
  let ?v = "pad_start 32 (CHR ''0'') (hex_of_nat v)" and ?c = "pad_start 32 (CHR ''0'') (hex_of_nat c)"
  have "s = ?v @ ?c"
    using assms l [OF assms(1)] l [OF assms(2)] by (simp add: pack_gas_limits_def pad_start_def [of 64])
  then show "slice 0 32 s = ?v" "slice 32 64 s = ?c"
    using l [OF assms(1)] l [OF assms(2)] by (simp_all add: slice_def)
qed

text \<open>What the bundler puts together again: the address and the rest of a blob.\<close>

definition rejoin :: "string \<Rightarrow> string \<Rightarrow> string" where
  "rejoin addr rest = ''0x'' @ drop 2 addr @ drop 2 rest"

lemma rejoin_split: "h = [] \<or> 40 \<le> length h \<Longrightarrow> rejoin (head_address h) (tail_data h) = ''0x'' @ h"
  by (auto simp: rejoin_def head_address_def tail_data_def slice_def)

lemma serialize_Inr:
  assumes "serialize op = Inr u"
  shows "su_sender u = po_sender op" and "su_signature u = po_signature op" and "su_call_data u = po_call_data op"
    and "su_nonce u = ''0x'' @ hex_of_nat (po_nonce op)"
    and "su_paymaster u = head_address (drop 2 (po_paymaster_and_data op))"
    and "su_paymaster_data u = tail_data (drop 2 (po_paymaster_and_data op))"
    and "su_factory u = head_address (drop 2 (po_init_code op))"
    and "su_factory_data u = tail_data (drop 2 (po_init_code op))"
  using assms by (auto simp: serialize_def Let_def split: sum.splits)

subsection \<open>What building does\<close>

definition sponsor_events :: "('e userop_env_scheme) \<Rightarrow> build_request \<Rightarrow> userop_stage \<Rightarrow> string \<Rightarrow> event list" where
  "sponsor_events E req st meth = (if use_paymaster E (br_sponsored req)
     then stage_events (br_on_stage req) st @ [Sdk meth [BUNDLER_PROXY, n_entrypoint_address (br_network req)]] else [])"

lemma on_stage_returns:
  "on_stage cb st t = (Inr u, t') \<longleftrightarrow> t' = t\<lparr>trace := trace t @ stage_events cb st\<rparr>"
  by (simp add: on_stage_def stage_events_def run_returns)

lemma sponsor_returns:
  assumes "sponsor E req st meth call op t = (Inr op', t')"
  shows "t' = t\<lparr>trace := trace t @ sponsor_events E req st meth\<rparr>"
    and "\<not> use_paymaster E (br_sponsored req) \<Longrightarrow> op' = op"
    and "use_paymaster E (br_sponsored req) \<Longrightarrow> \<exists>h data. op' = sdk_apply_sponsorship E op data \<and>
      call h (n_entrypoint_address (br_network req)) (n_chain_id (br_network req)) op = Inr data"
  using assms by (auto simp: sponsor_def sponsor_events_def run_returns on_stage_returns split: if_splits)

text \<open>Everything up to the sponsorship request, and from the estimate to the signature.\<close>

definition before_estimate :: "('e userop_env_scheme) \<Rightarrow> build_request \<Rightarrow> event list" where
  "before_estimate E req =
     stage_events (br_on_stage req) Building @
     [Sdk ''fetchNonce'' [n_rpc_url (br_network req), n_entrypoint_address (br_network req), br_sender req],
      Sdk ''buildInitCode'' [br_sender req, with_prefix (group_public_key (br_session req))]] @
     sponsor_events E req Sponsoring_stub ''getPaymasterStubData''"

definition estimate_to_sign :: "('e userop_env_scheme) \<Rightarrow> build_request \<Rightarrow> event list" where
  "estimate_to_sign E req =
     stage_events (br_on_stage req) Estimating @
     [Sdk ''estimateUserOpGas'' [BUNDLER_PROXY, n_entrypoint_address (br_network req)]] @
     sponsor_events E req Sponsoring ''getPaymasterData'' @
     stage_events (br_on_stage req) Signing"

lemma build_returns:
  assumes "build_signed_user_op E req t = (Inr u, t')"
  obtains op1 gas op2 sig t1 where
    "t1 = t\<lparr>trace := trace t @ before_estimate E req @ estimate_to_sign E req\<rparr>"
    "\<exists>h. sdk_estimate_gas E h (n_entrypoint_address (br_network req)) op1 = Inr gas"
    "\<not> use_paymaster E (br_sponsored req) \<Longrightarrow> op2 = with_gas gas op1 \<and>
       (\<exists>nonce init. op1 = sdk_build_user_op E (br_sender req) nonce init (br_dest req) (br_call_data req))"
    "use_paymaster E (br_sponsored req) \<Longrightarrow> \<exists>h data. op2 = sdk_apply_sponsorship E (with_gas gas op1) data \<and>
       sdk_paymaster_data E h (n_entrypoint_address (br_network req)) (n_chain_id (br_network req)) (with_gas gas op1) = Inr data"
    "sign_with_bootstrap_group E (sign_request_for req
       (sdk_user_op_hash E op2 (n_entrypoint_address (br_network req)) (n_chain_id (br_network req)))) t1 = (Inr sig, t')"
    "serialize (op2\<lparr>po_signature := sig\<rparr>) = Inr u"
    "n_entrypoint_address (br_network req) \<noteq> []" "n_account_factory_address (br_network req) \<noteq> []"
    "\<exists>nonce init op. op = sdk_build_user_op E (br_sender req) nonce init (br_dest req) (br_call_data req) \<and>
       (op1 = op \<or> (\<exists>data. op1 = sdk_apply_sponsorship E op data))"
proof -
  let ?n = "br_network req" let ?ep = "n_entrypoint_address (br_network req)"
  from assms obtain nonce init op1 gas op2 sig tA tB where
    ne: "?ep \<noteq> []" "n_account_factory_address ?n \<noteq> []"
    and A: "sponsor E req Sponsoring_stub ''getPaymasterStubData'' (sdk_paymaster_stub E)
        (sdk_build_user_op E (br_sender req) nonce init (br_dest req) (br_call_data req))
        (t\<lparr>trace := trace t @ stage_events (br_on_stage req) Building @
          [Sdk ''fetchNonce'' [n_rpc_url ?n, ?ep, br_sender req],
           Sdk ''buildInitCode'' [br_sender req, with_prefix (group_public_key (br_session req))]]\<rparr>) = (Inr op1, tA)"
    and g: "sdk_estimate_gas E (trace tA @ stage_events (br_on_stage req) Estimating) ?ep op1 = Inr gas"
    and B: "sponsor E req Sponsoring ''getPaymasterData'' (sdk_paymaster_data E) (with_gas gas op1)
        (tA\<lparr>trace := trace tA @ stage_events (br_on_stage req) Estimating @
          [Sdk ''estimateUserOpGas'' [BUNDLER_PROXY, ?ep]]\<rparr>) = (Inr op2, tB)"
    and S: "sign_with_bootstrap_group E (sign_request_for req (sdk_user_op_hash E op2 ?ep (n_chain_id ?n)))
        (tB\<lparr>trace := trace tB @ stage_events (br_on_stage req) Signing\<rparr>) = (Inr sig, t')"
    and ser: "serialize (op2\<lparr>po_signature := sig\<rparr>) = Inr u"
    by (auto simp: build_signed_user_op_def Let_def run_returns on_stage_returns split: if_splits)
  show thesis
  proof (rule that)
    show "t\<lparr>trace := trace t @ before_estimate E req @ estimate_to_sign E req\<rparr> = t\<lparr>trace := trace t @ before_estimate E req @ estimate_to_sign E req\<rparr>" ..
    show "\<exists>h. sdk_estimate_gas E h ?ep op1 = Inr gas" using g by blast
    show "\<not> use_paymaster E (br_sponsored req) \<Longrightarrow> op2 = with_gas gas op1 \<and>
       (\<exists>nonce init. op1 = sdk_build_user_op E (br_sender req) nonce init (br_dest req) (br_call_data req))"
      using sponsor_returns(2) [OF A] sponsor_returns(2) [OF B] by blast
    show "use_paymaster E (br_sponsored req) \<Longrightarrow> \<exists>h data. op2 = sdk_apply_sponsorship E (with_gas gas op1) data \<and>
       sdk_paymaster_data E h ?ep (n_chain_id ?n) (with_gas gas op1) = Inr data"
      using sponsor_returns(3) [OF B] .
    show "sign_with_bootstrap_group E (sign_request_for req (sdk_user_op_hash E op2 ?ep (n_chain_id ?n)))
       (t\<lparr>trace := trace t @ before_estimate E req @ estimate_to_sign E req\<rparr>) = (Inr sig, t')"
      using S sponsor_returns(1) [OF A] sponsor_returns(1) [OF B]
      by (simp add: before_estimate_def estimate_to_sign_def)
    show "\<exists>nonce init op. op = sdk_build_user_op E (br_sender req) nonce init (br_dest req) (br_call_data req) \<and>
       (op1 = op \<or> (\<exists>data. op1 = sdk_apply_sponsorship E op data))"
      using sponsor_returns(2,3) [OF A] by blast
  qed (use ser ne in auto)
qed

lemma sponsor_appends:
  "(\<And>s. P (Stage s)) \<Longrightarrow> (\<And>as. P (Sdk meth as)) \<Longrightarrow> keeps (appends P) (sponsor E req st meth call op)"
  unfolding sponsor_def on_stage_def by (intro keeps_intros) auto

lemma sponsor_session [keeps_intros]: "keeps same_session (sponsor E req st meth call op)"
  unfolding sponsor_def on_stage_def by (intro keeps_intros)

text \<open>The outside calls of a build, whether or not it succeeds.\<close>

definition build_reads :: "string set" where
  "build_reads = {''fetchNonce'', ''buildInitCode'', ''getPaymasterStubData'', ''estimateUserOpGas'',
     ''getPaymasterData'', ''signSignRequest''}"

fun build_event :: "('e userop_env_scheme) \<Rightarrow> event \<Rightarrow> bool" where
  "build_event E (Stage s) = True"
| "build_event E (Sdk meth as) = (meth \<in> build_reads)"
| "build_event E (Fetch r) = (url r = api_base E @ ''/v1/node/bootstrap-proxy'' \<and>
     (''x-node-path'', ''/v1/sign'') \<in> set (headers r))"
| "build_event E e = False"

lemma sign_build_event: "keeps (appends (build_event E)) (sign_with_bootstrap_group E r)"
  unfolding sign_with_bootstrap_group_def Let_def split_def
  by (intro keeps_intros) (auto simp: bootstrap_fetch_def build_reads_def)

lemma build_appends: "keeps (appends (build_event E)) (build_signed_user_op E req)"
  unfolding build_signed_user_op_def Let_def on_stage_def
  by (intro keeps_intros sign_build_event sponsor_appends) (auto simp: build_reads_def)

subsection \<open>Properties\<close>

text \<open>C6: flattening loses nothing. When the packed limits and fees are 128-bit pairs and the
  factory and paymaster blobs are empty or begin with an address, \<open>serialize\<close> succeeds; reading
  its hexadecimal gas fields gives the packed numbers back, high half first, and the address and
  the data of each blob concatenate to the blob the paymaster and the EntryPoint hashed.\<close>

theorem serialize_lossless:
  assumes "po_account_gas_limits op = pack_gas_limits v c" and "po_gas_fees op = pack_gas_limits p m"
    and "v < 2 ^ 128" "c < 2 ^ 128" "p < 2 ^ 128" "m < 2 ^ 128"
    and "po_init_code op = ''0x'' @ ic" and "ic = [] \<or> 40 \<le> length ic"
    and "po_paymaster_and_data op = ''0x'' @ pm" and "pm = [] \<or> 40 \<le> length pm"
  shows "\<exists>u. serialize op = Inr u \<and>
    hex_val (drop 2 (su_verification_gas_limit u)) = Some v \<and> hex_val (drop 2 (su_call_gas_limit u)) = Some c \<and>
    hex_val (drop 2 (su_max_priority_fee_per_gas u)) = Some p \<and> hex_val (drop 2 (su_max_fee_per_gas u)) = Some m \<and>
    hex_val (drop 2 (su_nonce u)) = Some (po_nonce op) \<and>
    hex_val (drop 2 (su_pre_verification_gas u)) = Some (po_pre_verification_gas op) \<and>
    rejoin (su_factory u) (su_factory_data u) = po_init_code op \<and>
    rejoin (su_paymaster u) (su_paymaster_data u) = po_paymaster_and_data op"
  using assms(1,2,7,9) pack_halves [OF assms(3,4) refl] pack_halves [OF assms(5,6) refl]
    rejoin_split [OF assms(8)] rejoin_split [OF assms(10)]
  by (simp add: serialize_def Let_def big_hex_pad)

definition demo_op :: packed_op where
  "demo_op = \<lparr>po_sender = ''0x5ma'', po_nonce = 7, po_init_code = ''0x'', po_call_data = ''0xca11'',
     po_account_gas_limits = pack_gas_limits 100000 65536, po_pre_verification_gas = 21000,
     po_gas_fees = pack_gas_limits 1 2000, po_paymaster_and_data = ''0x'' @ replicate 42 (CHR ''a''),
     po_signature = ''0x''\<rparr>"

theorem serialize_lossless_witness:
  "\<exists>u. serialize demo_op = Inr u \<and> hex_val (drop 2 (su_verification_gas_limit u)) = Some 100000 \<and>
     rejoin (su_factory u) (su_factory_data u) = ''0x'' \<and>
     rejoin (su_paymaster u) (su_paymaster_data u) = ''0x'' @ replicate 42 (CHR ''a'')"
proof -
  have "po_account_gas_limits demo_op = pack_gas_limits 100000 65536" "po_gas_fees demo_op = pack_gas_limits 1 2000"
    "po_init_code demo_op = ''0x'' @ []" "po_paymaster_and_data demo_op = ''0x'' @ replicate 42 (CHR ''a'')"
    by (simp_all only: demo_op_def packed_op.select_convs append_Nil2)
  then show ?thesis
    using serialize_lossless [of demo_op 100000 65536 1 2000 "[]" "replicate 42 (CHR ''a'')"] by fastforce
qed

text \<open>A deployment to build on: an SDK that packs, a paymaster that marks the operation, a group that
  signs.\<close>

definition demo_userop_env :: "bool \<Rightarrow> userop_env" where
  "demo_userop_env sponsored = signet_env.extend
     (demo_sign_env\<lparr>e_var := (\<lambda>k. if sponsored \<and> k = ''NEXT_PUBLIC_USE_PAYMASTER'' then Some ''true'' else None)\<rparr>)
     (userop_env.fields (\<lambda>_ _ _ _. Inr 7) (\<lambda>_ _ _ _. Inr ''0x'')
       (\<lambda>s n i d c. demo_op\<lparr>po_sender := s, po_nonce := n, po_init_code := i, po_call_data := c, po_paymaster_and_data := ''0x''\<rparr>)
       (\<lambda>op _ _. ''0xab'') (\<lambda>_ _ _ _. Inr (JObj [])) (\<lambda>_ _ _ _. Inr (JObj []))
       (\<lambda>op _. op\<lparr>po_paymaster_and_data := ''0x'' @ replicate 40 (CHR ''a'')\<rparr>)
       (\<lambda>_ _ _. Inr \<lparr>ge_verification_gas_limit = 100000, ge_call_gas_limit = 65536, ge_pre_verification_gas = 21000\<rparr>))"

definition demo_build :: build_request where
  "demo_build = \<lparr>br_network = demo_network, br_session =
       \<lparr>keypair = \<lparr>private_key = [1], public_key_hex = ''02''\<rparr>, claims = JObj [], group_public_key = ''0x03'',
        identity = None, node_url = None\<rparr>,
     br_sender = ''0x5ma'', br_dest = ''0xd35'', br_call_data = ''0xca11'', br_sponsored = None, br_on_stage = True\<rparr>"

lemma demo_userop_env_simps [simp]:
  "sdk_fetch_nonce (demo_userop_env b) h r e s = Inr 7"
  "sdk_build_init_code (demo_userop_env b) h n s g = Inr ''0x''"
  "sdk_build_user_op (demo_userop_env b) s n0 i d c =
     demo_op\<lparr>po_sender := s, po_nonce := n0, po_init_code := i, po_call_data := c, po_paymaster_and_data := ''0x''\<rparr>"
  "sdk_user_op_hash (demo_userop_env b) op e ch = ''0xab''"
  "sdk_paymaster_stub (demo_userop_env b) h e ch op = Inr (JObj [])"
  "sdk_paymaster_data (demo_userop_env b) h e ch op = Inr (JObj [])"
  "sdk_apply_sponsorship (demo_userop_env b) op j = op\<lparr>po_paymaster_and_data := ''0x'' @ replicate 40 (CHR ''a'')\<rparr>"
  "sdk_estimate_gas (demo_userop_env b) h e op =
     Inr \<lparr>ge_verification_gas_limit = 100000, ge_call_gas_limit = 65536, ge_pre_verification_gas = 21000\<rparr>"
  "e_var (demo_userop_env b) k = (if b \<and> k = ''NEXT_PUBLIC_USE_PAYMASTER'' then Some ''true'' else None)"
  by (simp_all add: demo_userop_env_def signet_env.defs userop_env.defs demo_sign_env_def demo_signet_env_def env.defs
      del: replicate.simps)

lemma demo_userop_sign:
  "sign_with_bootstrap_group (demo_userop_env b) (sign_request_for demo_build ''0xab'') t =
   (Inr ''0x51'', t\<lparr>trace := trace t @ [Sdk ''signSignRequest'' [''0xB0'', ''0xab''],
      Fetch (bootstrap_fetch (demo_userop_env b) ''https://n1'' ''/v1/sign''
        (jspread (JObj []) [str_field ''curve'' ''frost_secp256k1'']))]\<rparr>)"
proof -
  let ?r = "sign_request_for demo_build ''0xab''"
  have r: "n_bootstrap_group (sr_network ?r) = ''0xB0''" "sr_digest_hex ?r = ''0xab''" "chosen_node ?r = Some ''https://n1''"
    by (simp_all add: sign_request_for_def demo_build_def demo_network_def chosen_node_def)
  have e: "sdk_sign_request (demo_userop_env b) h k c g d i = Inr (JObj [])"
    "e_fetch (demo_userop_env b) h q = Reply 200 (json_print (JObj [(''signature'', JStr ''0x51'')]))" for h k c g d i q
    by (simp_all add: demo_userop_env_def signet_env.defs demo_sign_env_def demo_signet_env_def env.defs)
  show ?thesis
    using sign_apply [of "demo_userop_env b" t ?r, unfolded r, OF e(1) refl _ e(2) _ demo_signature_of]
    by (simp add: reply_ok_def)
qed

lemma serialize_with_gas:
  assumes "po_gas_fees op = pack_gas_limits p m" and "v < 2 ^ 128" "c < 2 ^ 128" "p < 2 ^ 128" "m < 2 ^ 128"
    and "po_account_gas_limits op = pack_gas_limits v c"
  shows "\<exists>u. serialize op = Inr u"
  using assms(1,6) pack_halves [OF assms(2,3) refl] pack_halves [OF assms(4,5) refl]
  by (simp add: serialize_def Let_def big_hex_pad)

lemma demo_build_returns: "\<exists>u t'. build_signed_user_op (demo_userop_env b) demo_build t = (Inr u, t')"
proof -
  note s = build_signed_user_op_def Let_def on_stage_def stage_cb_apply seq_Inr await_Inr external_apply sponsor_def
    lift_err_apply ret_apply use_paymaster_def dflt_def
  have n: "n_entrypoint_address (br_network demo_build) = ''0xe9''" "n_account_factory_address (br_network demo_build) = ''0xacc''"
    "br_on_stage demo_build" "br_sponsored demo_build = None"
    by (simp_all add: demo_build_def demo_network_def)
  have "\<exists>u. serialize (with_gas \<lparr>ge_verification_gas_limit = 100000, ge_call_gas_limit = 65536, ge_pre_verification_gas = 21000\<rparr> op
      \<lparr>po_signature := sg\<rparr>) = Inr u" if "po_gas_fees op = pack_gas_limits 1 2000" for op sg
    by (rule serialize_with_gas [of _ 1 2000 100000 65536]) (simp_all add: with_gas_def that)
  moreover have "\<exists>u. serialize (with_gas \<lparr>ge_verification_gas_limit = 100000, ge_call_gas_limit = 65536, ge_pre_verification_gas = 21000\<rparr> op
      \<lparr>po_paymaster_and_data := pm, po_signature := sg\<rparr>) = Inr u" if "po_gas_fees op = pack_gas_limits 1 2000" for op sg pm
    by (rule serialize_with_gas [of _ 1 2000 100000 65536]) (simp_all add: with_gas_def that)
  ultimately show ?thesis
    by (cases b) (auto simp: s n demo_userop_sign demo_op_def simp del: replicate.simps)
qed



text \<open>Building never submits. Whatever the SDK, the bundler and the node answer, and whether the
  build returns or throws, all it does outside is report stages, make the six reads and signing
  calls of \<open>build_reads\<close>, and send requests to the platform's bootstrap proxy for the node's
  \<open>/v1/sign\<close>; no operation is sent anywhere.\<close>

theorem build_never_submits:
  "\<exists>es. trace (snd (build_signed_user_op E req t)) = trace t @ es \<and> list_all (build_event E) es"
  using build_appends [of E req] unfolding keeps_def appends_def by blast

text \<open>An unsponsored operation carries no paymaster. The platform refuses an operation with
  paymaster data on a route that does not sponsor. When the caller asked for no sponsorship, or
  the deployment has no paymaster, what a build returns has empty paymaster fields and no
  sponsorship was requested from the bundler, for an SDK whose fresh operations have none.\<close>

theorem unsponsored_no_paymaster:
  assumes "\<not> (e_var E ''NEXT_PUBLIC_USE_PAYMASTER'' = Some ''true'' \<and> br_sponsored req \<noteq> Some False)"
    and "\<And>s n i d c. po_paymaster_and_data (sdk_build_user_op E s n i d c) = ''0x''"
    and "build_signed_user_op E req t = (Inr u, t')"
  shows "su_paymaster u = [] \<and> su_paymaster_data u = [] \<and>
    (\<exists>es. trace t' = trace t @ es \<and> (\<forall>as. Sdk ''getPaymasterStubData'' as \<notin> set es \<and> Sdk ''getPaymasterData'' as \<notin> set es))"
proof -
  have np: "\<not> use_paymaster E (br_sponsored req)"
    using assms(1) by (auto simp: use_paymaster_def dflt_def split: option.splits)
  from assms(3) show ?thesis
  proof (rule build_returns)
    fix op1 gas op2 sig t1
    assume t1: "t1 = t\<lparr>trace := trace t @ before_estimate E req @ estimate_to_sign E req\<rparr>"
      and "\<not> use_paymaster E (br_sponsored req) \<Longrightarrow> op2 = with_gas gas op1 \<and>
        (\<exists>nonce init. op1 = sdk_build_user_op E (br_sender req) nonce init (br_dest req) (br_call_data req))"
      and S: "sign_with_bootstrap_group E (sign_request_for req (sdk_user_op_hash E op2
        (n_entrypoint_address (br_network req)) (n_chain_id (br_network req)))) t1 = (Inr sig, t')"
      and ser: "serialize (op2\<lparr>po_signature := sig\<rparr>) = Inr u"
    then have "po_paymaster_and_data op2 = ''0x''"
      using np assms(2) by (auto simp: with_gas_def)
    then have "su_paymaster u = [] \<and> su_paymaster_data u = []"
      using serialize_Inr(5,6) [OF ser] by (simp add: head_address_def tail_data_def)
    moreover from S have "\<exists>es. trace t' = trace t @ es \<and>
        (\<forall>as. Sdk ''getPaymasterStubData'' as \<notin> set es \<and> Sdk ''getPaymasterData'' as \<notin> set es)"
      by (rule sign_returns) (use np t1 in \<open>auto simp: before_estimate_def estimate_to_sign_def
          sponsor_events_def stage_events_def\<close>)
    ultimately show ?thesis by blast
  qed
qed

theorem unsponsored_no_paymaster_witness:
  "\<exists>u. fst (build_signed_user_op (demo_userop_env False) demo_build empty_tab) = Inr u \<and> su_paymaster u = []"
proof -
  obtain u t' where r: "build_signed_user_op (demo_userop_env False) demo_build empty_tab = (Inr u, t')"
    using demo_build_returns by blast
  then show ?thesis
    using unsponsored_no_paymaster [OF _ _ r] by simp
qed

end
