(* ===== verification/Onchain.thy ===== *)
theory Onchain
  imports UserOp
begin

text \<open>
  \<open>web/lib/abi.ts\<close>, \<open>web/lib/onchain.ts\<close> and \<open>web/lib/deploy.ts\<close>: the contract calls the console can make and
  how one of them reaches the chain. \<open>chooseTransport\<close> picks the key from the group's manager;
  \<open>submitGroupCall\<close> then either builds a signed operation from the smart wallet or sends an ordinary
  transaction from the injected wallet and polls for its receipt. ABI encoding is viem's and is an
  argument of the environment. The polling loop ends only if the clock moves, so a function that
  contains it is a \<open>poll\<close>: no value means that it has not returned.
\<close>

subsection \<open>Contract interfaces\<close>

datatype abi_type =
    A_address | A_uint nat | A_bytes | A_bytes32 | A_string | A_bool
  | A_array abi_type
  | A_tuple "(string \<times> abi_type) list"

datatype mutability = View | Nonpayable

record abi_function =
  fn_name :: string
  fn_mutability :: mutability
  fn_inputs :: "(string \<times> abi_type) list"
  fn_outputs :: "abi_type list"

definition fn_call :: "string \<Rightarrow> (string \<times> abi_type) list \<Rightarrow> abi_type list \<Rightarrow> abi_function" where
  "fn_call n i out = \<lparr>fn_name = n, fn_mutability = Nonpayable, fn_inputs = i, fn_outputs = out\<rparr>"

definition fn_view :: "string \<Rightarrow> (string \<times> abi_type) list \<Rightarrow> abi_type list \<Rightarrow> abi_function" where
  "fn_view n i out = \<lparr>fn_name = n, fn_mutability = View, fn_inputs = i, fn_outputs = out\<rparr>"

definition signet_factory_abi :: "abi_function list" where
  "signet_factory_abi =
    [fn_call ''createGroup''
       [(''nodeAddrs'', A_array A_address), (''threshold'', A_uint 256), (''removalDelay'', A_uint 256),
        (''initialIssuers'', A_array (A_tuple [(''issuer'', A_string), (''clientIds'', A_array A_string)])),
        (''initialAuthKeys'', A_array A_bytes)] [A_address],
     fn_view ''getGroupsByManager'' [(''mgr'', A_address)] [A_array A_address]]"

definition group_created_event :: "string \<times> (string \<times> abi_type \<times> bool) list" where
  "group_created_event = (''GroupCreated'', [(''group'', A_address, True), (''creator'', A_address, True), (''threshold'', A_uint 256, False)])"

definition signet_group_abi :: "abi_function list" where
  "signet_group_abi =
    [fn_call ''inviteNode'' [(''node'', A_address)] [], fn_call ''queueRemoval'' [(''node'', A_address)] [],
     fn_call ''cancelRemoval'' [(''node'', A_address)] [], fn_call ''executeRemoval'' [(''node'', A_address)] [],
     fn_call ''addIssuer'' [(''issuer'', A_string), (''clientIds'', A_array A_string)] [],
     fn_call ''removeIssuer'' [(''issuerHash'', A_bytes32)] [], fn_call ''addAuthKey'' [(''pubkey'', A_bytes)] [],
     fn_call ''removeAuthKey'' [(''keyHash'', A_bytes32)] [], fn_call ''transferManager'' [(''newManager'', A_address)] [],
     fn_call ''requestReshare'' [] [],
     fn_call ''queueAuthResolver'' [(''chainId'', A_uint 64), (''resolver'', A_address), (''requireCanonicalSubject'', A_bool)] [],
     fn_call ''cancelAuthResolver'' [] [], fn_call ''executeAuthResolver'' [] []]"

definition signet_account_factory_abi :: "abi_function list" where
  "signet_account_factory_abi =
    [fn_view ''getAddress'' [(''entryPoint'', A_address), (''groupPublicKey'', A_bytes), (''salt'', A_uint 256)] [A_address],
     fn_call ''createAccount'' [(''entryPoint'', A_address), (''groupPublicKey'', A_bytes), (''salt'', A_uint 256)] [A_address]]"

text \<open>\<open>GroupFunction\<close>: the names the group interface has.\<close>

datatype group_function =
    InviteNode | QueueRemoval | CancelRemoval | ExecuteRemoval | AddIssuer | RemoveIssuer | AddAuthKey
  | RemoveAuthKey | TransferManager | RequestReshare | QueueAuthResolver | CancelAuthResolver | ExecuteAuthResolver

fun function_name :: "group_function \<Rightarrow> string" where
  "function_name InviteNode = ''inviteNode''" | "function_name QueueRemoval = ''queueRemoval''"
| "function_name CancelRemoval = ''cancelRemoval''" | "function_name ExecuteRemoval = ''executeRemoval''"
| "function_name AddIssuer = ''addIssuer''" | "function_name RemoveIssuer = ''removeIssuer''"
| "function_name AddAuthKey = ''addAuthKey''" | "function_name RemoveAuthKey = ''removeAuthKey''"
| "function_name TransferManager = ''transferManager''" | "function_name RequestReshare = ''requestReshare''"
| "function_name QueueAuthResolver = ''queueAuthResolver''" | "function_name CancelAuthResolver = ''cancelAuthResolver''"
| "function_name ExecuteAuthResolver = ''executeAuthResolver''"

text \<open>Arguments as the code hands them to viem.\<close>

datatype abi_value =
    V_text string | V_int int | V_bool bool | V_list "abi_value list"

definition lookup_fn :: "abi_function list \<Rightarrow> string \<Rightarrow> abi_function option" where
  "lookup_fn abi n = find (\<lambda>f. fn_name f = n) abi"

fun fits :: "abi_type \<Rightarrow> abi_value \<Rightarrow> bool"
  and fits_fields :: "(string \<times> abi_type) list \<Rightarrow> abi_value list \<Rightarrow> bool" where
  "fits (A_array ty) (V_list vs) = list_all (fits ty) vs"
| "fits (A_tuple fs) (V_list vs) = fits_fields fs vs"
| "fits (A_uint w) (V_int i) = (0 \<le> i \<and> i < 2 ^ w)"
| "fits A_bool (V_bool b) = True"
| "fits A_string (V_text s) = True"
| "fits A_address (V_text s) = (length s = 42 \<and> starts_with ''0x'' s \<and> list_all is_hex (drop 2 s))"
| "fits A_bytes (V_text s) = (starts_with ''0x'' s \<and> list_all is_hex (drop 2 s))"
| "fits A_bytes32 (V_text s) = (length s = 66 \<and> starts_with ''0x'' s \<and> list_all is_hex (drop 2 s))"
| "fits _ _ = False"
| "fits_fields [] [] = True"
| "fits_fields ((n, ty) # fs) (v # vs) = (fits ty v \<and> fits_fields fs vs)"
| "fits_fields _ _ = False"

record onchain_env = userop_env +
  sdk_encode :: "abi_function list \<Rightarrow> string \<Rightarrow> abi_value list \<Rightarrow> string + string"

definition encode_function_data :: "('e onchain_env_scheme) \<Rightarrow> abi_function list \<Rightarrow> string \<Rightarrow> abi_value list \<Rightarrow> jserr + string" where
  "encode_function_data E abi f args = (case sdk_encode E abi f args of Inl m \<Rightarrow> Inl (Error m) | Inr d \<Rightarrow> Inr d)"

subsection \<open>Signing a call\<close>

record sign_call_request =
  sc_network :: network_config
  sc_user :: user
  sc_dest :: string
  sc_call_data :: string
  sc_sponsored :: "bool option"
  sc_on_stage :: bool

definition no_wallet_message :: string where
  "no_wallet_message = ''Your account has no smart wallet yet. Sign out and back in so the console can provision your Signet key.''"

definition sign_call :: "('e userop_env_scheme) \<Rightarrow> sign_call_request \<Rightarrow> ('t, signed_user_op) io" where
  "sign_call E req =
     await (load_signing_session E) (\<lambda>session. case session of None \<Rightarrow> throw NoSigningSessionError
     | Some s \<Rightarrow>
         if \<not> truthy_str (u_smart_account_address (sc_user req)) then throw (Error no_wallet_message)
         else build_signed_user_op E
           \<lparr>br_network = sc_network req, br_session = s, br_sender = the (u_smart_account_address (sc_user req)),
            br_dest = sc_dest req, br_call_data = sc_call_data req, br_sponsored = sc_sponsored req,
            br_on_stage = sc_on_stage req\<rparr>)"

record group_call_request =
  gc_network :: network_config
  gc_user :: user
  gc_group_address :: "string option"
  gc_function :: group_function
  gc_args :: "abi_value list"
  gc_sponsored :: "bool option"
  gc_on_stage :: bool

definition sign_group_call :: "('e onchain_env_scheme) \<Rightarrow> group_call_request \<Rightarrow> ('t, signed_user_op option) io" where
  "sign_group_call E r =
     (if \<not> truthy_str (gc_group_address r) then ret None
      else
        await (lift_err (encode_function_data E signet_group_abi (function_name (gc_function r)) (gc_args r))) (\<lambda>call_data.
        await (sign_call E \<lparr>sc_network = gc_network r, sc_user = gc_user r, sc_dest = the (gc_group_address r),
            sc_call_data = call_data, sc_sponsored = gc_sponsored r, sc_on_stage = gc_on_stage r\<rparr>) (\<lambda>op.
        ret (Some op))))"

text \<open>The effect of \<open>useCanSignOnchain\<close>; \<open>&&\<close> does not look at the session without a wallet.\<close>

definition can_sign_onchain :: "('e env_scheme) \<Rightarrow> user option \<Rightarrow> ('t, bool) io" where
  "can_sign_onchain E u =
     (if truthy_str (Option.bind u u_smart_account_address)
      then await (load_signing_session E) (\<lambda>s. ret (s \<noteq> None)) else ret False)"

text \<open>The reading that \<open>useSigningSessionMinutesLeft\<close> repeats each minute; \<open>Math.round\<close> rounds a half up.\<close>

definition minutes_left :: "('e env_scheme) \<Rightarrow> ('t, int option) io" where
  "minutes_left E =
     await (load_signing_session E) (\<lambda>session. case session of None \<Rightarrow> ret None
     | Some s \<Rightarrow> await (lift_err (signing_session_expires_at (claims s))) (\<lambda>expires_at.
         case expires_at of None \<Rightarrow> ret None
         | Some ms \<Rightarrow> await (date_now E) (\<lambda>now. ret (Some (max 0 ((ms - now + 30000) div 60000))))))"

subsection \<open>Transport\<close>

datatype transport = T_userop string | T_wallet string | T_none string

definition same_address :: "string \<Rightarrow> string \<Rightarrow> bool" where
  "same_address a b \<longleftrightarrow> to_lower a = to_lower b"

definition choose_transport :: "user option \<Rightarrow> string option \<Rightarrow> bool \<Rightarrow> transport" where
  "choose_transport u manager can_sign = (case u of None \<Rightarrow> T_none ''You are not signed in.''
   | Some u \<Rightarrow>
      if \<not> truthy_str manager then T_none ''This app has no signing group yet.''
      else
        (let m = the manager; smart = u_smart_account_address u; eoa = u_account_address u in
         if truthy_str smart \<and> same_address m (the smart) then
           (if can_sign then T_userop (the smart)
            else T_none ''This group is managed by your Signet wallet, but this tab has no signing session. Sign in again.'')
         else if truthy_str eoa \<and> same_address m (the eoa) then T_wallet (the eoa)
         else T_none (''This group is managed by '' @ m @
           '', which is not an account you signed in with. Sign in with that account to change it.'')))"

subsection \<open>Truth and big integers of JSON values\<close>

definition js_truthy :: "json \<Rightarrow> bool" where
  "js_truthy j = (case j of JNull \<Rightarrow> False | JBool b \<Rightarrow> b | JNum n \<Rightarrow> n \<noteq> 0 | JStr s \<Rightarrow> s \<noteq> []
     | JDec l \<Rightarrow> (\<exists>c \<in> set (takeWhile (\<lambda>c. c \<noteq> CHR ''e'' \<and> c \<noteq> CHR ''E'') l). is_digit c \<and> c \<noteq> CHR ''0'')
     | _ \<Rightarrow> True)"

definition radix_val :: "nat \<Rightarrow> string \<Rightarrow> nat option" where
  "radix_val b s = (if s \<noteq> [] \<and> list_all (\<lambda>c. case hex_digit_val c of None \<Rightarrow> False | Some d \<Rightarrow> d < b) s
     then Some (value_of b (map (the \<circ> hex_digit_val) s)) else None)"

text \<open>\<open>BigInt(s)\<close> of a string: prefixes for base 16, 8 and 2, a sign only in base 10, and the empty
  string is zero.\<close>

definition big_of_string :: "string \<Rightarrow> int option" where
  "big_of_string s = (let u = trim s; p = to_lower (take 2 u) in
     if u = [] then Some 0
     else if p = ''0x'' then map_option int (radix_val 16 (drop 2 u))
     else if p = ''0o'' then map_option int (radix_val 8 (drop 2 u))
     else if p = ''0b'' then map_option int (radix_val 2 (drop 2 u))
     else if starts_with ''-'' u then map_option (\<lambda>n. - int n) (radix_val 10 (tl u))
     else if starts_with ''+'' u then map_option int (radix_val 10 (tl u))
     else map_option int (radix_val 10 u))"

definition big_int :: "json \<Rightarrow> jserr + int" where
  "big_int j = (case j of JNum n \<Rightarrow> Inr n | JBool b \<Rightarrow> Inr (if b then 1 else 0)
     | JNull \<Rightarrow> Inl (TypeError ''Cannot convert null to a BigInt'')
     | JDec l \<Rightarrow> Inl (Error ''RangeError'')
     | _ \<Rightarrow> (case big_of_string (js_string j) of None \<Rightarrow> Inl (Error ''SyntaxError'') | Some n \<Rightarrow> Inr n))"

subsection \<open>Waiting for the receipt\<close>

text \<open>One look at the receipt: is there one, and did it revert?\<close>

definition receipt_status :: "json \<Rightarrow> json option" where
  "receipt_status receipt = jget ''status'' receipt"

definition reverted_message :: string where
  "reverted_message = ''The transaction reverted, so nothing changed on-chain.''"

definition receipt_step :: "provider \<Rightarrow> json \<Rightarrow> ('t, bool) io" where
  "receipt_step p hash =
     await (wallet_request p ''eth_getTransactionReceipt'' [hash]) (\<lambda>receipt.
     if \<not> js_truthy receipt then ret False
     else (case receipt_status receipt of
         None \<Rightarrow> ret True
       | Some st \<Rightarrow> if \<not> js_truthy st then ret True
           else await (lift_err (big_int st)) (\<lambda>n. if n = 0 then throw (Error reverted_message) else ret True)))"

definition timeout_message :: "json \<Rightarrow> string" where
  "timeout_message hash = ''The transaction did not confirm within five minutes. It may still land '' @ em_dash @
     '' check '' @ js_string hash @ '' before retrying.''"

type_synonym ('t, 'a) poll = "'t tab_scheme \<Rightarrow> ((jserr + 'a) \<times> 't tab_scheme) option"

definition sleep :: "int \<Rightarrow> 't tab_scheme \<Rightarrow> 't tab_scheme" where
  "sleep ms t = t\<lparr>trace := trace t @ [Sleep ms]\<rparr>"

partial_function (option) poll_receipt ::
    "(event list \<Rightarrow> int) \<Rightarrow> provider \<Rightarrow> json \<Rightarrow> int \<Rightarrow> 't tab_scheme \<Rightarrow> ((jserr + unit) \<times> 't tab_scheme) option" where
  "poll_receipt now p hash deadline t =
     (if now (trace t) < deadline then
        (case receipt_step p hash t of (r, t') \<Rightarrow>
          (case r of Inl e \<Rightarrow> Some (Inl e, t')
           | Inr mined \<Rightarrow> if mined then Some (Inr (), t')
               else poll_receipt now p hash deadline (sleep 3000 t')))
      else Some (Inl (Error (timeout_message hash)), t))"

definition wait_for_receipt :: "('e env_scheme) \<Rightarrow> json \<Rightarrow> ('t, unit) poll" where
  "wait_for_receipt E hash t = (case e_wallet E of None \<Rightarrow> Some (Inr (), t)
     | Some p \<Rightarrow> poll_receipt (e_now E) p hash (e_now E (trace t) + 5 * 60000) t)"

definition p_run :: "('t \<Rightarrow> (jserr + 'a) \<times> 't) \<Rightarrow> 't \<Rightarrow> ((jserr + 'a) \<times> 't) option" where
  "p_run m t = Some (m t)"

definition p_await :: "('t \<Rightarrow> ((jserr + 'a) \<times> 't) option) \<Rightarrow> ('a \<Rightarrow> 't \<Rightarrow> ((jserr + 'b) \<times> 't) option) \<Rightarrow>
    't \<Rightarrow> ((jserr + 'b) \<times> 't) option" where
  "p_await m f t = (case m t of None \<Rightarrow> None | Some (r, t') \<Rightarrow>
     (case r of Inl e \<Rightarrow> Some (Inl e, t') | Inr x \<Rightarrow> f x t'))"

lemma p_run_apply [io_simps]: "p_run m t = Some (m t)"
  by (simp add: p_run_def)

lemma p_run_returns: "p_run m t = Some (r, t') \<longleftrightarrow> m t = (r, t')"
  by (simp add: p_run_def)

lemma p_await_returns: "p_await m f t = Some (Inr y, t'') \<longleftrightarrow> (\<exists>x t'. m t = Some (Inr x, t') \<and> f x t' = Some (Inr y, t''))"
  by (auto simp: p_await_def split: option.splits sum.splits)

lemma p_await_Some:
  "p_await m f t = Some (r, t'') \<longleftrightarrow> (\<exists>x t'. m t = Some (Inr x, t') \<and> f x t' = Some (r, t'')) \<or>
     (\<exists>e. r = Inl e \<and> m t = Some (Inl e, t''))"
  by (auto simp: p_await_def split: option.splits sum.splits)

subsection \<open>Sending and submitting\<close>

text \<open>\<open>OnchainProof\<close>\<close>

datatype onchain_proof = Proof_user_op signed_user_op | Proof_transaction json

definition json_of_proof :: "onchain_proof \<Rightarrow> json" where
  "json_of_proof pf = (case pf of Proof_user_op u \<Rightarrow> JObj [(''user_op'', json_of_user_op u)]
     | Proof_transaction h \<Rightarrow> JObj [(''transaction_hash'', h)])"

definition no_provider_message :: string where
  "no_provider_message = ''No browser wallet is available, and this group is managed by an address only your wallet can act as.''"

definition wrong_account_message :: "string option \<Rightarrow> string \<Rightarrow> string" where
  "wrong_account_message active from_addr = ''Your wallet is on '' @ dflt active ''no account'' @
     '', but this group is managed by '' @ from_addr @ ''. Switch accounts and try again.''"

definition send_transaction :: "('e onchain_env_scheme) \<Rightarrow> provider \<Rightarrow> group_call_request \<Rightarrow> string \<Rightarrow> string \<Rightarrow> ('t, json) io" where
  "send_transaction E p r from_addr data =
     await (wallet_request p ''eth_requestAccounts'' []) (\<lambda>accounts.
     let active = first_account accounts in
     if \<not> truthy_str active \<or> \<not> same_address (the active) from_addr
       then throw (Error (wrong_account_message active from_addr))
     else
       seq (on_stage (gc_on_stage r) Signing)
       (await (wallet_request p ''eth_sendTransaction''
          [jobj [str_field ''from'' from_addr, str_field ''to'' (the (gc_group_address r)), str_field ''data'' data]]) (\<lambda>hash.
       seq (on_stage (gc_on_stage r) Submitting) (ret hash))))"

definition send_group_call :: "('e onchain_env_scheme) \<Rightarrow> group_call_request \<Rightarrow> string \<Rightarrow> ('t, onchain_proof) poll" where
  "send_group_call E r from_addr t = (case e_wallet E of
     None \<Rightarrow> Some (Inl (Error no_provider_message), t)
   | Some p \<Rightarrow>
      p_await (p_run (lift_err (encode_function_data E signet_group_abi (function_name (gc_function r)) (gc_args r)))) (\<lambda>data.
      p_await (p_run (send_transaction E p r from_addr data)) (\<lambda>hash.
      p_await (wait_for_receipt E hash) (\<lambda>_.
      p_run (ret (Proof_transaction hash))))) t)"

definition submit_group_call :: "('e onchain_env_scheme) \<Rightarrow> group_call_request \<Rightarrow> transport \<Rightarrow> ('t, onchain_proof option) poll" where
  "submit_group_call E r tr =
     (if \<not> truthy_str (gc_group_address r) then p_run (ret None)
      else (case tr of
        T_none reason \<Rightarrow> p_run (throw (Error reason))
      | T_wallet a \<Rightarrow> p_await (send_group_call E r a) (\<lambda>pf. p_run (ret (Some pf)))
      | T_userop a \<Rightarrow> p_run (await (sign_group_call E r) (\<lambda>op. ret (map_option Proof_user_op op)))))"

subsection \<open>Creating the group\<close>

record issuer_config =
  ic_issuer :: string
  ic_client_ids :: "string list"

record deploy_request =
  dr_network :: network_config
  dr_user :: user
  dr_nodes :: "string list"
  dr_threshold :: int
  dr_removal_delay_seconds :: int
  dr_issuers :: "issuer_config list"
  dr_auth_keys :: "string list"
  dr_sponsored :: "bool option"
  dr_on_stage :: bool

datatype deploy_stage = D_stage userop_stage | D_attaching

fun deploy_stage_copy :: "deploy_stage \<Rightarrow> string" where
  "deploy_stage_copy (D_stage st) = userop_stage_copy st"
| "deploy_stage_copy D_attaching = ''Linking the group to your app''"

definition create_group_args :: "deploy_request \<Rightarrow> abi_value list" where
  "create_group_args r =
     [V_list (map V_text (dr_nodes r)), V_int (dr_threshold r), V_int (dr_removal_delay_seconds r),
      V_list (map (\<lambda>i. V_list [V_text (ic_issuer i), V_list (map V_text (ic_client_ids i))]) (dr_issuers r)),
      V_list (map (\<lambda>k. V_text (with_prefix k)) (dr_auth_keys r))]"

definition no_factory_message :: string where
  "no_factory_message = ''This deployment has no SignetFactory address configured, so no group can be created. Set FACTORY_ADDRESS on the API, or attach an existing group instead.''"

definition sign_create_group :: "('e onchain_env_scheme) \<Rightarrow> deploy_request \<Rightarrow> ('t, signed_user_op) io" where
  "sign_create_group E r =
     (if n_factory_address (dr_network r) = [] then throw (Error no_factory_message)
      else
        await (lift_err (encode_function_data E signet_factory_abi ''createGroup'' (create_group_args r))) (\<lambda>call_data.
        sign_call E \<lparr>sc_network = dr_network r, sc_user = dr_user r, sc_dest = n_factory_address (dr_network r),
          sc_call_data = call_data, sc_sponsored = dr_sponsored r, sc_on_stage = dr_on_stage r\<rparr>))"

subsection \<open>What a call does\<close>

lemma step_returns:
  assumes "receipt_step p hash t = (res, t')"
  shows "t' = t\<lparr>trace := trace t @ [Wallet ''eth_getTransactionReceipt'' [hash]]\<rparr>"
  using assms unfolding receipt_step_def wallet_request_def
  by (auto simp: await_def external_apply lift_err_apply throw_def ret_def split: sum.splits if_splits option.splits)

text \<open>A receipt the code takes for a mined, successful transaction.\<close>

definition confirmed :: "json \<Rightarrow> bool" where
  "confirmed receipt \<longleftrightarrow> js_truthy receipt \<and>
     (\<forall>st. receipt_status receipt = Some st \<longrightarrow> js_truthy st \<longrightarrow> big_int st \<noteq> Inr 0)"

lemma step_mined:
  assumes "receipt_step p hash t = (Inr True, t')"
  shows "\<exists>h receipt. p h ''eth_getTransactionReceipt'' [hash] = Inr receipt \<and> confirmed receipt"
proof -
  from assms obtain receipt where "p (trace t) ''eth_getTransactionReceipt'' [hash] = Inr receipt" "confirmed receipt"
    unfolding receipt_step_def wallet_request_def
    by (auto simp: await_def external_apply lift_err_apply throw_def ret_def confirmed_def
        split: sum.splits if_splits option.splits)
  then show ?thesis by blast
qed

definition poll_event :: "json \<Rightarrow> event \<Rightarrow> bool" where
  "poll_event hash e \<longleftrightarrow> e = Wallet ''eth_getTransactionReceipt'' [hash] \<or> e = Sleep 3000"

lemma poll_returns:
  "poll_receipt now p hash deadline t = Some y \<Longrightarrow>
   appends (poll_event hash) t (snd y) \<and> (fst y = Inr () \<longrightarrow>
     (\<exists>h receipt. p h ''eth_getTransactionReceipt'' [hash] = Inr receipt \<and> confirmed receipt))"
proof (induction rule: poll_receipt.raw_induct [rotated, consumes 1, case_names step])
  case (step self now p hash deadline t y)
  obtain r t1 where s: "receipt_step p hash t = (r, t1)" by fastforce
  have a: "appends (poll_event hash) t t1"
    by (simp add: step_returns [OF s] appends_def poll_event_def)
  have b: "appends (poll_event hash) t (sleep 3000 t1)"
    using a by (auto simp: sleep_def appends_def poll_event_def)
  show ?case
  proof (cases "now (trace t) < deadline \<and> r = Inr False")
    case True
    then have "self now p hash deadline (sleep 3000 t1) = Some y"
      using step(2) s True by simp
    from step(1) [OF this] show ?thesis
      using b appending.frame_trans by blast
  next
    case False
    with step(2) s a show ?thesis
      by (auto split: if_splits sum.splits dest: step_mined simp: appending.frame_refl)
  qed
qed

lemma wait_returns:
  assumes "wait_for_receipt E hash t = Some (r, t')"
  shows "appends (poll_event hash) t t'"
    and "r = Inr () \<Longrightarrow> e_wallet E = Some p \<Longrightarrow>
      \<exists>h receipt. p h ''eth_getTransactionReceipt'' [hash] = Inr receipt \<and> confirmed receipt"
  using assms poll_returns by (fastforce simp: wait_for_receipt_def appending.frame_refl split: option.splits)+

text \<open>The events of a send: the account is asked for first, and nothing but the transaction built from
  the request is ever asked to be sent.\<close>

definition transaction :: "group_call_request \<Rightarrow> string \<Rightarrow> string \<Rightarrow> json" where
  "transaction r from_addr data = jobj [str_field ''from'' from_addr, str_field ''to'' (the (gc_group_address r)), str_field ''data'' data]"

lemma send_transaction_returns:
  assumes "send_transaction E p r a data t = (res, t')"
  shows "\<exists>es. trace t' = trace t @ Wallet ''eth_requestAccounts'' [] # es \<and>
    (es = [] \<or> es = stage_events (gc_on_stage r) Signing @ [Wallet ''eth_sendTransaction'' [transaction r a data]] \<or>
     es = stage_events (gc_on_stage r) Signing @ [Wallet ''eth_sendTransaction'' [transaction r a data]]
        @ stage_events (gc_on_stage r) Submitting) \<and>
    (es \<noteq> [] \<longrightarrow> (\<exists>accounts b. p (trace t) ''eth_requestAccounts'' [] = Inr accounts \<and>
       first_account accounts = Some b \<and> same_address b a))"
  using assms
  by (auto simp: send_transaction_def wallet_request_def await_def seq_def external_apply on_stage_def stage_cb_apply
      ret_def throw_def Let_def stage_events_def transaction_def truthy_str_def split: sum.splits if_splits)

definition send_event :: "group_call_request \<Rightarrow> string \<Rightarrow> event \<Rightarrow> bool" where
  "send_event r a e \<longleftrightarrow> (\<forall>ps. e = Wallet ''eth_sendTransaction'' ps \<longrightarrow> (\<exists>data. ps = [transaction r a data]))"

lemma poll_event_no_send: "poll_event hash e \<Longrightarrow> e \<noteq> Wallet ''eth_sendTransaction'' ps"
  by (auto simp: poll_event_def)

text \<open>How many events of a list ask for a transaction.\<close>

fun is_send :: "event \<Rightarrow> bool" where
  "is_send (Wallet meth ps) = (meth = ''eth_sendTransaction'')"
| "is_send e = False"

lemma poll_no_send: "appends (poll_event hash) t t' \<Longrightarrow> \<exists>ws. trace t' = trace t @ ws \<and> filter is_send ws = []"
  by (fastforce simp: appends_def list_all_iff poll_event_def filter_empty_conv)

lemma stage_no_send [simp]: "filter is_send (stage_events b st) = []"
  by (simp add: stage_events_def)

lemma send_call_cases:
  assumes "send_group_call E r a t = Some (res, t')" and "e_wallet E = Some p"
  obtains (not_encoded) m where "res = Inl m" and "t' = t"
  | (refused) data m where "sdk_encode E signet_group_abi (function_name (gc_function r)) (gc_args r) = Inr data"
      and "send_transaction E p r a data t = (Inl m, t')" and "res = Inl m"
  | (sent) data hash t1 where "sdk_encode E signet_group_abi (function_name (gc_function r)) (gc_args r) = Inr data"
      and "send_transaction E p r a data t = (Inr hash, t1)"
      and "wait_for_receipt E hash t1 = Some (map_sum id (\<lambda>_. ()) res, t')"
      and "\<And>pf. res = Inr pf \<Longrightarrow> pf = Proof_transaction hash"
proof (cases "sdk_encode E signet_group_abi (function_name (gc_function r)) (gc_args r)")
  case (Inl m)
  then show ?thesis
    using assms not_encoded by (auto simp: send_group_call_def p_await_def p_run_def encode_function_data_def lift_err_def)
next
  case (Inr data)
  obtain res1 t1 where s: "send_transaction E p r a data t = (res1, t1)" by fastforce
  show ?thesis
  proof (cases res1)
    case Inl': (Inl m)
    then show ?thesis
      using assms Inr s refused [OF Inr]
      by (auto simp: send_group_call_def p_await_def p_run_def encode_function_data_def lift_err_def)
  next
    case Inr': (Inr hash)
    then show ?thesis
      using assms Inr s by (intro sent [of data hash t1])
        (auto simp: send_group_call_def p_await_def p_run_def encode_function_data_def lift_err_def ret_def
          split: option.splits sum.splits)
  qed
qed

lemma wait_no_send: "wait_for_receipt E hash t = Some (r, t') \<Longrightarrow>
    \<exists>ws. trace t' = trace t @ ws \<and> filter is_send ws = []"
  by (drule wait_returns(1)) (rule poll_no_send)

subsection \<open>Termination of the wait\<close>

definition is_look :: "event \<Rightarrow> bool" where
  "is_look e \<longleftrightarrow> (\<exists>hash. e = Wallet ''eth_getTransactionReceipt'' [hash])"

text \<open>A sleep takes its time: the clock read after \<open>setTimeout(r, ms)\<close> has moved by \<open>ms\<close> at least.\<close>

definition clock_advances :: "(event list \<Rightarrow> int) \<Rightarrow> bool" where
  "clock_advances now \<longleftrightarrow> (\<forall>h e ms. now (h @ [e, Sleep ms]) \<ge> now h + ms)"

lemma poll_terminates:
  assumes "clock_advances now" and "deadline \<le> now (trace t) + 3000 * int n"
  shows "\<exists>r t' es. poll_receipt now p hash deadline t = Some (r, t') \<and> trace t' = trace t @ es \<and>
    length (filter is_look es) \<le> n"
  using assms(2)
proof (induction n arbitrary: t)
  case 0
  then show ?case by (subst poll_receipt.simps) simp
next
  case (Suc n)
  obtain r t1 where s: "receipt_step p hash t = (r, t1)" by fastforce
  note tr = step_returns [OF s]
  have "now (trace (sleep 3000 t1)) \<ge> now (trace t) + 3000"
    using assms(1) by (simp add: tr sleep_def clock_advances_def)
  then have "deadline \<le> now (trace (sleep 3000 t1)) + 3000 * int n"
    using Suc.prems by simp
  from Suc.IH [OF this] obtain r' t' es where
    "poll_receipt now p hash deadline (sleep 3000 t1) = Some (r', t')"
    "trace t' = trace (sleep 3000 t1) @ es" "length (filter is_look es) \<le> n" by blast
  then show ?case
    by (subst poll_receipt.simps) (auto simp: s tr sleep_def is_look_def split: sum.splits if_splits)
qed

lemma wait_terminates:
  assumes "clock_advances (e_now E)"
  shows "\<exists>r t' es. wait_for_receipt E hash t = Some (r, t') \<and> trace t' = trace t @ es \<and> length (filter is_look es) \<le> 100"
  using poll_terminates [OF assms, of "e_now E (trace t) + 5 * 60000" t 100]
  by (auto simp: wait_for_receipt_def split: option.splits)

subsection \<open>Properties\<close>

text \<open>The transport follows the manager, not what the tab can do. An operation is offered exactly
  when the manager is the user's smart wallet and the tab can sign; the injected wallet exactly
  when the manager is the user's own account and not the smart wallet; and whatever is offered,
  the address it acts from is the manager up to letter case.\<close>

theorem choose_transport_follows_manager:
  "(choose_transport (Some u) (Some m) can = T_userop a \<longleftrightarrow>
      m \<noteq> [] \<and> can \<and> u_smart_account_address u = Some a \<and> a \<noteq> [] \<and> same_address m a) \<and>
   (choose_transport (Some u) (Some m) can = T_wallet a \<longleftrightarrow>
      m \<noteq> [] \<and> u_account_address u = Some a \<and> a \<noteq> [] \<and> same_address m a \<and>
      \<not> (\<exists>s. u_smart_account_address u = Some s \<and> s \<noteq> [] \<and> same_address m s)) \<and>
   (\<exists>why. choose_transport None (Some m) can = T_none why) \<and> (\<exists>why. choose_transport (Some u) None can = T_none why)"
  by (cases "u_smart_account_address u"; cases "u_account_address u")
    (auto simp: choose_transport_def truthy_str_def Let_def)

definition demo_user :: user where
  "demo_user = \<lparr>u_id = ''u1'', u_subject = ''s'', u_subject_kind = Siwe_subject, u_account_address = Some ''0xE0A'',
     u_group_public_key = None, u_smart_account_address = Some ''0x5MA'', u_signet_key_id = None,
     u_signet_key_address = None, u_email = None, u_display_name = ''d'', u_avatar_url = None, u_is_staff = False,
     u_last_seen_at = None, u_created_at = []\<rparr>"

text \<open>C2: a transaction is only asked of the wallet from the manager's own account. Whatever the
  wallet answers, a send that ends asks for at most one transaction; when it asks for one, it is
  the call of the request, from the address given and to the group, and the wallet's first account
  was that address, up to letter case, when it was asked just before.\<close>

theorem send_only_as_manager:
  assumes "e_wallet E = Some p" and "send_group_call E r a t = Some (res, t')"
  shows "\<exists>es. trace t' = trace t @ es \<and>
    (filter is_send es = [] \<or>
     (\<exists>data accounts b. filter is_send es = [Wallet ''eth_sendTransaction'' [transaction r a data]] \<and>
        sdk_encode E signet_group_abi (function_name (gc_function r)) (gc_args r) = Inr data \<and>
        p (trace t) ''eth_requestAccounts'' [] = Inr accounts \<and> first_account accounts = Some b \<and> same_address b a))"
  using assms(2,1)
proof (cases rule: send_call_cases)
  case (refused data m)
  then show ?thesis using send_transaction_returns [of E p r a data t "Inl m" t'] by fastforce
next
  case (sent data hash t1)
  then obtain ws where "trace t' = trace t1 @ ws" "filter is_send ws = []" by (blast dest: wait_no_send)
  then show ?thesis using sent(1) send_transaction_returns [OF sent(2)] by fastforce
qed simp

text \<open>C3: a transaction hash is handed on only when it has been seen mined and not reverted. When a
  send returns its proof, the wallet has answered a request for the receipt of that very hash with
  a receipt whose status, if it has one, is not zero.\<close>

theorem proof_is_confirmed:
  assumes "e_wallet E = Some p" and "send_group_call E r a t = Some (Inr pf, t')"
  shows "\<exists>hash h receipt. pf = Proof_transaction hash \<and>
    p h ''eth_getTransactionReceipt'' [hash] = Inr receipt \<and> confirmed receipt"
  using assms(2,1)
  by (cases rule: send_call_cases) (auto dest: wait_returns(2) [OF _ refl assms(1)])

text \<open>C4: waiting ends. If each sleep moves the clock by its length, a send returns or throws, after
  looking for the receipt at most a hundred times.\<close>

theorem send_terminates:
  assumes "clock_advances (e_now E)"
  shows "\<exists>res t' es. send_group_call E r a t = Some (res, t') \<and> trace t' = trace t @ es \<and>
    length (filter is_look es) \<le> 100"
proof (cases "e_wallet E")
  case None
  then show ?thesis by (simp add: send_group_call_def)
next
  case (Some p)
  show ?thesis
  proof (cases "sdk_encode E signet_group_abi (function_name (gc_function r)) (gc_args r)")
    case (Inl m)
    then show ?thesis
      using Some by (simp add: send_group_call_def p_await_def p_run_def encode_function_data_def lift_err_def)
  next
    case (Inr data)
    obtain res1 t1 where s: "send_transaction E p r a data t = (res1, t1)" by fastforce
    have l: "filter is_look (stage_events b st) = []" for b st by (simp add: stage_events_def is_look_def)
    from send_transaction_returns [OF s] obtain es where e: "trace t1 = trace t @ es" "filter is_look es = []"
      by (auto simp: l is_look_def)
    then show ?thesis
      using Some Inr s wait_terminates [OF assms, of _ t1]
      by (cases res1) (fastforce simp: send_group_call_def p_await_def p_run_def encode_function_data_def lift_err_def
          ret_def split: option.splits sum.splits)+
  qed
qed

fun sleep_length :: "event \<Rightarrow> int" where
  "sleep_length (Sleep ms) = max 0 ms"
| "sleep_length e = 0"

definition demo_clock :: "event list \<Rightarrow> int" where
  "demo_clock h = sum_list (map sleep_length h)"

lemma demo_clock_advances: "clock_advances demo_clock"
proof -
  have "0 \<le> sleep_length e" for e by (cases e) auto
  then show ?thesis by (auto simp: clock_advances_def demo_clock_def intro: add_increasing)
qed

definition demo_wallet :: "event list \<Rightarrow> string \<Rightarrow> json list \<Rightarrow> string + json" where
  "demo_wallet h meth ps =
     (if meth = ''eth_requestAccounts'' then Inr (JArr [JStr ''0xe0a''])
      else if meth = ''eth_sendTransaction'' then Inr (JStr ''0x7a'')
      else if meth = ''eth_getTransactionReceipt'' then Inr (JObj [(''status'', JStr ''0x1'')])
      else Inl ''unsupported'')"

definition demo_onchain_env :: onchain_env where
  "demo_onchain_env = userop_env.extend ((demo_userop_env False)\<lparr>e_wallet := Some demo_wallet, e_now := demo_clock\<rparr>)
     (onchain_env.fields (\<lambda>_ f _. Inr (''0x'' @ hex_of_nat (length f))))"

definition demo_call :: group_call_request where
  "demo_call = \<lparr>gc_network = demo_network, gc_user = demo_user, gc_group_address = Some ''0x6a'',
     gc_function = RequestReshare, gc_args = [], gc_sponsored = None, gc_on_stage = False\<rparr>"

lemma demo_onchain_simps [simp]:
  "e_wallet demo_onchain_env = Some demo_wallet" "e_now demo_onchain_env = demo_clock"
  "sdk_encode demo_onchain_env abi f vs = Inr (''0x'' @ hex_of_nat (length f))"
  by (simp_all add: demo_onchain_env_def userop_env.defs onchain_env.defs)

theorem send_terminates_witness:
  "\<exists>res t'. send_group_call demo_onchain_env demo_call ''0xE0A'' empty_tab = Some (res, t')"
  using send_terminates [of demo_onchain_env demo_call "''0xE0A''" empty_tab] demo_clock_advances by auto

lemma demo_status: "big_int (JStr ''0x1'') = Inr 1"
  by code_simp

lemma demo_receipt_step: "receipt_step demo_wallet (JStr ''0x7a'') t =
    (Inr True, t\<lparr>trace := trace t @ [Wallet ''eth_getTransactionReceipt'' [JStr ''0x7a'']]\<rparr>)"
  by (simp add: receipt_step_def wallet_request_def await_def external_apply demo_wallet_def js_truthy_def
      receipt_status_def lift_err_def ret_def demo_status)

lemma demo_send: "\<exists>t'. send_group_call demo_onchain_env demo_call ''0xE0A'' t = Some (Inr (Proof_transaction (JStr ''0x7a'')), t')"
proof -
  let ?data = "''0x'' @ hex_of_nat (length (function_name (gc_function demo_call)))"
  have "same_address ''0xe0a'' ''0xE0A''" by code_simp
  then obtain t1 where s: "send_transaction demo_onchain_env demo_wallet demo_call ''0xE0A'' ?data t = (Inr (JStr ''0x7a''), t1)"
    by (simp add: send_transaction_def wallet_request_def await_def seq_def external_apply demo_wallet_def truthy_str_def
        Let_def on_stage_def demo_call_def ret_def)
  have "0 < (5::int) * 60000" by simp
  then obtain t2 where w: "wait_for_receipt demo_onchain_env (JStr ''0x7a'') t1 = Some (Inr (), t2)"
    by (simp add: wait_for_receipt_def, subst (asm) poll_receipt.simps) (simp add: demo_receipt_step)
  show ?thesis
    using s w by (simp add: send_group_call_def p_await_def p_run_def encode_function_data_def lift_err_def ret_def)
qed

theorem send_only_as_manager_witness:
  "\<exists>t'. send_group_call demo_onchain_env demo_call ''0xE0A'' empty_tab = Some (Inr (Proof_transaction (JStr ''0x7a'')), t') \<and>
     length (filter is_send (trace t')) \<le> 1"
proof -
  obtain t' where s: "send_group_call demo_onchain_env demo_call ''0xE0A'' empty_tab = Some (Inr (Proof_transaction (JStr ''0x7a'')), t')"
    using demo_send by blast
  then show ?thesis
    using send_only_as_manager [OF demo_onchain_simps(1) s] by (auto simp: empty_tab_def)
qed

theorem proof_is_confirmed_witness:
  "\<exists>receipt. demo_wallet [] ''eth_getTransactionReceipt'' [JStr ''0x7a''] = Inr receipt \<and> confirmed receipt"
proof -
  obtain t' where s: "send_group_call demo_onchain_env demo_call ''0xE0A'' empty_tab = Some (Inr (Proof_transaction (JStr ''0x7a'')), t')"
    using demo_send by blast
  then show ?thesis
    using proof_is_confirmed [OF demo_onchain_simps(1) s] by (auto simp: demo_wallet_def)
qed

lemma send_transaction_Inr:
  assumes "send_transaction E p r a data t = (Inr hash, t1)"
  shows "\<exists>es. trace t1 = trace t @ es \<and> filter is_send es = [Wallet ''eth_sendTransaction'' [transaction r a data]]"
  using assms by (auto simp: send_transaction_def wallet_request_def run_returns on_stage_returns Let_def
      transaction_def split: if_splits)

lemma submit_returns:
  assumes "submit_group_call E r tr t = Some (Inr (Some pf), t')"
  obtains (userop) a u where "tr = T_userop a" and "pf = Proof_user_op u" and "sign_group_call E r t = (Inr (Some u), t')"
  | (wallet) a where "tr = T_wallet a" and "send_group_call E r a t = Some (Inr pf, t')"
  using assms
  by (auto simp: submit_group_call_def p_run_def p_await_returns run_returns split: if_splits transport.splits
      dest!: sym [of "Some pf"])

lemma sign_group_call_returns:
  assumes "sign_group_call E r t = (Inr (Some u), t')"
  obtains call_data s where "sdk_encode E signet_group_abi (function_name (gc_function r)) (gc_args r) = Inr call_data"
    and "load_signing_session E t = (Inr (Some s), t)" and "truthy_str (u_smart_account_address (gc_user r))"
    and "build_signed_user_op E
       \<lparr>br_network = gc_network r, br_session = s, br_sender = the (u_smart_account_address (gc_user r)),
        br_dest = the (gc_group_address r), br_call_data = call_data, br_sponsored = gc_sponsored r,
        br_on_stage = gc_on_stage r\<rparr> t = (Inr u, t')"
  using assms
  by (auto simp: sign_group_call_def sign_call_def run_returns encode_function_data_def
      split: if_splits option.splits sum.splits dest: load_returns_SomeD(1))

text \<open>What the SDK's builder and sponsorship leave alone.\<close>

definition sdk_keeps_call :: "('e userop_env_scheme) \<Rightarrow> bool" where
  "sdk_keeps_call E \<longleftrightarrow>
     (\<forall>s n i d c. po_sender (sdk_build_user_op E s n i d c) = s) \<and>
     (\<forall>op data. po_sender (sdk_apply_sponsorship E op data) = po_sender op)"

lemma build_sender:
  assumes "sdk_keeps_call E" and "build_signed_user_op E req t = (Inr u, t')"
  shows "su_sender u = br_sender req"
  using assms(2)
proof (rule build_returns)
  fix op1 gas op2 sig t1
  assume op2: "\<not> use_paymaster E (br_sponsored req) \<Longrightarrow> op2 = with_gas gas op1 \<and>
       (\<exists>nonce init. op1 = sdk_build_user_op E (br_sender req) nonce init (br_dest req) (br_call_data req))"
    "use_paymaster E (br_sponsored req) \<Longrightarrow> \<exists>h data. op2 = sdk_apply_sponsorship E (with_gas gas op1) data \<and>
       sdk_paymaster_data E h (n_entrypoint_address (br_network req)) (n_chain_id (br_network req)) (with_gas gas op1) = Inr data"
    and ser: "serialize (op2\<lparr>po_signature := sig\<rparr>) = Inr u"
    and op1: "\<exists>nonce init op. op = sdk_build_user_op E (br_sender req) nonce init (br_dest req) (br_call_data req) \<and>
       (op1 = op \<or> (\<exists>data. op1 = sdk_apply_sponsorship E op data))"
  have "po_sender op1 = br_sender req" using op1 assms(1) by (auto simp: sdk_keeps_call_def)
  then have "po_sender op2 = br_sender req"
    using op2 assms(1) by (cases "use_paymaster E (br_sponsored req)") (auto simp: sdk_keeps_call_def with_gas_def)
  then show ?thesis using serialize_Inr(1) [OF ser] by simp
qed

subsection \<open>Properties of a submission\<close>

text \<open>C1: the change is made as the manager. A screen picks the transport with \<open>chooseTransport\<close> and
  submits with it. When a proof comes back, either it is an operation whose sender is the group's
  manager, or exactly one transaction was asked of the wallet, from the manager's address to the
  group; never the other account of the user, whatever the tab could have signed with.\<close>

theorem submit_acts_as_manager:
  assumes "sdk_keeps_call E" and "tr = choose_transport (Some (gc_user r)) (Some m) can"
    and "submit_group_call E r tr t = Some (Inr (Some pf), t')"
  shows "case pf of Proof_user_op u \<Rightarrow> same_address m (su_sender u)
    | Proof_transaction h \<Rightarrow> \<exists>es a data. trace t' = trace t @ es \<and> same_address m a \<and>
        filter is_send es = [Wallet ''eth_sendTransaction'' [transaction r a data]]"
  using assms(3)
proof (cases rule: submit_returns)
  case (userop a u)
  have a: "u_smart_account_address (gc_user r) = Some a" "same_address m a"
    using userop(1) assms(2)
    by (auto simp: choose_transport_def truthy_str_def Let_def split: if_splits)
  from userop(3) have "su_sender u = a"
    by (rule sign_group_call_returns) (auto dest: build_sender [OF assms(1)] simp: a)
  then show ?thesis using userop(2) a by simp
next
  case (wallet a)
  have a: "same_address m a"
    using wallet(1) assms(2)
    by (auto simp: choose_transport_def truthy_str_def Let_def split: if_splits)
  obtain p where p: "e_wallet E = Some p"
    using wallet(2) by (cases "e_wallet E") (auto simp: send_group_call_def)
  from wallet(2) p show ?thesis
  proof (cases rule: send_call_cases)
    case (sent data hash t1)
    obtain ws where "trace t' = trace t1 @ ws" "filter is_send ws = []"
      using wait_no_send [OF sent(3)] by blast
    then show ?thesis
      using send_transaction_Inr [OF sent(2)] a sent(4) [OF refl] by fastforce
  qed auto
qed

theorem submit_acts_as_manager_witness:
  "\<exists>t' es a data. submit_group_call demo_onchain_env demo_call (T_wallet ''0xE0A'') empty_tab
      = Some (Inr (Some (Proof_transaction (JStr ''0x7a''))), t') \<and>
     trace t' = es \<and> filter is_send es = [Wallet ''eth_sendTransaction'' [transaction demo_call a data]]"
proof -
  obtain t' where "send_group_call demo_onchain_env demo_call ''0xE0A'' empty_tab = Some (Inr (Proof_transaction (JStr ''0x7a'')), t')"
    using demo_send by blast
  then have s: "submit_group_call demo_onchain_env demo_call (T_wallet ''0xE0A'') empty_tab
      = Some (Inr (Some (Proof_transaction (JStr ''0x7a''))), t')"
    by (simp add: submit_group_call_def p_await_def p_run_def ret_def truthy_str_def demo_call_def)
  have k: "sdk_keeps_call demo_onchain_env"
    by (simp add: sdk_keeps_call_def demo_onchain_env_def userop_env.defs)
  have "same_address ''0xe0a'' ''0xE0A''" "\<not> same_address ''0xe0a'' ''0x5MA''" by code_simp+
  then have "T_wallet ''0xE0A'' = choose_transport (Some (gc_user demo_call)) (Some ''0xe0a'') True"
    by (simp add: choose_transport_def demo_call_def demo_user_def truthy_str_def Let_def)
  from submit_acts_as_manager [OF k this s] s show ?thesis by (auto simp: empty_tab_def)
qed

text \<open>An app without a group, or a user who cannot act, touches nothing. Without a group address a
  submission returns nothing and leaves the tab as it was; with a transport of kind \<open>none\<close> it throws
  that transport's reason, again before anything is read, signed or sent.\<close>

theorem submit_without_group_or_transport:
  "submit_group_call E (r\<lparr>gc_group_address := None\<rparr>) tr t = Some (Inr None, t) \<and>
   (g \<noteq> [] \<longrightarrow> submit_group_call E (r\<lparr>gc_group_address := Some g\<rparr>) (T_none why) t = Some (Inl (Error why), t))"
  by (simp add: submit_group_call_def truthy_str_def p_run_def ret_def throw_def)

theorem submit_without_group_or_transport_witness:
  "submit_group_call demo_onchain_env (demo_call\<lparr>gc_group_address := Some ''0x6a''\<rparr>) (T_none ''why'') empty_tab
     = Some (Inl (Error ''why''), empty_tab)"
  using submit_without_group_or_transport [of demo_onchain_env demo_call "T_none ''why''" empty_tab "''0x6a''" "''why''"] by simp

text \<open>The arguments of \<open>createGroup\<close> have the types of its interface. For node addresses, hexadecimal
  keys with or without a prefix, and a threshold and a delay that fit in 256 bits, the argument
  list fits the inputs of the only \<open>createGroup\<close> of the factory interface, issuers included.\<close>

theorem create_group_args_fit:
  assumes "list_all (\<lambda>n. fits A_address (V_text n)) (dr_nodes r)"
    and "0 \<le> dr_threshold r" "dr_threshold r < 2 ^ 256"
    and "0 \<le> dr_removal_delay_seconds r" "dr_removal_delay_seconds r < 2 ^ 256"
    and "list_all (\<lambda>k. list_all is_hex (drop (if starts_with ''0x'' k then 2 else 0) k)) (dr_auth_keys r)"
  shows "\<exists>f. lookup_fn signet_factory_abi ''createGroup'' = Some f \<and> fits_fields (fn_inputs f) (create_group_args r)"
  using assms
  by (simp add: lookup_fn_def signet_factory_abi_def fn_call_def fn_view_def create_group_args_def list_all_iff
      with_prefix_def)

definition demo_deploy :: deploy_request where
  "demo_deploy = \<lparr>dr_network = demo_network, dr_user = demo_user,
     dr_nodes = [''0x'' @ replicate 40 (CHR ''a''), ''0x'' @ replicate 40 (CHR ''b'')], dr_threshold = 2,
     dr_removal_delay_seconds = 86400, dr_issuers = [\<lparr>ic_issuer = ''https://issuer'', ic_client_ids = [''web'']\<rparr>],
     dr_auth_keys = [''02ab''], dr_sponsored = Some True, dr_on_stage = True\<rparr>"

theorem create_group_args_fit_witness:
  "\<exists>f. lookup_fn signet_factory_abi ''createGroup'' = Some f \<and> fits_fields (fn_inputs f) (create_group_args demo_deploy)"
proof (rule create_group_args_fit)
  show "list_all (\<lambda>n. fits A_address (V_text n)) (dr_nodes demo_deploy)" by code_simp
  show "list_all (\<lambda>k. list_all is_hex (drop (if starts_with ''0x'' k then 2 else 0) k)) (dr_auth_keys demo_deploy)" by code_simp
qed (simp_all add: demo_deploy_def)

text \<open>The countdown never shows a session that cannot be used. When it shows a number of minutes, the
  session just loaded has at least that many minutes left rounded to the nearest, and since a load
  refuses a session within two minutes of its end, the number is at least two.\<close>

theorem minutes_left_at_least_two:
  assumes "minutes_left E t = (Inr (Some m), t')"
  shows "2 \<le> m \<and> (\<exists>s ms. load_signing_session E t = (Inr (Some s), t) \<and>
    signing_session_expires_at (claims s) = Inr (Some ms) \<and>
    \<bar>ms - e_now E (trace t) - 60000 * m\<bar> \<le> 30000)"
proof -
  from assms obtain s ms where s: "load_signing_session E t = (Inr (Some s), t)"
    and ms: "signing_session_expires_at (claims s) = Inr (Some ms)"
    and m: "m = max 0 ((ms - e_now E (trace t) + 30000) div 60000)"
    by (auto simp: minutes_left_def run_returns split: option.splits dest: load_returns_SomeD(1))
  have "e_now E (trace t) + 120000 < ms"
    using load_returns_SomeD(2) [OF s] ms by (simp add: expired_def EXPIRY_SKEW_SECONDS_def)
  define d where "d = ms - e_now E (trace t) + 30000"
  have "150000 < d" using \<open>e_now E (trace t) + 120000 < ms\<close> by (simp add: d_def)
  then have "2 \<le> d div 60000" using zdiv_mono1 [of 150000 d 60000] by simp
  moreover have "60000 * (d div 60000) \<le> d" "d < 60000 * (d div 60000) + 60000"
    using pos_mod_bound [of 60000 d] pos_mod_sign [of 60000 d] by (simp_all add: minus_div_mult_eq_mod [symmetric])
  ultimately have "2 \<le> m \<and> \<bar>ms - e_now E (trace t) - 60000 * m\<bar> \<le> 30000"
    unfolding m d_def [symmetric] by (simp add: d_def abs_le_iff)
  then show ?thesis using s ms by blast
qed

theorem minutes_left_at_least_two_witness:
  "\<exists>m. fst (minutes_left demo_env (snd (store_signing_session demo_env (demo_session (Some ''ops'') (Some ''https://n1'')) empty_tab)))
     = Inr (Some m) \<and> 2 \<le> m"
proof -
  let ?s = "demo_session (Some ''ops'') (Some ''https://n1'')"
  let ?t = "snd (store_signing_session demo_env ?s empty_tab)"
  have l: "load_signing_session demo_env ?t = (Inr (Some ?s), ?t)"
    using slot.slot_load_store [of demo_env ?s empty_tab] demo_session_fit
    by (simp add: reliable_id demo_session_facts(1))
  then obtain m where "minutes_left demo_env ?t = (Inr (Some m), ?t)"
    by (simp add: minutes_left_def await_def lift_err_def demo_session_facts(4) date_now_def reads_def ret_def)
  from this minutes_left_at_least_two [OF this] show ?thesis by auto
qed

end
