(* ===== verification/Provision.thy ===== *)
theory Provision
  imports Onchain
begin

text \<open>
  \<open>web/lib/provision.ts\<close>: issuing a Signet key to a signed-in developer. A session key is made, the
  platform certifies it, the first of the certificate's nodes opens the session, the group
  generates the key, the smart account is read, the session is stored and the key recorded. The
  SDK's key generation is an argument of the environment. \<open>cert.node_urls[0]\<close> of an empty list is
  \<open>undefined\<close>: as a header it is the text \<open>undefined\<close>, as a session node it is absent.
\<close>

subsection \<open>Stages\<close>

datatype provision_stage =
    P_session | P_certificate | P_authenticating | P_keygen | P_wallet | P_recording | P_done

fun provision_stage_key :: "provision_stage \<Rightarrow> string" where
  "provision_stage_key P_session = ''session''" | "provision_stage_key P_certificate = ''certificate''"
| "provision_stage_key P_authenticating = ''authenticating''" | "provision_stage_key P_keygen = ''keygen''"
| "provision_stage_key P_wallet = ''wallet''" | "provision_stage_key P_recording = ''recording''"
| "provision_stage_key P_done = ''done''"

fun provision_stage_copy :: "provision_stage \<Rightarrow> string" where
  "provision_stage_copy P_session = ''Creating a session key''"
| "provision_stage_copy P_certificate = ''Requesting a certificate''"
| "provision_stage_copy P_authenticating = ''Authenticating with your operators''"
| "provision_stage_copy P_keygen = ''Generating your Signet key''"
| "provision_stage_copy P_wallet = ''Deriving your smart wallet''"
| "provision_stage_copy P_recording = ''Finishing up''"
| "provision_stage_copy P_done = ''Ready''"

definition on_provision_stage :: "bool \<Rightarrow> provision_stage \<Rightarrow> ('t, unit) io" where
  "on_provision_stage cb st = (if cb then stage_cb (provision_stage_key st) else ret ())"

subsection \<open>Key generation\<close>

record keygen_request =
  kg_node_urls :: "string option list"
  kg_group_id :: string
  kg_proxy_endpoint :: string
  kg_claims :: json
  kg_identity :: "string option"
  kg_curve :: "string option"

record generated_key =
  gk_group_public_key :: "string option"
  gk_key_id :: string
  gk_ethereum_address :: string

record provision_env = onchain_env +
  sdk_session_keypair :: "event list \<Rightarrow> string + keypair"
  sdk_keygen :: "event list \<Rightarrow> keygen_request \<Rightarrow> keypair \<Rightarrow> string + generated_key"

definition url_text :: "string option \<Rightarrow> string" where
  "url_text u = (case u of None \<Rightarrow> ''undefined'' | Some s \<Rightarrow> s)"

definition keygen_event :: "keygen_request \<Rightarrow> event" where
  "keygen_event r = Sdk ''keygen'' (kg_group_id r # kg_proxy_endpoint r # map url_text (kg_node_urls r))"

definition keygen :: "('e provision_env_scheme) \<Rightarrow> keygen_request \<Rightarrow> keypair \<Rightarrow> ('t, generated_key) io" where
  "keygen E r kp = external (keygen_event r) (\<lambda>h. sdk_keygen E h r kp)"

definition generate_session_keypair :: "('e provision_env_scheme) \<Rightarrow> ('t, keypair) io" where
  "generate_session_keypair E = external (Sdk ''generateSessionKeypair'' []) (sdk_session_keypair E)"

definition first_node :: "string list \<Rightarrow> string option" where
  "first_node ns = (case ns of [] \<Rightarrow> None | n # _ \<Rightarrow> Some n)"

text \<open>The session's node first, then the others.\<close>

definition session_first :: "string option \<Rightarrow> string list \<Rightarrow> string option list" where
  "session_first n ns = n # map Some (filter (\<lambda>m. Some m \<noteq> n) ns)"

subsection \<open>Provisioning\<close>

record provision_result =
  pr_group_public_key :: string
  pr_key_id :: string
  pr_key_address :: string
  pr_smart_account :: "string option"

definition needs_signet_key :: "user option \<Rightarrow> bool" where
  "needs_signet_key u \<longleftrightarrow> (case u of None \<Rightarrow> False | Some u \<Rightarrow> \<not> truthy_str (u_signet_key_address u))"

definition no_bootstrap_message :: string where
  "no_bootstrap_message = ''This deployment has no bootstrap signing group configured, so no Signet key can be issued.''"

definition auth_refused_message :: "string \<Rightarrow> string" where
  "auth_refused_message body = ''Your operators would not accept the platform'' @ [CHR 39] @ ''s certificate: '' @ trim body @ ''. '' @
     ''If this is a fresh deployment, the platform'' @ [CHR 39] @ ''s authorization key may not be registered on the bootstrap group yet.''"

definition no_public_key_message :: string where
  "no_public_key_message = ''Your operators generated a key but returned no public key for it.''"

definition auth_body :: "node_certificate \<Rightarrow> keypair \<Rightarrow> json" where
  "auth_body cert kp = jobj [str_field ''group_id'' (to_lower (nc_group_id cert)),
     str_field ''session_pub'' (public_key_hex kp), (''certificate'', Some (nc_certificate cert))]"

definition cert_claims :: "node_certificate \<Rightarrow> json" where
  "cert_claims cert = JObj [(''iss'', JStr []), (''sub'', JStr []), (''exp'', JNum (nc_expiry cert)),
     (''aud'', JStr []), (''azp'', JStr [])]"

definition proxy_endpoint :: "('e env_scheme) \<Rightarrow> string" where
  "proxy_endpoint E = api_base E @ ''/v1/node/bootstrap-proxy''"

definition cert_keygen :: "('e env_scheme) \<Rightarrow> node_certificate \<Rightarrow> keygen_request" where
  "cert_keygen E cert = \<lparr>kg_node_urls = session_first (first_node (nc_node_urls cert)) (nc_node_urls cert),
     kg_group_id = nc_group_id cert, kg_proxy_endpoint = proxy_endpoint E, kg_claims = cert_claims cert,
     kg_identity = Some (nc_identity cert), kg_curve = Some ''frost_secp256k1''\<rparr>"

definition cert_session :: "node_certificate \<Rightarrow> keypair \<Rightarrow> string \<Rightarrow> signing_session" where
  "cert_session cert kp gpk = \<lparr>keypair = kp, claims = cert_claims cert, group_public_key = gpk,
     identity = Some (nc_identity cert), node_url = first_node (nc_node_urls cert)\<rparr>"

definition signet_key_body :: "string \<Rightarrow> generated_key \<Rightarrow> string option \<Rightarrow> json" where
  "signet_key_body gpk key account = jobj [str_field ''group_public_key'' gpk, str_field ''key_id'' (gk_key_id key),
     str_field ''key_address'' (gk_ethereum_address key), str_field ''smart_account'' (dflt account [])]"

text \<open>The end of \<open>provisionSignetKey\<close>: keep the session, record the key.\<close>

definition finish_provision :: "('e env_scheme) \<Rightarrow> bool \<Rightarrow> node_certificate \<Rightarrow> keypair \<Rightarrow> string \<Rightarrow> generated_key \<Rightarrow>
    string option \<Rightarrow> ('t, provision_result) io" where
  "finish_provision E cb cert kp gpk key account =
     seq (store_signing_session E (cert_session cert kp gpk))
       (seq (on_provision_stage cb P_recording)
       (await (request E (auth_route (PutSignetKey (signet_key_body gpk key account)))) (\<lambda>_.
        seq (on_provision_stage cb P_done)
        (ret \<lparr>pr_group_public_key = gpk, pr_key_id = gk_key_id key, pr_key_address = gk_ethereum_address key,
             pr_smart_account = account\<rparr>))))"

definition provision_signet_key :: "('e provision_env_scheme) \<Rightarrow> network_config \<Rightarrow> bool \<Rightarrow> ('t, provision_result) io" where
  "provision_signet_key E network cb =
     (if n_bootstrap_group network = [] \<or> n_bootstrap_nodes network = [] then throw (Error no_bootstrap_message)
      else
        seq (on_provision_stage cb P_session)
       (await (generate_session_keypair E) (\<lambda>kp.
        seq (on_provision_stage cb P_certificate)
       (await (typed node_certificate_of_json (request E (auth_route (PostNodeCertificate (public_key_hex kp))))) (\<lambda>cert.
        seq (on_provision_stage cb P_authenticating)
       (await (fetch E (bootstrap_fetch E (url_text (first_node (nc_node_urls cert))) ''/v1/auth'' (auth_body cert kp))) (\<lambda>(st, body).
        if \<not> reply_ok st then throw (Error (auth_refused_message body))
        else
        seq (on_provision_stage cb P_keygen)
       (await (keygen E (cert_keygen E cert) kp) (\<lambda>key.
        if \<not> truthy_str (gk_group_public_key key) then throw (Error no_public_key_message)
        else
        (let gpk = the (gk_group_public_key key) in
        seq (on_provision_stage cb P_wallet)
       (await (counterfactual_account E network gpk) (\<lambda>account.
        finish_provision E cb cert kp gpk key account))))))))))))"

definition restore_refused_message :: string where
  "restore_refused_message = ''Your Signet key is bound to the credential you signed in with, so restoring it means signing in again.''"

definition restore_signing_session :: "('e provision_env_scheme) \<Rightarrow> network_config \<Rightarrow> user \<Rightarrow> bool \<Rightarrow> ('t, provision_result) io" where
  "restore_signing_session E network u cb =
     (if u_subject_kind u \<noteq> Siwe_subject then throw (Error restore_refused_message)
      else provision_signet_key E network cb)"

definition can_restore_signing_session :: "user option \<Rightarrow> bool" where
  "can_restore_signing_session u \<longleftrightarrow> (case u of None \<Rightarrow> False | Some u \<Rightarrow> u_subject_kind u = Siwe_subject)"

subsection \<open>How the steps end\<close>

definition current_token :: "('e env_scheme) \<Rightarrow> 't tab_scheme \<Rightarrow> string option" where
  "current_token E t = (if e_ls_throws E then None else local_storage t TOKEN_KEY)"

definition logged :: "event list \<Rightarrow> 't tab_scheme \<Rightarrow> 't tab_scheme" where
  "logged es t = t\<lparr>trace := trace t @ es\<rparr>"

lemma logged_simps [simp]:
  "trace (logged es t) = trace t @ es" "session_storage (logged es t) = session_storage t"
  "local_storage (logged es t) = local_storage t" "logged [] t = t" "logged fs (logged es t) = logged (es @ fs) t"
  "current_token E (logged es t) = current_token E t"
  by (simp_all add: logged_def current_token_def)

lemma request_ends: "request E r t = (res, t') \<Longrightarrow> t' = logged [Fetch (request_of E (current_token E t) r)] t"
  by (auto simp: request_apply Let_def current_token_def logged_def split: http_reply.splits)

lemma typed_ends: "typed d m t = (res, t') \<Longrightarrow> \<exists>res'. m t = (res', t')"
  by (auto simp: typed_def await_def ret_def throw_def split: prod.splits sum.splits option.splits)

lemma typed_request_ends: "typed d (request E r) t = (res, t') \<Longrightarrow>
    t' = logged [Fetch (request_of E (current_token E t) r)] t"
  by (blast dest: typed_ends request_ends)

lemma fetch_ends: "fetch E req t = (res, t') \<Longrightarrow> t' = logged [Fetch req] t"
  by (auto simp: fetch_apply logged_def split: http_reply.splits)

lemma external_ends: "external e f t = (res, t') \<Longrightarrow> t' = logged [e] t"
  by (auto simp: external_apply logged_def split: sum.splits)

lemma stage_ends: "on_provision_stage cb st t = (res, t') \<longleftrightarrow>
    res = Inr () \<and> t' = logged (if cb then [Stage (provision_stage_key st)] else []) t"
  by (auto simp: on_provision_stage_def stage_cb_apply ret_def logged_def)

lemma keygen_ends: "keygen E r kp t = (res, t') \<Longrightarrow> t' = logged [keygen_event r] t"
  unfolding keygen_def by (rule external_ends)

lemma store_ends:
  assumes "store_signing_session E s t = (res, t')"
  shows "res = Inr () \<and> trace t' = trace t \<and> current_token E t' = current_token E t"
proof -
  have "keeps (\<lambda>t t'. local_storage t' = local_storage t) (store_signing_session E s)"
    unfolding store_signing_session_def ss_set_def ss_remove_def
    by (intro frame.keeps_try_catch frame.keeps_seq frame.keeps_update frame.keeps_throw frame.keeps_ret keeps_if)
      (simp_all add: frame_def)
  moreover obtain es where "trace t' = trace t @ es" "list_all (\<lambda>_. False) es"
    using keepsD [OF session_ops_silent(2) [of "\<lambda>_. False" E s] assms] by (auto simp: appends_def)
  then have "trace t' = trace t" by (cases es) auto
  ultimately show ?thesis
    using assms store_total [of E s t] by (auto simp: current_token_def dest: keepsD)
qed

definition account_read :: "event list \<Rightarrow> bool" where
  "account_read es \<longleftrightarrow> es = [] \<or> (\<exists>as. es = [Sdk ''readContract'' as])"

lemma counterfactual_ends:
  assumes "counterfactual_account E n k t = (res, t')"
  shows "\<exists>a es. res = Inr a \<and> account_read es \<and> t' = logged es t"
  using assms by (auto simp: counterfactual_account_def try_catch_def await_def external_apply ret_def account_read_def
      logged_def split: if_splits sum.splits)

text \<open>The effects of a provisioning, stage reports aside.\<close>

definition provision_effects :: "('e provision_env_scheme) \<Rightarrow> string option \<Rightarrow> node_certificate \<Rightarrow> keypair \<Rightarrow> event list" where
  "provision_effects E token cert kp =
     [Sdk ''generateSessionKeypair'' [],
      Fetch (request_of E token (auth_route (PostNodeCertificate (public_key_hex kp)))),
      Fetch (bootstrap_fetch E (url_text (first_node (nc_node_urls cert))) ''/v1/auth'' (auth_body cert kp)),
      keygen_event (cert_keygen E cert)]"

lemma provision_returns:
  assumes "provision_signet_key E network cb t = (Inr res, t')"
  obtains kp cert gpk key account es rs t1 where
    "n_bootstrap_group network \<noteq> []" "gk_group_public_key key = Some gpk" "gpk \<noteq> []"
    "filter (Not \<circ> is_stage) es = provision_effects E (current_token E t) cert kp @ rs" "account_read rs"
    "store_signing_session E (cert_session cert kp gpk) (logged es t) = (Inr (), t1)"
    "trace t' = trace t @ es @ (if cb then [Stage ''recording''] else []) @
      [Fetch (request_of E (current_token E t) (auth_route (PutSignetKey (signet_key_body gpk key account))))] @
      (if cb then [Stage ''done''] else [])"
    "session_storage t' = session_storage t1"
    "res = \<lparr>pr_group_public_key = gpk, pr_key_id = gk_key_id key, pr_key_address = gk_ethereum_address key,
       pr_smart_account = account\<rparr>"
proof -
  from assms obtain kp t2 cert t3 body t4 key t5 account t6 t7 j t8 gpk st where
    g: "n_bootstrap_group network \<noteq> []"
    and kp: "generate_session_keypair E (logged (if cb then [Stage ''session''] else []) t) = (Inr kp, t2)"
    and cert: "typed node_certificate_of_json (request E (auth_route (PostNodeCertificate (public_key_hex kp))))
      (logged (if cb then [Stage ''certificate''] else []) t2) = (Inr cert, t3)"
    and auth: "fetch E (bootstrap_fetch E (url_text (first_node (nc_node_urls cert))) ''/v1/auth'' (auth_body cert kp))
      (logged (if cb then [Stage ''authenticating''] else []) t3) = (Inr (st, body), t4)"
    and key: "keygen E (cert_keygen E cert) kp (logged (if cb then [Stage ''keygen''] else []) t4) = (Inr key, t5)"
    and gpk: "gk_group_public_key key = Some gpk" "gpk \<noteq> []"
    and acc: "counterfactual_account E network gpk (logged (if cb then [Stage ''wallet''] else []) t5) = (Inr account, t6)"
    and store: "store_signing_session E (cert_session cert kp gpk) t6 = (Inr (), t7)"
    and rec: "request E (auth_route (PutSignetKey (signet_key_body gpk key account)))
      (logged (if cb then [Stage ''recording''] else []) t7) = (Inr j, t8)"
    and t': "t' = logged (if cb then [Stage ''done''] else []) t8"
    and res: "res = \<lparr>pr_group_public_key = gpk, pr_key_id = gk_key_id key, pr_key_address = gk_ethereum_address key,
       pr_smart_account = account\<rparr>"
    by (auto simp: provision_signet_key_def finish_provision_def await_returns seq_returns stage_ends prim_returns split_def truthy_str_def Let_def
        split: if_splits)
  let ?s = "\<lambda>x. if cb then [Stage x] else []"
  obtain rs where rs: "account_read rs" "t6 = logged rs (logged (?s ''wallet'') t5)"
    using counterfactual_ends [OF acc] by blast
  define es where "es = ?s ''session'' @ [Sdk ''generateSessionKeypair'' []] @ ?s ''certificate'' @
    [Fetch (request_of E (current_token E t) (auth_route (PostNodeCertificate (public_key_hex kp))))] @ ?s ''authenticating'' @
    [Fetch (bootstrap_fetch E (url_text (first_node (nc_node_urls cert))) ''/v1/auth'' (auth_body cert kp))] @ ?s ''keygen'' @
    [keygen_event (cert_keygen E cert)] @ ?s ''wallet'' @ rs"
  have t2: "t2 = logged (?s ''session'' @ [Sdk ''generateSessionKeypair'' []]) t"
    using external_ends [OF kp [unfolded generate_session_keypair_def]] by simp
  have t6: "t6 = logged es t"
    using rs typed_request_ends [OF cert] fetch_ends [OF auth] keygen_ends [OF key]
    by (simp add: t2 es_def)
  have f: "filter (Not \<circ> is_stage) rs = rs" using rs(1) by (auto simp: account_read_def)
  show thesis
  proof (rule that [OF g gpk])
    show "filter (Not \<circ> is_stage) es = provision_effects E (current_token E t) cert kp @ rs"
      by (simp add: es_def provision_effects_def f keygen_event_def)
    show "account_read rs" by (rule rs(1))
    show "store_signing_session E (cert_session cert kp gpk) (logged es t) = (Inr (), t7)"
      using store t6 by simp
    have "trace t7 = trace t @ es" "current_token E t7 = current_token E t"
      using store_ends [OF store] by (simp_all add: t6)
    then show "trace t' = trace t @ es @ ?s ''recording'' @
      [Fetch (request_of E (current_token E t) (auth_route (PutSignetKey (signet_key_body gpk key account))))] @ ?s ''done''"
      using request_ends [OF rec] by (simp add: t')
    show "session_storage t' = session_storage t7" using request_ends [OF rec] by (simp add: t')
  qed (rule res)
qed

lemma keeps_same_sessionD: "keeps same_session m \<Longrightarrow> m t = (r, t') \<Longrightarrow> session_storage t' = session_storage t"
  by (drule keepsD) (simp_all add: same_session_def)

lemma provision_steps_same [keeps_intros]:
  "keeps same_session (on_provision_stage cb st)" "keeps same_session (generate_session_keypair E)"
  "keeps same_session (keygen E r kp)"
  unfolding on_provision_stage_def generate_session_keypair_def keygen_def by (intro keeps_intros)+

text \<open>
  A program in two phases: whatever happens, the tab first moves by \<open>R\<close> and then by \<open>S\<close>.
\<close>

definition phase :: "('t \<Rightarrow> 't \<Rightarrow> bool) \<Rightarrow> ('t \<Rightarrow> 't \<Rightarrow> bool) \<Rightarrow> ('t \<Rightarrow> (jserr + 'a) \<times> 't) \<Rightarrow> bool" where
  "phase R S m \<longleftrightarrow> (\<forall>t. \<exists>t1. R t t1 \<and> S t1 (snd (m t)))"

lemma phaseD: "phase R S m \<Longrightarrow> m t = (r, t') \<Longrightarrow> \<exists>t1. R t t1 \<and> S t1 t'"
  unfolding phase_def by (metis snd_conv)

context frame
begin

lemma phase_first: "keeps R m \<Longrightarrow> (\<And>t. S t t) \<Longrightarrow> phase R S m"
  unfolding keeps_def phase_def by blast

lemma phase_second: "keeps S m \<Longrightarrow> phase R S m"
  unfolding keeps_def phase_def using frame_refl by blast

lemma phase_await: "keeps R m \<Longrightarrow> (\<And>x. phase R S (f x)) \<Longrightarrow> (\<And>t. S t t) \<Longrightarrow> phase R S (await m f)"
  unfolding phase_def
proof (intro allI)
  fix t
  assume k: "keeps R m" and f: "\<And>x. \<forall>t. \<exists>t1. R t t1 \<and> S t1 (snd (f x t))" and s: "\<And>t. S t t"
  obtain r t' where m: "m t = (r, t')" by fastforce
  have "R t t'" using k m by (rule keepsD)
  show "\<exists>t1. R t t1 \<and> S t1 (snd (await m f t))"
  proof (cases r)
    case (Inl e)
    then show ?thesis using m s \<open>R t t'\<close> by (auto simp: await_def)
  next
    case (Inr x)
    obtain t1 where "R t' t1" "S t1 (snd (f x t'))" using f by blast
    then show ?thesis using m Inr frame_trans [OF \<open>R t t'\<close> \<open>R t' t1\<close>] by (auto simp: await_def)
  qed
qed

lemma phase_seq: "keeps R m \<Longrightarrow> phase R S n \<Longrightarrow> (\<And>t. S t t) \<Longrightarrow> phase R S (seq m n)"
  unfolding seq_def by (rule phase_await)

lemma phase_if: "phase R S m \<Longrightarrow> phase R S n \<Longrightarrow> phase R S (if b then m else n)"
  by simp

end

lemma provision_fails:
  fixes t t' :: "'t tab_scheme"
  assumes "provision_signet_key E network cb t = (Inl e, t')"
  shows "session_storage t' = session_storage t \<or>
    (\<exists>kp cert gpk (t1 :: 't tab_scheme). session_storage t1 = session_storage t \<and>
       session_storage t' = session_storage (snd (store_signing_session E (cert_session cert kp gpk) t1)))"
proof -
  let ?S = "\<lambda>(t1 :: 't tab_scheme) (t' :: 't tab_scheme). session_storage t' = session_storage t1 \<or>
    (\<exists>kp cert gpk. session_storage t' = session_storage (snd (store_signing_session E (cert_session cert kp gpk) t1)))"
  have fin: "keeps ?S (finish_provision E cb cert kp gpk key account)" for cert kp gpk key account
  proof (rule keepsI)
    fix t1 t2 :: "'t tab_scheme" and r
    assume "finish_provision E cb cert kp gpk key account t1 = (r, t2)"
    then have "session_storage t2 = session_storage (snd (store_signing_session E (cert_session cert kp gpk) t1))"
      by (auto simp: finish_provision_def await_ends seq_ends ret_apply
          dest!: keeps_same_sessionD [OF provision_steps_same(1)] keeps_same_sessionD [OF request_same_session])
    then show "?S t1 t2" by blast
  qed
  note f = session_frame.phase_await session_frame.phase_seq session_frame.phase_if session_frame.phase_first
  have "phase same_session ?S (provision_signet_key E network cb)"
    unfolding provision_signet_key_def Let_def split_def
    by (intro session_frame.phase_seq session_frame.phase_if session_frame.phase_await
        session_frame.phase_second [OF fin] session_frame.phase_first [OF session_frame.keeps_throw] keeps_intros disjI1 refl)
  from phaseD [OF this assms] obtain t1 where "session_storage t1 = session_storage t" "?S t1 t'"
    by (auto simp: same_session_def)
  then show ?thesis by metis
qed

subsection \<open>Properties\<close>

text \<open>C9: provisioning does these things in this order, and the identity and the node never diverge.
  When it returns, what it did outside, stage reports aside, is: a session key pair, a certificate
  for its public half, one authentication with that certificate at the certificate's first node,
  key generation for the certificate's identity starting at that node, at most one read of the
  account address, and the recording of the key. Only public halves and the certificate are sent.
  The stored session carries the same identity and node, and on a working storage it is what
  signing loads next, as long as it is complete and not about to expire.\<close>

theorem provision_sequence:
  assumes "storage_works E" and "provision_signet_key E network cb t = (Inr res, t')"
  shows "\<exists>kp cert key es rs. trace t' = trace t @ es \<and>
    filter (Not \<circ> is_stage) es = provision_effects E (current_token E t) cert kp @ rs @
      [Fetch (request_of E (current_token E t)
        (auth_route (PutSignetKey (signet_key_body (pr_group_public_key res) key (pr_smart_account res)))))] \<and>
    account_read rs \<and> gk_group_public_key key = Some (pr_group_public_key res) \<and>
    session_storage t' = stored (cert_session cert kp (pr_group_public_key res)) (session_storage t) \<and>
    (storable (cert_session cert kp (pr_group_public_key res)) \<and> nc_identity cert \<noteq> [] \<and>
       \<not> expired E (cert_claims cert) (trace t') \<longrightarrow>
     load_signing_session E t' = (Inr (Some (cert_session cert kp (pr_group_public_key res))), t'))"
  using assms(2)
proof (rule provision_returns)
  fix kp cert gpk key account es rs t1
  assume key: "gk_group_public_key key = Some gpk"
    and es: "filter (Not \<circ> is_stage) es = provision_effects E (current_token E t) cert kp @ rs" "account_read rs"
    and store: "store_signing_session E (cert_session cert kp gpk) (logged es t) = (Inr (), t1)"
    and tr: "trace t' = trace t @ es @ (if cb then [Stage ''recording''] else []) @
      [Fetch (request_of E (current_token E t) (auth_route (PutSignetKey (signet_key_body gpk key account))))] @
      (if cb then [Stage ''done''] else [])"
    and ss: "session_storage t' = session_storage t1"
    and res: "res = \<lparr>pr_group_public_key = gpk, pr_key_id = gk_key_id key, pr_key_address = gk_ethereum_address key,
       pr_smart_account = account\<rparr>"
  let ?s = "cert_session cert kp gpk"
  have ss': "session_storage t' = stored ?s (session_storage t)"
    using store ss by (auto simp: store_apply [OF assms(1)] logged_def)
  have "load_signing_session E t' = (Inr (Some ?s), t')"
    if "storable ?s" "nc_identity cert \<noteq> []" "\<not> expired E (claims ?s) (trace t')"
  proof -
    define u where "u = t'\<lparr>session_storage := session_storage t\<rparr>"
    have "snd (store_signing_session E ?s u) = t'"
      by (simp add: store_apply [OF assms(1)] u_def ss' [symmetric])
    then show ?thesis
      using load_after_store [OF assms(1) that(1), of u] that(2,3) by (simp add: u_def cert_session_def truthy_str_def)
  qed
  then show ?thesis
    using es tr ss' key by (intro exI [of _ kp] exI [of _ cert] exI [of _ key] exI conjI) (auto simp: res cert_session_def)
qed


text \<open>Restoring is offered exactly where it can work. A user for whom \<open>canRestoreSigningSession\<close> is
  true is provisioned again, whether or not they have a wallet; for any other, restoring throws and
  does nothing.\<close>

theorem restore_matches_offer:
  "restore_signing_session E network u cb t =
    (if can_restore_signing_session (Some u) then provision_signet_key E network cb t
     else (Inl (Error restore_refused_message), t))"
  by (simp add: restore_signing_session_def can_restore_signing_session_def throw_def)

definition demo_certificate :: json where
  "demo_certificate = JObj [(''certificate'', JObj [(''expiry'', JNum 5000)]), (''group_id'', JStr ''0xB0''),
     (''node_urls'', JArr [JStr ''https://n2'', JStr ''https://n1'']), (''identity'', JStr ''ops'')]"

definition demo_provision_env :: provision_env where
  "demo_provision_env = onchain_env.extend
     (demo_onchain_env\<lparr>e_now := (\<lambda>_. 1000000), e_fetch := (\<lambda>_ r. Reply 200 (if url r = api_base demo_onchain_env @ ''/v1/auth/node-certificate''
         then json_print demo_certificate else []))\<rparr>)
     (provision_env.fields (\<lambda>_. Inr \<lparr>private_key = [7], public_key_hex = ''02ab''\<rparr>)
        (\<lambda>_ _ _. Inr \<lparr>gk_group_public_key = Some ''0x03'', gk_key_id = ''k1'', gk_ethereum_address = ''0xadd''\<rparr>))"

lemma demo_provision_simps [simp]:
  "sdk_session_keypair demo_provision_env h = Inr \<lparr>private_key = [7], public_key_hex = ''02ab''\<rparr>"
  "sdk_keygen demo_provision_env h r kp = Inr \<lparr>gk_group_public_key = Some ''0x03'', gk_key_id = ''k1'', gk_ethereum_address = ''0xadd''\<rparr>"
  "e_fetch demo_provision_env h q = Reply 200 (if url q = api_base demo_onchain_env @ ''/v1/auth/node-certificate''
         then json_print demo_certificate else [])"
  "e_now demo_provision_env h = 1000000"
  by (simp_all add: demo_provision_env_def onchain_env.defs provision_env.defs)

lemma demo_provision_base: "api_base demo_provision_env = api_base demo_onchain_env"
  "storage_works demo_provision_env"
  by (simp_all add: api_base_def storage_works_def demo_provision_env_def demo_onchain_env_def demo_userop_env_def
      demo_sign_env_def demo_signet_env_def demo_env_def onchain_env.defs provision_env.defs userop_env.defs env.defs signet_env.defs)

lemma demo_certificate_decodes: "typed node_certificate_of_json (request demo_provision_env (auth_route (PostNodeCertificate pub))) t =
   (Inr \<lparr>nc_certificate = JObj [(''expiry'', JNum 5000)], nc_expiry = 5000, nc_group_id = ''0xB0'',
      nc_node_urls = [''https://n2'', ''https://n1''], nc_identity = ''ops''\<rparr>,
    logged [Fetch (request_of demo_provision_env (current_token demo_provision_env t) (auth_route (PostNodeCertificate pub)))] t)"
proof -
  have j: "json_ok demo_certificate" by (simp add: demo_certificate_def)
  then have "reply_json (200, json_print demo_certificate) = Inr demo_certificate"
    using json_parse_print [OF j] json_print_not_Nil [OF j] by (simp add: reply_json_def safe_parse_def reply_ok_def demo_certificate_def del: json_print.simps)
  moreover have "node_certificate_of_json demo_certificate = Some \<lparr>nc_certificate = JObj [(''expiry'', JNum 5000)], nc_expiry = 5000,
      nc_group_id = ''0xB0'', nc_node_urls = [''https://n2'', ''https://n1''], nc_identity = ''ops''\<rparr>"
    by (simp add: demo_certificate_def node_certificate_of_json_def decoders)
  ultimately show ?thesis
    by (simp add: typed_def await_def request_apply Let_def request_of_def verb_defs demo_provision_base(1) ret_def logged_def current_token_def
        del: json_print.simps)
qed

lemma demo_provision: "\<exists>res t'. provision_signet_key demo_provision_env demo_network False t = (Inr res, t')"
proof -
  have r: "reply_json (200, []) = Inr JNull" by (simp add: reply_json_def reply_ok_def)
  have q: "request demo_provision_env (auth_route (PutSignetKey b)) t1 = (Inr JNull,
      logged [Fetch (request_of demo_provision_env (current_token demo_provision_env t1) (auth_route (PutSignetKey b)))] t1)" for b t1
    by (simp add: request_apply Let_def request_of_def verb_defs demo_provision_base(1) r logged_def current_token_def)
  have a: "fetch demo_provision_env (bootstrap_fetch demo_provision_env n ''/v1/auth'' b) t1 =
      (Inr (200, []), logged [Fetch (bootstrap_fetch demo_provision_env n ''/v1/auth'' b)] t1)" for n b t1
    by (simp add: fetch_apply bootstrap_fetch_def demo_provision_base(1) logged_def)
  have d: "sdk_account_address demo_provision_env h nw g = Inr ''0x5ma''" for h nw g
    by (simp add: demo_provision_env_def demo_onchain_env_def demo_userop_env_def demo_sign_env_def demo_signet_env_def
        onchain_env.defs provision_env.defs userop_env.defs env.defs signet_env.defs)
  have c: "counterfactual_account demo_provision_env demo_network g t1 = (Inr (Some ''0x5ma''),
      logged [Sdk ''readContract'' [''getAddress'', n_account_factory_address demo_network, n_entrypoint_address demo_network,
        normalize_hex g, ''0'']] t1)" for g t1
    by (simp add: counterfactual_account_def try_catch_def await_def external_apply d ret_apply logged_def)
      (simp add: demo_network_def)
  have n: "n_bootstrap_group demo_network \<noteq> []" "n_bootstrap_nodes demo_network \<noteq> []" by (simp_all add: demo_network_def)
  show ?thesis
    by (simp add: provision_signet_key_def finish_provision_def on_provision_stage_def seq_Inr await_Inr ret_apply
        generate_session_keypair_def external_apply demo_certificate_decodes a q c keygen_def truthy_str_def Let_def
        store_apply [OF demo_provision_base(2)] reply_ok_def n del: auth_route.simps)
qed

theorem provision_sequence_witness:
  "\<exists>kp cert res t'. provision_signet_key demo_provision_env demo_network False empty_tab = (Inr res, t') \<and>
     session_storage t' = stored (cert_session cert kp (pr_group_public_key res)) Map.empty"
proof -
  obtain res t' where r: "provision_signet_key demo_provision_env demo_network False empty_tab = (Inr res, t')"
    using demo_provision by blast
  from provision_sequence [OF demo_provision_base(2) this] r show ?thesis
    by (auto simp: empty_tab_def)
qed


end
