(* ===== verification/Session_Provider.thy ===== *)
theory Session_Provider
  imports Provision
begin

text \<open>
  \<open>web/providers/SessionProvider.tsx\<close>: who is signed in, which organizations they see and which one
  the console is scoped to. The provider's React state extends the tab; its handlers are \<open>io\<close>
  functions on it and run one at a time. The configuration that \<open>refresh\<close> fetches without waiting
  for it after a 401 is fetched here before \<open>refresh\<close> returns.
\<close>

datatype session_status = Loading | Signed_in | Signed_out

record provider_tab = tab +
  sp_status :: session_status
  sp_user :: "user option"
  sp_organizations :: "organization list"
  sp_network :: "network_config option"
  sp_active_org_id :: "string option"

type_synonym ('t, 'a) pio = "'t provider_tab_scheme \<Rightarrow> (jserr + 'a) \<times> 't provider_tab_scheme"

definition ACTIVE_ORG_KEY :: string where "ACTIVE_ORG_KEY = ''signet_platform_active_org''"

subsection \<open>Operations\<close>

definition read_stored_org :: "('e env_scheme) \<Rightarrow> 't tab_scheme \<Rightarrow> string option" where
  "read_stored_org E t = (if e_ls_throws E then None else local_storage t ACTIVE_ORG_KEY)"

definition is_member :: "string \<Rightarrow> organization list \<Rightarrow> bool" where
  "is_member i os \<longleftrightarrow> list_ex (\<lambda>org. o_id org = i) os"

definition next_active :: "string option \<Rightarrow> string option \<Rightarrow> organization list \<Rightarrow> string option" where
  "next_active current stored_org os =
     (let remembered = (case current of None \<Rightarrow> stored_org | Some c \<Rightarrow> Some c)
      in if truthy_str remembered \<and> is_member (the remembered) os then remembered
         else (case os of [] \<Rightarrow> None | org # _ \<Rightarrow> Some (o_id org)))"

definition apply_session :: "('e env_scheme) \<Rightarrow> session \<Rightarrow> ('t, unit) pio" where
  "apply_session E s = update_tab (\<lambda>t. t\<lparr>sp_user := Some (s_user s), sp_organizations := s_organizations s,
     sp_network := Some (s_network s), sp_status := Signed_in,
     sp_active_org_id := next_active (sp_active_org_id t) (read_stored_org E t) (s_organizations s)\<rparr>)"

definition fetch_config :: "('e env_scheme) \<Rightarrow> ('t, unit) pio" where
  "fetch_config E = try_catch
     (await (typed network_of_json (request E (public_route GetConfig))) (\<lambda>n. update_tab (\<lambda>t. t\<lparr>sp_network := Some n\<rparr>)))
     (\<lambda>_. ret ())"

definition signed_out_by_server :: "jserr \<Rightarrow> bool" where
  "signed_out_by_server e = (case e of ApiError st body \<Rightarrow> st = 401 | _ \<Rightarrow> False)"

definition refresh :: "('e env_scheme) \<Rightarrow> ('t, unit) pio" where
  "refresh E = try_catch
     (await (typed session_of_json (request E (auth_route GetMe))) (apply_session E))
     (\<lambda>e. if signed_out_by_server e
       then seq (store_token E None)
           (seq (update_tab (\<lambda>t. t\<lparr>sp_user := None, sp_organizations := [], sp_status := Signed_out\<rparr>))
                (fetch_config E))
       else throw e)"

text \<open>The effect on mount: a refresh whose failure signs out.\<close>

definition mount :: "('e env_scheme) \<Rightarrow> ('t, unit) pio" where
  "mount E = try_catch (refresh E) (\<lambda>_. update_tab (\<lambda>t. t\<lparr>sp_status := Signed_out\<rparr>))"

definition set_active_org :: "('e env_scheme) \<Rightarrow> string \<Rightarrow> ('t, unit) pio" where
  "set_active_org E i = update_tab (\<lambda>t. t\<lparr>sp_active_org_id := Some i,
     local_storage := (if e_ls_throws E then local_storage t else (local_storage t)(ACTIVE_ORG_KEY \<mapsto> i))\<rparr>)"

text \<open>The \<open>finally\<close> block of \<open>signOut\<close>.\<close>

definition forget_everything :: "('e env_scheme) \<Rightarrow> ('t, unit) pio" where
  "forget_everything E = seq (store_token E None) (seq (clear_signing_session E)
     (update_tab (\<lambda>t. t\<lparr>sp_user := None, sp_organizations := [], sp_active_org_id := None, sp_status := Signed_out\<rparr>)))"

definition sign_out :: "('e env_scheme) \<Rightarrow> ('t, unit) pio" where
  "sign_out E = finally_do (await (request E (auth_route PostLogout)) (\<lambda>_. ret ())) (\<lambda>t. snd (forget_everything E t))"

definition on_signed_in :: "('e env_scheme) \<Rightarrow> session \<Rightarrow> string \<Rightarrow> ('t, unit) pio" where
  "on_signed_in E s token = seq (store_token E (Some token)) (apply_session E s)"

definition active_org :: "'t provider_tab_scheme \<Rightarrow> organization option" where
  "active_org t = find (\<lambda>org. Some (o_id org) = sp_active_org_id t) (sp_organizations t)"

definition initial_provider :: "tab \<Rightarrow> provider_tab" where
  "initial_provider t = tab.extend t (provider_tab.fields Loading None [] None None)"

subsection \<open>The provider's life\<close>

text \<open>It mounts once; after that its handlers run in any order, each to its end, returning or throwing.\<close>

inductive provider_step :: "('e env_scheme) \<Rightarrow> provider_tab \<Rightarrow> provider_tab \<Rightarrow> bool" for E where
  step_refresh: "refresh E t = (r, t') \<Longrightarrow> provider_step E t t'"
| step_set_org: "set_active_org E i t = (r, t') \<Longrightarrow> provider_step E t t'"
| step_sign_out: "sign_out E t = (r, t') \<Longrightarrow> provider_step E t t'"
| step_signed_in: "on_signed_in E s token t = (r, t') \<Longrightarrow> provider_step E t t'"

definition provider_start :: "('e env_scheme) \<Rightarrow> provider_tab \<Rightarrow> bool" where
  "provider_start E t \<longleftrightarrow> (\<exists>t0 r. mount E (initial_provider t0) = (r, t))"

inductive_cases provider_stepE: "provider_step E t t'"

subsection \<open>What the handlers leave of the provider's state\<close>

text \<open>The provider's own fields, which no request and no storage operation touches.\<close>

definition provider_part :: "'t provider_tab_scheme \<Rightarrow> session_status \<times> user option \<times> organization list \<times> network_config option \<times> string option" where
  "provider_part t = (sp_status t, sp_user t, sp_organizations t, sp_network t, sp_active_org_id t)"

definition same_provider :: "'t provider_tab_scheme \<Rightarrow> 't provider_tab_scheme \<Rightarrow> bool" where
  "same_provider t t' \<longleftrightarrow> provider_part t' = provider_part t"

interpretation provider_frame: frame same_provider
  by unfold_locales (simp_all add: same_provider_def)

lemma same_provider_steps [keeps_intros]:
  "keeps same_provider (log_event e)" "keeps same_provider (ss_set E k v)" "keeps same_provider (ss_remove E k)"
  "keeps same_provider (store_token E tok)"
  unfolding log_event_def ss_set_def ss_remove_def store_token_def
  by (intro keeps_intros provider_frame.keeps_update provider_frame.keeps_throw provider_frame.keeps_ret;
      simp add: same_provider_def provider_part_def)+

lemma same_provider_request: "keeps same_provider (request E r)"
  unfolding request_def stored_token_def fetch_def
  by (intro keeps_if keeps_reply same_provider_steps provider_frame.keeps_await provider_frame.keeps_seq provider_frame.keeps_reads
      provider_frame.keeps_ret provider_frame.keeps_throw provider_frame.keeps_lift_err)

lemma same_provider_clear: "keeps same_provider (clear_signing_session E)"
  unfolding clear_signing_session_def
  by (intro provider_frame.keeps_try_catch provider_frame.keeps_for_each provider_frame.keeps_ret same_provider_steps)

lemma same_provider_typed: "keeps same_provider (typed d (request E r))"
  unfolding typed_def by (intro keeps_option provider_frame.keeps_await same_provider_request provider_frame.keeps_ret provider_frame.keeps_throw)

lemma same_providerD: "keeps same_provider m \<Longrightarrow> m t = (r, t') \<Longrightarrow>
    sp_status t' = sp_status t \<and> sp_user t' = sp_user t \<and> sp_organizations t' = sp_organizations t \<and>
    sp_network t' = sp_network t \<and> sp_active_org_id t' = sp_active_org_id t"
  by (drule keepsD) (simp_all add: same_provider_def provider_part_def)

text \<open>The invariant: signed in exactly with a user, whose network configuration is known; without a
  user no organization is left.\<close>

definition provider_ok :: "'t provider_tab_scheme \<Rightarrow> bool" where
  "provider_ok t \<longleftrightarrow> sp_status t \<noteq> Loading \<and> (sp_status t = Signed_in \<longleftrightarrow> sp_user t \<noteq> None) \<and>
     (sp_user t = None \<longrightarrow> sp_organizations t = []) \<and> (sp_user t \<noteq> None \<longrightarrow> sp_network t \<noteq> None)"

text \<open>What \<open>fetch_config\<close>, \<open>refresh\<close> and the others do to it.\<close>

lemma fetch_config_ends:
  assumes "fetch_config E t = (r, t')"
  shows "sp_status t' = sp_status t \<and> sp_user t' = sp_user t \<and> sp_organizations t' = sp_organizations t \<and>
    sp_active_org_id t' = sp_active_org_id t \<and> (sp_network t \<noteq> None \<longrightarrow> sp_network t' \<noteq> None)"
  using assms
  by (auto simp: fetch_config_def try_catch_def await_ends ret_apply update_tab_apply
      split: prod.splits sum.splits dest!: same_providerD [OF same_provider_typed])

lemma apply_session_ok: "apply_session E s t = (r, t') \<Longrightarrow> provider_ok t'"
  by (auto simp: apply_session_def update_tab_apply provider_ok_def)

text \<open>A refresh applies a session, signs out, or changes nothing of the provider and throws.\<close>

lemma store_token_None: "\<exists>m. store_token E None t = (Inr (), t\<lparr>local_storage := m\<rparr>) \<and> (\<not> e_ls_throws E \<longrightarrow> m TOKEN_KEY = None)"
proof (cases "e_ls_throws E")
  case True
  then show ?thesis by (intro exI [of _ "local_storage t"]) (simp add: store_token_def ret_def)
qed (auto simp: store_token_def truthy_str_def update_tab_def)

lemma refresh_cases:
  assumes "refresh E t = (r, t')"
  obtains (applied) s t1 where "apply_session E s t1 = (r, t')" and "provider_part t1 = provider_part t"
  | (refused) "sp_status t' = Signed_out" and "sp_user t' = None" and "sp_organizations t' = []"
  | (failed) e where "r = Inl e" and "provider_part t' = provider_part t"
proof -
  obtain r1 t1 where m: "typed session_of_json (request E (auth_route GetMe)) t = (r1, t1)" by fastforce
  have p: "provider_part t1 = provider_part t"
    using keepsD [OF same_provider_typed m] by (simp add: same_provider_def)
  show thesis
  proof (cases r1)
    case (Inr s)
    then show thesis
      using assms m p by (intro applied [of s t1])
        (auto simp: refresh_def try_catch_def await_def apply_session_def update_tab_apply split: prod.splits sum.splits)
  next
    case (Inl e)
    show thesis
    proof (cases "signed_out_by_server e")
      case True
      obtain t2 where t2: "store_token E None t1 = (Inr (), t2)" using store_token_None by blast
      have f: "fetch_config E (t2\<lparr>sp_user := None, sp_organizations := [], sp_status := Signed_out\<rparr>) = (r, t')"
        using assms m Inl True t2 by (simp add: refresh_def try_catch_def await_def seq_def update_tab_apply)
      from fetch_config_ends [OF f] show thesis by (intro refused) simp_all
    next
      case False
      then show thesis
        using assms m Inl p by (intro failed [of e]) (auto simp: refresh_def try_catch_def await_def throw_def)
    qed
  qed
qed

lemma refresh_ok: "refresh E t = (r, t') \<Longrightarrow> provider_ok t \<Longrightarrow> provider_ok t'"
  by (erule refresh_cases) (auto simp: provider_ok_def provider_part_def apply_session_def update_tab_apply)

lemma mount_ok:
  assumes "mount E (initial_provider t0) = (r, t)"
  shows "provider_ok t"
proof -
  obtain r1 t1 where f: "refresh E (initial_provider t0) = (r1, t1)" by fastforce
  have i: "sp_status (initial_provider t0) = Loading" "sp_user (initial_provider t0) = None"
    "sp_organizations (initial_provider t0) = []"
    by (simp_all add: initial_provider_def tab.defs provider_tab.defs)
  have m: "t = (case r1 of Inl e \<Rightarrow> t1\<lparr>sp_status := Signed_out\<rparr> | Inr x \<Rightarrow> t1)"
    using assms f by (auto simp: mount_def try_catch_def update_tab_apply split: sum.splits)
  from f show ?thesis
  proof (cases rule: refresh_cases)
    case (applied s t2)
    then have "r1 = Inr ()" by (simp add: apply_session_def update_tab_apply)
    then show ?thesis using m apply_session_ok [OF applied(1)] by simp
  next
    case refused
    then show ?thesis using m by (cases r1) (simp_all add: provider_ok_def)
  next
    case (failed e)
    then show ?thesis using m i by (simp add: provider_ok_def provider_part_def)
  qed
qed

lemma forget_everything_ends:
  assumes "forget_everything E t = (r, t')"
  shows "sp_status t' = Signed_out \<and> sp_user t' = None \<and> sp_organizations t' = [] \<and> sp_active_org_id t' = None \<and>
    sp_network t' = sp_network t \<and> current_token E t' = None \<and>
    (storage_works E \<longrightarrow> session_storage t' = cleared (session_storage t))"
proof -
  obtain t1 where t1: "store_token E None t = (Inr (), t1)" "current_token E t1 = None"
    "session_storage t1 = session_storage t" "sp_network t1 = sp_network t"
    using store_token_None [of E t] by (auto simp: current_token_def)
  obtain t2 where t2: "clear_signing_session E t1 = (Inr (), t2)" using clear_returns by blast
  have l: "keeps (\<lambda>t t'. local_storage t' = local_storage t) (clear_signing_session E)"
    unfolding clear_signing_session_def ss_remove_def
    by (intro frame.keeps_try_catch frame.keeps_for_each frame.keeps_update frame.keeps_throw frame.keeps_ret keeps_if)
      (simp_all add: frame_def)
  have "local_storage t2 = local_storage t1" using keepsD [OF l t2] .
  then have c: "current_token E t2 = None" using t1(2) by (simp add: current_token_def split: if_splits)
  have n: "sp_network t2 = sp_network t" using same_providerD [OF same_provider_clear t2] t1(4) by simp
  have s: "session_storage t2 = cleared (session_storage t)" if "storage_works E"
    using t2 t1(3) by (auto simp: clear_apply [OF that])
  have t': "t' = t2\<lparr>sp_user := None, sp_organizations := [], sp_active_org_id := None, sp_status := Signed_out\<rparr>"
    using assms t1(1) t2 by (simp add: forget_everything_def seq_Inr update_tab_apply)
  have "current_token E t' = current_token E t2" by (simp add: t' current_token_def)
  then show ?thesis using c n s by (simp add: t')
qed

lemma sign_out_ends:
  assumes "sign_out E t = (r, t')"
  obtains r1 t1 r2 where "request E (auth_route PostLogout) t = (r1, t1)" and "forget_everything E t1 = (r2, t')"
    and "session_storage t1 = session_storage t" and "(\<exists>x. r = Inr x) \<longleftrightarrow> (\<exists>x. r1 = Inr x)"
proof -
  obtain r1 t1 where m: "request E (auth_route PostLogout) t = (r1, t1)" by fastforce
  obtain r2 t2 where f: "forget_everything E t1 = (r2, t2)" by fastforce
  have "t2 = t'" "(\<exists>x. r = Inr x) \<longleftrightarrow> (\<exists>x. r1 = Inr x)"
    using assms m f by (auto simp: sign_out_def finally_do_def await_def ret_apply split: sum.splits prod.splits)
  then show thesis
    using that [OF m] f keeps_same_sessionD [OF request_same_session m] by simp
qed

lemma step_ok:
  assumes "provider_step E t t'" and "provider_ok t"
  shows "provider_ok t'"
  using assms(1)
proof (cases rule: provider_step.cases)
  case (step_refresh r)
  then show ?thesis using refresh_ok assms(2) by blast
next
  case (step_set_org i r)
  then show ?thesis using assms(2) by (auto simp: set_active_org_def update_tab_apply provider_ok_def)
next
  case (step_sign_out r)
  then show ?thesis by (rule sign_out_ends) (auto simp: provider_ok_def dest!: forget_everything_ends)
next
  case (step_signed_in s token r)
  then show ?thesis by (auto simp: on_signed_in_def seq_def await_def store_token_def ret_def update_tab_def
        intro: apply_session_ok split: if_splits)
qed

interpretation provider: machine "provider_start E" "provider_step E" provider_ok for E
  by unfold_locales (auto simp: provider_start_def intro: mount_ok step_ok)

subsection \<open>Properties\<close>

text \<open>C11: the provider is signed in exactly when it has a user. After it has mounted, in any order of
  refreshes, organization changes, sign-ins and sign-outs, whether they succeed or fail, its status
  is settled, it is signed in if and only if there is a user, a user comes with the network
  configuration, and without one no organization is shown.\<close>

theorem provider_invariant:
  assumes "reachable (provider_start E) (provider_step E) t"
  shows "sp_status t \<noteq> Loading \<and> (sp_status t = Signed_in \<longleftrightarrow> sp_user t \<noteq> None) \<and>
    (sp_user t = None \<longrightarrow> sp_organizations t = []) \<and> (sp_user t \<noteq> None \<longrightarrow> sp_network t \<noteq> None)"
  using provider.invariant [OF assms] by (simp add: provider_ok_def)

definition demo_session_reply :: session where
  "demo_session_reply = \<lparr>s_user = demo_user, s_organizations =
     [\<lparr>o_id = ''o1'', o_name = ''One'', o_slug = ''one'', o_logo_url = None, o_website_url = None, o_billing_email = None,
       o_plan = ''free'', o_role = Some ''owner'', o_app_count = 0, o_created_at = []\<rparr>], s_network = demo_network\<rparr>"

theorem provider_invariant_witness:
  "\<exists>t. reachable (provider_start demo_env) (provider_step demo_env) t \<and> sp_status t = Signed_in \<and> sp_user t = Some demo_user \<and> sp_network t \<noteq> None"
proof -
  obtain r t where m: "mount demo_env (initial_provider empty_tab) = (r, t)" by fastforce
  obtain r' t' where s: "on_signed_in demo_env demo_session_reply ''tok'' t = (r', t')" by fastforce
  have "reachable (provider_start demo_env) (provider_step demo_env) t"
    by (rule reach_init) (use m in \<open>auto simp: provider_start_def\<close>)
  then have "reachable (provider_start demo_env) (provider_step demo_env) t'"
    by (rule reach_next) (rule step_signed_in [OF s])
  moreover have "sp_user t' = Some demo_user"
    using s by (auto simp: on_signed_in_def apply_session_def seq_def await_def store_token_def ret_def update_tab_def
        demo_session_reply_def split: if_splits)
  ultimately show ?thesis using provider_invariant [of demo_env t'] by auto
qed

text \<open>A console is never scoped to an organization the user has left. When a session is applied, the
  active organization is the remembered one if the user is still a member of it, otherwise the
  first, and none only when the user has no organization at all.\<close>

theorem apply_session_scopes_to_member:
  "(let t' = snd (apply_session E s t);
        remembered = (case sp_active_org_id t of None \<Rightarrow> read_stored_org E t | Some c \<Rightarrow> Some c)
    in (active_org t' = None \<longleftrightarrow> s_organizations s = []) \<and>
       active_org t' = (if truthy_str remembered \<and> is_member (the remembered) (s_organizations s)
         then find (\<lambda>org. o_id org = the remembered) (s_organizations s)
         else (case s_organizations s of [] \<Rightarrow> None | org # _ \<Rightarrow> Some org)))"
proof -
  have f: "find (\<lambda>org. Some (o_id org) = Some i) os = find (\<lambda>org. o_id org = i) os" for i os by (simp)
  have n: "is_member i os \<Longrightarrow> find (\<lambda>org. o_id org = i) os \<noteq> None \<and> os \<noteq> []" for i os
    by (induction os) (auto simp: is_member_def)
  show ?thesis
    by (auto simp: Let_def active_org_def apply_session_def update_tab_apply next_active_def truthy_str_def
        dest: n split: option.splits list.splits)
qed

text \<open>C12: signing out leaves nothing behind, even when the server cannot be told. Whether the logout
  request succeeds, fails or is rejected, afterwards there is no user, no organization and no active
  one, the bearer token is gone, and on a working storage the signing session of the tab is gone
  too; \<open>signOut\<close> throws only what the request threw.\<close>

theorem sign_out_leaves_nothing:
  assumes "storage_works E" and "sign_out E t = (r, t')"
  shows "sp_user t' = None \<and> sp_organizations t' = [] \<and> sp_active_org_id t' = None \<and> sp_status t' = Signed_out \<and>
    current_token E t' = None \<and> load_signing_session E t' = (Inr None, t') \<and>
    ((\<exists>x. r = Inr x) \<longleftrightarrow> (\<exists>x. fst (request E (auth_route PostLogout) t) = Inr x))"
  using assms(2)
proof (rule sign_out_ends)
  fix r1 t1 r2
  assume "request E (auth_route PostLogout) t = (r1, t1)" and f: "forget_everything E t1 = (r2, t')"
    and "(\<exists>x. r = Inr x) \<longleftrightarrow> (\<exists>x. r1 = Inr x)"
  moreover have "session_storage t' = cleared (session_storage t1)"
    using forget_everything_ends [OF f] assms(1) by simp
  then have "load_signing_session E t' = (Inr None, t')"
    using assms(1) by (intro load_incomplete) (simp_all add: complete_def cleared_get session_keys_def truthy_str_def)
  ultimately show ?thesis using forget_everything_ends [OF f] by simp
qed

theorem sign_out_leaves_nothing_witness:
  "sp_user (snd (sign_out demo_env ((initial_provider empty_tab)\<lparr>sp_user := Some demo_user\<rparr>))) = None"
proof -
  have "storage_works demo_env" by (simp add: storage_works_def demo_env_def)
  then show ?thesis
    using sign_out_leaves_nothing [of demo_env "(initial_provider empty_tab)\<lparr>sp_user := Some demo_user\<rparr>"]
    by (metis surjective_pairing)
qed

end
