(* ===== verification/Sign_In.thy ===== *)
theory Sign_In
  imports Session_Provider
begin

text \<open>
  The two sign-in screens: \<open>web/app/auth/callback/page.tsx\<close>, which completes a Google sign-in after the
  redirect, and \<open>web/app/login/page.tsx\<close>. The SDK's OAuth, proving and bootstrap calls are arguments
  of the environment; what they are given is in the trace, the identity token included.
\<close>

record sign_in_env = provision_env +
  sdk_oauth_callback :: "event list \<Rightarrow> string \<Rightarrow> string + string"
  sdk_decode_token :: "string \<Rightarrow> json"
  sdk_server_proof :: "event list \<Rightarrow> string \<Rightarrow> string \<Rightarrow> string \<Rightarrow> string + (json \<times> json)"
  sdk_authenticate :: "event list \<Rightarrow> string \<Rightarrow> string \<Rightarrow> string \<Rightarrow> json \<Rightarrow> string \<Rightarrow> json \<Rightarrow> json \<Rightarrow> string + unit"
  sdk_return_to :: "event list \<Rightarrow> string option"
  sdk_start_oauth :: "event list \<Rightarrow> string \<Rightarrow> string \<Rightarrow> string \<Rightarrow> string + unit"

record verify_result =
  vr_token :: string
  vr_session :: session

definition verify_result_of_json :: "json \<Rightarrow> verify_result option" where
  "verify_result_of_json j = do { tok \<leftarrow> f_str ''token'' j; s \<leftarrow> f_obj session_of_json ''session'' j;
     Some \<lparr>vr_token = tok, vr_session = s\<rparr> }"

fun login_stage_key :: "login_stage \<Rightarrow> string" where
  "login_stage_key L_challenge = ''challenge''" | "login_stage_key L_oauth = ''oauth''"
| "login_stage_key L_session_key = ''session-key''" | "login_stage_key L_proving = ''proving''"
| "login_stage_key L_registering = ''registering''" | "login_stage_key L_keygen = ''keygen''"
| "login_stage_key L_signing = ''signing''" | "login_stage_key L_verifying = ''verifying''"

definition set_stage :: "login_stage \<Rightarrow> ('t, unit) io" where
  "set_stage st = stage_cb (login_stage_key st)"

definition navigate :: "string \<Rightarrow> ('t, unit) io" where
  "navigate path = log_event (Navigate path)"

subsection \<open>The callback\<close>

definition lost_challenge_message :: string where
  "lost_challenge_message = ''The sign-in challenge was lost. This usually means the tab was reloaded mid-flow '' @ em_dash @ '' start again.''"

definition token_expired_message :: string where
  "token_expired_message = ''The identity token had already expired. Sign in again.''"

definition no_nodes_message :: string where
  "no_nodes_message = ''This deployment has no bootstrap nodes configured.''"

text \<open>\<open>claims.exp * 1000 < Date.now()\<close>; without a number the comparison is false.\<close>

definition token_expired :: "json \<Rightarrow> int \<Rightarrow> jserr + bool" where
  "token_expired c now = (case read_field ''exp'' c of Inl e \<Rightarrow> Inl e
     | Inr (Some (JNum n)) \<Rightarrow> Inr (n * 1000 < now) | Inr _ \<Rightarrow> Inr False)"

definition read_identity_token :: "('e sign_in_env_scheme) \<Rightarrow> ('t, string \<times> json) io" where
  "read_identity_token E =
     await (external (Sdk ''handleOAuthCallback'' [''/api/auth/token'']) (\<lambda>h. sdk_oauth_callback E h ''/api/auth/token'')) (\<lambda>jwt.
     await (date_now E) (\<lambda>now.
     await (lift_err (token_expired (sdk_decode_token E jwt) now)) (\<lambda>expd.
     if expd then throw (Error token_expired_message) else ret (jwt, sdk_decode_token E jwt))))"

definition prove_credential :: "('e sign_in_env_scheme) \<Rightarrow> string \<Rightarrow> keypair \<Rightarrow> ('t, json \<times> json) io" where
  "prove_credential E jwt kp = external (Sdk ''generateServerProof'' [''/api/bundler'', jwt, public_key_hex kp])
     (\<lambda>h. sdk_server_proof E h ''/api/bundler'' jwt (public_key_hex kp))"

definition open_session :: "('e sign_in_env_scheme) \<Rightarrow> network_config \<Rightarrow> string \<Rightarrow> json \<times> json \<Rightarrow> keypair \<Rightarrow> json \<Rightarrow> ('t, unit) io" where
  "open_session E network node proof kp c =
     external (Sdk ''authenticateWithBootstrap'' [n_bootstrap_group network, node, proxy_endpoint E])
       (\<lambda>h. sdk_authenticate E h (n_bootstrap_group network) node (proxy_endpoint E) (fst proof) (public_key_hex kp) c (snd proof))"

definition login_keygen :: "('e env_scheme) \<Rightarrow> network_config \<Rightarrow> string \<Rightarrow> json \<Rightarrow> keygen_request" where
  "login_keygen E network node c = \<lparr>kg_node_urls = session_first (Some node) (n_bootstrap_nodes network),
     kg_group_id = n_bootstrap_group network, kg_proxy_endpoint = proxy_endpoint E, kg_claims = c,
     kg_identity = None, kg_curve = None\<rparr>"

definition login_sign_request :: "network_config \<Rightarrow> string \<Rightarrow> keypair \<Rightarrow> json \<Rightarrow> string \<Rightarrow> sign_request" where
  "login_sign_request network node kp c digest = \<lparr>sr_network = network, sr_keypair = kp, sr_claims = c,
     sr_digest_hex = digest, sr_identity = None, sr_node_url = Some node\<rparr>"

definition digest_of :: "challenge \<Rightarrow> jserr + string" where
  "digest_of ch = (case ch_digest ch of None \<Rightarrow> Inl (TypeError ''Cannot read properties of undefined'') | Some d \<Rightarrow> Inr d)"

definition read_account :: "('e signet_env_scheme) \<Rightarrow> network_config \<Rightarrow> string option \<Rightarrow> ('t, string option) io" where
  "read_account E network gpk = (case gpk of None \<Rightarrow> ret None | Some g \<Rightarrow> counterfactual_account E network g)"

definition login_verify_body :: "challenge \<Rightarrow> string \<Rightarrow> string option \<Rightarrow> string option \<Rightarrow> json" where
  "login_verify_body ch sg gpk account = jobj [str_field ''method'' ''signet'', str_field ''nonce'' (ch_nonce ch),
     str_field ''signature'' sg, opt_field ''group_public_key'' gpk, opt_field ''account'' account]"

definition login_session :: "string \<Rightarrow> keypair \<Rightarrow> json \<Rightarrow> string option \<Rightarrow> signing_session" where
  "login_session node kp c gpk = \<lparr>keypair = kp, claims = c, group_public_key = url_text gpk, identity = None, node_url = Some node\<rparr>"

definition login_key_body :: "generated_key \<Rightarrow> string option \<Rightarrow> json" where
  "login_key_body key account = jobj [opt_field ''group_public_key'' (gk_group_public_key key), str_field ''key_id'' (gk_key_id key),
     str_field ''key_address'' (gk_ethereum_address key), str_field ''smart_account'' (dflt account [])]"

text \<open>After the server has verified the signature.\<close>

definition complete_login :: "('e sign_in_env_scheme) \<Rightarrow> string \<Rightarrow> keypair \<Rightarrow> json \<Rightarrow> generated_key \<Rightarrow> string option \<Rightarrow>
    verify_result \<Rightarrow> ('t, unit) pio" where
  "complete_login E node kp c key account res =
     seq (store_signing_session E (login_session node kp c (gk_group_public_key key)))
    (seq (forget_nonce E)
    (seq (on_signed_in E (vr_session res) (vr_token res))
    (seq (request E (auth_route (PutSignetKey (login_key_body key account))))
         (await (reads (\<lambda>t. sdk_return_to E (trace t))) (\<lambda>back. navigate (or_else back ''/apps''))))))"

definition register_and_verify :: "('e sign_in_env_scheme) \<Rightarrow> network_config \<Rightarrow> string \<Rightarrow> keypair \<Rightarrow> json \<Rightarrow> json \<times> json \<Rightarrow> ('t, unit) pio" where
  "register_and_verify E network node kp c proof =
     seq (open_session E network node proof kp c)
    (seq (set_stage L_keygen)
    (await (keygen E (login_keygen E network node c) kp) (\<lambda>key.
     seq (set_stage L_signing)
    (await (typed challenge_of_json (request E (auth_route (PostChallenge ''signet'' None)))) (\<lambda>ch.
     await (lift_err (digest_of ch)) (\<lambda>digest.
     await (sign_with_bootstrap_group E (login_sign_request network node kp c digest)) (\<lambda>sg.
     seq (set_stage L_verifying)
    (await (read_account E network (gk_group_public_key key)) (\<lambda>account.
     await (typed verify_result_of_json (request E (auth_route (PostVerify (login_verify_body ch sg (gk_group_public_key key) account))))) (\<lambda>res.
     complete_login E node kp c key account res))))))))))"

definition callback_run :: "('e sign_in_env_scheme) \<Rightarrow> network_config option \<Rightarrow> ('t, unit) pio" where
  "callback_run E network = (case network of None \<Rightarrow> ret ()
   | Some nw \<Rightarrow>
     await (recall_nonce E) (\<lambda>nonce.
     if \<not> truthy_str nonce then throw (Error lost_challenge_message)
     else
       seq (set_stage L_session_key)
      (await (read_identity_token E) (\<lambda>(jwt, c).
       await (generate_session_keypair E) (\<lambda>kp.
       seq (set_stage L_proving)
      (await (prove_credential E jwt kp) (\<lambda>proof.
       seq (set_stage L_registering)
       (if \<not> truthy_str (first_node (n_bootstrap_nodes nw)) then throw (Error no_nodes_message)
        else register_and_verify E nw (the (first_node (n_bootstrap_nodes nw))) kp c proof))))))))"

text \<open>What the screen says while the credential is proved, and the list of steps below it.\<close>

definition proving_copy :: string where
  "proving_copy = ''Your credential is being proved without leaving this device. This is the slow step '' @ em_dash @
     '' a few seconds '' @ em_dash @ '' and it happens once per sign-in.''"

definition callback_order :: "login_stage list" where
  "callback_order = [L_session_key, L_proving, L_registering, L_keygen, L_signing, L_verifying]"

fun index_of :: "'a \<Rightarrow> 'a list \<Rightarrow> int" where
  "index_of x [] = -1"
| "index_of x (y # ys) = (if x = y then 0 else (let i = index_of x ys in if i = -1 then -1 else i + 1))"

definition step_done :: "login_stage \<Rightarrow> login_stage \<Rightarrow> bool" where
  "step_done current s \<longleftrightarrow> index_of s callback_order < index_of current callback_order"

subsection \<open>The login screen\<close>

datatype login_route = Busy_signet | Busy_siwe

record login_tab = provider_tab +
  lg_busy :: "login_route option"
  lg_error :: "jserr option"
  lg_provisioning :: "string option"

type_synonym ('t, 'a) lio = "'t login_tab_scheme \<Rightarrow> (jserr + 'a) \<times> 't login_tab_scheme"

definition login_next :: "string option \<Rightarrow> string" where
  "login_next param = or_else param ''/apps''"

definition no_google_message :: string where
  "no_google_message = ''Google sign-in is not configured on this deployment (NEXT_PUBLIC_GOOGLE_CLIENT_ID is unset). '' @
     ''Sign in with a wallet instead, or set it and restart.''"

definition no_group_message :: string where
  "no_group_message = ''This deployment has no bootstrap signing group configured, so the Signet sign-in route '' @
     ''cannot run. Set BOOTSTRAP_GROUP and BOOTSTRAP_NODES on the API, or sign in with a wallet.''"

definition no_network_message :: string where
  "no_network_message = ''Signed in, but the network configuration has not loaded, so no Signet key could be issued. Reload and try again.''"

definition start_signet :: "('e sign_in_env_scheme) \<Rightarrow> network_config option \<Rightarrow> string \<Rightarrow> ('t, unit) io" where
  "start_signet E network nxt =
     await (typed challenge_of_json (request E (auth_route (PostChallenge ''signet'' None)))) (\<lambda>ch.
     seq (remember_nonce E (ch_nonce ch))
     (if \<not> truthy_str (e_var E ''NEXT_PUBLIC_GOOGLE_CLIENT_ID'') then throw (Error no_google_message)
      else if (case network of None \<Rightarrow> True | Some n \<Rightarrow> n_bootstrap_group n = [] \<or> n_bootstrap_nodes n = [])
        then throw (Error no_group_message)
      else
        (let client = the (e_var E ''NEXT_PUBLIC_GOOGLE_CLIENT_ID'') in
         external (Sdk ''startGoogleOAuth'' [client, ''/auth/callback'', nxt]) (\<lambda>h. sdk_start_oauth E h client ''/auth/callback'' nxt))))"

definition sign_in_with_signet :: "('e sign_in_env_scheme) \<Rightarrow> network_config option \<Rightarrow> string \<Rightarrow> ('t, unit) lio" where
  "sign_in_with_signet E network nxt =
     seq (update_tab (\<lambda>t. t\<lparr>lg_busy := Some Busy_signet, lg_error := None\<rparr>))
       (try_catch (start_signet E network nxt) (\<lambda>e. update_tab (\<lambda>t. t\<lparr>lg_error := Some e, lg_busy := None\<rparr>)))"

definition siwe_verify_body :: "challenge \<Rightarrow> string \<Rightarrow> string \<Rightarrow> json" where
  "siwe_verify_body ch message sg = jobj [str_field ''method'' ''siwe'', str_field ''nonce'' (ch_nonce ch),
     str_field ''message'' message, str_field ''signature'' sg]"

definition start_wallet :: "('e sign_in_env_scheme) \<Rightarrow> network_config option \<Rightarrow> string \<Rightarrow> ('t, unit) lio" where
  "start_wallet E network nxt =
     await (typed challenge_of_json (request E (auth_route (PostChallenge ''siwe'' None)))) (\<lambda>ch.
     await (siwe_sign_in E ch) (\<lambda>(address, message, sg).
     await (typed verify_result_of_json (request E (auth_route (PostVerify (siwe_verify_body ch message sg))))) (\<lambda>res.
     seq (on_signed_in E (vr_session res) (vr_token res))
     (case network of None \<Rightarrow> throw (Error no_network_message)
      | Some nw \<Rightarrow>
          seq (update_tab (\<lambda>t. t\<lparr>lg_provisioning := Some (provision_stage_copy P_session)\<rparr>))
         (await (provision_signet_key E nw True) (\<lambda>_. navigate nxt))))))"

definition sign_in_with_wallet :: "('e sign_in_env_scheme) \<Rightarrow> network_config option \<Rightarrow> string \<Rightarrow> ('t, unit) lio" where
  "sign_in_with_wallet E network nxt =
     seq (update_tab (\<lambda>t. t\<lparr>lg_busy := Some Busy_siwe, lg_error := None, lg_provisioning := None\<rparr>))
       (finally_do
         (try_catch (start_wallet E network nxt) (\<lambda>e. update_tab (\<lambda>t. t\<lparr>lg_error := Some e\<rparr>)))
         (\<lambda>t. t\<lparr>lg_busy := None, lg_provisioning := None\<rparr>))"

definition siwe_enabled :: "network_config option \<Rightarrow> bool" where
  "siwe_enabled network = (case network of None \<Rightarrow> False | Some n \<Rightarrow> n_siwe_enabled n)"

subsection \<open>Frames of the callback\<close>

lemma stage_frames [keeps_intros]:
  "P (Stage (login_stage_key st)) \<Longrightarrow> keeps (appends P) (set_stage st)" "keeps same_session (set_stage st)"
  "P (Navigate path) \<Longrightarrow> keeps (appends P) (navigate path)"
  unfolding set_stage_def navigate_def by (intro keeps_intros; simp)+

lemma read_identity_token_appends [keeps_intros]:
  "P (Sdk ''handleOAuthCallback'' [''/api/auth/token'']) \<Longrightarrow> keeps (appends P) (read_identity_token E)"
  unfolding read_identity_token_def by (intro keeps_intros)

lemma login_sdk_appends [keeps_intros]:
  "P (Sdk ''generateServerProof'' [''/api/bundler'', jwt, public_key_hex kp]) \<Longrightarrow> keeps (appends P) (prove_credential E jwt kp)"
  "P (Sdk ''authenticateWithBootstrap'' [n_bootstrap_group nw, node, proxy_endpoint E]) \<Longrightarrow> keeps (appends P) (open_session E nw node proof kp c)"
  "P (Sdk ''generateSessionKeypair'' []) \<Longrightarrow> keeps (appends P) (generate_session_keypair E)"
  "P (keygen_event r) \<Longrightarrow> keeps (appends P) (keygen E r kp)"
  "(\<And>as. P (Sdk ''readContract'' as)) \<Longrightarrow> keeps (appends P) (read_account E nw gpk)"
  unfolding prove_credential_def open_session_def generate_session_keypair_def keygen_def read_account_def
  by (intro keeps_intros; simp)+

lemma silent_steps [keeps_intros]:
  "keeps (appends P) (forget_nonce E)" "keeps (appends P) (recall_nonce E)"
  "keeps (appends P) (on_signed_in E s token)"
  unfolding forget_nonce_def recall_nonce_def on_signed_in_def apply_session_def
  by (intro keeps_intros; simp add: appends_def)+

text \<open>Events that speak to the signing group speak to one node.\<close>

definition pinned :: "('e env_scheme) \<Rightarrow> network_config \<Rightarrow> string \<Rightarrow> event \<Rightarrow> bool" where
  "pinned E nw node e = (case e of
     Sdk meth as \<Rightarrow> (meth = ''authenticateWithBootstrap'' \<longrightarrow> as = [n_bootstrap_group nw, node, proxy_endpoint E]) \<and>
       (meth = ''keygen'' \<longrightarrow> (\<exists>others. as = n_bootstrap_group nw # proxy_endpoint E # node # others))
   | Fetch r \<Rightarrow> (url r = proxy_endpoint E \<longrightarrow> (\<exists>path body. r = bootstrap_fetch E node path body))
   | _ \<Rightarrow> True)"

lemma pinned_simps [simp]:
  "pinned E nw node (Stage s)" "pinned E nw node (Navigate s)"
  "pinned E nw node (Fetch (bootstrap_fetch E node path body))"
  "pinned E nw node (Fetch (request_of E token (auth_route r)))"
  "pinned E nw node (Sdk ''readContract'' as)" "pinned E nw node (Sdk ''handleOAuthCallback'' as)"
  "pinned E nw node (Sdk ''generateServerProof'' as)" "pinned E nw node (Sdk ''generateSessionKeypair'' as)"
  "pinned E nw node (Sdk ''authenticateWithBootstrap'' [n_bootstrap_group nw, node, proxy_endpoint E])"
  "pinned E nw node (keygen_event (login_keygen E nw node c))"
  by (auto simp: pinned_def request_of_def proxy_endpoint_def verb_defs keygen_event_def login_keygen_def session_first_def
      url_text_def split: auth_call.splits prod.splits) (cases r; auto simp: verb_defs)+

lemma sign_pinned: "keeps (appends (pinned E nw node)) (sign_with_bootstrap_group E (login_sign_request nw node kp c digest))"
proof -
  have "sign_events E (login_sign_request nw node kp c digest) e \<Longrightarrow> pinned E nw node e" for e
    by (auto simp: sign_events_def login_sign_request_def chosen_node_def) (simp add: pinned_def)
  then show ?thesis
    using sign_appends [of E "login_sign_request nw node kp c digest"] unfolding keeps_def by (blast intro: appends_mono)
qed

lemma callback_pinned:
  "keeps (appends (pinned E nw (the (first_node (n_bootstrap_nodes nw))))) (callback_run E (Some nw))"
  unfolding callback_run_def register_and_verify_def complete_login_def split_def option.case
  by (intro keeps_intros sign_pinned; simp del: auth_route.simps)

text \<open>What a step changes of the account: the bearer token and the provider's state.\<close>

definition same_account :: "'t provider_tab_scheme \<Rightarrow> 't provider_tab_scheme \<Rightarrow> bool" where
  "same_account t t' \<longleftrightarrow> local_storage t' = local_storage t \<and> provider_part t' = provider_part t"

interpretation account_frame: frame same_account
  by unfold_locales (simp_all add: same_account_def)

lemma same_account_prims:
  "keeps same_account (log_event e)" "keeps same_account (ss_set E k v)" "keeps same_account (ss_remove E k)"
  "keeps same_account (ss_get E k)" "keeps same_account (date_now E)" "keeps same_account (external e f)"
  "keeps same_account (fetch E r)" "keeps same_account (stage_cb s)"
  unfolding log_event_def ss_set_def ss_remove_def ss_get_def date_now_def external_def fetch_def stage_cb_def
  by (intro keeps_if keeps_sum keeps_reply account_frame.keeps_await account_frame.keeps_seq account_frame.keeps_reads account_frame.keeps_ret
      account_frame.keeps_throw account_frame.keeps_update; simp add: same_account_def provider_part_def)+

lemmas account_rules = account_frame.keeps_await account_frame.keeps_seq account_frame.keeps_reads account_frame.keeps_ret
  account_frame.keeps_throw account_frame.keeps_lift_err account_frame.keeps_try_catch account_frame.keeps_for_each
  keeps_if keeps_option same_account_prims

lemma same_account_request: "keeps same_account (request E r)" "keeps same_account (typed d (request E r))"
  unfolding request_def stored_token_def typed_def by (intro account_rules)+

lemma same_account_sign: "keeps same_account (sign_with_bootstrap_group E r)"
  unfolding sign_with_bootstrap_group_def clear_signing_session_def Let_def split_def by (intro account_rules)

lemma same_account_steps:
  "keeps same_account (set_stage st)" "keeps same_account (recall_nonce E)" "keeps same_account (read_identity_token E)"
  "keeps same_account (generate_session_keypair E)" "keeps same_account (prove_credential E jwt kp)"
  "keeps same_account (open_session E nw node proof kp c)" "keeps same_account (keygen E r kp)"
  "keeps same_account (read_account E nw gpk)" "keeps same_account (store_signing_session E s)"
  "keeps same_account (forget_nonce E)" "keeps same_account (navigate path)"
  unfolding set_stage_def recall_nonce_def read_identity_token_def generate_session_keypair_def prove_credential_def
    open_session_def keygen_def read_account_def counterfactual_account_def store_signing_session_def forget_nonce_def navigate_def
  by (intro account_rules)+

text \<open>A verify result the server has given.\<close>

definition verified :: "('e env_scheme) \<Rightarrow> verify_result \<Rightarrow> bool" where
  "verified E res \<longleftrightarrow> (\<exists>h req text j. e_fetch E h req = Reply (fst text) (snd text) \<and> reply_json text = Inr j \<and>
     verify_result_of_json j = Some res)"

lemma typed_request_verified:
  assumes "typed verify_result_of_json (request E r) t = (Inr res, t')"
  shows "verified E res"
  using assms by (force simp: typed_def await_def request_apply Let_def verified_def ret_def throw_def
      split: http_reply.splits sum.splits option.splits prod.splits)

text \<open>Nothing but a verified result changes the account.\<close>

definition account_by :: "('e env_scheme) \<Rightarrow> 't provider_tab_scheme \<Rightarrow> 't provider_tab_scheme \<Rightarrow> bool" where
  "account_by E t t' \<longleftrightarrow> same_account t t' \<or> (\<exists>res. verified E res \<and>
     sp_user t' = Some (s_user (vr_session res)) \<and> sp_status t' = Signed_in \<and>
     (\<not> e_ls_throws E \<and> vr_token res \<noteq> [] \<longrightarrow> local_storage t' TOKEN_KEY = Some (vr_token res)))"

lemma on_signed_in_ends:
  assumes "on_signed_in E s token t = (r, t')"
  shows "r = Inr () \<and> sp_user t' = Some (s_user s) \<and> sp_status t' = Signed_in \<and>
    (\<not> e_ls_throws E \<and> token \<noteq> [] \<longrightarrow> local_storage t' TOKEN_KEY = Some token)"
  using assms by (auto simp: on_signed_in_def apply_session_def seq_def await_def store_token_def ret_def update_tab_def
      truthy_str_def split: if_splits)

lemma account_by_then_same: "account_by E t t1 \<Longrightarrow> same_account t1 t' \<Longrightarrow> account_by E t t'"
  by (auto simp: account_by_def same_account_def provider_part_def)

lemma complete_login_account:
  assumes "complete_login E node kp c key account res t = (r, t')" and "verified E res"
  shows "account_by E t t'"
proof -
  let ?rest = "seq (request E (auth_route (PutSignetKey (login_key_body key account))))
         (await (reads (\<lambda>t. sdk_return_to E (trace t))) (\<lambda>back. navigate (or_else back ''/apps'')))"
  have rest: "keeps same_account ?rest"
    by (intro account_rules same_account_request same_account_steps)
  have f: "keeps same_account (forget_nonce E)" by (rule same_account_steps)
  obtain t1 where t1: "store_signing_session E (login_session node kp c (gk_group_public_key key)) t = (Inr (), t1)"
    using store_total by blast
  obtain r2 t2 where t2: "forget_nonce E t1 = (r2, t2)" by fastforce
  have s: "same_account t t1" "same_account t1 t2" using keepsD [OF same_account_steps(9) t1] keepsD [OF f t2] .
  show ?thesis
  proof (cases r2)
    case (Inl e)
    then show ?thesis
      using assms(1) t1 t2 account_frame.frame_trans [OF s] by (auto simp: complete_login_def seq_def await_def account_by_def)
  next
    case (Inr x)
    obtain r3 t3 where t3: "on_signed_in E (vr_session res) (vr_token res) t2 = (r3, t3)" by fastforce
    note o = on_signed_in_ends [OF t3]
    have "account_by E t t3" using o assms(2) by (auto simp: account_by_def)
    moreover have "?rest t3 = (r, t')"
      using assms(1) t1 t2 t3 Inr o by (simp add: complete_login_def seq_def await_def)
    then have "same_account t3 t'" by (rule keepsD [OF rest])
    ultimately show ?thesis by (rule account_by_then_same)
  qed
qed

context frame
begin

lemma phase_await_ran:
  assumes "keeps R m" and "\<And>x t t'. m t = (Inr x, t') \<Longrightarrow> phase R S (f x)" and "\<And>t. S t t"
  shows "phase R S (await m f)"
  unfolding phase_def
proof (intro allI)
  fix t
  obtain r t' where m: "m t = (r, t')" by fastforce
  have "R t t'" using assms(1) m by (rule keepsD)
  show "\<exists>t1. R t t1 \<and> S t1 (snd (await m f t))"
  proof (cases r)
    case (Inl e)
    then show ?thesis using m assms(3) \<open>R t t'\<close> by (auto simp: await_def)
  next
    case (Inr x)
    then obtain t1 where "R t' t1" "S t1 (snd (f x t'))" using m assms(2) unfolding phase_def by blast
    then show ?thesis using m Inr frame_trans [OF \<open>R t t'\<close> \<open>R t' t1\<close>] by (auto simp: await_def)
  qed
qed

end

lemma account_by_refl: "account_by E t t"
  by (simp add: account_by_def account_frame.frame_refl)

lemma complete_login_phase:
  assumes "typed verify_result_of_json (request E r) t0 = (Inr res, t1)"
  shows "phase same_account (account_by E) (complete_login E node kp c key account res)"
  by (intro account_frame.phase_second keepsI) (blast intro: complete_login_account typed_request_verified [OF assms])

lemma register_phase: "phase same_account (account_by E) (register_and_verify E nw node kp c proof)"
  unfolding register_and_verify_def
  by (intro account_frame.phase_seq account_frame.phase_await account_frame.phase_await_ran [OF same_account_request(2) complete_login_phase]
      same_account_steps same_account_sign same_account_request account_rules account_by_refl)

lemma callback_phase: "phase same_account (account_by E) (callback_run E (Some nw))"
  unfolding callback_run_def option.case split_def
  by (intro account_frame.phase_seq account_frame.phase_await account_frame.phase_if register_phase
      account_frame.phase_first [OF account_frame.keeps_throw] same_account_steps account_by_refl)

context frame
begin

lemma keeps_await_ran:
  assumes "keeps R m" and "\<And>x t t'. m t = (Inr x, t') \<Longrightarrow> keeps R (f x)"
  shows "keeps R (await m f)"
proof (rule keepsI)
  fix t r t''
  assume a: "await m f t = (r, t'')"
  obtain r1 t1 where m: "m t = (r1, t1)" by fastforce
  have "R t t1" using assms(1) m by (rule keepsD)
  show "R t t''"
  proof (cases r1)
    case (Inl e)
    then show ?thesis using a m \<open>R t t1\<close> by (simp add: await_def)
  next
    case (Inr x)
    then have "f x t1 = (r, t'')" "m t = (Inr x, t1)" using a m by (simp_all add: await_def)
    then show ?thesis using keepsD [OF assms(2)] frame_trans [OF \<open>R t t1\<close>] by blast
  qed
qed

end

text \<open>What is handed to the prover and to the signing group.\<close>

definition answered :: "('e env_scheme) \<Rightarrow> challenge \<Rightarrow> bool" where
  "answered E ch \<longleftrightarrow> (\<exists>h req reply j. e_fetch E h req = Reply (fst reply) (snd reply) \<and> reply_json reply = Inr j \<and>
     challenge_of_json j = Some ch)"

definition handed_over :: "('e sign_in_env_scheme) \<Rightarrow> network_config \<Rightarrow> event \<Rightarrow> bool" where
  "handed_over E nw e = (case e of Sdk meth as \<Rightarrow>
     (meth = ''signSignRequest'' \<longrightarrow> (\<exists>ch d. answered E ch \<and> ch_digest ch = Some d \<and> as = [n_bootstrap_group nw, d])) \<and>
     (meth = ''generateServerProof'' \<longrightarrow> (\<exists>h jwt pub. sdk_oauth_callback E h ''/api/auth/token'' = Inr jwt \<and> as = [''/api/bundler'', jwt, pub]))
   | _ \<Rightarrow> True)"

lemma handed_over_simps [simp]:
  "handed_over E nw (Stage s)" "handed_over E nw (Navigate s)" "handed_over E nw (Fetch r)"
  "handed_over E nw (Sdk ''readContract'' as)" "handed_over E nw (Sdk ''handleOAuthCallback'' as)"
  "handed_over E nw (Sdk ''generateSessionKeypair'' as)" "handed_over E nw (Sdk ''authenticateWithBootstrap'' as)"
  "handed_over E nw (keygen_event q)"
  by (auto simp: handed_over_def keygen_event_def)

lemma typed_challenge_answered: "typed challenge_of_json (request E r) t = (Inr ch, t') \<Longrightarrow> answered E ch"
  by (force simp: typed_def await_def request_apply Let_def answered_def ret_def throw_def
      split: http_reply.splits sum.splits option.splits prod.splits)

lemma sign_handed_over:
  assumes "answered E ch" and "ch_digest ch = Some d"
  shows "keeps (appends (handed_over E nw)) (sign_with_bootstrap_group E (login_sign_request nw node kp c d))"
proof -
  have "sign_events E (login_sign_request nw node kp c d) e \<Longrightarrow> handed_over E nw e" for e
    using assms by (auto simp: sign_events_def login_sign_request_def handed_over_def)
  then show ?thesis
    using sign_appends [of E "login_sign_request nw node kp c d"] unfolding keeps_def by (blast intro: appends_mono)
qed

lemma register_handed_over: "keeps (appends (handed_over E nw)) (register_and_verify E nw node kp c proof)"
proof -
  have tail: "keeps (appends (handed_over E nw)) (complete_login E node kp c key account res)" for key account res
    unfolding complete_login_def by (intro keeps_intros; simp del: auth_route.simps)
  have sign: "keeps (appends (handed_over E nw)) (sign_with_bootstrap_group E (login_sign_request nw node kp c d))"
    if "typed challenge_of_json (request E r) t1 = (Inr ch, t2)" "lift_err (digest_of ch) t3 = (Inr d, t4)"
    for r ch d and t1 t2 t3 t4 :: "'z provider_tab_scheme"
  proof -
    have "ch_digest ch = Some d" using that(2) by (auto simp: lift_err_def digest_of_def split: option.splits)
    then show ?thesis by (rule sign_handed_over [OF typed_challenge_answered [OF that(1)]])
  qed
  show ?thesis
    unfolding register_and_verify_def
    by (intro appending.keeps_seq appending.keeps_await_ran appending.keeps_lift_err tail
        keeps_typed frames request_appends stage_frames login_sdk_appends)
      (simp_all del: auth_route.simps, rule sign, assumption+)
qed

lemma callback_handed_over: "keeps (appends (handed_over E nw)) (callback_run E (Some nw))"
proof -
  have prove: "keeps (appends (handed_over E nw)) (prove_credential E jwt kp)"
    if "read_identity_token E t1 = (Inr (jwt, c), t2)" for jwt c kp and t1 t2 :: "'z provider_tab_scheme"
  proof -
    have "\<exists>h. sdk_oauth_callback E h ''/api/auth/token'' = Inr jwt"
      using that by (auto simp: read_identity_token_def run_returns split: if_splits)
    then show ?thesis by (intro keeps_intros) (auto simp: handed_over_def)
  qed
  show ?thesis
    unfolding callback_run_def option.case split_def
    by (intro appending.keeps_seq appending.keeps_await_ran keeps_if appending.keeps_throw silent_steps stage_frames
        register_handed_over read_identity_token_appends login_sdk_appends(3))
      (auto intro!: prove)
qed

text \<open>The wallet route.\<close>

lemma same_account_store: "keeps same_account (store_signing_session E s)"
  unfolding store_signing_session_def by (intro account_rules)

lemma same_account_provision: "keeps same_account (provision_signet_key E nw cb)"
  unfolding provision_signet_key_def finish_provision_def on_provision_stage_def counterfactual_account_def
    generate_session_keypair_def keygen_def Let_def split_def
  by (intro account_rules same_account_store same_account_request)

lemma start_wallet_returns:
  assumes "start_wallet E network nxt t = (Inr (), t')"
  shows "sp_status t' = Signed_in \<and> network \<noteq> None \<and> (\<exists>h. trace t' = h @ [Navigate nxt])"
  using assms unfolding start_wallet_def
  by (auto simp: run_returns navigate_def same_account_def provider_part_def
      simp del: auth_route.simps provision_stage_copy.simps split: option.splits prod.splits
      dest!: on_signed_in_ends keepsD [OF same_account_provision])

subsection \<open>Properties\<close>

text \<open>The whole sign-in speaks to one node. Whatever happens, the session is opened at the first
  bootstrap node and at no other, key generation starts there, and every request through the
  bootstrap proxy, the signing request among them, names that node.\<close>

theorem callback_pins_one_node:
  "\<exists>es. trace (snd (callback_run E (Some nw) t)) = trace t @ es \<and>
    list_all (pinned E nw (the (first_node (n_bootstrap_nodes nw)))) es"
  using callback_pinned [of E nw] unfolding keeps_def appends_def by blast


text \<open>What leaves the tab during sign-in. Whatever happens, the digest the group is asked to sign is
  the one the server's challenge carries, taken as it is, with no message of it read or hashed; and
  the credential is proved by the bundler, which is sent the identity token that Google returned.\<close>

theorem callback_hands_over_digest_and_token:
  "\<exists>es. trace (snd (callback_run E (Some nw) t)) = trace t @ es \<and> list_all (handed_over E nw) es"
  using callback_handed_over [of E nw] unfolding keeps_def appends_def by blast

text \<open>Signing in with a wallet always comes to an end the screen can show. The handler never throws
  and leaves no busy or provisioning state. Either an error is shown, or the user is signed in, has
  been provisioned, and the last thing done is the navigation to the \<open>next\<close> parameter as it stood in
  the address, or to the apps when it is missing or empty.\<close>

theorem wallet_login_settles:
  "(let (r, t') = sign_in_with_wallet E network (login_next param) t in
    r = Inr () \<and> lg_busy t' = None \<and> lg_provisioning t' = None \<and>
    ((\<exists>e. lg_error t' = Some e) \<or>
     (sp_status t' = Signed_in \<and> (\<exists>nw. network = Some nw) \<and>
      (\<exists>h. trace t' = h @ [Navigate (if truthy_str param then the param else ''/apps'')]))))"
proof -
  let ?t0 = "t\<lparr>lg_busy := Some Busy_siwe, lg_error := None, lg_provisioning := None\<rparr>"
  obtain r t1 where s: "start_wallet E network (login_next param) ?t0 = (r, t1)" by fastforce
  have n: "login_next param = (if truthy_str param then the param else ''/apps'')"
    by (auto simp: login_next_def or_else_def truthy_str_def split: option.splits)
  show ?thesis
  proof (cases r)
    case (Inl e)
    then show ?thesis
      using s by (simp add: sign_in_with_wallet_def seq_def await_def update_tab_def finally_do_def try_catch_def Let_def)
  next
    case (Inr x)
    then show ?thesis
      using s start_wallet_returns [of E network "login_next param" ?t0 t1]
      by (auto simp: sign_in_with_wallet_def seq_def await_def update_tab_def finally_do_def try_catch_def Let_def n)
  qed
qed

end
