(* ===== verification/Format.thy ===== *)
theory Format
  imports Onchain
begin

text \<open>
  \<open>web/lib/format.ts\<close>: the one place where addresses, dates, amounts and labels become text. What the
  browser's locale decides (number, currency and date formats, the parsing of a date text) is the
  argument \<open>intl\<close>; the clock is an argument in milliseconds. Amounts and counts are integers on the
  wire; \<open>formatPercent\<close> is in the theory \<open>Overview\<close>.
\<close>

record intl =
  in_time :: "string \<Rightarrow> int option"                \<comment> \<open>\<open>new Date(iso).getTime()\<close>, \<^const>\<open>None\<close> for \<open>NaN\<close>\<close>
  in_number :: "int \<Rightarrow> string"
  in_currency :: "int \<Rightarrow> nat \<Rightarrow> string"            \<comment> \<open>millionths of a dollar, most fraction digits\<close>
  in_date :: "int \<Rightarrow> string"
  in_date_time :: "int \<Rightarrow> string"
  in_relative :: "int \<Rightarrow> string \<Rightarrow> string"

subsection \<open>Addresses\<close>

text \<open>\<open>s.slice(-n)\<close>: zero is the start of the string.\<close>

definition slice_tail :: "nat \<Rightarrow> string \<Rightarrow> string" where
  "slice_tail n s = (if n = 0 then s else drop (length s - n) s)"

definition short_address :: "nat \<Rightarrow> nat \<Rightarrow> string option \<Rightarrow> string" where
  "short_address lead tail addr =
     (if \<not> truthy_str addr then em_dash
      else if length (the addr) \<le> lead + tail + 2 then the addr
      else slice 0 lead (the addr) @ ellipsis @ slice_tail tail (the addr))"

definition short_hash :: "string option \<Rightarrow> string" where
  "short_hash hash = short_address 10 6 hash"

subsection \<open>Amounts and dates\<close>

definition format_usdc :: "intl \<Rightarrow> int \<Rightarrow> string" where
  "format_usdc I micros = in_currency I micros (if micros mod 10000 = 0 then 2 else 4)"

definition format_number :: "intl \<Rightarrow> int option \<Rightarrow> string" where
  "format_number I n = (case n of None \<Rightarrow> em_dash | Some k \<Rightarrow> in_number I k)"

definition format_date :: "intl \<Rightarrow> string option \<Rightarrow> string" where
  "format_date I when = (if \<not> truthy_str when then em_dash
     else (case in_time I (the when) of None \<Rightarrow> em_dash | Some ms \<Rightarrow> in_date I ms))"

definition format_date_time :: "intl \<Rightarrow> string option \<Rightarrow> string" where
  "format_date_time I when = (if \<not> truthy_str when then em_dash
     else (case in_time I (the when) of None \<Rightarrow> em_dash | Some ms \<Rightarrow> in_date_time I ms))"

text \<open>\<open>Math.round(a / b)\<close>, a half up.\<close>

definition round_div :: "int \<Rightarrow> int \<Rightarrow> int" where
  "round_div a b = (2 * a + b) div (2 * b)"

definition relative_seconds :: "intl \<Rightarrow> int \<Rightarrow> string" where
  "relative_seconds I seconds =
     (let a = \<bar>seconds\<bar> in
      if a < 60 then in_relative I seconds ''second''
      else if a < 3600 then in_relative I (round_div seconds 60) ''minute''
      else if a < 86400 then in_relative I (round_div seconds 3600) ''hour''
      else if a < 2592000 then in_relative I (round_div seconds 86400) ''day''
      else if a < 31536000 then in_relative I (round_div seconds 2592000) ''month''
      else in_relative I (round_div seconds 31536000) ''year'')"

definition relative_time :: "intl \<Rightarrow> int \<Rightarrow> string option \<Rightarrow> string" where
  "relative_time I now when = (if \<not> truthy_str when then em_dash
     else (case in_time I (the when) of None \<Rightarrow> em_dash
       | Some ms \<Rightarrow> relative_seconds I (round_div (ms - now) 1000)))"

definition countdown_text :: "int \<Rightarrow> string" where
  "countdown_text s = (let d = s div 86400; h = s mod 86400 div 3600; m = s mod 3600 div 60 in
     if d > 0 then dec_of_int d @ ''d '' @ dec_of_int h @ ''h''
     else if h > 0 then dec_of_int h @ ''h '' @ dec_of_int m @ ''m''
     else dec_of_int m @ ''m '' @ dec_of_int (s mod 60) @ ''s'')"

definition countdown :: "intl \<Rightarrow> int \<Rightarrow> string option \<Rightarrow> string option" where
  "countdown I now when = (if \<not> truthy_str when then None
     else (case in_time I (the when) of None \<Rightarrow> None
       | Some ms \<Rightarrow> if ms - now \<le> 0 then None else Some (countdown_text ((ms - now) div 1000))))"

text \<open>\<open>(a / b).toFixed(1)\<close> for a power of two \<open>b\<close>, where the quotient is exact.\<close>

definition fixed_1 :: "nat \<Rightarrow> nat \<Rightarrow> string" where
  "fixed_1 a b = (let n = (20 * a + b) div (2 * b) in dec_of_nat (n div 10) @ ''.'' @ dec_of_nat (n mod 10))"

definition format_bytes :: "nat \<Rightarrow> string" where
  "format_bytes bytes = (if bytes < 1024 then dec_of_nat bytes @ '' B''
     else if bytes < 1024 ^ 2 then fixed_1 bytes 1024 @ '' KB'' else fixed_1 bytes (1024 ^ 2) @ '' MB'')"

subsection \<open>Labels\<close>

definition CURVE_LABELS :: "(string \<times> string) list" where
  "CURVE_LABELS = [(''frost_secp256k1'', ''FROST '' @ middle_dot @ '' secp256k1''),
     (''frost_ed25519'', ''FROST '' @ middle_dot @ '' Ed25519''), (''ecdsa_secp256k1'', ''ECDSA '' @ middle_dot @ '' secp256k1'')]"

definition label_in :: "(string \<times> string) list \<Rightarrow> string \<Rightarrow> string" where
  "label_in tbl k = (case map_of tbl k of None \<Rightarrow> k | Some l \<Rightarrow> l)"

definition curve_label :: "string \<Rightarrow> string" where
  "curve_label c = label_in CURVE_LABELS c"

definition CHAIN_NAMES :: "(int \<times> string) list" where
  "CHAIN_NAMES = [(1, ''Ethereum''), (10, ''Optimism''), (137, ''Polygon''), (8453, ''Base''), (42161, ''Arbitrum One''),
     (11155111, ''Sepolia''), (84532, ''Base Sepolia''), (31337, ''Anvil (local)'')]"

definition chain_name :: "int option \<Rightarrow> string" where
  "chain_name i = (case i of None \<Rightarrow> em_dash
     | Some n \<Rightarrow> (case map_of CHAIN_NAMES n of None \<Rightarrow> ''Chain '' @ dec_of_int n | Some l \<Rightarrow> l))"

definition SCOPE_LABELS :: "(string \<times> string) list" where
  "SCOPE_LABELS = [(''unscoped'', ''Unscoped''), (''evm_userop'', ''EVM UserOperation''),
     (''solana_tx'', ''Solana transaction''), (''eip712'', ''EIP-712 typed data'')]"

definition scope_label :: "string \<Rightarrow> string" where
  "scope_label kind = label_in SCOPE_LABELS kind"

subsection \<open>Lemmas\<close>

text \<open>A shortened address keeps its two ends, so two addresses that read alike agree there.\<close>

lemma short_address_ends:
  assumes "lead + tail + 2 < length a" and "0 < tail"
  shows "short_address lead tail (Some a) = take lead a @ ellipsis @ drop (length a - tail) a"
  using assms by (auto simp: short_address_def truthy_str_def slice_def slice_tail_def)

lemma short_address_agree:
  assumes "lead + tail + 2 < length a" and "lead + tail + 2 < length b" and "0 < tail"
    and "short_address lead tail (Some a) = short_address lead tail (Some b)"
  shows "take lead a = take lead b \<and> drop (length a - tail) a = drop (length b - tail) b"
  using assms(4) unfolding short_address_ends [OF assms(1,3)] short_address_ends [OF assms(2,3)]
  using assms(1,2) by simp

text \<open>The parts of a countdown are the digits of its seconds in days, hours, minutes and seconds.\<close>

lemma split_by: "0 < n \<Longrightarrow> x = x div n * n + x mod n \<and> 0 \<le> x mod n \<and> x mod n < n" for x n :: int
  by simp

lemma place_values:
  fixes s :: int
  assumes "s = d * 86400 + x" and "x = h * 3600 + y" and "y = m * 60 + r" and "0 \<le> x \<and> x < 86400" and "0 \<le> y \<and> y < 3600"
    and "0 \<le> r \<and> r < 60"
  shows "s = ((d * 24 + h) * 60 + m) * 60 + r" "0 \<le> h" "h < 24" "0 \<le> m" "m < 60"
proof -
  show "s = ((d * 24 + h) * 60 + m) * 60 + r" using assms(1-3) by (simp add: algebra_simps)
  show "0 \<le> h" "h < 24" using assms(2,4,5) by linarith+
  show "0 \<le> m" "m < 60" using assms(3,5,6) by linarith+
qed

lemma countdown_parts:
  fixes s :: int
  shows "s = ((s div 86400 * 24 + s mod 86400 div 3600) * 60 + s mod 3600 div 60) * 60 + s mod 60"
    and "0 \<le> s mod 86400 div 3600" "s mod 86400 div 3600 < 24"
    and "0 \<le> s mod 3600 div 60" "s mod 3600 div 60 < 60"
proof -
  have m: "s mod 86400 mod 3600 = s mod 3600" "s mod 3600 mod 60 = s mod 60"
    by (simp_all add: mod_mod_cancel)
  have a: "s = s div 86400 * 86400 + s mod 86400" "0 \<le> s mod 86400 \<and> s mod 86400 < 86400"
    using split_by [of 86400 s] by (simp_all only: zero_less_numeral simp_thms)
  have b: "s mod 86400 = s mod 86400 div 3600 * 3600 + s mod 3600" "0 \<le> s mod 3600 \<and> s mod 3600 < 3600"
    using split_by [of 3600 "s mod 86400"] by (simp_all only: m zero_less_numeral simp_thms)
  have c: "s mod 3600 = s mod 3600 div 60 * 60 + s mod 60" "0 \<le> s mod 60 \<and> s mod 60 < 60"
    using split_by [of 60 "s mod 3600"] by (simp_all only: m zero_less_numeral simp_thms)
  show "s = ((s div 86400 * 24 + s mod 86400 div 3600) * 60 + s mod 3600 div 60) * 60 + s mod 60"
    and "0 \<le> s mod 86400 div 3600" "s mod 86400 div 3600 < 24"
    and "0 \<le> s mod 3600 div 60" "s mod 3600 div 60 < 60"
    by (fact place_values [OF a(1) b(1) c(1) a(2) b(2) c(2)])+
qed

lemma countdown_text_parts:
  assumes "0 \<le> s"
  shows "\<exists>d h m r. s = ((d * 24 + h) * 60 + m) * 60 + r \<and> 0 \<le> d \<and> 0 \<le> h \<and> h < 24 \<and> 0 \<le> m \<and> m < 60 \<and> 0 \<le> r \<and> r < 60 \<and>
    countdown_text s = (if 0 < d then dec_of_int d @ ''d '' @ dec_of_int h @ ''h''
         else if 0 < h then dec_of_int h @ ''h '' @ dec_of_int m @ ''m''
         else dec_of_int m @ ''m '' @ dec_of_int r @ ''s'')"
proof -
  have "0 \<le> s div 86400" using assms by (rule pos_imp_zdiv_nonneg_iff [THEN iffD2, rotated]) (rule zero_less_numeral)
  moreover have "0 \<le> s mod 60" "s mod 60 < 60" by (rule pos_mod_sign pos_mod_bound, rule zero_less_numeral)+
  ultimately show ?thesis
    unfolding countdown_text_def Let_def
    by (intro exI [of _ "s div 86400"] exI [of _ "s mod 86400 div 3600"] exI [of _ "s mod 3600 div 60"] exI [of _ "s mod 60"]
      conjI countdown_parts refl)
qed

subsection \<open>Properties\<close>

text \<open>A timelock reads as waiting exactly until its deadline. The countdown of a deadline is absent
  when there is no readable deadline or it has passed; otherwise it shows the whole seconds left,
  split into days, hours below 24, minutes below 60 and seconds below 60, of which it writes the two
  largest that count.\<close>

theorem countdown_reads_the_time_left:
  "case countdown I now when of
     None \<Rightarrow> (case when of None \<Rightarrow> True
       | Some w \<Rightarrow> w = [] \<or> (case in_time I w of None \<Rightarrow> True | Some ms \<Rightarrow> ms \<le> now))
   | Some shown \<Rightarrow> \<exists>ms d h m s. when \<noteq> None \<and> in_time I (the when) = Some ms \<and> now < ms \<and>
       (ms - now) div 1000 = ((d * 24 + h) * 60 + m) * 60 + s \<and>
       0 \<le> d \<and> 0 \<le> h \<and> h < 24 \<and> 0 \<le> m \<and> m < 60 \<and> 0 \<le> s \<and> s < 60 \<and>
       shown = (if 0 < d then dec_of_int d @ ''d '' @ dec_of_int h @ ''h''
         else if 0 < h then dec_of_int h @ ''h '' @ dec_of_int m @ ''m''
         else dec_of_int m @ ''m '' @ dec_of_int s @ ''s'')"
proof (cases "countdown I now when")
  case None
  then show ?thesis by (auto simp: countdown_def truthy_str_def split: if_splits option.splits)
next
  case (Some shown)
  then obtain ms where ms: "truthy_str when" "in_time I (the when) = Some ms" "now < ms"
    and s: "shown = countdown_text ((ms - now) div 1000)"
    by (auto simp: countdown_def split: if_splits option.splits)
  let ?s = "(ms - now) div 1000"
  have "0 \<le> ?s" using ms(3) by (simp add: pos_imp_zdiv_nonneg_iff)
  from countdown_text_parts [OF this] obtain d h m r where parts: "?s = ((d * 24 + h) * 60 + m) * 60 + r" "0 \<le> d" "0 \<le> h" "h < 24" "0 \<le> m" "m < 60"
      "0 \<le> r" "r < 60" "countdown_text ?s = (if 0 < d then dec_of_int d @ ''d '' @ dec_of_int h @ ''h''
         else if 0 < h then dec_of_int h @ ''h '' @ dec_of_int m @ ''m''
         else dec_of_int m @ ''m '' @ dec_of_int r @ ''s'')"
    by (elim exE conjE) (rule that)
  have "when \<noteq> None" using ms(1) by (simp add: truthy_str_def)
  with ms parts show ?thesis
    unfolding Some option.case s
    by (intro exI [of _ ms] exI [of _ d] exI [of _ h] exI [of _ m] exI [of _ r] conjI)
qed

end
