(* ===== verification/New_App.thy ===== *)
theory New_App
  imports Sign_In Format
begin

text \<open>
  \<open>web/app/(console)/apps/new/page.tsx\<close>: the wizard that creates an app and its signing group. Its form
  and what the buttons of each step do to it; the \<open>deploy\<close> callback, an \<open>io\<close> over the provider's tab;
  and the life of the page as a step relation in which a deployment, once launched, is under way
  until it settles, while the user may use whatever control is enabled.
\<close>

subsection \<open>Steps and choices\<close>

datatype wizard_step = At_details | At_operators | At_login | At_review | At_deploy
datatype wizard_mode = Mode_deploy | Mode_attach

definition DEPLOY_STEPS :: "(wizard_step \<times> string) list" where
  "DEPLOY_STEPS = [(At_details, ''Details''), (At_operators, ''Nodes''), (At_login, ''Login methods''),
     (At_review, ''Review''), (At_deploy, ''Deploy'')]"

definition ATTACH_STEPS :: "(wizard_step \<times> string) list" where
  "ATTACH_STEPS = [(At_details, ''Details''), (At_review, ''Review''), (At_deploy, ''Link'')]"

definition valid_group_address :: "string \<Rightarrow> bool" where
  "valid_group_address s \<longleftrightarrow> starts_with ''0x'' s \<and> length s = 42 \<and> list_all is_hex (drop 2 s)"

definition REMOVAL_DELAYS :: "(int \<times> string \<times> string) list" where
  "REMOVAL_DELAYS = [(0, ''None'', ''Removals take effect immediately. Only sensible on a devnet.''),
     (3600, ''1 hour'', ''Enough time to notice an unexpected removal.''),
     (86400, ''24 hours'', ''A sensible default for most applications.''),
     (604800, ''7 days'', ''Removing an operator becomes a deliberate, visible act.'')]"

record known_issuer =
  ki_issuer :: string
  ki_provider :: string
  ki_label :: string

definition KNOWN_ISSUERS :: "known_issuer list" where
  "KNOWN_ISSUERS = [\<lparr>ki_issuer = ''https://accounts.google.com'', ki_provider = ''google'', ki_label = ''Google''\<rparr>,
     \<lparr>ki_issuer = ''https://appleid.apple.com'', ki_provider = ''apple'', ki_label = ''Apple''\<rparr>]"

record wizard =
  wz_step :: wizard_step
  wz_mode :: wizard_mode
  wz_name :: string
  wz_description :: string
  wz_selected :: "string list"
  wz_threshold :: int
  wz_removal_delay :: int
  wz_issuers :: "string list"
  wz_client_ids :: "string \<rightharpoonup> string"
  wz_manual_address :: string

definition initial_wizard :: wizard where
  "initial_wizard = \<lparr>wz_step = At_details, wz_mode = Mode_deploy, wz_name = [], wz_description = [], wz_selected = [],
     wz_threshold = 2, wz_removal_delay = 86400, wz_issuers = [''https://accounts.google.com''],
     wz_client_ids = Map.empty, wz_manual_address = []\<rparr>"

subsection \<open>The operators on offer\<close>

text \<open>Apps start in development, where only first-party operators may run the group.\<close>

definition category_name :: "node_category \<Rightarrow> string" where
  "category_name c = (case c of Enterprise \<Rightarrow> ''enterprise'' | Infrastructure \<Rightarrow> ''infrastructure'' | Custodian \<Rightarrow> ''custodian''
     | Independent \<Rightarrow> ''independent'' | Signet_category \<Rightarrow> ''signet'')"

definition offered_operators :: "network_config option \<Rightarrow> node_operator list option \<Rightarrow> node_operator list" where
  "offered_operators network data =
     filter (\<lambda>op. category_name (op_category op) = (case network of None \<Rightarrow> ''signet'' | Some n \<Rightarrow> n_first_party_category n))
       (case data of None \<Rightarrow> [] | Some os \<Rightarrow> os)"

definition sponsored_by :: "network_config option \<Rightarrow> bool" where
  "sponsored_by network = (case network of None \<Rightarrow> False | Some n \<Rightarrow> n_sponsor_group_creation n)"

definition selected_operators :: "node_operator list \<Rightarrow> ('w wizard_scheme) \<Rightarrow> node_operator list" where
  "selected_operators ops w = filter (\<lambda>op. op_address op \<in> set (wz_selected w)) ops"

text \<open>The effect that drops a selection the list does not offer.\<close>

definition keep_offered :: "string list \<Rightarrow> ('w wizard_scheme) \<Rightarrow> ('w wizard_scheme)" where
  "keep_offered allowed w =
     (let nxt = filter (\<lambda>a. a \<in> set allowed) (wz_selected w)
      in if length nxt = length (wz_selected w) then w else w\<lparr>wz_selected := nxt\<rparr>)"

definition toggle_operator :: "string \<Rightarrow> ('w wizard_scheme) \<Rightarrow> ('w wizard_scheme)" where
  "toggle_operator address w =
     (let nxt = (if address \<in> set (wz_selected w) then filter (\<lambda>a. a \<noteq> address) (wz_selected w)
                 else wz_selected w @ [address])
      in w\<lparr>wz_selected := nxt, wz_threshold := min (max (wz_threshold w) 1) (max (int (length nxt)) 1)\<rparr>)"

definition toggle_issuer :: "string \<Rightarrow> bool \<Rightarrow> ('w wizard_scheme) \<Rightarrow> ('w wizard_scheme)" where
  "toggle_issuer i checked w = w\<lparr>wz_issuers := (if checked then wz_issuers w @ [i]
     else filter (\<lambda>j. j \<noteq> i) (wz_issuers w))\<rparr>"

subsection \<open>Moving through the steps\<close>

definition steps_of :: "wizard_mode \<Rightarrow> (wizard_step \<times> string) list" where
  "steps_of m = (if m = Mode_attach then ATTACH_STEPS else DEPLOY_STEPS)"

definition step_index :: "('w wizard_scheme) \<Rightarrow> int" where
  "step_index w = index_of (wz_step w) (map fst (steps_of (wz_mode w)))"

definition step_at :: "int \<Rightarrow> ('w wizard_scheme) \<Rightarrow> wizard_step" where
  "step_at i w = fst (steps_of (wz_mode w) ! nat i)"

text \<open>The effect that runs when the mode or the step has changed.\<close>

definition keep_on_track :: "('w wizard_scheme) \<Rightarrow> ('w wizard_scheme)" where
  "keep_on_track w = (if wz_step w \<in> set (map fst (steps_of (wz_mode w))) then w
     else w\<lparr>wz_step := fst (hd (steps_of (wz_mode w)))\<rparr>)"

definition attaching :: "('w wizard_scheme) \<Rightarrow> bool" where
  "attaching w \<longleftrightarrow> wz_mode w = Mode_attach"

definition address_valid :: "('w wizard_scheme) \<Rightarrow> bool" where
  "address_valid w = valid_group_address (trim (wz_manual_address w))"

definition min_operators :: nat where "min_operators = 1"

definition can_continue :: "('w wizard_scheme) \<Rightarrow> bool" where
  "can_continue w = (case wz_step w of
     At_details \<Rightarrow> 0 < length (trim (wz_name w))
   | At_operators \<Rightarrow> min_operators \<le> length (wz_selected w) \<and> 1 \<le> wz_threshold w \<and> wz_threshold w \<le> int (length (wz_selected w))
   | _ \<Rightarrow> True)"

text \<open>The bar of steps, \<open>Back\<close> and \<open>Continue\<close>, each with the condition that enables it.\<close>

definition bar_enabled :: "int \<Rightarrow> bool \<Rightarrow> ('w wizard_scheme) \<Rightarrow> bool" where
  "bar_enabled i staged w \<longleftrightarrow> 0 \<le> i \<and> i < int (length (steps_of (wz_mode w))) \<and> \<not> (i > step_index w \<or> staged)"

definition press_bar :: "int \<Rightarrow> ('w wizard_scheme) \<Rightarrow> ('w wizard_scheme)" where
  "press_bar i w = (if i \<le> step_index w then w\<lparr>wz_step := step_at i w\<rparr> else w)"

definition back_enabled :: "('w wizard_scheme) \<Rightarrow> bool" where
  "back_enabled w \<longleftrightarrow> wz_step w \<noteq> At_deploy \<and> step_index w \<noteq> 0"

definition press_back :: "('w wizard_scheme) \<Rightarrow> ('w wizard_scheme)" where
  "press_back w = w\<lparr>wz_step := step_at (max (step_index w - 1) 0) w\<rparr>"

definition continue_enabled :: "('w wizard_scheme) \<Rightarrow> bool" where
  "continue_enabled w \<longleftrightarrow> wz_step w \<noteq> At_deploy \<and> wz_step w \<noteq> At_review \<and> can_continue w"

definition press_continue :: "('w wizard_scheme) \<Rightarrow> ('w wizard_scheme)" where
  "press_continue w = w\<lparr>wz_step := step_at (step_index w + 1) w\<rparr>"

definition deploy_enabled :: "bool \<Rightarrow> ('w wizard_scheme) \<Rightarrow> bool" where
  "deploy_enabled can_sign w \<longleftrightarrow> wz_step w = At_review \<and> (if attaching w then address_valid w else can_sign)"

definition choose_mode :: "wizard_mode \<Rightarrow> ('w wizard_scheme) \<Rightarrow> ('w wizard_scheme)" where
  "choose_mode m w = keep_on_track (w\<lparr>wz_mode := m\<rparr>)"

subsection \<open>Deploying\<close>

text \<open>The page's two pieces of progress state. \<open>setStage\<close>, called here and by the signing flow, is reported
  to the trace; the field holds what the page shows once the callback has ended.\<close>

record wizard_tab = provider_tab +
  wt_stage :: "deploy_stage option"
  wt_error :: "jserr option"

type_synonym ('t, 'a) wio = "'t wizard_tab_scheme \<Rightarrow> (jserr + 'a) \<times> 't wizard_tab_scheme"

fun deploy_stage_key :: "deploy_stage \<Rightarrow> string" where
  "deploy_stage_key (D_stage st) = stage_key st"
| "deploy_stage_key D_attaching = ''attaching''"

definition set_deploy_stage :: "deploy_stage \<Rightarrow> ('t, unit) wio" where
  "set_deploy_stage st = seq (stage_cb (deploy_stage_key st)) (update_tab (\<lambda>t. t\<lparr>wt_stage := Some st\<rparr>))"

definition client_id_list :: "('w wizard_scheme) \<Rightarrow> string \<Rightarrow> string list" where
  "client_id_list w i = filter (\<lambda>c. c \<noteq> []) (map trim (split_on (CHR '','') (case wz_client_ids w i of None \<Rightarrow> [] | Some c \<Rightarrow> c)))"

definition create_app_body :: "('w wizard_scheme) \<Rightarrow> network_config \<Rightarrow> json" where
  "create_app_body w nw = jobj [str_field ''name'' (trim (wz_name w)), str_field ''description'' (wz_description w),
     str_field ''environment'' ''development'', (''chain_id'', Some (JNum (n_chain_id nw)))]"

definition issuer_payload :: "('w wizard_scheme) \<Rightarrow> issuer_config list" where
  "issuer_payload w = map (\<lambda>i. \<lparr>ic_issuer = i, ic_client_ids = client_id_list w i\<rparr>) (wz_issuers w)"

definition wizard_deploy_request :: "('w wizard_scheme) \<Rightarrow> network_config \<Rightarrow> user \<Rightarrow> deploy_request" where
  "wizard_deploy_request w nw u = \<lparr>dr_network = nw, dr_user = u, dr_nodes = wz_selected w, dr_threshold = wz_threshold w,
     dr_removal_delay_seconds = wz_removal_delay w, dr_issuers = issuer_payload w, dr_auth_keys = [],
     dr_sponsored = Some (sponsored_by (Some nw)), dr_on_stage = True\<rparr>"

definition deploy_body :: "('w wizard_scheme) \<Rightarrow> signed_user_op \<Rightarrow> json" where
  "deploy_body w user_op = jobj [(''nodes'', Some (JArr (map JStr (wz_selected w)))), (''threshold'', Some (JNum (wz_threshold w))),
     (''removal_delay_seconds'', Some (JNum (wz_removal_delay w))), (''user_op'', Some (json_of_user_op user_op))]"

definition known_issuer_of :: "string \<Rightarrow> known_issuer option" where
  "known_issuer_of i = find (\<lambda>k. ki_issuer k = i) KNOWN_ISSUERS"

definition wizard_issuer_body :: "('w wizard_scheme) \<Rightarrow> string \<Rightarrow> json" where
  "wizard_issuer_body w i = jobj [str_field ''issuer'' i, (''client_ids'', Some (JArr (map JStr (client_id_list w i)))),
     str_field ''provider'' (case known_issuer_of i of None \<Rightarrow> ''custom'' | Some k \<Rightarrow> ki_provider k),
     str_field ''label'' (case known_issuer_of i of None \<Rightarrow> [] | Some k \<Rightarrow> ki_label k)]"

text \<open>The group, linked or created, then the record of its issuers, then the way out of the page.\<close>

definition place_group :: "('e onchain_env_scheme) \<Rightarrow> ('w wizard_scheme) \<Rightarrow> network_config \<Rightarrow> user \<Rightarrow> string option \<Rightarrow> app \<Rightarrow> ('t, unit) wio" where
  "place_group E w nw u existing ap =
     (let group_address = map_option trim existing in
      if truthy_str group_address then
        seq (set_deploy_stage D_attaching)
          (await (request E (group_route (PostAttachGroup (a_id ap) (the group_address) None))) (\<lambda>_. ret ()))
      else
        await (sign_create_group E (wizard_deploy_request w nw u)) (\<lambda>user_op.
        seq (set_deploy_stage (D_stage Submitting))
          (await (typed (f_str ''group_address'') (request E (group_route (PostDeployGroup (a_id ap) (deploy_body w user_op)))))
            (\<lambda>_. ret ()))))"

definition record_issuers :: "('e env_scheme) \<Rightarrow> ('w wizard_scheme) \<Rightarrow> string option \<Rightarrow> app \<Rightarrow> ('t, unit) wio" where
  "record_issuers E w existing ap =
     for_each (if truthy_str existing then [] else wz_issuers w)
       (\<lambda>i. await (request E (app_route (PutIssuer (a_id ap) (wizard_issuer_body w i)))) (\<lambda>_. ret ()))"

definition live_detail :: "string option \<Rightarrow> string" where
  "live_detail existing = (if truthy_str existing
     then ''The group is linked. Its operators, threshold and issuers are read from the chain.''
     else ''Your signing group is attached and operational.'')"

definition finish_deploy :: "('e env_scheme) \<Rightarrow> string option \<Rightarrow> app \<Rightarrow> ('t, unit) wio" where
  "finish_deploy E existing ap =
     seq (set_deploy_stage (D_stage Done)) (seq (refresh E)
       (seq (toast Toast_success (a_name ap @ '' is live'') (live_detail existing))
         (navigate (''/apps/'' @ a_id ap @ ''?created=1''))))"

definition run_deploy :: "('e onchain_env_scheme) \<Rightarrow> ('w wizard_scheme) \<Rightarrow> organization \<Rightarrow> network_config \<Rightarrow> user \<Rightarrow> string option \<Rightarrow> ('t, unit) wio" where
  "run_deploy E w org nw u existing =
     seq (set_deploy_stage (D_stage Building))
       (await (typed app_of_json (request E (app_route (PostApp (o_id org) (create_app_body w nw))))) (\<lambda>ap.
        seq (place_group E w nw u existing ap)
          (seq (record_issuers E w existing ap) (finish_deploy E existing ap))))"

definition deploy :: "('e onchain_env_scheme) \<Rightarrow> ('w wizard_scheme) \<Rightarrow> organization option \<Rightarrow> network_config option \<Rightarrow> user option \<Rightarrow>
    string option \<Rightarrow> ('t, unit) wio" where
  "deploy E w active network u existing = (case (active, network, u) of
     (Some org, Some nw, Some usr) \<Rightarrow>
       seq (update_tab (\<lambda>t. t\<lparr>wt_error := None\<rparr>))
         (try_catch (run_deploy E w org nw usr existing)
           (\<lambda>e. update_tab (\<lambda>t. t\<lparr>wt_error := Some e, wt_stage := None\<rparr>)))
   | _ \<Rightarrow> ret ())"

subsection \<open>The life of the page\<close>

text \<open>The form, the progress, and two ghost fields: how many deployments are under way, and the arguments
  of those launched, in order.\<close>

record launch =
  la_mode :: wizard_mode
  la_existing :: "string option"
  la_name :: string
  la_selected :: "string list"
  la_threshold :: int

record wizard_page = wizard +
  wp_stage :: "deploy_stage option"
  wp_error :: "jserr option"
  wp_running :: nat
  wp_launches :: "launch list"

definition initial_page :: wizard_page where
  "initial_page = wizard.extend initial_wizard (wizard_page.fields None None 0 [])"

text \<open>\<open>deploy(existing)\<close> up to its first \<open>await\<close>, when the organization, the network and the user are there.\<close>

definition launch_deploy :: "string option \<Rightarrow> wizard_page \<Rightarrow> wizard_page" where
  "launch_deploy existing w = w\<lparr>wp_error := None, wp_stage := Some (D_stage Building), wp_running := wp_running w + 1,
     wp_launches := wp_launches w @ [\<lparr>la_mode = wz_mode w, la_existing = existing, la_name = wz_name w,
       la_selected = wz_selected w, la_threshold = wz_threshold w\<rparr>]\<rparr>"

definition maybe_launch :: "bool \<Rightarrow> string option \<Rightarrow> wizard_page \<Rightarrow> wizard_page" where
  "maybe_launch ready existing w = (if ready then launch_deploy existing w else w)"

definition press_deploy :: "bool \<Rightarrow> wizard_page \<Rightarrow> wizard_page" where
  "press_deploy ready w = maybe_launch ready (if attaching w then Some (trim (wz_manual_address w)) else None) (w\<lparr>wz_step := At_deploy\<rparr>)"

definition deploy_failed :: "jserr \<Rightarrow> wizard_page \<Rightarrow> wizard_page" where
  "deploy_failed e w = w\<lparr>wp_error := Some e, wp_stage := None, wp_running := wp_running w - 1\<rparr>"

definition deploy_succeeded :: "wizard_page \<Rightarrow> wizard_page" where
  "deploy_succeeded w = w\<lparr>wp_stage := Some (D_stage Done), wp_running := wp_running w - 1\<rparr>"

definition failure_shown :: "wizard_page \<Rightarrow> bool" where
  "failure_shown w \<longleftrightarrow> wz_step w = At_deploy \<and> wp_error w \<noteq> None"

text \<open>The controls of the first three steps.\<close>

inductive details_step :: "wizard_page \<Rightarrow> wizard_page \<Rightarrow> bool" where
  w_name: "wz_step w = At_details \<Longrightarrow> details_step w (w\<lparr>wz_name := v\<rparr>)"
| w_description: "wz_step w = At_details \<Longrightarrow> details_step w (w\<lparr>wz_description := v\<rparr>)"
| w_mode: "wz_step w = At_details \<Longrightarrow> details_step w (choose_mode m w)"

inductive operators_step :: "string list \<Rightarrow> wizard_page \<Rightarrow> wizard_page \<Rightarrow> bool" for offered where
  w_toggle: "wz_step w = At_operators \<Longrightarrow> a \<in> set offered \<Longrightarrow> operators_step offered w (toggle_operator a w)"
| w_threshold: "wz_step w = At_operators \<Longrightarrow> 1 < length (wz_selected w) \<Longrightarrow> 1 \<le> v \<Longrightarrow> v \<le> int (length (wz_selected w)) \<Longrightarrow>
    operators_step offered w (w\<lparr>wz_threshold := v\<rparr>)"
| w_delay: "wz_step w = At_operators \<Longrightarrow> d \<in> fst ` set REMOVAL_DELAYS \<Longrightarrow> operators_step offered w (w\<lparr>wz_removal_delay := d\<rparr>)"

inductive login_step :: "wizard_page \<Rightarrow> wizard_page \<Rightarrow> bool" where
  w_issuer: "wz_step w = At_login \<Longrightarrow> k \<in> set KNOWN_ISSUERS \<Longrightarrow>
    login_step w (toggle_issuer (ki_issuer k) (ki_issuer k \<notin> set (wz_issuers w)) w)"
| w_client_id: "wz_step w = At_login \<Longrightarrow> k \<in> set KNOWN_ISSUERS \<Longrightarrow> ki_issuer k \<in> set (wz_issuers w) \<Longrightarrow>
    login_step w (w\<lparr>wz_client_ids := (wz_client_ids w)(ki_issuer k \<mapsto> v)\<rparr>)"

text \<open>Everything that can happen to the page.\<close>

inductive wizard_page_step :: "string list \<Rightarrow> wizard_page \<Rightarrow> wizard_page \<Rightarrow> bool" for offered where
  w_details: "details_step w w' \<Longrightarrow> wizard_page_step offered w w'"
| w_operators: "operators_step offered w w' \<Longrightarrow> wizard_page_step offered w w'"
| w_login: "login_step w w' \<Longrightarrow> wizard_page_step offered w w'"
| w_offered: "wizard_page_step offered w (keep_offered offered w)"
| w_manual: "wz_step w = At_review \<and> attaching w \<or> failure_shown w \<and> \<not> attaching w \<Longrightarrow>
    wizard_page_step offered w (w\<lparr>wz_manual_address := v\<rparr>)"
| w_bar: "bar_enabled i (wp_stage w \<noteq> None) w \<Longrightarrow> wizard_page_step offered w (press_bar i w)"
| w_back: "back_enabled w \<Longrightarrow> wizard_page_step offered w (press_back w)"
| w_continue: "continue_enabled w \<Longrightarrow> wizard_page_step offered w (press_continue w)"
| w_deploy: "deploy_enabled can_sign w \<Longrightarrow> wizard_page_step offered w (press_deploy ready w)"
| w_retry: "failure_shown w \<Longrightarrow> wizard_page_step offered w (maybe_launch ready None w)"
| w_review: "failure_shown w \<Longrightarrow> wizard_page_step offered w (w\<lparr>wz_step := At_review\<rparr>)"
| w_link: "failure_shown w \<Longrightarrow> \<not> attaching w \<Longrightarrow> trim (wz_manual_address w) \<noteq> [] \<Longrightarrow>
    wizard_page_step offered w (maybe_launch ready (Some (wz_manual_address w)) w)"
| w_progress: "0 < wp_running w \<Longrightarrow> wizard_page_step offered w (w\<lparr>wp_stage := Some st\<rparr>)"
| w_failed: "0 < wp_running w \<Longrightarrow> wizard_page_step offered w (deploy_failed e w)"
| w_succeeded: "0 < wp_running w \<Longrightarrow> wizard_page_step offered w (deploy_succeeded w)"

inductive_cases wizard_page_stepE: "wizard_page_step offered w w'"

definition wizard_page_start :: "wizard_page \<Rightarrow> bool" where
  "wizard_page_start w \<longleftrightarrow> w = initial_page"

subsection \<open>What the page keeps\<close>

text \<open>A launch the wizard is meant to make links an address, or creates a group of offered operators with a
  threshold they can reach. The third case is the retry of a failed link, which forgets the address.\<close>

definition sound_group :: "string list \<Rightarrow> string list \<Rightarrow> int \<Rightarrow> bool" where
  "sound_group offered sel t \<longleftrightarrow> distinct sel \<and> set sel \<subseteq> set offered \<and> 1 \<le> t \<and> t \<le> int (length sel)"

definition links :: "launch \<Rightarrow> bool" where
  "links l \<longleftrightarrow> truthy_str (map_option trim (la_existing l))"

definition launch_ok :: "string list \<Rightarrow> launch \<Rightarrow> bool" where
  "launch_ok offered l \<longleftrightarrow> trim (la_name l) \<noteq> [] \<and>
     (links l \<or> la_existing l = None \<and> (la_mode l = Mode_attach \<or> sound_group offered (la_selected l) (la_threshold l)))"

definition past_operators :: "('w wizard_scheme) \<Rightarrow> bool" where
  "past_operators w \<longleftrightarrow> wz_mode w = Mode_deploy \<and> wz_step w \<in> {At_login, At_review, At_deploy}"

definition form_ok :: "string list \<Rightarrow> ('w wizard_scheme) \<Rightarrow> bool" where
  "form_ok offered w \<longleftrightarrow> wz_step w \<in> set (map fst (steps_of (wz_mode w))) \<and>
     distinct (wz_selected w) \<and> set (wz_selected w) \<subseteq> set offered \<and>
     (wz_step w \<noteq> At_details \<longrightarrow> trim (wz_name w) \<noteq> []) \<and>
     (past_operators w \<longrightarrow> sound_group offered (wz_selected w) (wz_threshold w))"

definition progress_ok :: "wizard_page \<Rightarrow> bool" where
  "progress_ok w \<longleftrightarrow> wp_running w \<le> 1 \<and>
     (wp_running w = 1 \<longrightarrow> wz_step w = At_deploy \<and> wp_stage w \<noteq> None \<and> wp_error w = None) \<and>
     (wp_error w \<noteq> None \<longrightarrow> wp_stage w = None \<and> wp_running w = 0)"

definition page_ok :: "string list \<Rightarrow> wizard_page \<Rightarrow> bool" where
  "page_ok offered w \<longleftrightarrow> form_ok offered w \<and> progress_ok w \<and> list_all (launch_ok offered) (wp_launches w)"

lemmas step_tables = steps_of_def ATTACH_STEPS_def DEPLOY_STEPS_def
lemmas place_simps = step_index_def step_at_def step_tables attaching_def

lemma on_track_cases:
  assumes "form_ok offered w"
  obtains (attach) "wz_mode w = Mode_attach" "wz_step w \<in> {At_details, At_review, At_deploy}" | (deploy) "wz_mode w = Mode_deploy"
  using assms by (cases "wz_mode w") (auto simp: form_ok_def step_tables)

text \<open>Moving back keeps the form in order: what a later step needed still holds, or is not needed.\<close>

lemma press_bar_form: "form_ok offered w \<Longrightarrow> bar_enabled i st w \<Longrightarrow> form_ok offered (press_bar i w)"
  by (cases "wz_mode w"; cases "wz_step w";
      auto simp: form_ok_def bar_enabled_def press_bar_def place_simps past_operators_def nth_Cons' split: if_splits)

lemma press_back_form: "form_ok offered w \<Longrightarrow> back_enabled w \<Longrightarrow> form_ok offered (press_back w)"
  by (cases "wz_mode w"; cases "wz_step w";
      auto simp: form_ok_def back_enabled_def press_back_def place_simps past_operators_def nth_Cons' split: if_splits)

lemma press_continue_form: "form_ok offered w \<Longrightarrow> continue_enabled w \<Longrightarrow> form_ok offered (press_continue w)"
  by (cases "wz_mode w"; cases "wz_step w";
      auto simp: form_ok_def continue_enabled_def press_continue_def can_continue_def place_simps past_operators_def
        sound_group_def nth_Cons' split: if_splits)

lemma choose_mode_form: "form_ok offered w \<Longrightarrow> wz_step w = At_details \<Longrightarrow> form_ok offered (choose_mode m w)"
  by (auto simp: form_ok_def choose_mode_def keep_on_track_def past_operators_def step_tables)

lemma choose_mode_place: "wz_step w = At_details \<Longrightarrow> choose_mode m w = w\<lparr>wz_mode := m\<rparr>"
  by (auto simp: choose_mode_def keep_on_track_def step_tables)

lemma keep_offered_form: "form_ok offered w \<Longrightarrow> keep_offered offered w = w"
proof -
  assume "form_ok offered w"
  then have "filter (\<lambda>a. a \<in> set offered) (wz_selected w) = wz_selected w"
    by (auto simp: form_ok_def intro: filter_True)
  then show ?thesis by (simp add: keep_offered_def Let_def)
qed

lemma toggle_operator_form:
  "form_ok offered w \<Longrightarrow> wz_step w = At_operators \<Longrightarrow> a \<in> set offered \<Longrightarrow> form_ok offered (toggle_operator a w)"
  by (auto simp: form_ok_def toggle_operator_def Let_def past_operators_def)

lemma same_form:
  assumes "form_ok offered w" and "wz_step w' = wz_step w" and "wz_mode w' = wz_mode w" and "wz_selected w' = wz_selected w"
    and "wz_step w = At_details \<or> trim (wz_name w') = trim (wz_name w)"
    and "wz_step w = At_operators \<or> wz_threshold w' = wz_threshold w"
  shows "form_ok offered w'"
  using assms by (auto simp: form_ok_def past_operators_def)

lemma launch_page:
  assumes "page_ok offered w" and "wp_running w = 0" and "wz_step w = At_deploy"
    and "trim (wz_name w) \<noteq> []" and "truthy_str (map_option trim existing) \<or> existing = None"
  shows "page_ok offered (maybe_launch ready existing w)"
  using assms same_form [of offered w "launch_deploy existing w"]
  by (cases "wz_mode w") (auto simp: page_ok_def maybe_launch_def launch_deploy_def progress_ok_def launch_ok_def links_def
      form_ok_def past_operators_def)

lemma press_deploy_page:
  assumes "page_ok offered w" and "deploy_enabled can_sign w"
  shows "page_ok offered (press_deploy ready w)"
proof -
  let ?w = "w\<lparr>wz_step := At_deploy\<rparr>"
  have r: "wp_running w = 0" using assms by (auto simp: page_ok_def progress_ok_def deploy_enabled_def)
  moreover have "page_ok offered ?w"
    using assms r by (cases "wz_mode w") (auto simp: page_ok_def form_ok_def progress_ok_def deploy_enabled_def past_operators_def step_tables)
  moreover have "trim (wz_name ?w) \<noteq> []" using assms by (auto simp: page_ok_def form_ok_def deploy_enabled_def)
  moreover have "truthy_str (map_option trim (if attaching ?w then Some (trim (wz_manual_address ?w)) else None)) \<or>
      (if attaching ?w then Some (trim (wz_manual_address ?w)) else None) = None"
    using assms(2) by (auto simp: deploy_enabled_def attaching_def address_valid_def valid_group_address_def truthy_str_def)
  ultimately show ?thesis
    unfolding press_deploy_def by (intro launch_page) (auto simp: attaching_def)
qed

lemma launch_after_failure:
  assumes "page_ok offered w" and "failure_shown w" and "truthy_str (map_option trim existing) \<or> existing = None"
  shows "page_ok offered (maybe_launch ready existing w)"
proof -
  have "wp_running w = 0" "wz_step w = At_deploy" "trim (wz_name w) \<noteq> []"
    using assms(1,2) by (auto simp: failure_shown_def page_ok_def progress_ok_def form_ok_def)
  with assms show ?thesis by (intro launch_page)
qed

lemma details_step_ok:
  assumes "details_step w w'" and "page_ok offered w"
  shows "page_ok offered w'"
  using assms(1)
proof cases
  case (w_mode m)
  then show ?thesis using assms(2) choose_mode_form [of offered w m] choose_mode_place [of w m]
    by (auto simp: page_ok_def progress_ok_def)
qed (use assms(2) same_form [of offered w w'] in \<open>auto simp: page_ok_def progress_ok_def\<close>)

lemma operators_step_ok:
  assumes "operators_step offered w w'" and "page_ok offered w"
  shows "page_ok offered w'"
  using assms(1)
proof cases
  case (w_toggle a)
  then show ?thesis using assms(2) toggle_operator_form [of offered w a]
    by (auto simp: page_ok_def progress_ok_def toggle_operator_def Let_def)
qed (use assms(2) same_form [of offered w w'] in \<open>auto simp: page_ok_def progress_ok_def\<close>)

lemma login_step_ok:
  assumes "login_step w w'" and "page_ok offered w"
  shows "page_ok offered w'"
  using assms(1)
  by cases (use assms(2) same_form [of offered w w'] in \<open>auto simp: page_ok_def progress_ok_def toggle_issuer_def\<close>)

lemma page_step_ok:
  assumes "page_ok offered w" and "wizard_page_step offered w w'"
  shows "page_ok offered w'"
  using assms(2)
proof cases
  case (w_deploy can_sign ready)
  then show ?thesis using assms(1) press_deploy_page by simp
next
  case (w_retry ready)
  then show ?thesis using launch_after_failure [OF assms(1), of None] by simp
next
  case (w_link ready)
  then show ?thesis using launch_after_failure [OF assms(1), of "Some (wz_manual_address w)"] by (simp add: truthy_str_def)
next
  case (w_bar i)
  then have "wp_stage w = None" by (auto simp: bar_enabled_def)
  with w_bar show ?thesis using assms(1) press_bar_form [of offered w i]
    by (auto simp: page_ok_def progress_ok_def press_bar_def)
next
  case w_back
  then show ?thesis using assms(1) press_back_form [of offered w]
    by (auto simp: page_ok_def progress_ok_def press_back_def back_enabled_def)
next
  case w_continue
  then show ?thesis using assms(1) press_continue_form [of offered w]
    by (auto simp: page_ok_def progress_ok_def press_continue_def continue_enabled_def)
next
  case w_details
  then show ?thesis using assms(1) by (blast intro: details_step_ok)
next
  case w_operators
  then show ?thesis using assms(1) by (blast intro: operators_step_ok)
next
  case w_login
  then show ?thesis using assms(1) by (blast intro: login_step_ok)
next
  case w_offered
  then show ?thesis using assms(1) keep_offered_form [of offered w] by (simp add: page_ok_def)
next
  case w_review
  then show ?thesis using assms(1)
    by (cases "wz_mode w") (auto simp: page_ok_def progress_ok_def form_ok_def failure_shown_def past_operators_def step_tables)
qed (use assms(1) same_form [of offered w w'] in
  \<open>auto simp: page_ok_def progress_ok_def deploy_failed_def deploy_succeeded_def\<close>)

interpretation page: machine wizard_page_start "wizard_page_step offered" "page_ok offered" for offered
proof
  show "wizard_page_start w \<Longrightarrow> page_ok offered w" for w
    by (simp add: wizard_page_start_def initial_page_def initial_wizard_def page_ok_def form_ok_def progress_ok_def
        past_operators_def step_tables wizard.defs wizard_page.defs)
  show "page_ok offered w \<Longrightarrow> wizard_page_step offered w w' \<Longrightarrow> page_ok offered w'" for w w'
    by (rule page_step_ok)
qed

subsection \<open>Properties\<close>


definition demo_address :: string where
  "demo_address = ''0x0123456789012345678901234567890123456789''"

definition demo_attach_page :: wizard_page where
  "demo_attach_page = initial_page\<lparr>wz_name := ''A'', wz_mode := Mode_attach, wz_step := At_review, wz_manual_address := demo_address\<rparr>"

lemma demo_attach_reachable: "reachable wizard_page_start (wizard_page_step offered) demo_attach_page"
proof -
  let ?p1 = "initial_page\<lparr>wz_name := ''A''\<rparr>" let ?p2 = "?p1\<lparr>wz_mode := Mode_attach\<rparr>" let ?p3 = "?p2\<lparr>wz_step := At_review\<rparr>"
  have at: "wz_step initial_page = At_details" by (simp add: initial_page_def initial_wizard_def wizard.defs)
  have "wizard_page_step offered initial_page ?p1" by (rule w_details [OF w_name [OF at]])
  moreover have "wizard_page_step offered ?p1 ?p2"
    using w_details [OF w_mode [of ?p1 Mode_attach]] choose_mode_place [of ?p1 Mode_attach] at by simp
  moreover have "wizard_page_step offered ?p2 ?p3"
    using w_continue [of ?p2 offered] at
    by (simp add: continue_enabled_def can_continue_def press_continue_def place_simps trim_def is_space_def)
  moreover have "wizard_page_step offered ?p3 demo_attach_page"
    unfolding demo_attach_page_def by (rule w_manual) (simp add: attaching_def)
  moreover have "reachable wizard_page_start (wizard_page_step offered) initial_page"
    by (rule reach_init) (simp add: wizard_page_start_def)
  ultimately show ?thesis by (blast intro: reach_next)
qed

text \<open>Trying again after a failed link creates a group instead. From a fresh page, in attach mode, a link
  that fails can be followed by \<open>Try again\<close>, which launches a deployment without the address: one
  that would create a group of no operators with a threshold of two.\<close>

theorem retry_of_a_link_creates_a_group:
  "\<exists>w l. reachable wizard_page_start (wizard_page_step offered) w \<and> wp_running w = 1 \<and>
     wp_launches w = [\<lparr>la_mode = Mode_attach, la_existing = Some demo_address, la_name = ''A'', la_selected = [], la_threshold = 2\<rparr>, l] \<and>
     la_mode l = Mode_attach \<and> la_existing l = None \<and> la_selected l = [] \<and> la_threshold l = 2"
proof -
  let ?p1 = "press_deploy True demo_attach_page" let ?p2 = "deploy_failed (Error ''rejected'') ?p1"
  let ?p3 = "maybe_launch True None ?p2"
  have v: "trim demo_address = demo_address" "valid_group_address demo_address" by code_simp+
  have i: "wz_selected initial_page = []" "wz_threshold initial_page = 2" "wp_running initial_page = 0" "wp_launches initial_page = []"
    by (simp_all add: initial_page_def initial_wizard_def wizard.defs wizard_page.defs)
  have "wizard_page_step offered demo_attach_page ?p1"
    by (rule w_deploy [where can_sign = True]) (simp add: demo_attach_page_def deploy_enabled_def attaching_def address_valid_def v)
  moreover have "wizard_page_step offered ?p1 ?p2"
    by (rule w_failed) (simp add: press_deploy_def maybe_launch_def launch_deploy_def)
  moreover have "wizard_page_step offered ?p2 ?p3"
    by (rule w_retry) (simp add: failure_shown_def deploy_failed_def press_deploy_def maybe_launch_def launch_deploy_def)
  ultimately have "reachable wizard_page_start (wizard_page_step offered) ?p3"
    using demo_attach_reachable by (blast intro: reach_next)
  then show ?thesis
    by (rule_tac exI [of _ ?p3])
      (simp add: maybe_launch_def launch_deploy_def deploy_failed_def press_deploy_def demo_attach_page_def attaching_def v i)
qed


subsection \<open>What a deployment does to the outside\<close>

text \<open>Runs that only send some of the platform's requests, report progress and move on: nothing is signed.\<close>

definition only_sends :: "('e env_scheme) \<Rightarrow> (route \<Rightarrow> bool) \<Rightarrow> event \<Rightarrow> bool" where
  "only_sends E Q e \<longleftrightarrow> (case e of Fetch rq \<Rightarrow> (\<exists>tok r. Q r \<and> rq = request_of E tok r) | Stage s \<Rightarrow> True
     | Toast k m d \<Rightarrow> True | Navigate p \<Rightarrow> True | _ \<Rightarrow> False)"

lemma only_sends_simps [simp]:
  "only_sends E Q (Stage s)" "only_sends E Q (Toast k m d)" "only_sends E Q (Navigate p)"
  by (simp_all add: only_sends_def)

lemma only_sends_request: "Q r \<Longrightarrow> keeps (appends (only_sends E Q)) (request E r)"
  by (rule request_appends) (unfold only_sends_def event.case, blast)

lemma refresh_sends:
  assumes "Q (auth_route GetMe)" and "Q (public_route GetConfig)"
  shows "keeps (appends (only_sends E Q)) (refresh E)"
  unfolding refresh_def fetch_config_def apply_session_def
  by (intro keeps_intros keeps_typed only_sends_request assms store_token_silent; simp add: appends_def)

lemma progress_sends [keeps_intros]:
  "keeps (appends (only_sends E Q)) (set_deploy_stage st)" "keeps (appends (only_sends E Q)) (toast k m d)"
  "keeps (appends (only_sends E Q)) (navigate p)"
  unfolding set_deploy_stage_def toast_def navigate_def
  by (intro keeps_intros; simp add: appends_def)+

definition link_route :: "('w wizard_scheme) \<Rightarrow> organization \<Rightarrow> network_config \<Rightarrow> string \<Rightarrow> route \<Rightarrow> bool" where
  "link_route w org nw address r \<longleftrightarrow> r = app_route (PostApp (o_id org) (create_app_body w nw)) \<or>
     (\<exists>i. r = group_route (PostAttachGroup i address None)) \<or> r = auth_route GetMe \<or> r = public_route GetConfig"

lemma link_sends:
  assumes "trim address \<noteq> []"
  shows "keeps (appends (only_sends E (link_route w org nw (trim address)))) (run_deploy E w org nw u (Some address))"
proof -
  have p: "place_group E w nw u (Some address) ap = seq (set_deploy_stage D_attaching)
      (await (request E (group_route (PostAttachGroup (a_id ap) (trim address) None))) (\<lambda>_. ret ()))" for ap
    using assms by (simp add: place_group_def truthy_str_def)
  have i: "record_issuers E w (Some address) ap = ret ()" for ap
    using assms by (auto simp: record_issuers_def truthy_str_def)
  show ?thesis
    unfolding run_deploy_def p i finish_deploy_def
    by (intro keeps_intros keeps_typed refresh_sends only_sends_request) (auto simp: link_route_def)
qed

lemma deploy_link_sends:
  assumes "trim address \<noteq> []"
  shows "keeps (appends (only_sends E (link_route w org nw (trim address)))) (deploy E w (Some org) (Some nw) (Some u) (Some address))"
  unfolding deploy_def option.case prod.case using assms by (intro keeps_intros link_sends) (simp_all add: appends_def)

text \<open>The way out, and the recording of the issuers, when they return.\<close>

lemma issuers_return:
  assumes "for_each is (\<lambda>i. await (request E (f i)) (\<lambda>_. ret ())) t = (Inr x, t')"
  shows "t' = logged (map (\<lambda>i. Fetch (request_of E (current_token E t) (f i))) is) t"
  using assms
proof (induction "is" arbitrary: t)
  case (Cons i rest)
  then obtain y t1 where "request E (f i) t = (Inr y, t1)"
    and r: "for_each rest (\<lambda>i. await (request E (f i)) (\<lambda>_. ret ())) t1 = (Inr x, t')"
    by (auto simp: seq_returns await_returns prim_returns)
  then have "t1 = logged [Fetch (request_of E (current_token E t) (f i))] t" by (blast dest: request_ends)
  with Cons.IH [OF r] show ?case by simp
qed (simp add: prim_returns)

lemma set_stage_returns: "set_deploy_stage st t = (Inr x, t') \<longleftrightarrow>
    t' = (logged [Stage (deploy_stage_key st)] t)\<lparr>wt_stage := Some st\<rparr>"
  by (auto simp: set_deploy_stage_def seq_returns op_returns prim_returns logged_def)

lemma token_of_progress [simp]: "current_token E (t\<lparr>wt_stage := st\<rparr>) = current_token E t"
  by (simp add: current_token_def)

lemma creation_returns:
  fixes t t' :: "'t wizard_tab_scheme"
  assumes "run_deploy E w org nw u None t = (Inr x, t')"
  obtains ap :: app and op and t1 t2 :: "'t wizard_tab_scheme" and rs where
    "trace t1 = trace t @ [Stage ''building'', Fetch (request_of E (current_token E t) (app_route (PostApp (o_id org) (create_app_body w nw))))]"
    "sign_create_group E (wizard_deploy_request w nw u) t1 = (Inr op, t2)"
    "trace t' = trace t2 @ [Stage ''submitting'', Fetch (request_of E (current_token E t2) (group_route (PostDeployGroup (a_id ap) (deploy_body w op))))] @
       map (\<lambda>i. Fetch (request_of E (current_token E t2) (app_route (PutIssuer (a_id ap) (wizard_issuer_body w i))))) (wz_issuers w) @
       [Stage ''done''] @ rs @ [Toast Toast_success (a_name ap @ '' is live'') (live_detail None), Navigate (''/apps/'' @ a_id ap @ ''?created=1'')]"
    "list_all (only_sends E (\<lambda>r. r = auth_route GetMe \<or> r = public_route GetConfig)) rs"
proof -
  from assms obtain ap t0 t1 t3 t4 where s0: "set_deploy_stage (D_stage Building) t = (Inr (), t0)"
    and c: "typed app_of_json (request E (app_route (PostApp (o_id org) (create_app_body w nw)))) t0 = (Inr ap, t1)"
    and pl: "place_group E w nw u None ap t1 = (Inr (), t3)" and iss: "record_issuers E w None ap t3 = (Inr (), t4)"
    and fin: "finish_deploy E None ap t4 = (Inr x, t')"
    unfolding run_deploy_def by (auto simp: seq_returns await_returns)
  from pl obtain op t2 t2a where sg: "sign_create_group E (wizard_deploy_request w nw u) t1 = (Inr op, t2)"
    and sub: "set_deploy_stage (D_stage Submitting) t2 = (Inr (), t2a)"
    and dp: "t3 = logged [Fetch (request_of E (current_token E t2a) (group_route (PostDeployGroup (a_id ap) (deploy_body w op))))] t2a"
    unfolding place_group_def by (auto simp: truthy_str_def seq_returns await_returns prim_returns dest!: typed_request_ends)
  from iss have t4: "t4 = logged (map (\<lambda>i. Fetch (request_of E (current_token E t3) (app_route (PutIssuer (a_id ap) (wizard_issuer_body w i))))) (wz_issuers w)) t3"
    unfolding record_issuers_def by (simp add: truthy_str_def) (rule issuers_return)
  from fin obtain t5 t6 where d: "set_deploy_stage (D_stage Done) t4 = (Inr (), t5)" and rf: "refresh E t5 = (Inr (), t6)"
    and e: "trace t' = trace t6 @ [Toast Toast_success (a_name ap @ '' is live'') (live_detail None), Navigate (''/apps/'' @ a_id ap @ ''?created=1'')]"
    unfolding finish_deploy_def toast_def navigate_def by (auto simp: seq_returns op_returns)
  obtain rs where "trace t6 = trace t5 @ rs" "list_all (only_sends E (\<lambda>r. r = auth_route GetMe \<or> r = public_route GetConfig)) rs"
    using keepsD [OF refresh_sends rf, of "\<lambda>r. r = auth_route GetMe \<or> r = public_route GetConfig"] by (auto simp: appends_def)
  moreover have "t1 = logged [Fetch (request_of E (current_token E t0) (app_route (PostApp (o_id org) (create_app_body w nw))))] t0"
    using c by (rule typed_request_ends)
  ultimately show thesis
    using s0 sub d sg dp t4 e by (intro that [where ap = ap and op = op and ?t1.0 = t1 and ?t2.0 = t2 and rs = rs]) (simp_all add: set_stage_returns stage_key.simps)
qed

subsection \<open>Properties\<close>

text \<open>Linking a group signs nothing and spends nothing. A deployment that is given an address, however it
  ends, sends only the creation of the app, the link of exactly the trimmed address, and the reading
  of the session; no wallet, node or bundler is asked for anything, and no issuer is recorded.\<close>

theorem linking_signs_nothing:
  assumes "trim address \<noteq> []"
  shows "\<exists>es. trace (snd (deploy E w active network u (Some address) t)) = trace t @ es \<and>
    list_all (only_sends E (\<lambda>r.
      (\<exists>org nw. active = Some org \<and> network = Some nw \<and> r = app_route (PostApp (o_id org) (create_app_body w nw))) \<or>
      (\<exists>i. r = group_route (PostAttachGroup i (trim address) None)) \<or> r = auth_route GetMe \<or> r = public_route GetConfig)) es"
proof (cases "active = None \<or> network = None \<or> u = None")
  case True
  then show ?thesis by (auto simp: deploy_def ret_def split: option.splits)
next
  case False
  then obtain org nw usr where s: "active = Some org" "network = Some nw" "u = Some usr" by auto
  have "appends (only_sends E (link_route w org nw (trim address))) t (snd (deploy E w active network u (Some address) t))"
    unfolding s using deploy_link_sends [OF assms] unfolding keeps_def by blast
  then show ?thesis
    unfolding appends_def link_route_def s by simp
qed

definition demo_wizard_tab :: wizard_tab where
  "demo_wizard_tab = provider_tab.extend (initial_provider empty_tab) (wizard_tab.fields None None)"

theorem linking_signs_nothing_witness:
  "list_all (only_sends demo_onchain_env (\<lambda>r.
      r = app_route (PostApp ''o1'' (create_app_body initial_wizard demo_network)) \<or>
      (\<exists>i. r = group_route (PostAttachGroup i demo_address None)) \<or> r = auth_route GetMe \<or> r = public_route GetConfig))
    (trace (snd (deploy demo_onchain_env initial_wizard (Some (hd (s_organizations demo_session_reply))) (Some demo_network)
      (Some demo_user) (Some demo_address) demo_wizard_tab)))"
proof -
  have d: "trim demo_address = demo_address" "demo_address \<noteq> []" by code_simp+
  have o: "o_id (hd (s_organizations demo_session_reply)) = ''o1''" by (simp add: demo_session_reply_def)
  have e: "trace demo_wizard_tab = []"
    by (simp add: demo_wizard_tab_def initial_provider_def empty_tab_def provider_tab.defs tab.defs)
  from d have "trim demo_address \<noteq> []" by simp
  from linking_signs_nothing [OF this, of demo_onchain_env initial_wizard "Some (hd (s_organizations demo_session_reply))"
      "Some demo_network" "Some demo_user" demo_wizard_tab]
  show ?thesis by (simp only: d e append_Nil option.inject) (auto simp: o)
qed

text \<open>C17: an app is created before its group, and its issuers are recorded after it. A deployment without an
  address either ends with its error shown and no stage, or has created the app, had one operation
  signed for exactly the form's group, posted that operation for that app, recorded each issuer of
  the form in order, refreshed the session, and only then announced the app and opened its page.\<close>

theorem deploy_in_order:
  fixes t :: "'t wizard_tab_scheme"
  shows "(let t' = snd (deploy E w (Some org) (Some nw) (Some u) None t) in
    (\<exists>e. wt_error t' = Some e \<and> wt_stage t' = None) \<or>
    (\<exists>(ap :: app) op (t1 :: 't wizard_tab_scheme) (t2 :: 't wizard_tab_scheme) rs.
      trace t1 = trace t @ [Stage ''building'', Fetch (request_of E (current_token E t) (app_route (PostApp (o_id org) (create_app_body w nw))))] \<and>
      sign_create_group E (wizard_deploy_request w nw u) t1 = (Inr op, t2) \<and>
      trace t' = trace t2 @ [Stage ''submitting'', Fetch (request_of E (current_token E t2) (group_route (PostDeployGroup (a_id ap) (deploy_body w op))))] @
       map (\<lambda>i. Fetch (request_of E (current_token E t2) (app_route (PutIssuer (a_id ap) (wizard_issuer_body w i))))) (wz_issuers w) @
       [Stage ''done''] @ rs @ [Toast Toast_success (a_name ap @ '' is live'') (live_detail None), Navigate (''/apps/'' @ a_id ap @ ''?created=1'')] \<and>
      list_all (only_sends E (\<lambda>r. r = auth_route GetMe \<or> r = public_route GetConfig)) rs))"
proof -
  let ?t = "t\<lparr>wt_error := None\<rparr>"
  obtain r t1 where s: "run_deploy E w org nw u None ?t = (r, t1)" by fastforce
  show ?thesis
  proof (cases r)
    case (Inl e)
    then show ?thesis using s by (simp add: deploy_def seq_def await_def update_tab_def try_catch_def)
  next
    case (Inr x)
    have d: "snd (deploy E w (Some org) (Some nw) (Some u) None t) = t1"
      using s Inr by (simp add: deploy_def seq_def await_def update_tab_def try_catch_def)
    have e: "trace ?t = trace t" "current_token E ?t = current_token E t" by (simp_all add: current_token_def)
    show ?thesis
      unfolding Let_def d
      by (rule disjI2) (rule creation_returns [OF s [unfolded Inr], unfolded e], (rule exI conjI | assumption)+)
  qed
qed

subsection \<open>What the page says\<close>

text \<open>The threshold picker, by the number selected; \<open>jurisdictions\<close> are those of the selected operators.\<close>

datatype picker =
    Picker_prompt string
  | Picker_single
  | Picker_range nat int string string "string option"

definition picker_prompt :: "nat \<Rightarrow> string" where
  "picker_prompt minimum = ''Select at least '' @ (if minimum = 1 then ''one operator'' else dec_of_nat minimum @ '' operators'') @
     '' to set a threshold.''"

definition fault_tolerance_text :: "nat \<Rightarrow> int \<Rightarrow> string" where
  "fault_tolerance_text n_ops threshold = (let tolerated = int n_ops - threshold in
     if tolerated = 0 then ''No operator can be offline''
     else dec_of_int tolerated @ '' operator'' @ (if tolerated = 1 then [] else ''s'') @ '' can be offline'')"

definition distinct_count :: "nat \<Rightarrow> string list \<Rightarrow> nat" where
  "distinct_count n_ops jurisdictions =
     (let n = length (remdups (filter (\<lambda>j. j \<noteq> []) jurisdictions)) in if n = 0 then n_ops else n)"

definition collusion_text :: "nat \<Rightarrow> int \<Rightarrow> string list \<Rightarrow> string" where
  "collusion_text n_ops threshold jurisdictions = ''An attacker must compromise '' @ dec_of_int threshold @ '' of '' @
     dec_of_nat (distinct_count n_ops jurisdictions) @ '' distinct operators simultaneously''"

definition threshold_warning :: "nat \<Rightarrow> int \<Rightarrow> string option" where
  "threshold_warning n_ops threshold =
     (if threshold = 1 then Some ''A threshold of 1 means any single operator can sign alone. That is the model you came here to avoid.''
      else if threshold = int n_ops then Some ''Requiring every operator means one outage stops all signing. Leave yourself some slack.''
      else None)"

definition threshold_picker :: "nat \<Rightarrow> int \<Rightarrow> string list \<Rightarrow> nat \<Rightarrow> picker" where
  "threshold_picker n_ops threshold jurisdictions minimum =
     (if n_ops < minimum then Picker_prompt (picker_prompt minimum)
      else if n_ops = 1 then Picker_single
      else Picker_range n_ops threshold (fault_tolerance_text n_ops threshold)
        (collusion_text n_ops threshold jurisdictions) (threshold_warning n_ops threshold))"

text \<open>The review of a group to be created, and of one to be linked.\<close>

definition removal_label :: "int \<Rightarrow> string" where
  "removal_label d = (case find (\<lambda>r. fst r = d) REMOVAL_DELAYS of None \<Rightarrow> dec_of_int d @ ''s'' | Some r \<Rightarrow> fst (snd r))"

definition review_rows :: "network_config option \<Rightarrow> ('w wizard_scheme) \<Rightarrow> (string \<times> string) list" where
  "review_rows network w =
     [(''App'', if wz_name w = [] then em_dash else wz_name w), (''Environment'', ''development''),
      (''Chain'', chain_name (map_option n_chain_id network))] @
     (if attaching w then [(''Signing group'', ''Linking one that already exists'')]
      else [(''Configuration'', dec_of_int (wz_threshold w) @ ''-of-'' @ dec_of_nat (length (wz_selected w))),
            (''Removal timelock'', removal_label (wz_removal_delay w)),
            (''Login methods'', if wz_issuers w = [] then ''None '' @ em_dash @ '' you will add these later''
               else join_with '', '' (wz_issuers w))])"

definition must_accept :: "node_operator \<Rightarrow> bool" where
  "must_accept op \<longleftrightarrow> op_is_open op = Some False"

definition address_complaint :: "('w wizard_scheme) \<Rightarrow> string option" where
  "address_complaint w = (if trim (wz_manual_address w) \<noteq> [] \<and> \<not> address_valid w
     then Some ''That is not a 20-byte address.'' else None)"

text \<open>How far the progress bar is, in parts of the number of stages.\<close>

definition deploy_stages :: "deploy_stage list" where
  "deploy_stages = map D_stage [Building, Sponsoring_stub, Estimating, Sponsoring, Signing, Submitting, Confirming, Done] @ [D_attaching]"

definition progress_part :: "deploy_stage \<Rightarrow> int \<times> nat" where
  "progress_part st = (index_of st deploy_stages + 1, length deploy_stages)"

text \<open>The picker speaks of distinct operators but counts distinct jurisdictions: three operators of one
  jurisdiction and a threshold of two read as an impossible two of one.\<close>

lemma collusion_counts_jurisdictions:
  "collusion_text 3 2 [''US'', ''US'', ''US''] = ''An attacker must compromise 2 of 1 distinct operators simultaneously''"
  by code_simp

end
