(* ===== verification/Group_Page.thy ===== *)
theory Group_Page
  imports New_App
begin

text \<open>
  \<open>web/app/(console)/apps/[appId]/group/page.tsx\<close>: the operators of an app's signing group. What the screen
  derives from the group it has read, which of its actions are enabled, the one callback all of them
  go through, and the life of its pending action when several are clicked.
\<close>

subsection \<open>What the screen shows\<close>

definition nodes_with :: "node_status \<Rightarrow> group_view option \<Rightarrow> group_node list" where
  "nodes_with st g = filter (\<lambda>n. gn_status n = st) (case g of None \<Rightarrow> [] | Some v \<Rightarrow> gv_nodes v)"

definition shown_onchain :: "group_view option \<Rightarrow> onchain_group_state option" where
  "shown_onchain g = Option.bind g gv_onchain"

definition shown_threshold :: "group_view \<Rightarrow> int" where
  "shown_threshold g = (case gv_onchain g of Some oc \<Rightarrow> og_threshold oc
     | None \<Rightarrow> (case a_threshold (gv_app g) of Some n \<Rightarrow> n | None \<Rightarrow> 0))"

definition operational :: "group_view \<Rightarrow> bool" where
  "operational g = (case gv_onchain g of Some oc \<Rightarrow> og_is_operational oc
     | None \<Rightarrow> a_is_operational (gv_app g) = Some True)"

definition invitable :: "group_view option \<Rightarrow> node_operator list option \<Rightarrow> node_operator list" where
  "invitable g ops = (let in_group = set (map (\<lambda>n. to_lower (gn_address n)) (case g of None \<Rightarrow> [] | Some v \<Rightarrow> gv_nodes v))
     in filter (\<lambda>op. to_lower (op_address op) \<notin> in_group) (case ops of None \<Rightarrow> [] | Some os \<Rightarrow> os))"

definition format_delay :: "int \<Rightarrow> string" where
  "format_delay seconds = (if seconds = 0 then ''None''
     else if seconds < 3600 then dec_of_int (round_div seconds 60) @ '' min''
     else if seconds < 86400 then dec_of_int (round_div seconds 3600) @ '' h''
     else dec_of_int (round_div seconds 86400) @ '' d'')"

definition status_hint :: "group_view \<Rightarrow> string" where
  "status_hint g = (let slack = int (length (nodes_with Node_active (Some g))) - shown_threshold g in
     if operational g then dec_of_int slack @ '' operator'' @ (if slack = 1 then [] else ''s'') @ '' can be offline.''
     else ''Not enough active operators to produce a signature.'')"

definition stat_cards :: "group_view \<Rightarrow> (string \<times> string) list" where
  "stat_cards g = (let active = length (nodes_with Node_active (Some g)) in
     [(''Configuration'', dec_of_int (shown_threshold g) @ ''-of-'' @ dec_of_nat active),
      (''Status'', if operational g then ''Operational'' else ''Below threshold''),
      (''Removal timelock'', case gv_onchain g of Some oc \<Rightarrow> format_delay (og_removal_delay oc) | None \<Rightarrow> em_dash),
      (''Pending changes'', dec_of_nat (length (nodes_with Node_pending (Some g)) + length (nodes_with Node_removing (Some g))))])"

text \<open>A row of the list: the tone of its dot, whether it pulses, its name and its badge.\<close>

datatype tone = Tone_success | Tone_warn | Tone_error | Tone_neutral | Tone_accent

definition node_health_of :: "group_node \<Rightarrow> node_health option" where
  "node_health_of n = Option.bind (gn_operator n) op_health"

definition node_online :: "group_node \<Rightarrow> bool" where
  "node_online n = (case node_health_of n of None \<Rightarrow> False | Some h \<Rightarrow> h_online h)"

definition node_tone :: "group_node \<Rightarrow> tone" where
  "node_tone n = (if gn_status n = Node_removing then Tone_error else if gn_status n = Node_pending then Tone_warn
     else if node_online n then Tone_success else Tone_neutral)"

definition node_pulses :: "group_node \<Rightarrow> bool" where
  "node_pulses n \<longleftrightarrow> gn_status n = Node_active \<and> node_online n"

definition node_name :: "group_node \<Rightarrow> string" where
  "node_name n = (case gn_operator n of None \<Rightarrow> ''Unlisted operator'' | Some op \<Rightarrow> op_name op)"

definition node_badge :: "group_node \<Rightarrow> tone \<times> string" where
  "node_badge n = (case node_health_of n of None \<Rightarrow> (Tone_neutral, ''no probe'')
     | Some h \<Rightarrow> if h_online h
         then (Tone_success, (case h_latency_ms h of None \<Rightarrow> em_dash | Some l \<Rightarrow> dec_of_int l) @ '' ms'')
         else (Tone_error, ''unreachable''))"

text \<open>The details at the foot of the screen.\<close>

definition resolver_text :: "group_view \<Rightarrow> string" where
  "resolver_text g = (case gv_onchain g of None \<Rightarrow> em_dash
     | Some oc \<Rightarrow> (case og_auth_resolver oc of None \<Rightarrow> ''None bound''
         | Some r \<Rightarrow> short_address 10 8 (Some (ar_resolver r)) @ ''on '' @ chain_name (Some (ar_chain_id r)) @
             (if ar_require_canonical_subject r then '' '' @ middle_dot @ '' canonical subject required'' else [])))"

definition siwe_text :: "group_view \<Rightarrow> string" where
  "siwe_text g = (case gv_onchain g of None \<Rightarrow> em_dash
     | Some oc \<Rightarrow> if og_siwe_domains oc \<noteq> [] then join_with '', '' (og_siwe_domains oc)
         else ''No domains '' @ em_dash @ '' the scheme is disabled for this group'')"

definition group_details :: "intl \<Rightarrow> group_view \<Rightarrow> (string \<times> string) list" where
  "group_details I g =
     [(''Group address'', short_address 12 8 (a_group_address (gv_app g))),
      (''Manager'', case gv_onchain g of Some oc \<Rightarrow> short_address 10 8 (Some (og_manager oc)) | None \<Rightarrow> em_dash),
      (''Chain'', chain_name (Some (a_chain_id (gv_app g)))),
      (''Deployed'', format_date_time I (a_deployed_at (gv_app g))),
      (''Trusted issuers'', case gv_onchain g of Some oc \<Rightarrow>
          if og_issuers oc \<noteq> [] then join_with '', '' (map oi_issuer (og_issuers oc)) else ''None configured''
        | None \<Rightarrow> ''None configured''),
      (''Authorization keys'', dec_of_nat (case gv_onchain g of Some oc \<Rightarrow> length (og_auth_keys oc) | None \<Rightarrow> 0) @ '' registered''),
      (''Sign-In with Ethereum'', siwe_text g),
      (''Identity resolver'', resolver_text g)]"

subsection \<open>Which actions are enabled\<close>

definition invite_enabled :: "bool \<Rightarrow> bool" where
  "invite_enabled can_sign \<longleftrightarrow> can_sign"

definition queue_enabled :: "string option \<Rightarrow> bool \<Rightarrow> bool" where
  "queue_enabled pending can_sign \<longleftrightarrow> \<not> (pending \<noteq> None \<or> \<not> can_sign)"

definition cancel_enabled :: "string option \<Rightarrow> bool" where
  "cancel_enabled pending \<longleftrightarrow> pending = None"

definition execute_enabled :: "string option \<Rightarrow> string option \<Rightarrow> bool" where
  "execute_enabled pending remaining \<longleftrightarrow> \<not> (pending \<noteq> None \<or> remaining \<noteq> None)"

definition reshare_enabled :: "string option \<Rightarrow> bool \<Rightarrow> bool" where
  "reshare_enabled pending can_sign \<longleftrightarrow> \<not> (pending \<noteq> None \<or> \<not> can_sign)"

subsection \<open>The one callback\<close>

record group_tab = provider_tab +
  gt_pending :: "string option"
  gt_data :: "json option"
  gt_error :: "jserr option"

type_synonym ('t, 'a) gio = "'t group_tab_scheme \<Rightarrow> (jserr + 'a) \<times> 't group_tab_scheme"

text \<open>\<open>group.refresh()\<close>: the query keeps what it read, or the error, and does not throw.\<close>

definition group_reload :: "('e env_scheme) \<Rightarrow> string \<Rightarrow> ('t, unit) gio" where
  "group_reload E appId = try_catch
     (await (request E (group_route (GetGroup appId))) (\<lambda>j. update_tab (\<lambda>t. t\<lparr>gt_data := Some j, gt_error := None\<rparr>)))
     (\<lambda>e. update_tab (\<lambda>t. t\<lparr>gt_error := Some e\<rparr>))"

definition p_try_catch :: "('t \<Rightarrow> ((jserr + 'a) \<times> 't) option) \<Rightarrow> (jserr \<Rightarrow> 't \<Rightarrow> ((jserr + 'a) \<times> 't) option) \<Rightarrow>
    't \<Rightarrow> ((jserr + 'a) \<times> 't) option" where
  "p_try_catch m h t = (case m t of None \<Rightarrow> None | Some (Inl e, t') \<Rightarrow> h e t' | Some (Inr x, t') \<Rightarrow> Some (Inr x, t'))"

definition p_finally :: "('t \<Rightarrow> ((jserr + 'a) \<times> 't) option) \<Rightarrow> ('t \<Rightarrow> 't) \<Rightarrow> 't \<Rightarrow> ((jserr + 'a) \<times> 't) option" where
  "p_finally m f t = map_option (\<lambda>(r, t'). (r, f t')) (m t)"

definition no_group_message :: string where
  "no_group_message = ''This app has no signing group yet.''"

definition group_request :: "network_config \<Rightarrow> user \<Rightarrow> app \<Rightarrow> group_function \<Rightarrow> abi_value list \<Rightarrow> group_call_request" where
  "group_request nw u a fn args = \<lparr>gc_network = nw, gc_user = u, gc_group_address = a_group_address a, gc_function = fn,
     gc_args = args, gc_sponsored = Some (a_environment a = Development), gc_on_stage = False\<rparr>"

definition submit_and_record :: "('e onchain_env_scheme) \<Rightarrow> string \<Rightarrow> network_config \<Rightarrow> user \<Rightarrow> app \<Rightarrow> transport \<Rightarrow> string \<Rightarrow>
    group_function \<Rightarrow> abi_value list \<Rightarrow> 't group_tab_scheme \<Rightarrow> ((jserr + unit) \<times> 't group_tab_scheme) option" where
  "submit_and_record E appId nw u a tr label fn args =
     p_await (submit_group_call E (group_request nw u a fn args) tr) (\<lambda>proof. p_run (case proof of
       None \<Rightarrow> throw (Error no_group_message)
     | Some pf \<Rightarrow> await (request E (group_route (PostExecuteGroupCall appId (json_of_proof pf) (function_name fn)))) (\<lambda>_.
         seq (group_reload E appId) (toast Toast_success (label @ '' confirmed'') []))))"

definition group_action :: "('e onchain_env_scheme) \<Rightarrow> string \<Rightarrow> network_config option \<Rightarrow> user option \<Rightarrow> app option \<Rightarrow> transport \<Rightarrow> string \<Rightarrow>
    group_function \<Rightarrow> abi_value list \<Rightarrow> 't group_tab_scheme \<Rightarrow> ((jserr + unit) \<times> 't group_tab_scheme) option" where
  "group_action E appId network u ap tr label fn args = (case (network, u, ap) of
     (Some nw, Some usr, Some a) \<Rightarrow>
       if \<not> truthy_str (a_group_address a) then p_run (ret ())
       else p_await (p_run (update_tab (\<lambda>t. t\<lparr>gt_pending := Some label\<rparr>))) (\<lambda>_.
         p_finally
           (p_try_catch (submit_and_record E appId nw usr a tr label fn args)
             (\<lambda>e. p_run (toast Toast_error (label @ '' failed'') (err_message e))))
           (\<lambda>t. t\<lparr>gt_pending := None\<rparr>))
   | _ \<Rightarrow> p_run (ret ()))"

text \<open>The buttons, with the label and the call each makes.\<close>

datatype group_button = B_invite string | B_queue string | B_cancel string | B_execute string | B_reshare

fun button_call :: "group_button \<Rightarrow> string \<times> group_function \<times> abi_value list" where
  "button_call (B_invite a) = (''Invite'', InviteNode, [V_text a])"
| "button_call (B_queue a) = (''Queue removal'', QueueRemoval, [V_text a])"
| "button_call (B_cancel a) = (''Cancel removal'', CancelRemoval, [V_text a])"
| "button_call (B_execute a) = (''Execute removal'', ExecuteRemoval, [V_text a])"
| "button_call B_reshare = (''Reshare request'', RequestReshare, [])"

definition sync_group :: "('e env_scheme) \<Rightarrow> string \<Rightarrow> ('t, unit) gio" where
  "sync_group E appId = await (request E (group_route (PostSyncGroup appId))) (\<lambda>_.
     seq (group_reload E appId) (toast Toast_success ''Synced from the chain'' []))"

text \<open>Linking a group from the modal of an app that has none; the reply's \<open>sync_error\<close> chooses the message.\<close>

definition link_enabled :: "bool \<Rightarrow> string \<Rightarrow> bool" where
  "link_enabled pending address \<longleftrightarrow> \<not> (pending \<or> trim address = [])"

definition attach_group :: "('e env_scheme) \<Rightarrow> string \<Rightarrow> string \<Rightarrow> ('t, unit) gio" where
  "attach_group E appId address =
     await (request E (group_route (PostAttachGroup appId (trim address) None))) (\<lambda>result.
     if result = JNull then throw (TypeError ''Cannot read properties of null'')
     else seq (case jget ''sync_error'' result of
         Some v \<Rightarrow> if js_truthy v
           then toast Toast_info ''Group linked'' (''Membership will fill in on the next sync: '' @ js_string v)
           else toast Toast_success ''Group linked'' []
       | None \<Rightarrow> toast Toast_success ''Group linked'' [])
       (group_reload E appId))"

subsection \<open>Several actions at once\<close>

text \<open>The label shown as pending, and the calls under way, the newest first. The invitation is made from a
  dialog that does not look at the label; every other button is disabled while one is shown. A call
  that settles clears the label, whoever put it there.\<close>

record group_life =
  gl_pending :: "string option"
  gl_running :: "string list"

definition call_starts :: "string \<Rightarrow> group_life \<Rightarrow> group_life" where
  "call_starts label s = s\<lparr>gl_pending := Some label, gl_running := label # gl_running s\<rparr>"

definition call_settles :: "string \<Rightarrow> group_life \<Rightarrow> group_life" where
  "call_settles label s = s\<lparr>gl_pending := None, gl_running := remove1 label (gl_running s)\<rparr>"

definition button_enabled :: "(string \<Rightarrow> string option) \<Rightarrow> bool \<Rightarrow> group_button \<Rightarrow> group_life \<Rightarrow> bool" where
  "button_enabled remaining can_sign b s = (case b of
     B_invite a \<Rightarrow> invite_enabled can_sign
   | B_queue a \<Rightarrow> queue_enabled (gl_pending s) can_sign
   | B_cancel a \<Rightarrow> cancel_enabled (gl_pending s)
   | B_execute a \<Rightarrow> execute_enabled (gl_pending s) (remaining a)
   | B_reshare \<Rightarrow> reshare_enabled (gl_pending s) can_sign)"

inductive group_step :: "group_life \<Rightarrow> group_life \<Rightarrow> bool" where
  g_press: "button_enabled remaining can_sign b s \<Longrightarrow> group_step s (call_starts (fst (button_call b)) s)"
| g_settle: "label \<in> set (gl_running s) \<Longrightarrow> group_step s (call_settles label s)"

inductive_cases group_stepE: "group_step s s'"

definition group_start :: "group_life \<Rightarrow> bool" where
  "group_start s \<longleftrightarrow> s = \<lparr>gl_pending = None, gl_running = []\<rparr>"

text \<open>The label belongs to the newest call, and only an invitation can be newer than another call.\<close>

definition group_ok :: "group_life \<Rightarrow> bool" where
  "group_ok s \<longleftrightarrow> (\<forall>l. gl_pending s = Some l \<longrightarrow> (\<exists>rest. gl_running s = l # rest))"

interpretation group_page: machine group_start group_step group_ok
  by unfold_locales (auto simp: group_start_def group_ok_def call_starts_def call_settles_def elim!: group_stepE)

subsection \<open>How a call ends\<close>

lemma p_finally_Some: "p_finally m f t = Some (r, t') \<longleftrightarrow> (\<exists>t1. m t = Some (r, t1) \<and> t' = f t1)"
  by (auto simp: p_finally_def)

lemma p_try_Some: "p_try_catch m h t = Some (r, t') \<longleftrightarrow>
    (\<exists>e t1. m t = Some (Inl e, t1) \<and> h e t1 = Some (r, t')) \<or> (\<exists>x. m t = Some (Inr x, t') \<and> r = Inr x)"
  by (auto simp: p_try_catch_def split: option.splits sum.splits prod.splits)

lemma group_reload_ends:
  assumes "group_reload E appId t = (r, t')"
  shows "r = Inr () \<and> trace t' = trace t @ [Fetch (request_of E (current_token E t) (group_route (GetGroup appId)))]"
proof -
  obtain res t1 where q: "request E (group_route (GetGroup appId)) t = (res, t1)" by fastforce
  then have "t1 = logged [Fetch (request_of E (current_token E t) (group_route (GetGroup appId)))] t" by (rule request_ends)
  with assms q show ?thesis
    by (cases res) (auto simp: group_reload_def try_catch_def await_def update_tab_def)
qed

lemma record_returns:
  assumes "submit_and_record E appId nw u a tr label fn args t = Some (Inr x, t')"
  obtains pf t1 where "submit_group_call E (group_request nw u a fn args) tr t = Some (Inr (Some pf), t1)"
    "trace t' = trace t1 @ [Fetch (request_of E (current_token E t1)
        (group_route (PostExecuteGroupCall appId (json_of_proof pf) (function_name fn)))),
       Fetch (request_of E (current_token E t1) (group_route (GetGroup appId))), Toast Toast_success (label @ '' confirmed'') []]"
proof -
  from assms obtain pr t1 where s: "submit_group_call E (group_request nw u a fn args) tr t = Some (Inr pr, t1)"
    and r: "(case pr of None \<Rightarrow> throw (Error no_group_message)
     | Some pf \<Rightarrow> await (request E (group_route (PostExecuteGroupCall appId (json_of_proof pf) (function_name fn)))) (\<lambda>_.
         seq (group_reload E appId) (toast Toast_success (label @ '' confirmed'') []))) t1 = (Inr x, t')"
    unfolding submit_and_record_def by (auto simp: p_await_returns p_run_returns)
  then obtain pf where pf: "pr = Some pf" by (cases pr) (auto simp: throw_def)
  with r obtain j t2 t3 where q: "request E (group_route (PostExecuteGroupCall appId (json_of_proof pf) (function_name fn))) t1 = (Inr j, t2)"
    and g: "group_reload E appId t2 = (Inr (), t3)" and tr': "t' = t3\<lparr>trace := trace t3 @ [Toast Toast_success (label @ '' confirmed'') []]\<rparr>"
    by (auto simp: await_returns seq_returns toast_def op_returns)
  from q have "t2 = logged [Fetch (request_of E (current_token E t1)
      (group_route (PostExecuteGroupCall appId (json_of_proof pf) (function_name fn))))] t1" by (rule request_ends)
  with group_reload_ends [OF g] tr' pf s show thesis by (intro that) auto
qed

subsection \<open>Properties\<close>

text \<open>C18: a change of the group is recorded only with its proof. However an action of the screen ends, if it
  ends, it does not throw and leaves no pending label. Either it ends with its failure shown, or the
  submission returned a proof, that proof was posted for exactly the function that was called, the
  group was read again, and only then was the action called confirmed.\<close>

theorem group_action_settles:
  fixes t t' :: "'t group_tab_scheme"
  assumes "group_action E appId (Some nw) (Some u) (Some a) tr label fn args t = Some (r, t')"
    and "truthy_str (a_group_address a)"
  shows "r = Inr () \<and> gt_pending t' = None \<and>
    ((\<exists>e h. trace t' = h @ [Toast Toast_error (label @ '' failed'') (err_message e)]) \<or>
     (\<exists>pf (t1 :: 't group_tab_scheme). submit_group_call E (group_request nw u a fn args) tr (t\<lparr>gt_pending := Some label\<rparr>) = Some (Inr (Some pf), t1) \<and>
       trace t' = trace t1 @ [Fetch (request_of E (current_token E t1)
           (group_route (PostExecuteGroupCall appId (json_of_proof pf) (function_name fn)))),
         Fetch (request_of E (current_token E t1) (group_route (GetGroup appId))), Toast Toast_success (label @ '' confirmed'') []]))"
proof -
  from assms obtain t2 where m: "p_try_catch (submit_and_record E appId nw u a tr label fn args)
      (\<lambda>e. p_run (toast Toast_error (label @ '' failed'') (err_message e))) (t\<lparr>gt_pending := Some label\<rparr>) = Some (r, t2)"
    and t': "t' = t2\<lparr>gt_pending := None\<rparr>"
    by (auto simp: group_action_def p_await_Some p_run_returns update_tab_def p_finally_Some)
  from m show ?thesis unfolding p_try_Some
  proof (elim disjE exE conjE)
    fix e t1
    assume "p_run (toast Toast_error (label @ '' failed'') (err_message e)) t1 = Some (r, t2)"
    then show ?thesis by (auto simp: t' p_run_def toast_def log_event_apply)
  next
    fix x
    assume s: "submit_and_record E appId nw u a tr label fn args (t\<lparr>gt_pending := Some label\<rparr>) = Some (Inr x, t2)" and "r = Inr x"
    from s show ?thesis
      by (rule record_returns) (use \<open>r = Inr x\<close> in \<open>auto simp: t'\<close>)
  qed
qed

definition demo_app :: app where
  "demo_app = \<lparr>a_id = ''a1'', a_org_id = ''o1'', a_name = ''A'', a_slug = ''a'', a_description = [], a_environment = Development,
     a_status = Live, a_chain_id = 1, a_group_address = Some ''0x6a'', a_group_public_key = None, a_threshold = Some 1,
     a_node_count = Some 1, a_is_operational = Some True, a_logo_url = None, a_website_url = None, a_deployed_at = None,
     a_synced_at = None, a_created_at = [], a_updated_at = []\<rparr>"

definition demo_group_tab :: group_tab where
  "demo_group_tab = provider_tab.extend (initial_provider empty_tab) (group_tab.fields None None None)"

theorem group_action_settles_witness:
  "\<exists>t'. group_action demo_onchain_env ''a1'' (Some demo_network) (Some demo_user) (Some demo_app) (T_none ''why'') ''Invite'' InviteNode [] demo_group_tab
     = Some (Inr (), t') \<and> gt_pending t' = None \<and> trace t' = [Toast Toast_error ''Invite failed'' ''why'']"
proof -
  have a: "truthy_str (a_group_address demo_app)" by (simp add: demo_app_def truthy_str_def)
  have e: "trace demo_group_tab = []"
    by (simp add: demo_group_tab_def initial_provider_def empty_tab_def provider_tab.defs tab.defs)
  obtain r t' where g: "group_action demo_onchain_env ''a1'' (Some demo_network) (Some demo_user) (Some demo_app) (T_none ''why'')
      ''Invite'' InviteNode [] demo_group_tab = Some (r, t')" and t: "trace t' = [Toast Toast_error ''Invite failed'' ''why'']"
    using a e by (simp add: group_action_def p_await_def p_run_def update_tab_def p_finally_def p_try_catch_def submit_and_record_def
        submit_group_call_def group_request_def throw_def toast_def log_event_apply)
  from group_action_settles [OF g a] g t show ?thesis by auto
qed


lemma pending_label_runs: "reachable group_start group_step s \<Longrightarrow> gl_pending s = Some l \<Longrightarrow> l \<in> set (gl_running s)"
  using group_page.invariant [of s] by (auto simp: group_ok_def)

text \<open>Two changes of the group can be under way at once. A label that is shown as pending always belongs
  to a call under way; but an invitation can be started while a reshare is pending, and once the
  reshare settles no label is left and every button is enabled while the invitation still runs.\<close>

theorem actions_can_overlap:
  "\<exists>s s'. reachable group_start group_step s \<and> group_step s s' \<and> length (gl_running s) = 2 \<and>
      gl_running s' = [''Invite''] \<and> gl_pending s' = None \<and> (\<forall>b. button_enabled (\<lambda>_. None) True b s')"
proof -
  let ?s0 = "\<lparr>gl_pending = None, gl_running = []\<rparr>"
  let ?s1 = "call_starts ''Reshare request'' ?s0" let ?s2 = "call_starts ''Invite'' ?s1" let ?s3 = "call_settles ''Reshare request'' ?s2"
  have "group_step ?s0 ?s1" using g_press [of "\<lambda>_. None" True B_reshare ?s0] by (simp add: button_enabled_def reshare_enabled_def)
  moreover have "group_step ?s1 ?s2" using g_press [of "\<lambda>_. None" True "B_invite ''n''" ?s1] by (simp add: button_enabled_def invite_enabled_def)
  moreover have "group_step ?s2 ?s3" by (rule g_settle) (simp add: call_starts_def)
  moreover have "reachable group_start group_step ?s0" by (rule reach_init) (simp add: group_start_def)
  ultimately have "reachable group_start group_step ?s2" "group_step ?s2 ?s3" by (blast intro: reach_next)+
  then show ?thesis
    by (intro exI [of _ ?s2] exI [of _ ?s3]) (auto simp: call_starts_def call_settles_def button_enabled_def invite_enabled_def
        queue_enabled_def cancel_enabled_def execute_enabled_def reshare_enabled_def split: group_button.split)
qed

end
