(* ===== verification/Routes.thy ===== *)
theory Routes
  imports Onchain
begin

text \<open>
  The two server routes of the web app: \<open>web/app/api/auth/token/route.ts\<close> (the Google code exchange)
  and \<open>web/app/api/bundler/route.ts\<close> (the proxy to the bundler). A handler runs in the server
  process: it is an \<open>io\<close> whose trace holds the requests it sends and whose environment gives the
  process's variables, the secrets among them. What it throws becomes the framework's error page.
\<close>

subsection \<open>Responses\<close>

record server_reply =
  sr_status :: int
  sr_content_type :: string
  sr_body :: string

text \<open>\<open>Response.json(body, { status })\<close>\<close>

definition json_response :: "json \<Rightarrow> int \<Rightarrow> server_reply" where
  "json_response j st = \<lparr>sr_status = st, sr_content_type = ''application/json'', sr_body = json_print j\<rparr>"

text \<open>\<open>v.k\<close>: reading a property of \<open>null\<close> throws, of any other value without it gives \<open>undefined\<close>.\<close>

definition js_prop :: "string \<Rightarrow> json \<Rightarrow> jserr + json option" where
  "js_prop k j = (if j = JNull then Inl (TypeError ''Cannot read properties of null'') else Inr (jget k j))"

definition js_string_opt :: "json option \<Rightarrow> string" where
  "js_string_opt v = (case v of None \<Rightarrow> ''undefined'' | Some j \<Rightarrow> js_string j)"

definition body_json :: "string \<Rightarrow> jserr + json" where
  "body_json text = (case json_parse text of None \<Rightarrow> Inl (Error ''Unexpected token in JSON'') | Some j \<Rightarrow> Inr j)"

subsection \<open>The token exchange\<close>

definition not_configured_message :: string where
  "not_configured_message = ''Google sign-in is not configured. Set NEXT_PUBLIC_GOOGLE_CLIENT_ID and GOOGLE_CLIENT_SECRET.''"

definition exchange_params :: "string \<Rightarrow> string \<Rightarrow> json \<Rightarrow> (string \<times> string) list" where
  "exchange_params client_id client_secret b =
     [(''client_id'', client_id), (''client_secret'', client_secret), (''code'', js_string_opt (jget ''code'' b)),
      (''code_verifier'', js_string_opt (jget ''code_verifier'' b)), (''grant_type'', ''authorization_code''),
      (''redirect_uri'', js_string_opt (jget ''redirect_uri'' b))]"

definition exchange_request :: "string \<Rightarrow> string \<Rightarrow> json \<Rightarrow> http_request" where
  "exchange_request client_id client_secret b =
     \<lparr>url = ''https://oauth2.googleapis.com/token'', http_method = ''POST'',
      headers = [(''Content-Type'', ''application/x-www-form-urlencoded'')],
      http_body = Some (search_params (exchange_params client_id client_secret b)), with_credentials = False\<rparr>"

definition token_answer :: "json \<Rightarrow> jserr + server_reply" where
  "token_answer tokens = (case js_prop ''error'' tokens of Inl e \<Rightarrow> Inl e
   | Inr err \<Rightarrow>
       if (case err of None \<Rightarrow> False | Some v \<Rightarrow> js_truthy v)
       then Inr (json_response (jobj [(''error'', err), (''error_description'', jget ''error_description'' tokens)]) 400)
       else Inr (json_response (jobj [(''id_token'', jget ''id_token'' tokens)]) 200))"

definition exchange_code :: "('e env_scheme) \<Rightarrow> string \<Rightarrow> ('t, server_reply) io" where
  "exchange_code E body =
     await (lift_err (body_json body)) (\<lambda>b.
     if b = JNull then throw (TypeError ''Cannot destructure null'')
     else if \<not> truthy_str (e_var E ''NEXT_PUBLIC_GOOGLE_CLIENT_ID'') \<or> \<not> truthy_str (e_var E ''GOOGLE_CLIENT_SECRET'')
       then ret (json_response (jobj [str_field ''error'' not_configured_message]) 500)
     else
       await (fetch E (exchange_request (the (e_var E ''NEXT_PUBLIC_GOOGLE_CLIENT_ID''))
         (the (e_var E ''GOOGLE_CLIENT_SECRET'')) b)) (\<lambda>(st, text).
       await (lift_err (body_json text)) (\<lambda>tokens. lift_err (token_answer tokens))))"

subsection \<open>The bundler proxy\<close>

definition no_bundler_message :: string where
  "no_bundler_message = ''NEXT_PUBLIC_BUNDLER_URL is not set''"

definition bundler_request :: "string \<Rightarrow> string option \<Rightarrow> string \<Rightarrow> string \<Rightarrow> http_request" where
  "bundler_request bundler_url api_key path body =
     \<lparr>url = strip_slash bundler_url @ path, http_method = ''POST'',
      headers = [(''Content-Type'', ''application/json'')] @
        (if truthy_str api_key then [(''X-API-Key'', the api_key)] else []),
      http_body = Some body, with_credentials = False\<rparr>"

text \<open>\<open>new Response(text, { status })\<close> throws for the statuses that carry no body, the empty text included.\<close>

definition null_body_status :: "int \<Rightarrow> bool" where
  "null_body_status st \<longleftrightarrow> st \<in> {101, 103, 204, 205, 304}"

definition relay :: "int \<times> string \<Rightarrow> jserr + server_reply" where
  "relay r = (case r of (st, text) \<Rightarrow>
     if null_body_status st then Inl (TypeError ''Invalid response status code'')
     else Inr \<lparr>sr_status = st, sr_content_type = ''application/json'', sr_body = text\<rparr>)"

definition proxy_error :: "jserr \<Rightarrow> server_reply" where
  "proxy_error e = json_response (jobj [str_field ''jsonrpc'' ''2.0'', (''id'', Some (JNum 1)),
     (''error'', Some (jobj [(''code'', Some (JNum (- 32000))), str_field ''message'' (err_message e)]))]) 502"

definition bundler_proxy :: "('e env_scheme) \<Rightarrow> string option \<Rightarrow> string \<Rightarrow> ('t, server_reply) io" where
  "bundler_proxy E path_header body =
     (if \<not> truthy_str (e_var E ''NEXT_PUBLIC_BUNDLER_URL'')
      then ret (json_response (jobj [str_field ''error'' no_bundler_message]) 500)
      else try_catch
        (await (fetch E (bundler_request (the (e_var E ''NEXT_PUBLIC_BUNDLER_URL'')) (e_var E ''PROVER_API_KEY'')
           (case path_header of None \<Rightarrow> [] | Some p \<Rightarrow> p) body)) (\<lambda>r. lift_err (relay r)))
        (\<lambda>e. ret (proxy_error e)))"

text \<open>The host an \<open>https\<close> URL names: its authority, less the user information before the last \<open>@\<close>.\<close>

definition ends_authority :: "char \<Rightarrow> bool" where
  "ends_authority c \<longleftrightarrow> c \<in> {CHR ''/'', CHR ''?'', CHR ''#'', CHR 0x5C}"

definition url_host :: "string \<Rightarrow> string" where
  "url_host u = (if starts_with ''https://'' u
     then rev (takeWhile (\<lambda>c. c \<noteq> CHR ''@'') (rev (takeWhile (\<lambda>c. \<not> ends_authority c) (drop 8 u)))) else [])"

lemma url_host_userinfo:
  assumes "list_all (\<lambda>c. \<not> ends_authority c) (info @ host)" and "CHR ''@'' \<notin> set host"
  shows "url_host (''https://'' @ info @ ''@'' @ host @ ''/'') = host"
proof -
  have a: "takeWhile (\<lambda>c. \<not> ends_authority c) (info @ CHR ''@'' # host @ [CHR ''/'']) = info @ CHR ''@'' # host"
    using assms(1) by (subst takeWhile_append2) (auto simp: list_all_iff ends_authority_def takeWhile_append2)
  have "takeWhile (\<lambda>c. c \<noteq> CHR ''@'') (rev host @ CHR ''@'' # rev info) = rev host"
    using assms(2) by (subst takeWhile_append2) auto
  then show ?thesis by (simp add: url_host_def a)
qed

lemma proxied:
  "\<exists>reply. try_catch (await (fetch E rq) (\<lambda>r. lift_err (relay r))) (\<lambda>e. ret (proxy_error e)) t =
      (Inr reply, t\<lparr>trace := trace t @ [Fetch rq]\<rparr>) \<and>
    (case e_fetch E (trace t) rq of Rejected m \<Rightarrow> sr_status reply = 502
     | Reply st text \<Rightarrow> sr_status reply = (if null_body_status st then 502 else st) \<and>
         (null_body_status st \<or> sr_body reply = text))"
  by (cases "e_fetch E (trace t) rq")
    (auto simp: try_catch_def await_def io_simps relay_def proxy_error_def json_response_def)

subsection \<open>Properties\<close>

text \<open>What the route hands back depends on Google's answer only through three of its fields.\<close>

lemma token_answer_fields:
  assumes "\<forall>k \<in> {''error'', ''error_description'', ''id_token''}. jget k a = jget k b" and "a \<noteq> JNull" and "b \<noteq> JNull"
  shows "token_answer a = token_answer b"
  using assms by (simp add: token_answer_def js_prop_def)

text \<open>C15: neither the client secret nor Google's access token reaches the browser. Two runs of the exchange
  in which Google's answers agree on the error, its description and the identity token give the
  browser the same response, whatever else the answers hold and whatever the secrets are; and a
  run sends at most one request, to Google's token endpoint.\<close>

theorem exchange_reveals_only_id_token:
  assumes "e_var E ''NEXT_PUBLIC_GOOGLE_CLIENT_ID'' = Some cid" and "e_var E ''GOOGLE_CLIENT_SECRET'' = Some secret"
    and "e_var E' ''NEXT_PUBLIC_GOOGLE_CLIENT_ID'' = Some cid'" and "e_var E' ''GOOGLE_CLIENT_SECRET'' = Some secret'"
    and "cid \<noteq> []" "secret \<noteq> []" "cid' \<noteq> []" "secret' \<noteq> []"
    and "json_parse body = Some b" and "b \<noteq> JNull"
    and "e_fetch E (trace t) (exchange_request cid secret b) = Reply st text" and "json_parse text = Some a"
    and "e_fetch E' (trace t) (exchange_request cid' secret' b) = Reply st' text'" and "json_parse text' = Some a'"
    and "\<forall>k \<in> {''error'', ''error_description'', ''id_token''}. jget k a = jget k a'" and "a \<noteq> JNull" and "a' \<noteq> JNull"
  shows "fst (exchange_code E body t) = fst (exchange_code E' body t) \<and>
    trace (snd (exchange_code E body t)) = trace t @ [Fetch (exchange_request cid secret b)]"
  using assms token_answer_fields [OF assms(15-17)]
  by (simp add: exchange_code_def await_def io_simps body_json_def truthy_str_def)


definition demo_server :: env where
  "demo_server = demo_env\<lparr>e_var := (\<lambda>k. map_of [(''NEXT_PUBLIC_BUNDLER_URL'', ''https://bundler.example''),
     (''PROVER_API_KEY'', ''k1''), (''NEXT_PUBLIC_GOOGLE_CLIENT_ID'', ''cid''), (''GOOGLE_CLIENT_SECRET'', ''shh'')] k),
     e_fetch := (\<lambda>_ _. Reply 200 ''{}'')\<rparr>"


theorem exchange_reveals_only_id_token_witness:
  "fst (exchange_code demo_server ''{}'' empty_tab) =
   fst (exchange_code (demo_server\<lparr>e_fetch := (\<lambda>_ _. Reply 200 ''{\"access_token\":1}'')\<rparr>) ''{}'' empty_tab)"
proof -
  have p: "json_parse ''{}'' = Some (JObj [])" "json_parse ''{\"access_token\":1}'' = Some (JObj [(''access_token'', JNum 1)])"
    by code_simp+
  show ?thesis
    using exchange_reveals_only_id_token [of demo_server "''cid''" "''shh''"
        "demo_server\<lparr>e_fetch := (\<lambda>_ _. Reply 200 ''{\"access_token\":1}'')\<rparr>" "''cid''" "''shh''" "''{}''" "JObj []"
        empty_tab 200 "''{}''" "JObj []" 200 "''{\"access_token\":1}''" "JObj [(''access_token'', JNum 1)]"]
    by (simp add: demo_server_def p)
qed

end
