(* ===== verification/Trust.thy ===== *)
theory Trust
  imports Group_Page Routes
begin

text \<open>
  The two screens that decide whose credential the operators accept:
  \<open>web/app/(console)/apps/[appId]/credentials/page.tsx\<close> (authorization keys and application secrets) and
  \<open>web/app/(console)/apps/[appId]/configuration/login-methods/page.tsx\<close> (trusted issuers). Each change of
  the group is submitted first and recorded with the platform after it. What a screen's list shows is
  not kept: reading it again is a request whose failure the list swallows. The random key pair and
  Keccak are arguments.
\<close>

record trust_tab = provider_tab +
  tk_stage :: "string option"
  tk_busy :: "string option"
  tk_revealed :: "(string \<times> string \<times> string) option"

type_synonym ('t, 'a) tio = "'t trust_tab_scheme \<Rightarrow> (jserr + 'a) \<times> 't trust_tab_scheme"
type_synonym ('t, 'a) tpoll = "'t trust_tab_scheme \<Rightarrow> ((jserr + 'a) \<times> 't trust_tab_scheme) option"

definition list_reload :: "('e env_scheme) \<Rightarrow> route \<Rightarrow> ('t, unit) io" where
  "list_reload E r = try_catch (await (request E r) (\<lambda>_. ret ())) (\<lambda>_. ret ())"

text \<open>\<open>toast.success(m, result.transaction_hash ? detail : otherwise)\<close>\<close>

definition toast_with_hash :: "json \<Rightarrow> string \<Rightarrow> string \<Rightarrow> string \<Rightarrow> ('t, unit) io" where
  "toast_with_hash result message detail otherwise =
     await (lift_err (js_prop ''transaction_hash'' result)) (\<lambda>h.
       toast Toast_success message (case h of None \<Rightarrow> otherwise | Some v \<Rightarrow> if js_truthy v then detail else otherwise))"

definition proof_json :: "onchain_proof option \<Rightarrow> json" where
  "proof_json pf = (case pf of None \<Rightarrow> JNull | Some p \<Rightarrow> json_of_proof p)"

subsection \<open>The screens' lists\<close>

definition app_secrets :: "credential list option \<Rightarrow> credential list" where
  "app_secrets data = filter (\<lambda>c. c_kind c = App_secret) (case data of None \<Rightarrow> [] | Some cs \<Rightarrow> cs)"

definition auth_keys :: "credential list option \<Rightarrow> credential list" where
  "auth_keys data = filter (\<lambda>c. c_kind c = Auth_key) (case data of None \<Rightarrow> [] | Some cs \<Rightarrow> cs)"

definition onchain_status_name :: "onchain_status \<Rightarrow> string" where
  "onchain_status_name s = (case s of Unknown \<Rightarrow> ''unknown'' | Pending \<Rightarrow> ''pending'' | Active \<Rightarrow> ''active'' | Removed \<Rightarrow> ''removed'')"

definition status_tone :: "onchain_status \<Rightarrow> tone" where
  "status_tone s = (if s = Active then Tone_success else if s = Removed then Tone_error else Tone_warn)"

definition auth_key_status :: "onchain_status \<Rightarrow> string" where
  "auth_key_status s = (if s = Active then ''trusted on-chain'' else if s = Removed then ''not on-chain'' else onchain_status_name s)"

definition auth_key_row :: "credential \<Rightarrow> string \<times> string \<times> tone \<times> string" where
  "auth_key_row c = (if c_label c = [] then ''Application key'' else c_label c,
     short_address 16 10 (Some (case c_public_key c of None \<Rightarrow> [] | Some k \<Rightarrow> k)),
     status_tone (c_onchain_status c), auth_key_status (c_onchain_status c))"

definition secret_row :: "intl \<Rightarrow> int \<Rightarrow> credential \<Rightarrow> string list" where
  "secret_row I now c = [if c_label c = [] then ''Untitled'' else c_label c,
     ''sk_signet_'' @ ellipsis @ (case c_last_four c of None \<Rightarrow> [] | Some l \<Rightarrow> l),
     format_date_time I (Some (c_created_at c)),
     if truthy_str (c_last_used_at c) then relative_time I now (c_last_used_at c) else ''Never'']"

definition issuer_row :: "issuer \<Rightarrow> string \<times> string \<times> string \<times> tone \<times> string" where
  "issuer_row i = (if i_label i = [] then i_provider i else i_label i, i_issuer i,
     if i_client_ids i = [] then ''Any client from this issuer is accepted''
     else dec_of_nat (length (i_client_ids i)) @ '' client ID'' @ (if length (i_client_ids i) = 1 then [] else ''s'') @ '' allowed'',
     status_tone (i_onchain_status i),
     if i_onchain_status i = Active then ''trusted on-chain'' else onchain_status_name (i_onchain_status i))"

text \<open>The methods the operators enforce and those only the login dialog offers: key and label.\<close>

definition CHAIN_ENFORCED :: "(string \<times> string) list" where
  "CHAIN_ENFORCED = [(''auth_key'', ''Authorization key certificates''),
     (''onchain_resolver'', ''On-chain identity resolver (SIWE)'')]"

definition CLIENT_METHODS :: "(string \<times> string) list" where
  "CLIENT_METHODS = [(''email'', ''Email''), (''sms'', ''SMS''), (''passkey'', ''Passkeys''), (''wallet'', ''External wallet''),
     (''farcaster'', ''Farcaster''), (''telegram'', ''Telegram''), (''guest'', ''Guest accounts'')]"

subsection \<open>Application secrets\<close>

definition reveal_secret :: "string \<Rightarrow> string \<Rightarrow> string \<times> string \<times> string" where
  "reveal_secret secret lbl = (if lbl = [] then ''Application secret'' else lbl, secret,
     ''Copy it now. It is stored only as a hash, so this is the only time it can be shown.'')"

definition create_secret :: "('e env_scheme) \<Rightarrow> string \<Rightarrow> string \<Rightarrow> ('t, unit) tio" where
  "create_secret E appId lbl =
     await (request E (app_route (PostCredential appId (jobj [str_field ''kind'' ''app_secret'', str_field ''label'' lbl])))) (\<lambda>cred.
     await (lift_err (js_prop ''secret'' cred)) (\<lambda>secret.
     seq (list_reload E (app_route (GetCredentials appId)))
       (update_tab (\<lambda>t. t\<lparr>tk_revealed := Some (reveal_secret (case secret of None \<Rightarrow> [] | Some JNull \<Rightarrow> [] | Some v \<Rightarrow> js_string v) lbl)\<rparr>))))"

subsection \<open>Authorization keys\<close>

definition set_text :: "string \<Rightarrow> ('t, unit) tio" where
  "set_text s = seq (stage_cb s) (update_tab (\<lambda>t. t\<lparr>tk_stage := Some s\<rparr>))"

definition trust_request :: "network_config \<Rightarrow> user \<Rightarrow> string option \<Rightarrow> group_function \<Rightarrow> abi_value list \<Rightarrow> bool \<Rightarrow> bool \<Rightarrow> group_call_request" where
  "trust_request nw u group_address fn args sponsored staged = \<lparr>gc_network = nw, gc_user = u, gc_group_address = group_address,
     gc_function = fn, gc_args = args, gc_sponsored = Some sponsored, gc_on_stage = staged\<rparr>"

definition auth_key_body :: "string \<Rightarrow> string \<Rightarrow> onchain_proof option \<Rightarrow> json" where
  "auth_key_body lbl pub_hex pf = jobj [str_field ''kind'' ''auth_key'', str_field ''label'' lbl,
     str_field ''public_key'' pub_hex, (''user_op'', Some (proof_json pf))]"

definition reveal_key :: "string \<Rightarrow> string \<Rightarrow> string \<times> string \<times> string" where
  "reveal_key priv_hex lbl = (if lbl = [] then ''Application key'' else lbl, priv_hex,
     ''This private key was generated in your browser and has never left it. The platform stores only the public half '' @
     em_dash @ '' if you lose this, generate a new key and remove the old one from the group.'')"

text \<open>After the submission: the record, and only then the private key is shown.\<close>

definition record_auth_key :: "('e env_scheme) \<Rightarrow> string \<Rightarrow> string \<Rightarrow> string \<Rightarrow> string \<Rightarrow> onchain_proof option \<Rightarrow> ('t, unit) tio" where
  "record_auth_key E appId lbl priv_hex pub_hex pf =
     seq (set_text ''Recording it on the platform'')
    (await (request E (app_route (PostCredential appId (auth_key_body lbl pub_hex pf)))) (\<lambda>_.
     seq (update_tab (\<lambda>t. t\<lparr>tk_stage := None\<rparr>))
    (seq (toast Toast_success ''Authorization key added to your group'' [])
    (seq (list_reload E (app_route (GetCredentials appId)))
         (update_tab (\<lambda>t. t\<lparr>tk_revealed := Some (reveal_key priv_hex lbl)\<rparr>))))))"

definition create_auth_key :: "('e onchain_env_scheme) \<Rightarrow> (event list \<Rightarrow> byte list \<times> byte list) \<Rightarrow> string \<Rightarrow> network_config option \<Rightarrow>
    user option \<Rightarrow> string option \<Rightarrow> bool \<Rightarrow> transport \<Rightarrow> string \<Rightarrow> ('t, unit) tpoll" where
  "create_auth_key E gen appId network u group_address sponsored tr lbl = (case (network, u) of
     (Some nw, Some usr) \<Rightarrow>
       if \<not> truthy_str group_address then p_run (throw (Error no_group_message))
       else
         p_await (p_run (seq (set_text ''Generating a keypair in your browser'')
             (external (Sdk ''randomPrivateKey'' []) (\<lambda>h. Inr (gen h))))) (\<lambda>(priv, pub).
         let pub_hex = ''0x'' @ bytes_to_hex pub in
         p_await (submit_group_call E (trust_request nw usr group_address AddAuthKey [V_text pub_hex] sponsored True) tr) (\<lambda>pf.
         p_run (record_auth_key E appId lbl (bytes_to_hex priv) pub_hex pf)))
   | _ \<Rightarrow> p_run (throw (Error no_group_message)))"

definition generate_enabled :: "bool \<Rightarrow> transport \<Rightarrow> bool" where
  "generate_enabled pending tr \<longleftrightarrow> \<not> (pending \<or> (case tr of T_none why \<Rightarrow> True | _ \<Rightarrow> False))"

text \<open>Revoking: a key the operators trust is removed from the group in the same go.\<close>

definition must_unregister :: "credential \<Rightarrow> network_config option \<Rightarrow> user option \<Rightarrow> bool" where
  "must_unregister c network u \<longleftrightarrow> c_kind c = Auth_key \<and> c_onchain_status c = Active \<and> truthy_str (c_key_hash c) \<and>
     network \<noteq> None \<and> u \<noteq> None"

definition finish_revoke :: "('e env_scheme) \<Rightarrow> string \<Rightarrow> credential \<Rightarrow> json option \<Rightarrow> ('t, unit) io" where
  "finish_revoke E appId c pf =
     await (request E (app_route (DelCredential appId (c_id c) pf))) (\<lambda>result.
     seq (list_reload E (app_route (GetCredentials appId)))
       (toast_with_hash result ''Revoked'' ''Your operators no longer accept it.'' []))"

definition revoke_credential :: "('e onchain_env_scheme) \<Rightarrow> string \<Rightarrow> network_config option \<Rightarrow> user option \<Rightarrow> group_view option \<Rightarrow> transport \<Rightarrow>
    credential \<Rightarrow> ('t, unit) tpoll" where
  "revoke_credential E appId network u g tr c =
     (if must_unregister c network u then
        p_await (submit_group_call E (trust_request (the network) (the u) (Option.bind g (\<lambda>v. a_group_address (gv_app v))) RemoveAuthKey
            [V_text (the (c_key_hash c))] (case g of None \<Rightarrow> False | Some v \<Rightarrow> a_environment (gv_app v) = Development) False) tr)
          (\<lambda>pf. p_run (finish_revoke E appId c (Some (proof_json pf))))
      else p_run (finish_revoke E appId c None))"

subsection \<open>Trusted issuers\<close>

definition remove_issuer :: "('e onchain_env_scheme) \<Rightarrow> (string \<Rightarrow> string) \<Rightarrow> string \<Rightarrow> network_config option \<Rightarrow> user option \<Rightarrow> app option \<Rightarrow>
    transport \<Rightarrow> string \<Rightarrow> string \<Rightarrow> ('t, unit) tpoll" where
  "remove_issuer E keccak appId network u ap tr issuer_id issuer_url =
     (let finish = (\<lambda>pf. p_run (await (request E (app_route (DelIssuer appId issuer_id pf))) (\<lambda>result.
          seq (list_reload E (app_route (GetIssuers appId)))
            (toast_with_hash result ''Removed'' ''Your operators no longer trust it.'' [])))) in
      p_await (p_run (update_tab (\<lambda>t. t\<lparr>tk_busy := Some issuer_id\<rparr>))) (\<lambda>_.
      p_finally (case (network, u) of
          (Some nw, Some usr) \<Rightarrow> p_await (submit_group_call E (trust_request nw usr (Option.bind ap a_group_address) RemoveIssuer
              [V_text (keccak issuer_url)] (case ap of None \<Rightarrow> False | Some a \<Rightarrow> a_environment a = Development) False) tr)
            (\<lambda>pf. finish (Some (proof_json pf)))
        | _ \<Rightarrow> finish None)
        (\<lambda>t. t\<lparr>tk_busy := None\<rparr>)))"

definition comma_list :: "string \<Rightarrow> string list" where
  "comma_list s = filter (\<lambda>c. c \<noteq> []) (map trim (split_on (CHR '','') s))"

definition issuer_body :: "string \<Rightarrow> string list \<Rightarrow> json option \<Rightarrow> json" where
  "issuer_body trimmed ids pf = jobj [str_field ''issuer'' trimmed, (''client_ids'', Some (JArr (map JStr ids))), (''user_op'', pf)]"

definition finish_add_issuer :: "('e env_scheme) \<Rightarrow> string \<Rightarrow> string \<Rightarrow> string list \<Rightarrow> json option \<Rightarrow> ('t, unit) io" where
  "finish_add_issuer E appId trimmed ids pf =
     await (request E (app_route (PutIssuer appId (issuer_body trimmed ids pf)))) (\<lambda>result.
     seq (toast_with_hash result ''Issuer added'' ''Your operators trust it now.''
            ''It will be written to your group when you deploy it.'')
       (list_reload E (app_route (GetIssuers appId))))"

definition add_issuer :: "('e onchain_env_scheme) \<Rightarrow> string \<Rightarrow> network_config option \<Rightarrow> user option \<Rightarrow> string option \<Rightarrow> bool \<Rightarrow> transport \<Rightarrow>
    string \<Rightarrow> string \<Rightarrow> ('t, unit) tpoll" where
  "add_issuer E appId network u group_address sponsored tr issuer_text client_text =
     (let trimmed = trim issuer_text; ids = comma_list client_text in
      p_finally (case (network, u) of
          (Some nw, Some usr) \<Rightarrow> p_await (submit_group_call E (trust_request nw usr group_address AddIssuer
              [V_text trimmed, V_list (map V_text ids)] sponsored True) tr)
            (\<lambda>pf. p_run (finish_add_issuer E appId trimmed ids (Some (proof_json pf))))
        | _ \<Rightarrow> p_run (finish_add_issuer E appId trimmed ids None))
        (\<lambda>t. t\<lparr>tk_stage := None\<rparr>))"

definition save_issuer_enabled :: "bool \<Rightarrow> string \<Rightarrow> bool" where
  "save_issuer_enabled pending issuer_text \<longleftrightarrow> \<not> (pending \<or> trim issuer_text = [])"

subsection \<open>What the server reads\<close>

text \<open>\<open>handleCreateCredential\<close> and \<open>handlePutIssuer\<close> (\<open>backend/internal/api/handlers_apps.go\<close>) look for the
  operation and for the transaction hash at the top of the request's body.\<close>

definition server_proof :: "json \<Rightarrow> json option \<times> json option" where
  "server_proof body = (jget ''user_op'' body, jget ''transaction_hash'' body)"

subsection \<open>Properties\<close>

lemma p_await_apply: "m t = Some (Inr x, t') \<Longrightarrow> p_await m f t = f x t'" "m t = Some (Inl e, t') \<Longrightarrow> p_await m f t = Some (Inl e, t')"
  "m t = None \<Longrightarrow> p_await m f t = None"
  by (simp_all add: p_await_def)

text \<open>What an observer outside the page can see of a run: everything but the value revealed on it.\<close>

definition unrevealed :: "((jserr + 'a) \<times> 't trust_tab_scheme) option \<Rightarrow> ((jserr + 'a) \<times> 't trust_tab_scheme) option" where
  "unrevealed res = map_option (\<lambda>(r, t). (r, t\<lparr>tk_revealed := None\<rparr>)) res"

lemma record_auth_key_hides:
  "unrevealed (p_run (record_auth_key E appId lbl priv pub_hex pf) t) = unrevealed (p_run (record_auth_key E appId lbl priv' pub_hex pf) t)"
  by (auto simp: unrevealed_def p_run_def record_auth_key_def seq_def await_def update_tab_def split: sum.splits prod.splits)

lemma unrevealed_await:
  "(\<And>x s. unrevealed (f x s) = unrevealed (g x s)) \<Longrightarrow> unrevealed (p_await m f t) = unrevealed (p_await m g t)"
  by (auto simp: p_await_def split: option.split sum.split)

text \<open>C20: the private half of an authorization key never leaves the browser. Two generators that agree on the
  public key, however different their private keys, give runs with the same result and the same tab:
  the same requests, the same wallet and SDK calls, the same storage; only what the page reveals to
  the developer differs.\<close>

theorem private_key_stays:
  fixes E :: "'e onchain_env_scheme" and gen gen' :: "event list \<Rightarrow> byte list \<times> byte list"
  assumes "\<And>h. snd (gen h) = snd (gen' h)"
  shows "unrevealed (create_auth_key E gen appId network u group_address sponsored tr lbl t) =
    unrevealed (create_auth_key E gen' appId network u group_address sponsored tr lbl t)"
proof -
  obtain t1 where g: "seq (set_text ''Generating a keypair in your browser'')
      (external (Sdk ''randomPrivateKey'' []) (\<lambda>h. Inr (gn h))) t = (Inr (gn (trace t1)), logged [Sdk ''randomPrivateKey'' []] t1)"
    for gn :: "event list \<Rightarrow> byte list \<times> byte list"
    by (rule that [of "snd (set_text ''Generating a keypair in your browser'' t)"])
      (simp add: seq_def await_def set_text_def stage_cb_apply update_tab_def external_apply logged_def)
  show ?thesis
    by (auto simp: create_auth_key_def p_await_def p_run_def g Let_def assms split_beta split: option.split sum.split
        intro: record_auth_key_hides [unfolded p_run_def])
qed

lemma set_text_apply: "set_text s t = (Inr (), (logged [Stage s] t)\<lparr>tk_stage := Some s\<rparr>)"
  by (simp add: set_text_def seq_def await_def stage_cb_apply update_tab_def logged_def)

lemma external_logged: "external e (\<lambda>h. Inr (g h)) t = (Inr (g (trace t)), logged [e] t)"
  by (simp add: external_apply logged_def)

lemma list_reload_returns: "\<exists>t'. list_reload E r t = (Inr (), t')"
  unfolding list_reload_def by (rule try_catch_unit)

lemma revealed_logged [simp]: "tk_revealed (logged es t) = tk_revealed t"
  by (simp add: logged_def)

lemma record_auth_key_ends:
  fixes t2 :: "'t trust_tab_scheme"
  defines "t3 \<equiv> (logged [Stage ''Recording it on the platform''] t2)\<lparr>tk_stage := Some ''Recording it on the platform''\<rparr>"
  shows "case request E (app_route (PostCredential appId (auth_key_body lbl pub_hex pf))) t3 of
      (Inl e, t4) \<Rightarrow> record_auth_key E appId lbl priv_hex pub_hex pf t2 = (Inl e, t4) \<and> tk_revealed t4 = tk_revealed t2
    | (Inr j, t4) \<Rightarrow> (\<exists>t5. record_auth_key E appId lbl priv_hex pub_hex pf t2 = (Inr (), t5) \<and> tk_revealed t5 = Some (reveal_key priv_hex lbl))"
proof -
  obtain r t4 where q: "request E (app_route (PostCredential appId (auth_key_body lbl pub_hex pf))) t3 = (r, t4)" by fastforce
  then have t4: "tk_revealed t4 = tk_revealed t2"
    using request_ends [OF q] by (simp add: t3_def)
  have s: "set_text ''Recording it on the platform'' t2 = (Inr (), t3)"
    by (simp add: set_text_def t3_def seq_def await_def stage_cb_apply update_tab_def logged_def)
  show ?thesis
  proof (cases r)
    case (Inl e)
    then show ?thesis using q s t4 by (simp add: record_auth_key_def seq_def await_def)
  next
    case (Inr j)
    let ?t5 = "logged [Toast Toast_success ''Authorization key added to your group'' []] (t4\<lparr>tk_stage := None\<rparr>)"
    obtain t6 where "list_reload E (app_route (GetCredentials appId)) ?t5 = (Inr (), t6)" using list_reload_returns by blast
    then show ?thesis using q s Inr
      by (simp add: record_auth_key_def seq_def await_def update_tab_def toast_def log_event_apply logged_def)
  qed
qed

definition demo_trust_tab :: trust_tab where
  "demo_trust_tab = provider_tab.extend (initial_provider empty_tab) (trust_tab.fields None None None)"

theorem private_key_stays_witness:
  "unrevealed (create_auth_key demo_onchain_env (\<lambda>_. ([1], [2, 3])) ''a1'' (Some demo_network) (Some demo_user) (Some ''0x6a'') True
      (T_userop ''0xw'') ''k'' demo_trust_tab) =
   unrevealed (create_auth_key demo_onchain_env (\<lambda>_. ([9], [2, 3])) ''a1'' (Some demo_network) (Some demo_user) (Some ''0x6a'') True
      (T_userop ''0xw'') ''k'' demo_trust_tab)"
  by (rule private_key_stays) simp

text \<open>C21: a key is shown only once the platform has recorded it, and lost if it has not. When the submission has
  returned its proof and the record is then refused, the run throws and reveals nothing, although the
  group may already trust the key; when it is recorded, the private key is revealed with its label.\<close>

theorem auth_key_lost_unless_recorded:
  "(case submit_group_call E (trust_request nw usr (Some (c # cs)) AddAuthKey [V_text (''0x'' @ bytes_to_hex pub)] sponsored True) tr
      (logged [Sdk ''randomPrivateKey'' []] ((logged [Stage ''Generating a keypair in your browser''] t)\<lparr>tk_stage := Some ''Generating a keypair in your browser''\<rparr>)) of
    Some (Inr pf, t2) \<Rightarrow>
      (let t3 = (logged [Stage ''Recording it on the platform''] t2)\<lparr>tk_stage := Some ''Recording it on the platform''\<rparr>;
           out = create_auth_key E (\<lambda>_. (priv, pub)) appId (Some nw) (Some usr) (Some (c # cs)) sponsored tr lbl t
       in (case request E (app_route (PostCredential appId (auth_key_body lbl (''0x'' @ bytes_to_hex pub) pf))) t3 of
             (Inl e, t4) \<Rightarrow> out = Some (Inl e, t4) \<and> tk_revealed t4 = tk_revealed t2
           | (Inr j, t4) \<Rightarrow> (\<exists>t5. out = Some (Inr (), t5) \<and> tk_revealed t5 = Some (reveal_key (bytes_to_hex priv) lbl))))
  | _ \<Rightarrow> True)"
proof -
  let ?t1 = "logged [Sdk ''randomPrivateKey'' []] ((logged [Stage ''Generating a keypair in your browser''] t)\<lparr>tk_stage := Some ''Generating a keypair in your browser''\<rparr>)"
  let ?sub = "submit_group_call E (trust_request nw usr (Some (c # cs)) AddAuthKey [V_text (''0x'' @ bytes_to_hex pub)] sponsored True) tr ?t1"
  have run: "create_auth_key E (\<lambda>_. (priv, pub)) appId (Some nw) (Some usr) (Some (c # cs)) sponsored tr lbl t =
      p_await (\<lambda>_. ?sub) (\<lambda>pf. p_run (record_auth_key E appId lbl (bytes_to_hex priv) (''0x'' @ bytes_to_hex pub) pf)) ?t1"
    by (simp add: create_auth_key_def truthy_str_def p_await_def p_run_def seq_def await_def set_text_apply external_logged Let_def)
  show ?thesis
  proof (cases ?sub)
    case (Some res)
    obtain r t2 where res: "res = (r, t2)" by fastforce
    show ?thesis
    proof (cases r)
      case (Inr pf)
      have "create_auth_key E (\<lambda>_. (priv, pub)) appId (Some nw) (Some usr) (Some (c # cs)) sponsored tr lbl t =
          Some (record_auth_key E appId lbl (bytes_to_hex priv) (''0x'' @ bytes_to_hex pub) pf t2)"
        unfolding run Some res Inr by (simp add: p_await_def p_run_def)
      then show ?thesis
        unfolding Some res Inr option.case prod.case sum.case Let_def
        using record_auth_key_ends [where E = E and appId = appId and lbl = lbl and pub_hex = "''0x'' @ bytes_to_hex pub"
          and priv_hex = "bytes_to_hex priv" and pf = pf and ?t2.0 = t2]
        by (simp only: option.inject)
    next
      case (Inl e)
      show ?thesis unfolding Some res Inl by simp
    qed
  next
    case None
    show ?thesis unfolding None by simp
  qed
qed

text \<open>The proof of a new key or issuer is put where the server does not look. Of the proof as it is sent to
  remove one, the server reads the operation or the transaction hash; of the requests that add one it
  reads, for the operation, an object with neither a sender nor a signature, and no hash at all.\<close>

theorem added_proof_is_nested:
  "(case pf of Proof_user_op op \<Rightarrow> server_proof (proof_json (Some pf)) = (Some (json_of_user_op op), None)
    | Proof_transaction h \<Rightarrow> server_proof (proof_json (Some pf)) = (None, Some h)) \<and>
   server_proof (auth_key_body lbl pub_hex (Some pf)) = (Some (proof_json (Some pf)), None) \<and>
   server_proof (issuer_body issuer_url ids (Some (proof_json (Some pf)))) = (Some (proof_json (Some pf)), None) \<and>
   jget ''sender'' (proof_json (Some pf)) = None \<and> jget ''signature'' (proof_json (Some pf)) = None"
  by (cases pf) (simp_all add: server_proof_def proof_json_def json_of_proof_def auth_key_body_def issuer_body_def jobj_def str_field_def)

end
