(* ===== verification/Nav.thy ===== *)
theory Nav
  imports World
begin

text \<open>
  \<open>web/components/console/nav.ts\<close>: the console's navigation, and which entry of it a page highlights.
\<close>

record nav_item =
  nv_href :: string
  nv_label :: string
  nv_exact :: bool

record nav_group =
  ng_title :: "string option"
  ng_items :: "nav_item list"

definition nav_item :: "string \<Rightarrow> string \<Rightarrow> nav_item" where
  "nav_item href lbl = \<lparr>nv_href = href, nv_label = lbl, nv_exact = False\<rparr>"

definition exact_item :: "string \<Rightarrow> string \<Rightarrow> nav_item" where
  "exact_item href lbl = \<lparr>nv_href = href, nv_label = lbl, nv_exact = True\<rparr>"

definition app_nav :: "string \<Rightarrow> nav_group list" where
  "app_nav appId = (let base = ''/apps/'' @ appId in
     [\<lparr>ng_title = None, ng_items =
        [exact_item base ''Overview'', nav_item (base @ ''/users'') ''Users'', nav_item (base @ ''/wallets'') ''Wallets'',
         nav_item (base @ ''/analytics'') ''Analytics'', nav_item (base @ ''/logs'') ''Activity'']\<rparr>,
      \<lparr>ng_title = Some ''Signing group'', ng_items =
        [nav_item (base @ ''/group'') ''Operators & threshold'', nav_item (base @ ''/credentials'') ''Keys & credentials'']\<rparr>,
      \<lparr>ng_title = Some ''Configuration'', ng_items =
        [nav_item (base @ ''/configuration/login-methods'') ''Login methods'',
         nav_item (base @ ''/configuration/branding'') ''Branding'',
         nav_item (base @ ''/configuration/wallets'') ''Embedded wallets'',
         nav_item (base @ ''/configuration/smart-accounts'') ''Smart accounts'',
         nav_item (base @ ''/configuration/session-signers'') ''Session signers'',
         nav_item (base @ ''/configuration/policies'') ''Policies'',
         nav_item (base @ ''/configuration/funding'') ''Funding'']\<rparr>,
      \<lparr>ng_title = Some ''Settings'', ng_items =
        [exact_item (base @ ''/settings'') ''Basics'', nav_item (base @ ''/settings/domains'') ''Domains'',
         nav_item (base @ ''/settings/webhooks'') ''Webhooks'']\<rparr>])"

definition org_nav :: "string \<Rightarrow> nav_group list" where
  "org_nav orgId = (let base = ''/org/'' @ orgId in
     [\<lparr>ng_title = Some ''Organization'', ng_items =
        [nav_item (base @ ''/members'') ''Members'', nav_item (base @ ''/billing'') ''Billing'',
         nav_item (base @ ''/settings'') ''Settings'']\<rparr>])"

definition staff_nav :: "nav_group list" where
  "staff_nav = [\<lparr>ng_title = Some ''Platform'', ng_items = [exact_item ''/staff'' ''Overview'']\<rparr>]"

definition is_active :: "string \<Rightarrow> nav_item \<Rightarrow> bool" where
  "is_active pathname item \<longleftrightarrow> (if nv_exact item then pathname = nv_href item
     else pathname = nv_href item \<or> starts_with (nv_href item @ ''/'') pathname)"

subsection \<open>Entries that exclude each other\<close>

text \<open>An entry highlights the pages below its address: with a slash at the end of both, its address is a
  prefix of the page's. Two entries can share a page only if one lies below the other.\<close>

definition below :: "string \<Rightarrow> string \<Rightarrow> bool" where
  "below a b \<longleftrightarrow> starts_with (a @ ''/'') (b @ ''/'')"

definition excludes :: "nav_item \<Rightarrow> nav_item \<Rightarrow> bool" where
  "excludes i j \<longleftrightarrow> nv_href i \<noteq> nv_href j \<and> (nv_exact j \<or> \<not> below (nv_href j) (nv_href i)) \<and>
     (nv_exact i \<or> \<not> below (nv_href i) (nv_href j))"

lemma below_refl [simp]: "below a a"
  by (simp add: below_def starts_with_def)

lemma active_below: "is_active p i \<Longrightarrow> \<not> nv_exact i \<Longrightarrow> below (nv_href i) p"
  by (auto simp: is_active_def below_def starts_with_iff)

lemma below_same_page: "below a p \<Longrightarrow> below b p \<Longrightarrow> below a b \<or> below b a"
proof -
  assume "below a p" and "below b p"
  then obtain u v where "p @ ''/'' = (a @ ''/'') @ u" and "p @ ''/'' = (b @ ''/'') @ v"
    unfolding below_def starts_with_iff by blast
  then have "(a @ ''/'') @ u = (b @ ''/'') @ v" by simp
  then obtain w where "a @ ''/'' = (b @ ''/'') @ w \<or> (a @ ''/'') @ w = b @ ''/''"
    unfolding append_eq_append_conv2 by blast
  then show ?thesis unfolding below_def starts_with_iff by metis
qed

lemma excludes_active:
  assumes "excludes i j" and "is_active p i"
  shows "\<not> is_active p j"
proof
  assume "is_active p j"
  show False
  proof (cases "nv_exact i \<or> nv_exact j")
    case True
    with assms \<open>is_active p j\<close> show False
      using active_below [of p i] active_below [of p j]
      by (cases "nv_exact i"; cases "nv_exact j") (auto simp: excludes_def is_active_def)
  next
    case False
    then have "below (nv_href i) p" "below (nv_href j) p"
      using active_below assms(2) \<open>is_active p j\<close> by blast+
    with below_same_page have "below (nv_href i) (nv_href j) \<or> below (nv_href j) (nv_href i)" .
    with False assms(1) show False by (simp add: excludes_def)
  qed
qed

lemma excluding_items: "sorted_wrt excludes is \<Longrightarrow> length (filter (is_active p) is) \<le> 1"
proof (induction "is")
  case (Cons i rest)
  show ?case
  proof (cases "is_active p i")
    case True
    then have "filter (is_active p) rest = []"
      using Cons.prems excludes_active by (auto simp: filter_empty_conv)
    then show ?thesis by simp
  qed (use Cons in simp)
qed simp

text \<open>All addresses of a navigation start with its base, so whether entries exclude each other depends
  on what follows.\<close>

definition under :: "string \<Rightarrow> nav_item \<Rightarrow> nav_item" where
  "under base i = i\<lparr>nv_href := base @ nv_href i\<rparr>"

lemma starts_with_same [simp]: "starts_with (base @ a) (base @ b) \<longleftrightarrow> starts_with a b"
  by (induction base) simp_all

lemma below_under: "below (base @ a) (base @ b) \<longleftrightarrow> below a b"
  by (simp add: below_def)

lemma excludes_under: "excludes (under base i) (under base j) \<longleftrightarrow> excludes i j"
  by (simp add: excludes_def under_def below_under)

lemma sorted_under: "sorted_wrt excludes is \<Longrightarrow> sorted_wrt excludes (map (under base) is)"
  by (simp add: sorted_wrt_map excludes_under)

definition app_entries :: "nav_item list" where
  "app_entries =
     [exact_item [] ''Overview'', nav_item ''/users'' ''Users'', nav_item ''/wallets'' ''Wallets'',
      nav_item ''/analytics'' ''Analytics'', nav_item ''/logs'' ''Activity'',
      nav_item ''/group'' ''Operators & threshold'', nav_item ''/credentials'' ''Keys & credentials'',
      nav_item ''/configuration/login-methods'' ''Login methods'', nav_item ''/configuration/branding'' ''Branding'',
      nav_item ''/configuration/wallets'' ''Embedded wallets'', nav_item ''/configuration/smart-accounts'' ''Smart accounts'',
      nav_item ''/configuration/session-signers'' ''Session signers'', nav_item ''/configuration/policies'' ''Policies'',
      nav_item ''/configuration/funding'' ''Funding'', exact_item ''/settings'' ''Basics'',
      nav_item ''/settings/domains'' ''Domains'', nav_item ''/settings/webhooks'' ''Webhooks'']"

definition org_entries :: "nav_item list" where
  "org_entries = [nav_item ''/members'' ''Members'', nav_item ''/billing'' ''Billing'', nav_item ''/settings'' ''Settings'']"

lemma entries_exclude: "sorted_wrt excludes app_entries" "sorted_wrt excludes org_entries"
  by code_simp+

definition nav_items :: "nav_group list \<Rightarrow> nav_item list" where
  "nav_items gs = concat (map ng_items gs)"

lemma nav_items_under:
  "nav_items (app_nav a) = map (under (''/apps/'' @ a)) app_entries"
  "nav_items (org_nav g) = map (under (''/org/'' @ g)) org_entries"
  by (simp_all add: nav_items_def app_nav_def org_nav_def Let_def nav_item_def exact_item_def under_def
      app_entries_def org_entries_def)

lemma entries_highlighted:
  "length (filter (is_active p) (nav_items (app_nav a))) \<le> 1"
  "length (filter (is_active p) (nav_items (org_nav g))) \<le> 1"
  "i \<in> set (nav_items (app_nav a)) \<Longrightarrow> filter (is_active (nv_href i)) (nav_items (app_nav a)) = [i]"
proof -
  have e: "sorted_wrt excludes (nav_items (app_nav a))" "sorted_wrt excludes (nav_items (org_nav g))"
    unfolding nav_items_under by (simp_all only: sorted_under entries_exclude)
  show "length (filter (is_active p) (nav_items (app_nav a))) \<le> 1" "length (filter (is_active p) (nav_items (org_nav g))) \<le> 1"
    using e by (simp_all only: excluding_items)
  assume "i \<in> set (nav_items (app_nav a))"
  then have "i \<in> set (filter (is_active (nv_href i)) (nav_items (app_nav a)))" by (simp add: is_active_def)
  with excluding_items [OF e(1), of "nv_href i"] show "filter (is_active (nv_href i)) (nav_items (app_nav a)) = [i]"
    by (cases "filter (is_active (nv_href i)) (nav_items (app_nav a))") (simp_all add: le_Suc_eq)
qed

end
