(* ===== verification/Hooks.thy ===== *)
theory Hooks
  imports World "HOL-Library.Multiset"
begin

text \<open>
  \<open>web/lib/hooks.ts\<close>: the three hooks the screens are built on, as step relations, because what they
  guard against is interleaving: a request that answers late, a second click. \<open>useQuery\<close> numbers
  its runs; \<open>useAction\<close> refuses to run twice at once. A run that is in flight may settle at any
  later step, or never. The states carry two ghost fields no code reads: the numbers of the runs
  whose result was shown, in order, and how many actions are running.
\<close>

subsection \<open>Fetch on mount, with refresh\<close>

record 'a query =
  q_data :: "'a option"
  q_error :: "jserr option"
  q_loading :: bool
  q_generation :: nat
  q_in_flight :: "nat multiset"
  q_mounted :: bool
  q_shown :: "nat list"

definition query_init :: "'a query" where
  "query_init = \<lparr>q_data = None, q_error = None, q_loading = True, q_generation = 0, q_in_flight = {#},
     q_mounted = False, q_shown = []\<rparr>"

text \<open>\<open>run(showSpinner)\<close> up to its first \<open>await\<close>.\<close>

definition query_run :: "bool \<Rightarrow> 'a query \<Rightarrow> 'a query" where
  "query_run spinner q = q\<lparr>q_generation := q_generation q + 1,
     q_loading := (if spinner then True else q_loading q),
     q_in_flight := add_mset (q_generation q + 1) (q_in_flight q)\<rparr>"

text \<open>The rest of \<open>run\<close>, when the fetcher of run \<open>mine\<close> has resolved or rejected.\<close>

definition query_settle :: "nat \<Rightarrow> jserr + 'a \<Rightarrow> 'a query \<Rightarrow> 'a query" where
  "query_settle mine res q =
     (let q = q\<lparr>q_in_flight := q_in_flight q - {#mine#}\<rparr> in
      if q_generation q \<noteq> mine then q
      else (case res of
        Inr x \<Rightarrow> q\<lparr>q_data := Some x, q_error := None, q_loading := False, q_shown := q_shown q @ [mine]\<rparr>
      | Inl e \<Rightarrow> q\<lparr>q_error := Some e, q_loading := False\<rparr>))"

text \<open>The cleanup of the effect, on a change of dependencies (the effect then runs again) or on unmount.\<close>

definition query_cleanup :: "'a query \<Rightarrow> 'a query" where
  "query_cleanup q = q\<lparr>q_generation := q_generation q + 1, q_mounted := False\<rparr>"

definition query_effect :: "'a query \<Rightarrow> 'a query" where
  "query_effect q = (query_run True q)\<lparr>q_mounted := True\<rparr>"

definition query_refresh :: "'a query \<Rightarrow> 'a query" where
  "query_refresh q = query_run False q"

definition query_set :: "('a option \<Rightarrow> 'a) \<Rightarrow> 'a query \<Rightarrow> 'a query" where
  "query_set f q = q\<lparr>q_data := Some (f (q_data q))\<rparr>"

inductive query_step :: "'a query \<Rightarrow> 'a query \<Rightarrow> bool" where
  q_mount: "\<not> q_mounted q \<Longrightarrow> query_step q (query_effect q)"
| q_deps: "q_mounted q \<Longrightarrow> query_step q (query_effect (query_cleanup q))"
| q_unmount: "q_mounted q \<Longrightarrow> query_step q (query_cleanup q)"
| q_refresh: "query_step q (query_refresh q)"
| q_set: "query_step q (query_set f q)"
| q_settle: "mine \<in># q_in_flight q \<Longrightarrow> query_step q (query_settle mine res q)"

inductive_cases query_stepE: "query_step q q'"
inductive_simps query_step_simps: "query_step q q'"

definition query_start :: "'a query \<Rightarrow> bool" where
  "query_start q \<longleftrightarrow> q = query_init"

text \<open>Runs are numbered below the counter and in flight once; results were shown in the order of their
  numbers and none of them is still to come; while the screen loads, the newest run is in flight.\<close>

definition query_inv :: "'a query \<Rightarrow> bool" where
  "query_inv q \<longleftrightarrow> (\<forall>m. m \<in># q_in_flight q \<longrightarrow> m \<le> q_generation q) \<and>
     sorted_wrt (<) (q_shown q) \<and> (\<forall>m \<in> set (q_shown q). m \<le> q_generation q) \<and>
     (q_generation q \<in># q_in_flight q \<longrightarrow> q_generation q \<notin> set (q_shown q)) \<and>
     (\<forall>m. count (q_in_flight q) m \<le> 1) \<and>
     (q_mounted q \<and> q_loading q \<longrightarrow> q_generation q \<in># q_in_flight q)"

lemma fresh_number: "query_inv q \<Longrightarrow> Suc (q_generation q) \<notin># q_in_flight q \<and> Suc (q_generation q) \<notin> set (q_shown q)"
  unfolding query_inv_def by (meson Suc_n_not_le_n)

lemma query_run_inv:
  assumes "query_inv q"
  shows "query_inv (query_run b q)"
proof -
  have "count (q_in_flight q) (Suc (q_generation q)) = 0"
    using fresh_number [OF assms] by (simp add: not_in_iff)
  then show ?thesis
    using assms fresh_number [OF assms] by (auto simp: query_inv_def query_run_def intro: le_SucI)
qed

lemma query_cleanup_inv: "query_inv q \<Longrightarrow> query_inv (query_cleanup q)"
  using fresh_number [of q] by (auto simp: query_inv_def query_cleanup_def intro: le_SucI)

lemma query_mounted_inv: "query_inv q \<Longrightarrow> q_generation q \<in># q_in_flight q \<Longrightarrow> query_inv (q\<lparr>q_mounted := m\<rparr>)"
  by (auto simp: query_inv_def)

lemma query_effect_inv: "query_inv q \<Longrightarrow> query_inv (query_effect q)"
  unfolding query_effect_def
  by (rule query_mounted_inv, rule query_run_inv) (auto simp: query_run_def)

lemma query_land_inv:
  assumes "query_inv q" and "m \<noteq> q_generation q \<or> \<not> q_loading q"
  shows "query_inv (q\<lparr>q_in_flight := q_in_flight q - {#m#}\<rparr>)"
proof -
  have "count (q_in_flight q - {#m#}) x \<le> 1" for x
  proof -
    have "count (q_in_flight q - {#m#}) x \<le> count (q_in_flight q) x" by simp
    also have "\<dots> \<le> 1" using assms(1) by (simp add: query_inv_def)
    finally show ?thesis .
  qed
  moreover have "x \<in># q_in_flight q - {#m#} \<Longrightarrow> x \<in># q_in_flight q" for x by (rule in_diffD)
  moreover have "m \<noteq> q_generation q \<Longrightarrow> q_generation q \<in># q_in_flight q \<Longrightarrow> q_generation q \<in># q_in_flight q - {#m#}"
    by (simp add: in_diff_count)
  ultimately show ?thesis using assms unfolding query_inv_def by auto
qed

lemma query_settle_inv:
  assumes "query_inv q" and "mine \<in># q_in_flight q"
  shows "query_inv (query_settle mine res q)"
proof (cases "q_generation q = mine")
  case False
  then show ?thesis
    using query_land_inv [OF assms(1), of mine] by (simp add: query_settle_def Let_def)
next
  case True
  define q1 where "q1 = q\<lparr>q_loading := False, q_in_flight := q_in_flight q - {#mine#}\<rparr>"
  have "query_inv (q\<lparr>q_loading := False\<rparr>)" using assms(1) by (simp add: query_inv_def)
  from query_land_inv [OF this, of mine] have i: "query_inv q1" by (simp add: q1_def)
  have "count (q_in_flight q) mine = 1"
    using assms by (metis count_greater_eq_one_iff le_antisym query_inv_def)
  then have n: "mine \<notin># q_in_flight q1" by (simp add: not_in_iff q1_def)
  have s: "\<forall>m \<in> set (q_shown q1). m < mine"
    using assms True by (auto simp: query_inv_def order_le_less q1_def)
  show ?thesis
  proof (cases res)
    case (Inl e)
    then show ?thesis using i True by (simp add: query_settle_def Let_def query_inv_def q1_def)
  next
    case (Inr x)
    then have "query_settle mine res q = q1\<lparr>q_data := Some x, q_error := None, q_shown := q_shown q1 @ [mine]\<rparr>"
      using True by (simp add: query_settle_def Let_def q1_def)
    moreover have "q_generation q1 = mine" "\<not> q_loading q1" using True by (simp_all add: q1_def)
    ultimately show ?thesis using i n s by (auto simp: query_inv_def sorted_wrt_append)
  qed
qed

interpretation query: machine query_start query_step query_inv
proof
  show "query_start s \<Longrightarrow> query_inv s" for s :: "'a query"
    by (simp add: query_start_def query_init_def query_inv_def)
  show "query_inv s \<Longrightarrow> query_step s s' \<Longrightarrow> query_inv s'" for s s' :: "'a query"
    by (erule query_stepE)
      (auto simp: query_refresh_def intro: query_effect_inv query_cleanup_inv query_run_inv query_settle_inv,
       auto simp: query_inv_def query_set_def)
qed

subsection \<open>One action at a time\<close>

record action =
  ac_in_flight :: bool
  ac_pending :: bool
  ac_error :: "jserr option"
  ac_running :: nat

definition action_init :: action where
  "action_init = \<lparr>ac_in_flight = False, ac_pending = False, ac_error = None, ac_running = 0\<rparr>"

text \<open>A call of \<open>run\<close> up to the action's first \<open>await\<close>; whether the action was started.\<close>

definition action_call :: "action \<Rightarrow> bool \<times> action" where
  "action_call a = (if ac_in_flight a then (False, a)
     else (True, a\<lparr>ac_in_flight := True, ac_pending := True, ac_error := None, ac_running := ac_running a + 1\<rparr>))"

definition action_settle :: "jserr option \<Rightarrow> action \<Rightarrow> action" where
  "action_settle err a = a\<lparr>ac_error := (case err of None \<Rightarrow> ac_error a | Some e \<Rightarrow> Some e),
     ac_in_flight := False, ac_pending := False, ac_running := ac_running a - 1\<rparr>"

inductive action_step :: "action \<Rightarrow> action \<Rightarrow> bool" where
  a_call: "action_step a (snd (action_call a))"
| a_settle: "0 < ac_running a \<Longrightarrow> action_step a (action_settle err a)"

inductive_cases action_stepE: "action_step a a'"

definition action_start :: "action \<Rightarrow> bool" where
  "action_start a \<longleftrightarrow> a = action_init"

definition action_inv :: "action \<Rightarrow> bool" where
  "action_inv a \<longleftrightarrow> ac_running a = (if ac_in_flight a then 1 else 0) \<and> ac_pending a = ac_in_flight a \<and>
     (ac_pending a \<longrightarrow> ac_error a = None)"

interpretation action: machine action_start action_step action_inv
proof
  show "action_start s \<Longrightarrow> action_inv s" for s
    by (simp add: action_start_def action_init_def action_inv_def)
  show "action_inv s \<Longrightarrow> action_step s s' \<Longrightarrow> action_inv s'" for s s'
    by (erule action_stepE) (auto simp: action_inv_def action_call_def action_settle_def split: if_splits)
qed

text \<open>\<open>useTicker\<close>\<close>

definition ticker_tick :: "nat \<Rightarrow> nat" where
  "ticker_tick tick = tick + 1"

subsection \<open>Properties\<close>

text \<open>A slow answer never replaces a fresher one. In every state a screen's query can reach, with
  refreshes, changes of dependencies, unmounts and local updates in any order and answers arriving
  in any order or never, the results shown were those of runs started one after the other, and none
  shown is newer than the last run started; and a mounted screen that shows its spinner has its
  newest run still in flight, so the spinner goes away when that run settles.\<close>

theorem query_shows_in_order:
  assumes "reachable query_start query_step q"
  shows "sorted_wrt (<) (q_shown q) \<and> (\<forall>m \<in> set (q_shown q). m \<le> q_generation q) \<and>
    (q_mounted q \<and> q_loading q \<longrightarrow> q_generation q \<in># q_in_flight q \<and>
       (\<forall>res. \<not> q_loading (query_settle (q_generation q) res q)))"
  using query.invariant [OF assms]
  by (auto simp: query_inv_def query_settle_def Let_def split: sum.splits)

theorem query_shows_in_order_witness:
  "q_shown (query_settle 1 (Inr ''old'') (query_settle 2 (Inr ''new'') (query_refresh (query_effect query_init)))) = [2] \<and>
   q_data (query_settle 1 (Inr ''old'') (query_settle 2 (Inr ''new'') (query_refresh (query_effect query_init)))) = Some ''new'' \<and>
   sorted_wrt (<) (q_shown (query_settle 1 (Inr ''old'') (query_settle 2 (Inr ''new'') (query_refresh (query_effect query_init)))))"
proof -
  let ?q1 = "query_effect query_init :: string query" let ?q2 = "query_refresh ?q1"
  let ?q3 = "query_settle 2 (Inr ''new'') ?q2" let ?q4 = "query_settle 1 (Inr ''old'') ?q3"
  note e = query_effect_def query_refresh_def query_run_def query_init_def query_settle_def Let_def numeral_2_eq_2
  have "query_step query_init ?q1" by (rule q_mount) (simp add: query_init_def)
  moreover have "query_step ?q1 ?q2" by (rule q_refresh)
  moreover have "query_step ?q2 ?q3" by (rule q_settle) (simp add: e)
  moreover have "query_step ?q3 ?q4" by (rule q_settle) (simp add: e)
  ultimately have "reachable query_start query_step ?q4"
    by (meson reach_init reach_next query_start_def)
  then have "sorted_wrt (<) (q_shown ?q4)" using query_shows_in_order by blast
  then show ?thesis by (simp add: e)
qed

text \<open>A double click submits once. In every state an action can reach, at most one run of it is in
  flight; the button is disabled exactly while it is; and a call made then starts nothing and
  changes nothing. While a run is in flight no error of an earlier one is shown.\<close>

theorem action_runs_once:
  assumes "reachable action_start action_step a"
  shows "ac_running a \<le> 1 \<and> (ac_pending a \<longleftrightarrow> ac_running a = 1) \<and>
    (ac_pending a \<longrightarrow> action_call a = (False, a) \<and> ac_error a = None)"
  using action.invariant [OF assms] by (auto simp: action_inv_def action_call_def)

theorem action_runs_once_witness:
  "action_call (snd (action_call action_init)) = (False, snd (action_call action_init))"
proof -
  have "reachable action_start action_step (snd (action_call action_init))"
    by (meson reach_init reach_next action_start_def a_call)
  moreover have "ac_pending (snd (action_call action_init))" by (simp add: action_call_def action_init_def)
  ultimately show ?thesis using action_runs_once by blast
qed

subsection \<open>A cell that only newer answers overwrite\<close>

text \<open>What a screen relies on: a value with the number of the run it came from. It is replaced by the answer
  of a later run, or edited in place; it never goes back.\<close>

type_synonym 'a cell = "nat option \<times> 'a option"

inductive cell_step :: "'a cell \<Rightarrow> 'a cell \<Rightarrow> bool" where
  cell_stays: "cell_step c c"
| cell_answer: "(case v of None \<Rightarrow> True | Some m \<Rightarrow> m < n) \<Longrightarrow> cell_step (v, d) (Some n, Some x)"
| cell_edit: "cell_step (v, d) (v, Some x)"

definition cell_of :: "'a query \<Rightarrow> 'a cell" where
  "cell_of q = (if q_shown q = [] then None else Some (last (q_shown q)), q_data q)"

lemma settle_cell:
  assumes "query_inv q" and "mine \<in># q_in_flight q"
  shows "cell_step (cell_of q) (cell_of (query_settle mine res q))"
proof (cases "q_generation q = mine")
  case True
  have "last (q_shown q) < mine" if "q_shown q \<noteq> []"
    using assms True last_in_set [OF that] by (metis le_neq_implies_less query_inv_def)
  then show ?thesis
    using True by (cases res) (auto simp: query_settle_def Let_def cell_of_def intro: cell_step.intros)
next
  case False
  then show ?thesis by (simp add: query_settle_def Let_def cell_of_def cell_stays)
qed

text \<open>C25: a screen's query implements a cell that only newer answers overwrite. In every reachable state, every
  step of the query (a refresh, a change of dependencies, an unmount, a local edit, an answer that
  arrives, however late) is a step of the cell: it leaves the value and its run alone, edits the
  value in place, or replaces it by the answer of a run started after the one shown.\<close>

theorem query_refines_cell:
  assumes "reachable query_start query_step q" and "query_step q q'"
  shows "cell_step (cell_of q) (cell_of q')"
  using assms(2)
proof cases
  case (q_settle mine res)
  then show ?thesis using settle_cell [OF query.invariant [OF assms(1)]] by blast
next
  case (q_set f)
  then show ?thesis by (auto simp: cell_of_def query_set_def intro: cell_edit)
qed (simp_all add: cell_of_def query_effect_def query_run_def query_cleanup_def query_refresh_def cell_stays)

theorem query_refines_cell_witness:
  "cell_step (cell_of (query_effect query_init :: string query)) (cell_of (query_settle 1 (Inr ''x'') (query_effect query_init)))"
proof (rule query_refines_cell)
  have "query_step query_init (query_effect query_init :: string query)" by (rule q_mount) (simp add: query_init_def)
  then show "reachable query_start query_step (query_effect query_init :: string query)"
    by (meson reach_init reach_next query_start_def)
  show "query_step (query_effect query_init) (query_settle 1 (Inr ''x'') (query_effect query_init))"
    by (rule q_settle) (simp add: query_effect_def query_run_def query_init_def)
qed

end
