(* ===== verification/Operators.thy ===== *)
theory Operators
  imports Types "HOL-Library.Multiset"
begin

text \<open>
  \<open>web/lib/operators.ts\<close>: nodes grouped by the operator that runs them. The \<open>Map\<close> the code fills keeps
  insertion order and is an association list here. \<open>operatorLabel\<close> splits at white space, a dash,
  white space; the dashes are the bytes of their UTF-8 form.
\<close>

record operator_group =
  grp_address :: string
  grp_label :: string
  grp_nodes :: "node_operator list"
  grp_online_count :: nat
  grp_verified :: bool
  grp_category :: node_category
  grp_jurisdiction :: string
  grp_description :: string
  grp_logo_url :: "string option"
  grp_website_url :: "string option"

subsection \<open>A name for an operator\<close>

definition after_dash :: "string \<Rightarrow> string option" where
  "after_dash s = (if starts_with em_dash s then Some (drop (length em_dash) s)
     else if starts_with en_dash s then Some (drop (length en_dash) s)
     else if starts_with ''-'' s then Some (tl s) else None)"

text \<open>Does \<open>\s+[\<dots>]\s+\<close> match at the start?\<close>

definition separator :: "string \<Rightarrow> bool" where
  "separator s \<longleftrightarrow> s \<noteq> [] \<and> is_space (hd s) \<and>
     (case after_dash (dropWhile is_space s) of None \<Rightarrow> False | Some r \<Rightarrow> r \<noteq> [] \<and> is_space (hd r))"

fun first_segment :: "string \<Rightarrow> string" where
  "first_segment [] = []"
| "first_segment (c # s) = (if separator (c # s) then [] else c # first_segment s)"

definition operator_label :: "node_operator list \<Rightarrow> string" where
  "operator_label nodes = (case nodes of [] \<Rightarrow> ''Unknown operator''
   | first # _ \<Rightarrow>
      if length nodes = 1 then op_name first
      else (let candidate = trim (first_segment (op_name first)) in
        if candidate \<noteq> [] \<and> list_all (\<lambda>n. starts_with candidate (op_name n)) nodes then candidate
        else op_name first))"

subsection \<open>Grouping\<close>

definition operator_key :: "node_operator \<Rightarrow> string" where
  "operator_key n = to_lower (or_else (op_operator_address n) (op_address n))"

fun add_node :: "string \<Rightarrow> 'n \<Rightarrow> (string \<times> 'n list) list \<Rightarrow> (string \<times> 'n list) list" where
  "add_node k n [] = [(k, [n])]"
| "add_node k n ((k', ns) # rest) = (if k' = k then (k', ns @ [n]) # rest else (k', ns) # add_node k n rest)"

definition by_operator :: "node_operator list \<Rightarrow> (string \<times> node_operator list) list" where
  "by_operator nodes = fold (\<lambda>n m. add_node (operator_key n) n m) nodes []"

text \<open>\<open>group.find(n => n.url)?.url ?? null\<close>\<close>

definition first_url :: "('n \<Rightarrow> string option) \<Rightarrow> 'n list \<Rightarrow> string option" where
  "first_url f ns = Option.bind (find (\<lambda>n. truthy_str (f n)) ns) f"

definition is_online :: "node_operator \<Rightarrow> bool" where
  "is_online n \<longleftrightarrow> (case op_health n of None \<Rightarrow> False | Some h \<Rightarrow> h_online h)"

definition group_of :: "string \<Rightarrow> node_operator list \<Rightarrow> operator_group" where
  "group_of address g = \<lparr>grp_address = address, grp_label = operator_label g, grp_nodes = g,
     grp_online_count = length (filter is_online g), grp_verified = list_all op_verified g,
     grp_category = op_category (hd g), grp_jurisdiction = op_jurisdiction (hd g), grp_description = op_description (hd g),
     grp_logo_url = first_url op_logo_url g, grp_website_url = first_url op_website_url g\<rparr>"

definition group_by_operator :: "node_operator list \<Rightarrow> operator_group list" where
  "group_by_operator nodes = map (\<lambda>(address, g). group_of address g) (by_operator nodes)"

definition plural :: "nat \<Rightarrow> string \<Rightarrow> string" where
  "plural n word = dec_of_nat n @ '' '' @ word @ (if n = 1 then [] else ''s'')"

definition describe_fleet :: "nat \<Rightarrow> nat \<Rightarrow> string" where
  "describe_fleet nodes operators = plural nodes ''node'' @ '' '' @ middle_dot @ '' '' @ plural operators ''operator''"

subsection \<open>What grouping computes\<close>

text \<open>The keys in the order they first appear.\<close>

definition first_seen :: "'a list \<Rightarrow> 'a list" where
  "first_seen xs = rev (remdups (rev xs))"

lemma first_seen_Nil [simp]: "first_seen [] = []"
  by (simp add: first_seen_def)

lemma first_seen_snoc: "first_seen (xs @ [x]) = (if x \<in> set xs then first_seen xs else first_seen xs @ [x])"
  by (simp add: first_seen_def)

lemma first_seen_props [simp]: "set (first_seen xs) = set xs" "distinct (first_seen xs)"
  by (simp_all add: first_seen_def)

lemma add_node_other: "k \<notin> fst ` set m \<Longrightarrow> add_node k n m = m @ [(k, [n])]"
  by (induction k n m rule: add_node.induct) auto

lemma add_node_present:
  "k \<in> fst ` set m \<Longrightarrow> distinct (map fst m) \<Longrightarrow>
   add_node k n m = map (\<lambda>(k', ns). if k' = k then (k', ns @ [n]) else (k', ns)) m"
proof (induction k n m rule: add_node.induct)
  case (2 k n k' ns rest)
  show ?case
  proof (cases "k' = k")
    case True
    then have "map (\<lambda>(k', ns). if k' = k then (k', ns @ [n]) else (k', ns)) rest = rest"
      using 2(3) by (intro map_idI) force
    then show ?thesis using True by simp
  qed (use 2 in auto)
qed simp

lemma by_operator_eq:
  "by_operator nodes = map (\<lambda>k. (k, filter (\<lambda>n. operator_key n = k) nodes)) (first_seen (map operator_key nodes))"
proof (induction nodes rule: rev_induct)
  case (snoc x xs)
  let ?m = "map (\<lambda>k. (k, filter (\<lambda>n. operator_key n = k) xs)) (first_seen (map operator_key xs))"
  have b: "by_operator (xs @ [x]) = add_node (operator_key x) x ?m"
    using snoc by (simp add: by_operator_def)
  have k: "fst ` set ?m = operator_key ` set xs" "distinct (map fst ?m)"
    by (simp_all add: image_image comp_def)
  show ?case
  proof (cases "operator_key x \<in> operator_key ` set xs")
    case True
    then show ?thesis
      unfolding b using k by (subst add_node_present) (auto simp: first_seen_snoc)
  next
    case False
    then have "filter (\<lambda>n. operator_key n = operator_key x) xs = []" by (metis (mono_tags, lifting) filter_False imageI)
    with False show ?thesis
      unfolding b using k by (subst add_node_other) (auto simp: first_seen_snoc)
  qed
qed (simp add: by_operator_def)

lemma filter_key_mset:
  "distinct ks \<Longrightarrow> f ` set xs \<subseteq> set ks \<Longrightarrow> (\<Sum>k\<leftarrow>ks. mset (filter (\<lambda>x. f x = k) xs)) = mset xs"
proof (induction ks arbitrary: xs)
  case (Cons k ks)
  have "filter (\<lambda>x. f x = k') xs = filter (\<lambda>x. f x = k') (filter (\<lambda>x. f x \<noteq> k) xs)" if "k' \<in> set ks" for k'
    using that Cons.prems(1) by (auto intro: filter_cong)
  then have "map (\<lambda>k'. mset (filter (\<lambda>x. f x = k') xs)) ks = map (\<lambda>k'. mset (filter (\<lambda>x. f x = k') (filter (\<lambda>x. f x \<noteq> k) xs))) ks"
    by (intro map_cong) simp_all
  moreover have "(\<Sum>k'\<leftarrow>ks. mset (filter (\<lambda>x. f x = k') (filter (\<lambda>x. f x \<noteq> k) xs))) = mset (filter (\<lambda>x. f x \<noteq> k) xs)"
    using Cons.prems by (intro Cons.IH) auto
  ultimately have "(\<Sum>k'\<leftarrow>ks. mset (filter (\<lambda>x. f x = k') xs)) = mset (filter (\<lambda>x. f x \<noteq> k) xs)"
    by argo
  then show ?case
    using multiset_partition [of "mset xs" "\<lambda>x. f x = k"] by (simp del: mset_filter) (simp add: mset_filter)
qed simp

subsection \<open>Properties\<close>

text \<open>The grouping is the partition of the nodes by the operator that runs them. There is one group
  per operator address up to letter case, a node without a recorded operator running itself, in
  the order the operators first appear; each holds exactly that operator's nodes in their order, so
  none is lost or counted twice; and a group is verified only when every node of it is.\<close>

theorem group_by_operator_partitions:
  "map grp_address (group_by_operator nodes) = first_seen (map operator_key nodes) \<and>
   distinct (map grp_address (group_by_operator nodes)) \<and>
   map grp_nodes (group_by_operator nodes) =
     map (\<lambda>k. filter (\<lambda>n. operator_key n = k) nodes) (first_seen (map operator_key nodes)) \<and>
   (\<Sum>g\<leftarrow>group_by_operator nodes. mset (grp_nodes g)) = mset nodes \<and>
   list_all (\<lambda>g. grp_nodes g \<noteq> [] \<and> grp_verified g = list_all op_verified (grp_nodes g)) (group_by_operator nodes)"
proof -
  have e: "group_by_operator nodes = map (\<lambda>k. group_of k (filter (\<lambda>n. operator_key n = k) nodes)) (first_seen (map operator_key nodes))"
    by (simp add: group_by_operator_def by_operator_eq)
  have "(\<Sum>g\<leftarrow>group_by_operator nodes. mset (grp_nodes g)) = mset nodes"
    unfolding e using filter_key_mset [of "first_seen (map operator_key nodes)" operator_key nodes]
    by (simp add: group_of_def comp_def)
  then show ?thesis
    by (auto simp: e group_of_def comp_def list_all_iff filter_empty_conv)
qed

text \<open>An operator's label is never invented. It is the name of the operator's first node, or a name
  that every one of its nodes begins with.\<close>

theorem operator_label_honest:
  "operator_label (n # ns) = op_name n \<or>
   (operator_label (n # ns) \<noteq> [] \<and> list_all (\<lambda>m. starts_with (operator_label (n # ns)) (op_name m)) (n # ns))"
  by (auto simp: operator_label_def Let_def)

end
