(* ===== verification/Settings_Form.thy ===== *)
theory Settings_Form
  imports Hooks Api
begin

text \<open>
  \<open>web/components/console/SettingsForm.tsx\<close>: the form every configuration screen is built on. It loads
  one section of the settings document, lets the screen patch its copy, and saves the whole section.
  The document is JSON; the form is a step relation, because its load, its save and the reload after
  the save each take their time while the user goes on typing. \<open>sf_stored\<close> is a ghost field: the
  section the platform holds, as far as this form's saves have changed it.
\<close>

subsection \<open>The form\<close>

text \<open>\<open>{ ...a, ...b }\<close>: the keys of \<open>a\<close> keep their place, new ones follow.\<close>

fun jmerge :: "json \<Rightarrow> json \<Rightarrow> json" where
  "jmerge (JObj a) (JObj b) = JObj (map (\<lambda>(k, v). (k, case map_of (rev b) k of None \<Rightarrow> v | Some w \<Rightarrow> w)) a @
     filter (\<lambda>(k, v). k \<notin> fst ` set a) b)"
| "jmerge (JObj a) _ = JObj a"
| "jmerge _ (JObj b) = JObj b"
| "jmerge _ _ = JObj []"

datatype save_phase = No_save | Putting json | Reloading json

record settings_form =
  sf_data :: "json option"
  sf_load_error :: "jserr option"
  sf_value :: json
  sf_dirty :: bool
  sf_phase :: save_phase
  sf_error :: "jserr option"
  sf_stored :: json

definition form_init :: "json \<Rightarrow> json \<Rightarrow> settings_form" where
  "form_init defaults at_platform = \<lparr>sf_data = None, sf_load_error = None, sf_value = defaults, sf_dirty = False, sf_phase = No_save,
     sf_error = None, sf_stored = at_platform\<rparr>"

text \<open>The effect on \<open>settings.data\<close>: a section that has arrived replaces what the form holds.\<close>

definition form_loaded :: "json \<Rightarrow> json \<Rightarrow> settings_form \<Rightarrow> settings_form" where
  "form_loaded defaults d f = f\<lparr>sf_data := Some d, sf_load_error := None, sf_value := jmerge defaults d, sf_dirty := False\<rparr>"

definition form_set :: "json \<Rightarrow> settings_form \<Rightarrow> settings_form" where
  "form_set patch f = f\<lparr>sf_value := jmerge (sf_value f) patch, sf_dirty := True\<rparr>"

definition form_shown :: "settings_form \<Rightarrow> bool" where
  "form_shown f \<longleftrightarrow> sf_load_error f = None"

definition save_pending :: "settings_form \<Rightarrow> bool" where
  "save_pending f \<longleftrightarrow> sf_phase f \<noteq> No_save"

definition save_enabled :: "settings_form \<Rightarrow> bool" where
  "save_enabled f \<longleftrightarrow> form_shown f \<and> \<not> (save_pending f \<or> \<not> sf_dirty f)"

definition save_label :: "settings_form \<Rightarrow> string" where
  "save_label f = (if save_pending f then ''Saving'' @ ellipsis else if sf_dirty f then ''Save changes'' else ''Saved'')"

text \<open>The save: a request with the value of the moment, then the reload, then \<open>setDirty(false)\<close>.\<close>

definition save_request :: "string \<Rightarrow> string \<Rightarrow> json \<Rightarrow> route" where
  "save_request appId sec v = app_route (PutSettings appId sec v)"

definition press_save :: "settings_form \<Rightarrow> settings_form" where
  "press_save f = f\<lparr>sf_phase := Putting (sf_value f), sf_error := None\<rparr>"

definition put_done :: "settings_form \<Rightarrow> settings_form" where
  "put_done f = (case sf_phase f of Putting v \<Rightarrow> f\<lparr>sf_phase := Reloading v, sf_stored := v\<rparr> | _ \<Rightarrow> f)"

definition put_failed :: "jserr \<Rightarrow> settings_form \<Rightarrow> settings_form" where
  "put_failed e f = f\<lparr>sf_phase := No_save, sf_error := Some e\<rparr>"

definition save_done :: "settings_form \<Rightarrow> settings_form" where
  "save_done f = f\<lparr>sf_phase := No_save, sf_dirty := False\<rparr>"

inductive form_step :: "json \<Rightarrow> settings_form \<Rightarrow> settings_form \<Rightarrow> bool" for defaults where
  f_load: "sf_data f = None \<or> sf_load_error f \<noteq> None \<Longrightarrow> form_step defaults f (form_loaded defaults d f)"
| f_load_fails: "sf_data f = None \<or> sf_load_error f \<noteq> None \<Longrightarrow> form_step defaults f (f\<lparr>sf_load_error := Some e\<rparr>)"
| f_set: "form_shown f \<Longrightarrow> form_step defaults f (form_set patch f)"
| f_save: "save_enabled f \<Longrightarrow> form_step defaults f (press_save f)"
| f_put: "sf_phase f = Putting v \<Longrightarrow> form_step defaults f (put_done f)"
| f_put_fails: "sf_phase f = Putting v \<Longrightarrow> form_step defaults f (put_failed e f)"
| f_reload: "sf_phase f = Reloading v \<Longrightarrow> form_step defaults f (save_done (form_loaded defaults d f))"
| f_reload_fails: "sf_phase f = Reloading v \<Longrightarrow> form_step defaults f (save_done (f\<lparr>sf_load_error := Some e\<rparr>))"

inductive_cases form_stepE: "form_step defaults f f'"

definition form_start :: "json \<Rightarrow> settings_form \<Rightarrow> bool" where
  "form_start defaults f \<longleftrightarrow> (\<exists>s. f = form_init defaults s)"

subsection \<open>What the form keeps\<close>

text \<open>A form that is shown and says \<open>Saved\<close> shows the section as it was last read; only a dirty form saves.\<close>

definition settings_form_ok :: "json \<Rightarrow> settings_form \<Rightarrow> bool" where
  "settings_form_ok defaults f \<longleftrightarrow>
     (\<not> sf_dirty f \<and> form_shown f \<longrightarrow> sf_value f = (case sf_data f of None \<Rightarrow> defaults | Some d \<Rightarrow> jmerge defaults d))"

interpretation settings: machine "form_start defaults" "form_step defaults" "settings_form_ok defaults" for defaults
  by unfold_locales
    (auto simp: form_start_def form_init_def settings_form_ok_def form_loaded_def form_set_def form_shown_def press_save_def
      put_done_def put_failed_def save_done_def elim!: form_stepE)

subsection \<open>Properties\<close>

text \<open>C23: \<open>Saved\<close> means what it says. In every state the form can reach, when it is shown, no save is under way
  and its button reads \<open>Saved\<close>, the fields show the section as the platform last sent it, over the
  defaults (the defaults alone before the first answer), and the button is disabled.\<close>

theorem saved_means_loaded:
  assumes "reachable (form_start defaults) (form_step defaults) f"
  shows "if form_shown f \<and> save_label f = ''Saved''
    then sf_value f = (case sf_data f of None \<Rightarrow> defaults | Some d \<Rightarrow> jmerge defaults d) \<and> \<not> save_enabled f
    else True"
  using settings.invariant [OF assms]
  by (auto simp: settings_form_ok_def save_label_def save_enabled_def split: if_splits)

theorem saved_means_loaded_witness:
  "save_label (form_loaded (JObj []) (JObj [(''a'', JBool True)]) (form_init (JObj []) JNull)) = ''Saved'' \<and>
   sf_value (form_loaded (JObj []) (JObj [(''a'', JBool True)]) (form_init (JObj []) JNull)) = JObj [(''a'', JBool True)]"
proof -
  let ?f = "form_loaded (JObj []) (JObj [(''a'', JBool True)]) (form_init (JObj []) JNull)"
  have "reachable (form_start (JObj [])) (form_step (JObj [])) (form_init (JObj []) JNull)"
    by (rule reach_init) (auto simp: form_start_def)
  then have "reachable (form_start (JObj [])) (form_step (JObj [])) ?f"
    by (rule reach_next) (rule f_load, simp add: form_init_def)
  from saved_means_loaded [OF this] show ?thesis
    by (simp add: form_loaded_def form_init_def save_label_def save_pending_def form_shown_def)
qed

text \<open>C24: the form can lose settings. It may be edited before its first answer has arrived, and then saves the
  defaults with one field changed over whatever the platform held; and an edit made while a save is
  under way is dropped when the save reloads the section, with the button reading \<open>Saved\<close>.\<close>

theorem form_loses_settings:
  "\<exists>f g h. reachable (form_start (JObj [])) (form_step (JObj [])) f \<and> sf_data f = None \<and>
      sf_stored f = JObj [(''email'', JBool True)] \<and> form_step (JObj []) f g \<and>
      sf_phase g = Putting (JObj [(''sms'', JBool True)]) \<and>
    reachable (form_start (JObj [])) (form_step (JObj [])) h \<and> sf_dirty h \<and> sf_phase h = Reloading (JObj [(''sms'', JBool True)]) \<and>
      sf_value h = JObj [(''sms'', JBool True), (''guest'', JBool True)] \<and>
      (\<exists>h'. form_step (JObj []) h h' \<and> save_label h' = ''Saved'' \<and> sf_value h' = JObj [(''sms'', JBool True)])"
proof -
  let ?d = "JObj []" let ?sms = "JObj [(''sms'', JBool True)]"
  let ?f0 = "form_init ?d (JObj [(''email'', JBool True)])" let ?f1 = "form_set ?sms ?f0" let ?f2 = "press_save ?f1"
  let ?f3 = "form_set (JObj [(''guest'', JBool True)]) ?f2" let ?f4 = "put_done ?f3" let ?f5 = "save_done (form_loaded ?d ?sms ?f4)"
  note e = form_init_def form_set_def press_save_def put_done_def save_done_def form_loaded_def form_shown_def
    save_enabled_def save_pending_def save_label_def
  have 0: "reachable (form_start ?d) (form_step ?d) ?f0" by (rule reach_init) (auto simp: form_start_def)
  have s1: "form_step ?d ?f0 ?f1" by (rule f_set) (simp add: e)
  have s2: "form_step ?d ?f1 ?f2" by (rule f_save) (simp add: e)
  have s3: "form_step ?d ?f2 ?f3" by (rule f_set) (simp add: e)
  have s4: "form_step ?d ?f3 ?f4" by (rule f_put) (simp add: e)
  have s5: "form_step ?d ?f4 ?f5" by (rule f_reload) (simp add: e)
  have "reachable (form_start ?d) (form_step ?d) ?f1" "reachable (form_start ?d) (form_step ?d) ?f4"
    using 0 s1 s2 s3 s4 by (blast intro: reach_next)+
  with s2 s5 show ?thesis
    by (intro exI [of _ ?f1] exI [of _ ?f2] exI [of _ ?f4] conjI exI [of _ ?f5]) (assumption | simp add: e)+
qed

end
