(* ===== verification/Console.thy ===== *)
theory Console
  imports Group_Page Nav
begin

text \<open>
  The frame around the console's screens: the shell that gates on the session
  (\<open>web/app/(console)/layout.tsx\<close>), its sidebar, app switcher and user menu, the two notices above
  on-chain actions, the theme, the toasts, and the small screens that end in a navigation: accepting
  an invitation, creating an organization, saving the profile.
\<close>

subsection \<open>The shell\<close>

text \<open>The two effects of the shell, in their order, and what it renders.\<close>

definition shell_redirects :: "session_status \<Rightarrow> organization list \<Rightarrow> string \<Rightarrow> string list" where
  "shell_redirects status os pathname =
     (if status = Signed_out then [''/login?next='' @ encode_uri_component pathname] else []) @
     (if status = Signed_in \<and> os = [] \<and> pathname \<noteq> ''/onboarding'' then [''/onboarding''] else [])"

datatype shell_content = Shell_loading | Shell_nothing | Shell_frame bool

definition shell_view :: "session_status \<Rightarrow> bool \<Rightarrow> app list option \<Rightarrow> shell_content" where
  "shell_view status apps_loading apps_data =
     (if status = Loading then Shell_loading else if status = Signed_out then Shell_nothing
      else Shell_frame (\<not> (apps_loading \<and> apps_data = None)))"

definition shell_apps_route :: "session_status \<Rightarrow> route option" where
  "shell_apps_route status = (if status = Signed_in then Some (auth_route GetMyApps) else None)"

definition shell_apps :: "app list option \<Rightarrow> app list" where
  "shell_apps data = (case data of None \<Rightarrow> [] | Some as \<Rightarrow> as)"

definition active_app :: "app list option \<Rightarrow> string option \<Rightarrow> app option" where
  "active_app data appId = find (\<lambda>a. Some (a_id a) = appId) (shell_apps data)"

definition header_line :: "app \<Rightarrow> string" where
  "header_line a = (if truthy_str (a_group_address a) then ''Signing group attached''
     else ''No signing group yet '' @ em_dash @ '' finish setup'')"

subsection \<open>Sidebar, switcher, menu\<close>

definition sidebar_groups :: "app option \<Rightarrow> organization option \<Rightarrow> bool \<Rightarrow> nav_group list" where
  "sidebar_groups active org is_staff =
     (case active of None \<Rightarrow> [] | Some a \<Rightarrow> app_nav (a_id a)) @
     (case org of None \<Rightarrow> [] | Some og \<Rightarrow> org_nav (o_id og)) @
     (if is_staff then staff_nav else [])"

text \<open>The links above the groups when no app is open, with the one that is highlighted.\<close>

definition sidebar_top :: "app option \<Rightarrow> string \<Rightarrow> (string \<times> string \<times> bool) list" where
  "sidebar_top active pathname = (if active = None
     then [(''/apps'', ''All apps'', pathname = ''/apps''), (''/apps/new'', ''New app'', False)] else [])"

definition highlighted :: "app option \<Rightarrow> organization option \<Rightarrow> bool \<Rightarrow> string \<Rightarrow> nav_item list" where
  "highlighted active org is_staff pathname = filter (is_active pathname) (nav_items (sidebar_groups active org is_staff))"

definition env_tone :: "environment \<Rightarrow> tone" where
  "env_tone e = (case e of Production \<Rightarrow> Tone_error | Development \<Rightarrow> Tone_neutral)"

definition env_short :: "environment \<Rightarrow> string" where
  "env_short e = (case e of Production \<Rightarrow> ''prod'' | Development \<Rightarrow> ''dev'')"

definition org_apps :: "organization option \<Rightarrow> app list \<Rightarrow> app list" where
  "org_apps org as = filter (\<lambda>a. case org of None \<Rightarrow> True | Some og \<Rightarrow> a_org_id a = o_id og) as"

definition switcher_name :: "app option \<Rightarrow> organization option \<Rightarrow> string option" where
  "switcher_name active org = (case active of Some a \<Rightarrow> Some (a_name a) | None \<Rightarrow> map_option o_name org)"

definition switcher_title :: "app option \<Rightarrow> organization option \<Rightarrow> string" where
  "switcher_title active org = (case switcher_name active org of None \<Rightarrow> ''Select an app'' | Some n \<Rightarrow> n)"

definition switcher_line :: "app option \<Rightarrow> organization option \<Rightarrow> app list \<Rightarrow> string option" where
  "switcher_line active org as = (if active \<noteq> None then map_option o_name org
     else (let n = length (org_apps org as) in Some (dec_of_nat n @ '' app'' @ (if n = 1 then [] else ''s''))))"

text \<open>Choosing an organization in the switcher, and signing out from the menu.\<close>

definition choose_org :: "('e env_scheme) \<Rightarrow> string \<Rightarrow> ('t, unit) pio" where
  "choose_org E i = seq (set_active_org E i) (navigate ''/apps'')"

definition user_label :: "user \<Rightarrow> string" where
  "user_label u = (if u_display_name u \<noteq> [] then u_display_name u
     else if truthy_str (u_email u) then the (u_email u)
     else short_address 8 6 (Some (case u_account_address u of None \<Rightarrow> u_subject u | Some a \<Rightarrow> a)))"

definition account_kind :: "user \<Rightarrow> string" where
  "account_kind u = (if u_subject_kind u = Signet_subject then ''Signet account'' else ''Ethereum account'')"

definition menu_sign_out :: "('e env_scheme) \<Rightarrow> ('t, unit) pio" where
  "menu_sign_out E = seq (sign_out E) (navigate ''/'')"

subsection \<open>The notices above on-chain actions\<close>

datatype notice =
    Notice_signet tone "int option" bool
  | Notice_wallet string
  | Notice_session string
  | Notice_refused string

definition nearly_over :: "int option \<Rightarrow> bool" where
  "nearly_over minutes = (case minutes of None \<Rightarrow> False | Some m \<Rightarrow> m \<le> 10)"

definition transport_notice :: "transport \<Rightarrow> int option \<Rightarrow> string \<Rightarrow> notice" where
  "transport_notice tr minutes what = (case tr of
     T_userop a \<Rightarrow> Notice_signet (if nearly_over minutes then Tone_warn else Tone_accent) minutes (nearly_over minutes)
   | T_wallet a \<Rightarrow> Notice_wallet (short_address 6 4 (Some a))
   | T_none reason \<Rightarrow> if is_infix ''signing session'' reason then Notice_session what else Notice_refused reason)"

text \<open>The stages the flow reports are events of the trace; the notice shows the last of them until it ends.\<close>

record notice_tab = provider_tab +
  nt_stage :: "string option"
  nt_error :: "jserr option"

definition restore_session :: "('e provision_env_scheme) \<Rightarrow> network_config option \<Rightarrow> user option \<Rightarrow> 't notice_tab_scheme \<Rightarrow> (jserr + unit) \<times> 't notice_tab_scheme" where
  "restore_session E network u = (case (network, u) of
     (Some nw, Some usr) \<Rightarrow>
       seq (update_tab (\<lambda>t. t\<lparr>nt_error := None\<rparr>))
         (finally_do
           (try_catch (await (restore_signing_session E nw usr True) (\<lambda>_. refresh E)) (\<lambda>e. update_tab (\<lambda>t. t\<lparr>nt_error := Some e\<rparr>)))
           (\<lambda>t. t\<lparr>nt_stage := None\<rparr>))
   | _ \<Rightarrow> ret ())"

datatype restore_offer = Offer_restore bool string | Offer_sign_in

definition session_notice :: "user option \<Rightarrow> string option \<Rightarrow> restore_offer" where
  "session_notice u stage = (if can_restore_signing_session u
     then Offer_restore (stage = None) (case stage of None \<Rightarrow> ''Restore signing'' | Some s \<Rightarrow> s) else Offer_sign_in)"

subsection \<open>Theme\<close>

datatype theme = Light | Dark | System | Other_theme string

definition theme_names :: "(string \<times> theme) list" where
  "theme_names = [(''light'', Light), (''dark'', Dark), (''system'', System)]"

definition THEME_KEY :: string where "THEME_KEY = ''signet_platform_theme''"

text \<open>What is stored is cast, not checked: a text that is no theme is kept as it is.\<close>

definition stored_theme :: "('e env_scheme) \<Rightarrow> 't tab_scheme \<Rightarrow> theme" where
  "stored_theme E t = (if e_ls_throws E then System else (case local_storage t THEME_KEY of
     None \<Rightarrow> System | Some s \<Rightarrow> if s = [] then System else (case map_of theme_names s of None \<Rightarrow> Other_theme s | Some th \<Rightarrow> th)))"

definition is_dark :: "theme \<Rightarrow> bool \<Rightarrow> bool" where
  "is_dark th media_dark \<longleftrightarrow> th = Dark \<or> th = System \<and> media_dark"

definition theme_name :: "theme \<Rightarrow> string" where
  "theme_name th = (case th of Light \<Rightarrow> ''light'' | Dark \<Rightarrow> ''dark'' | System \<Rightarrow> ''system'' | Other_theme s \<Rightarrow> s)"

definition set_theme :: "('e env_scheme) \<Rightarrow> theme \<Rightarrow> 't tab_scheme \<Rightarrow> theme \<times> 't tab_scheme" where
  "set_theme E th t = (th, if e_ls_throws E then t else t\<lparr>local_storage := (local_storage t)(THEME_KEY \<mapsto> theme_name th)\<rparr>)"

definition next_theme :: "theme \<Rightarrow> theme" where
  "next_theme th = (case th of Light \<Rightarrow> Dark | Dark \<Rightarrow> System | System \<Rightarrow> Light | Other_theme s \<Rightarrow> Light)"

text \<open>Three clicks on the toggle come back to where they started, and a chosen theme survives a reload.\<close>

lemma theme_cycles: "th \<in> snd ` set theme_names \<Longrightarrow> next_theme (next_theme (next_theme th)) = th \<and> next_theme th \<noteq> th"
  by (auto simp: next_theme_def theme_names_def)

lemma theme_kept: "\<not> e_ls_throws E \<Longrightarrow> th \<in> snd ` set theme_names \<Longrightarrow> stored_theme E (snd (set_theme E th t)) = th"
  by (auto simp: set_theme_def stored_theme_def theme_name_def theme_names_def)

subsection \<open>Toasts\<close>

text \<open>The provider's list and its counter; a toast whose timer is running may go at any later step.\<close>

record toast_item =
  ti_id :: nat
  ti_kind :: toast_kind
  ti_message :: string
  ti_detail :: string

record toaster =
  to_next :: nat
  to_shown :: "toast_item list"
  to_timers :: "nat list"

definition toast_ttl :: "toast_kind \<Rightarrow> int" where
  "toast_ttl k = (if k = Toast_error then 9000 else 4200)"

definition toast_push :: "toast_kind \<Rightarrow> string \<Rightarrow> string \<Rightarrow> toaster \<Rightarrow> toaster" where
  "toast_push k m d s = s\<lparr>to_next := to_next s + 1,
     to_shown := to_shown s @ [\<lparr>ti_id = to_next s, ti_kind = k, ti_message = m, ti_detail = d\<rparr>],
     to_timers := to_timers s @ [to_next s]\<rparr>"

definition toast_expire :: "nat \<Rightarrow> toaster \<Rightarrow> toaster" where
  "toast_expire i s = s\<lparr>to_shown := filter (\<lambda>x. ti_id x \<noteq> i) (to_shown s), to_timers := remove1 i (to_timers s)\<rparr>"

inductive toast_step :: "toaster \<Rightarrow> toaster \<Rightarrow> bool" where
  t_push: "toast_step s (toast_push k m d s)"
| t_expire: "i \<in> set (to_timers s) \<Longrightarrow> toast_step s (toast_expire i s)"

inductive_cases toast_stepE: "toast_step s s'"

definition toast_start :: "toaster \<Rightarrow> bool" where
  "toast_start s \<longleftrightarrow> to_next s = 1 \<and> to_shown s = [] \<and> to_timers s = []"

text \<open>Every toast shown has its own number and its own running timer.\<close>

definition toast_ok :: "toaster \<Rightarrow> bool" where
  "toast_ok s \<longleftrightarrow> map ti_id (to_shown s) = to_timers s \<and> distinct (to_timers s) \<and> (\<forall>i \<in> set (to_timers s). i < to_next s)"

lemma remove1_distinct: "distinct is \<Longrightarrow> remove1 i is = filter (\<lambda>j. j \<noteq> i) is"
  by (induction "is") (auto intro: filter_True [symmetric])

lemma toast_expire_ok:
  assumes "toast_ok s"
  shows "toast_ok (toast_expire i s)"
proof -
  have "map ti_id (filter (\<lambda>x. ti_id x \<noteq> i) (to_shown s)) = filter (\<lambda>j. j \<noteq> i) (map ti_id (to_shown s))"
    by (simp add: filter_map comp_def)
  with assms show ?thesis by (simp add: toast_ok_def toast_expire_def remove1_distinct)
qed

interpretation toasts: machine toast_start toast_step toast_ok
  by unfold_locales (auto simp: toast_start_def toast_expire_ok elim!: toast_stepE, auto simp: toast_ok_def toast_push_def)

text \<open>A timer that fires takes away exactly one toast.\<close>

lemma toast_removes_one:
  assumes "reachable toast_start toast_step s" and "i \<in> set (to_timers s)"
  shows "length (to_shown (toast_expire i s)) = length (to_shown s) - 1"
proof -
  have "toast_ok s" by (rule toasts.invariant [OF assms(1)])
  then have "length (to_shown s) = length (to_timers s)" "length (to_shown (toast_expire i s)) = length (to_timers (toast_expire i s))"
    using toast_expire_ok [of s i] by (metis length_map toast_ok_def)+
  then show ?thesis using assms(2) by (simp add: toast_expire_def length_remove1)
qed

subsection \<open>Small screens that end in a navigation\<close>

text \<open>\<open>web/app/invite/[token]/page.tsx\<close>\<close>

record flow_tab = provider_tab +
  fl_error :: "jserr option"
  fl_pending :: bool

type_synonym ('t, 'a) fio = "'t flow_tab_scheme \<Rightarrow> (jserr + 'a) \<times> 't flow_tab_scheme"

definition invite_redirect :: "session_status \<Rightarrow> string \<Rightarrow> string option" where
  "invite_redirect status token = (if status = Signed_out
     then Some (''/login?next='' @ encode_uri_component (''/invite/'' @ token)) else None)"

definition join_org :: "('e env_scheme) \<Rightarrow> string \<Rightarrow> ('t, unit) fio" where
  "join_org E token =
     await (typed organization_of_json (request E (auth_route (PostAcceptInvite token)))) (\<lambda>org.
     seq (refresh E) (seq (set_active_org E (o_id org))
       (seq (toast Toast_success (''You have joined '' @ o_name org) []) (navigate ''/apps''))))"

definition accept_invite :: "('e env_scheme) \<Rightarrow> string \<Rightarrow> ('t, unit) fio" where
  "accept_invite E token =
     seq (update_tab (\<lambda>t. t\<lparr>fl_pending := True, fl_error := None\<rparr>))
       (finally_do (try_catch (join_org E token) (\<lambda>e. update_tab (\<lambda>t. t\<lparr>fl_error := Some e\<rparr>)))
         (\<lambda>t. t\<lparr>fl_pending := False\<rparr>))"

text \<open>\<open>web/app/(console)/onboarding/page.tsx\<close>: the action of its form, and when the form submits.\<close>

definition undefined_if_empty :: "string \<Rightarrow> string option" where
  "undefined_if_empty s = (if s = [] then None else Some s)"

definition create_org :: "('e env_scheme) \<Rightarrow> string \<Rightarrow> string \<Rightarrow> ('t, unit) fio" where
  "create_org E nm email =
     await (typed organization_of_json (request E (org_route (PostOrg (trim nm) (undefined_if_empty (trim email)))))) (\<lambda>org.
     seq (refresh E) (seq (set_active_org E (o_id org))
       (seq (toast Toast_success (o_name org @ '' is ready'') ''Create your first app to deploy a signing group.'')
         (navigate ''/apps/new''))))"

definition onboarding_redirect :: "organization list \<Rightarrow> string option" where
  "onboarding_redirect os = (if os \<noteq> [] then Some ''/apps'' else None)"

definition create_org_enabled :: "bool \<Rightarrow> string \<Rightarrow> bool" where
  "create_org_enabled pending nm \<longleftrightarrow> \<not> (pending \<or> trim nm = [])"

text \<open>\<open>web/app/(console)/account/page.tsx\<close>: the fields follow the user, the save writes both.\<close>

definition profile_fields :: "user option \<Rightarrow> string \<times> string" where
  "profile_fields u = (case u of None \<Rightarrow> ([], [])
     | Some usr \<Rightarrow> (u_display_name usr, case u_email usr of None \<Rightarrow> [] | Some e \<Rightarrow> e))"

definition save_profile :: "('e env_scheme) \<Rightarrow> string \<Rightarrow> string \<Rightarrow> ('t, unit) fio" where
  "save_profile E display_name email =
     await (request E (auth_route (PatchMe (jobj [str_field ''display_name'' display_name, str_field ''email'' email])))) (\<lambda>_.
     seq (refresh E) (toast Toast_success ''Profile saved'' []))"

definition account_rows :: "intl \<Rightarrow> user \<Rightarrow> (string \<times> string) list" where
  "account_rows I u =
     [(''Route'', if u_subject_kind u = Signet_subject
         then ''Signet '' @ em_dash @ '' threshold signature from the bootstrap group'' else ''Sign-In with Ethereum''),
      (''Last seen'', format_date_time I (u_last_seen_at u)), (''Subject'', u_subject u)] @
     (if truthy_str (u_account_address u) then [(''Account'', the (u_account_address u))] else []) @
     (if truthy_str (u_group_public_key u) then [(''Group public key'', the (u_group_public_key u))] else [])"

text \<open>\<open>web/app/(console)/apps/page.tsx\<close>: the list of the organization's apps and a card of it.\<close>

definition apps_page_route :: "organization option \<Rightarrow> route option" where
  "apps_page_route active = map_option (\<lambda>og. app_route (GetApps (o_id og))) active"

definition card_status :: "app \<Rightarrow> tone \<times> bool \<times> string" where
  "card_status a = (if truthy_str (a_group_address a) then
       ((case a_is_operational a of Some True \<Rightarrow> Tone_success | Some False \<Rightarrow> Tone_error | None \<Rightarrow> Tone_neutral),
        a_is_operational a = Some True,
        (case a_is_operational a of None \<Rightarrow> ''Not synced'' | Some True \<Rightarrow> ''Operational'' | Some False \<Rightarrow> ''Below threshold''))
     else (Tone_warn, False, ''Setup unfinished''))"

definition card_ratio :: "app \<Rightarrow> string option" where
  "card_ratio a = (case (a_threshold a, a_node_count a) of
     (Some n, Some m) \<Rightarrow> if truthy_str (a_group_address a) \<and> n \<noteq> 0 \<and> m \<noteq> 0 then Some (dec_of_int n @ ''-of-'' @ dec_of_int m) else None
   | _ \<Rightarrow> None)"

subsection \<open>Properties\<close>

lemma nav_items_append: "nav_items (gs @ hs) = nav_items gs @ nav_items hs"
  by (simp add: nav_items_def)

lemma nav_items_Nil [simp]: "nav_items [] = []"
  by (simp add: nav_items_def)

text \<open>An entry that is active shares the start of its address with the page.\<close>

lemma active_prefix: "is_active p i \<Longrightarrow> starts_with b (nv_href i) \<Longrightarrow> starts_with b p"
  by (auto simp: is_active_def starts_with_iff split: if_splits)

lemma nav_prefixes:
  "i \<in> set (nav_items (app_nav a)) \<Longrightarrow> starts_with ''/apps/'' (nv_href i)"
  "i \<in> set (nav_items (org_nav g)) \<Longrightarrow> starts_with ''/org/'' (nv_href i)"
  "i \<in> set (nav_items staff_nav) \<Longrightarrow> starts_with ''/staff'' (nv_href i)"
  unfolding nav_items_under by (auto simp: under_def) (auto simp: nav_items_def staff_nav_def exact_item_def)

lemma only_below: "\<forall>i \<in> set is. starts_with b (nv_href i) \<Longrightarrow> \<not> starts_with b p \<Longrightarrow> filter (is_active p) is = []"
  by (auto simp: filter_empty_conv dest: active_prefix)

lemma staff_entry: "length (filter (is_active p) (nav_items staff_nav)) \<le> 1"
  by (simp add: nav_items_def staff_nav_def)

text \<open>The sidebar never highlights two entries, whatever app, organization and role it shows and whatever
  page is open; each entry of an app's section is the one highlighted on its own page.\<close>

theorem sidebar_highlights_one:
  "length (highlighted active org is_staff p) \<le> 1 \<and>
   map (\<lambda>i. highlighted (Some a) org is_staff (nv_href i)) (nav_items (app_nav (a_id a))) = map (\<lambda>i. [i]) (nav_items (app_nav (a_id a)))"
proof -
  let ?F = "\<lambda>gs p. filter (is_active p) (nav_items gs)"
  have app: "?F (app_nav x) p = []" if "\<not> starts_with ''/apps/'' p" for x p
    using that nav_prefixes(1) by (intro only_below) blast
  have org: "?F (org_nav x) p = []" if "\<not> starts_with ''/org/'' p" for x p
    using that nav_prefixes(2) by (intro only_below) blast
  have staff: "?F staff_nav p = []" if "\<not> starts_with ''/staff'' p" for p
    using that nav_prefixes(3) by (intro only_below) blast
  have h: "highlighted active org is_staff p =
      (case active of None \<Rightarrow> [] | Some a \<Rightarrow> ?F (app_nav (a_id a)) p) @
      (case org of None \<Rightarrow> [] | Some og \<Rightarrow> ?F (org_nav (o_id og)) p) @ (if is_staff then ?F staff_nav p else [])" for active p
    by (simp add: highlighted_def sidebar_groups_def nav_items_append split: option.split)
  have other: "\<not> starts_with ''/org/'' p \<and> \<not> starts_with ''/staff'' p" if "starts_with ''/apps/'' p" for p
    using that by (auto simp: starts_with_iff)
  have other': "\<not> starts_with ''/staff'' p" if "starts_with ''/org/'' p" for p
    using that by (auto simp: starts_with_iff)
  have "length (highlighted active org is_staff p) \<le> 1"
    using app [of p] org [of p] staff [of p] other [of p] other' [of p] staff_entry [of p]
      entries_highlighted(1,2) [of p]
    by (cases "starts_with ''/apps/'' p"; cases "starts_with ''/org/'' p") (simp_all add: h split: option.split)
  moreover have "highlighted (Some a) org is_staff (nv_href i) = [i]" if "i \<in> set (nav_items (app_nav (a_id a)))" for i
    using entries_highlighted(3) [OF that] other [OF nav_prefixes(1) [OF that]] org staff
    by (simp add: h split: option.split)
  ultimately show ?thesis by simp
qed

lemma uri_plain_form: "uri_unreserved c \<Longrightarrow> c \<noteq> CHR ''%'' \<and> c \<noteq> CHR ''+''"
  by (auto simp: uri_unreserved_def is_alnum_def Let_def)

lemma uri_read_as_form: "percent_decode True (encode_uri_component s) = Some s"
proof (induction s)
  case (Cons c s)
  then show ?case
    using uri_plain_form [of c]
    by (auto simp: encode_uri_Cons percent_decode_percent simp del: percent_decode.simps(2))
      (simp_all add: percent_decode_plain)
qed (simp add: encode_uri_component_def)

text \<open>Signing in returns to the page that asked for it. A signed-out visitor of a console page or of an
  invitation is sent to the login screen with an address from which that screen reads back exactly
  the page, whatever characters it has, and goes there after a sign-in.\<close>

theorem login_returns_to_the_page:
  "\<exists>q r. shell_redirects Signed_out os (c # cs) = [''/login?next='' @ q] \<and>
     login_next (percent_decode True q) = c # cs \<and>
     invite_redirect Signed_out token = Some (''/login?next='' @ r) \<and>
     login_next (percent_decode True r) = ''/invite/'' @ token"
  unfolding shell_redirects_def invite_redirect_def
  by (rule exI [of _ "encode_uri_component (c # cs)"], rule exI [of _ "encode_uri_component (''/invite/'' @ token)"])
    (simp add: uri_read_as_form login_next_def or_else_def)


end
