(* ===== verification/Wallets.thy ===== *)
theory Wallets
  imports Trust
begin

text \<open>
  \<open>web/app/(console)/apps/[appId]/wallets/page.tsx\<close>: the keys a signing group holds, enabling and
  disabling them, and syncing the cached inventory from a node or from a pasted answer. The
  browser's confirmation dialogue is an argument.
\<close>

subsection \<open>Keys\<close>

datatype key_status = Key_enabled | Key_disabled | Key_deleted

definition key_status_name :: "key_status \<Rightarrow> string" where
  "key_status_name s = (case s of Key_enabled \<Rightarrow> ''enabled'' | Key_disabled \<Rightarrow> ''disabled'' | Key_deleted \<Rightarrow> ''deleted'')"

record wallet_key =
  wk_id :: string
  wk_key_id :: string
  wk_curve :: string
  wk_public_key :: "string option"
  wk_address :: "string option"
  wk_scope_hex :: "string option"
  wk_scope_kind :: string
  wk_scope_chain_id :: "int option"
  wk_scope_contract :: "string option"
  wk_scope_type_hash :: "string option"
  wk_parent_key_id :: "string option"
  wk_threshold :: "int option"
  wk_parties :: "string list"
  wk_status :: key_status
  wk_label :: string
  wk_subject_hash :: "string option"
  wk_last_used_at :: "string option"
  wk_synced_at :: string
  wk_created_at :: string

record key_stats =
  ks_total :: int
  ks_enabled :: int
  ks_disabled :: int
  ks_by_curve :: "(string \<times> int) list"
  ks_by_scope :: "(string \<times> int) list"

definition key_filters :: "string \<Rightarrow> (string \<times> query_value) list" where
  "key_filters tb = (if tb = ''scoped'' then [(''scope'', QStr ''eip712'')]
     else if tb = ''disabled'' then [(''status'', QStr ''disabled'')] else [])"

definition keys_route :: "string \<Rightarrow> string \<Rightarrow> string \<Rightarrow> route" where
  "keys_route appId tb search = wallet_route (GetKeys appId
     (Some (key_filters tb @ [(''q'', if search = [] then QUndefined else QStr search), (''limit'', QStr ''200'')])))"

text \<open>\<open>stats?.n ?? 0\<close>\<close>

definition stat :: "(key_stats \<Rightarrow> int) \<Rightarrow> key_stats option \<Rightarrow> int" where
  "stat f stats = (case stats of None \<Rightarrow> 0 | Some s \<Rightarrow> f s)"

definition scope_count :: "string \<Rightarrow> key_stats \<Rightarrow> int" where
  "scope_count k s = (case map_of (ks_by_scope s) k of None \<Rightarrow> 0 | Some n \<Rightarrow> n)"

definition scoped_keys :: "key_stats option \<Rightarrow> int" where
  "scoped_keys stats = stat (scope_count ''eip712'') stats + stat (scope_count ''evm_userop'') stats + stat (scope_count ''solana_tx'') stats"

definition wallet_cards :: "intl \<Rightarrow> key_stats option \<Rightarrow> (string \<times> string) list" where
  "wallet_cards I stats =
     [(''Total keys'', format_number I (Some (stat ks_total stats))), (''Enabled'', format_number I (Some (stat ks_enabled stats))),
      (''Disabled'', format_number I (Some (stat ks_disabled stats))), (''Scoped sub-keys'', format_number I (Some (scoped_keys stats)))]"

text \<open>A row of the table, and what the detail says of a key.\<close>

definition key_row_tone :: "key_status \<Rightarrow> tone" where
  "key_row_tone s = (if s = Key_enabled then Tone_success else if s = Key_disabled then Tone_warn else Tone_error)"

definition key_row :: "intl \<Rightarrow> int \<Rightarrow> wallet_key \<Rightarrow> string list" where
  "key_row I now k =
     [(if wk_label k \<noteq> [] then wk_label k else short_address 22 10 (Some (wk_key_id k))),
      curve_label (wk_curve k),
      (if wk_scope_kind k = ''unscoped'' then ''Unscoped'' else scope_label (wk_scope_kind k)),
      (if truthy_str (wk_address k) then short_address 6 4 (wk_address k) else em_dash),
      key_status_name (wk_status k), relative_time I now (Some (wk_synced_at k))]"

definition key_threshold :: "wallet_key \<Rightarrow> string" where
  "key_threshold k = (case wk_threshold k of None \<Rightarrow> em_dash
     | Some n \<Rightarrow> if n = 0 then em_dash
         else dec_of_int n @ ''-of-'' @ (if wk_parties k = [] then ''?'' else dec_of_nat (length (wk_parties k))))"

definition key_details :: "wallet_key \<Rightarrow> (string \<times> string) list" where
  "key_details k =
     [(''Key ID'', wk_key_id k), (''Scheme'', curve_label (wk_curve k))] @
     (if truthy_str (wk_address k) then [(''Address'', the (wk_address k))] else []) @
     (if truthy_str (wk_public_key k) then [(''Public key'', the (wk_public_key k))] else []) @
     [(''Threshold'', key_threshold k), (''Status'', key_status_name (wk_status k))] @
     (if truthy_str (wk_parent_key_id k) then [(''Parent key'', the (wk_parent_key_id k))] else []) @
     (if truthy_str (wk_subject_hash k) then [(''User'', the (wk_subject_hash k))] else [])"

definition key_scope_lines :: "wallet_key \<Rightarrow> (string \<times> string) list" where
  "key_scope_lines k = (if wk_scope_kind k = ''unscoped'' then [] else
     (case wk_scope_chain_id k of None \<Rightarrow> [] | Some c \<Rightarrow> if c = 0 then [] else [(''Chain: '', chain_name (Some c))]) @
     (if truthy_str (wk_scope_contract k) then [(''Contract: '', the (wk_scope_contract k))] else []) @
     (if truthy_str (wk_scope_type_hash k) then [(''Type hash: '', the (wk_scope_type_hash k))] else []))"

definition key_detail_tone :: "key_status \<Rightarrow> tone" where
  "key_detail_tone s = (if s = Key_enabled then Tone_success else Tone_warn)"

text \<open>The one button of the detail: what it asks for, and its label.\<close>

definition key_button :: "wallet_key \<Rightarrow> bool \<Rightarrow> key_status \<times> string" where
  "key_button k pending = (if wk_status k = Key_enabled
     then (Key_disabled, if pending then ''Disabling'' @ ellipsis else ''Disable key'')
     else (Key_enabled, if pending then ''Enabling'' @ ellipsis else ''Enable key''))"

subsection \<open>Changing a key's status\<close>

record wallets_tab = provider_tab +
  wl_detail :: "wallet_key option"
  wl_sync_open :: bool
  wl_raw :: string

type_synonym ('t, 'a) wlio = "'t wallets_tab_scheme \<Rightarrow> (jserr + 'a) \<times> 't wallets_tab_scheme"

text \<open>\<open>nodes.find((n) => n.operator?.api_url)?.operator?.api_url\<close>\<close>

definition node_api_url :: "group_node \<Rightarrow> string option" where
  "node_api_url n = (case gn_operator n of None \<Rightarrow> None | Some p \<Rightarrow> op_api_url p)"

definition group_node_url :: "group_view option \<Rightarrow> string option" where
  "group_node_url g = (case g of None \<Rightarrow> None
     | Some v \<Rightarrow> (case find (\<lambda>n. truthy_str (node_api_url n)) (gv_nodes v) of None \<Rightarrow> None | Some n \<Rightarrow> node_api_url n))"

definition group_address_field :: "group_view option \<Rightarrow> json option" where
  "group_address_field g = map_option (\<lambda>v. jnullable (a_group_address (gv_app v))) g"

definition key_path :: "key_status \<Rightarrow> string" where
  "key_path s = (if s = Key_disabled then ''/v1/keys/disable'' else ''/v1/keys/enable'')"

definition key_body :: "group_view option \<Rightarrow> wallet_key \<Rightarrow> json" where
  "key_body g k = jobj [(''group_id'', group_address_field g), str_field ''key_id'' (wk_key_id k), str_field ''curve'' (wk_curve k)]"

definition record_status :: "string \<Rightarrow> wallet_key \<Rightarrow> key_status \<Rightarrow> route" where
  "record_status appId k s = wallet_route (PatchKey appId (wk_curve k) (wk_key_id k) (jobj [str_field ''status'' (key_status_name s)]))"

definition no_endpoint_message :: string where
  "no_endpoint_message = ''No operator in this group publishes an API endpoint, so the console cannot reach the nodes to change key state.''"

definition no_key_session_message :: string where
  "no_key_session_message = ''This tab has no signing session. Sign in with Signet to change key state '' @ em_dash @
     '' the request has to be signed by your session key, not by the platform.''"

definition status_toast :: "key_status \<Rightarrow> string" where
  "status_toast s = (if s = Key_disabled then ''Key disabled'' else ''Key enabled'')"

definition set_key_status :: "('e env_scheme) \<Rightarrow> string \<Rightarrow> route \<Rightarrow> group_view option \<Rightarrow> wallet_key \<Rightarrow> key_status \<Rightarrow> ('t, unit) wlio" where
  "set_key_status E appId reload g k s =
     (if \<not> truthy_str (group_node_url g) then throw (Error no_endpoint_message)
      else await (load_signing_session E) (\<lambda>session.
        if session = None then throw (Error no_key_session_message)
        else await (node_proxy E (the (group_node_url g)) (key_path s) (Some (key_body g k)) ''POST'') (\<lambda>_.
          await (request E (record_status appId k s)) (\<lambda>_.
          seq (list_reload E reload)
            (seq (toast Toast_success (status_toast s) []) (update_tab (\<lambda>t. t\<lparr>wl_detail := None\<rparr>)))))))"

subsection \<open>Syncing the inventory\<close>

record dialog_env = env +
  e_confirm :: "event list \<Rightarrow> string \<Rightarrow> bool"

text \<open>\<open>Array.isArray(parsed) ? parsed : (parsed.keys ?? [])\<close> of a pasted text, and
  \<open>Array.isArray(result) ? result : []\<close> of a node's answer.\<close>

definition pasted_inventory :: "string \<Rightarrow> jserr + json" where
  "pasted_inventory raw = (case parse_json raw of Inl e \<Rightarrow> Inl e
     | Inr (JArr ks) \<Rightarrow> Inr (JArr ks)
     | Inr parsed \<Rightarrow> (case js_prop ''keys'' parsed of Inl e \<Rightarrow> Inl e
         | Inr None \<Rightarrow> Inr (JArr []) | Inr (Some JNull) \<Rightarrow> Inr (JArr []) | Inr (Some ks) \<Rightarrow> Inr ks))"

definition fetched_inventory :: "json \<Rightarrow> json" where
  "fetched_inventory result = (case result of JArr ks \<Rightarrow> JArr ks | _ \<Rightarrow> JArr [])"

text \<open>\<open>keys.length === 0\<close>\<close>

definition no_keys :: "json \<Rightarrow> bool" where
  "no_keys v = (case v of JArr ks \<Rightarrow> ks = [] | JStr s \<Rightarrow> s = [] | JObj fs \<Rightarrow> jget ''length'' v = Some (JNum 0) | _ \<Rightarrow> False)"

definition no_inventory_endpoint_message :: string where
  "no_inventory_endpoint_message = ''No operator in this group publishes an API endpoint, so the console cannot fetch the inventory. Paste it below instead.''"

definition no_sync_session_message :: string where
  "no_sync_session_message = ''Fetching the inventory needs a credential the group trusts, and this tab has no signing session. '' @
     ''Sign in with Signet, or paste the response from your own admin call below.''"

definition read_inventory :: "('e env_scheme) \<Rightarrow> string \<Rightarrow> string option \<Rightarrow> string option \<Rightarrow> ('t, json) io" where
  "read_inventory E raw node group_address =
     (if trim raw \<noteq> [] then lift_err (pasted_inventory raw)
      else if \<not> truthy_str node \<or> \<not> truthy_str group_address then throw (Error no_inventory_endpoint_message)
      else await (load_signing_session E) (\<lambda>session.
        if session = None then throw (Error no_sync_session_message)
        else await (node_proxy E (the node) ''/admin/keys'' (Some (jobj [str_field ''group_id'' (the group_address)])) ''POST'')
          (\<lambda>result. ret (fetched_inventory result))))"

definition empty_sync_message :: "int \<Rightarrow> string" where
  "empty_sync_message existing = ''The inventory came back empty, but this app currently shows '' @ dec_of_int existing @
     '' key(s). Continuing will mark all of them deleted. Sync anyway?''"

definition confirm_sync :: "('e dialog_env_scheme) \<Rightarrow> int \<Rightarrow> json \<Rightarrow> ('t, bool) io" where
  "confirm_sync E existing keys =
     (if no_keys keys \<and> 0 < existing
      then external (Sdk ''window.confirm'' [empty_sync_message existing]) (\<lambda>h. Inr (e_confirm E h (empty_sync_message existing)))
      else ret True)"

definition post_inventory :: "('e env_scheme) \<Rightarrow> string \<Rightarrow> route \<Rightarrow> json \<Rightarrow> ('t, unit) wlio" where
  "post_inventory E appId reload keys =
     await (typed (f_int ''synced'') (request E (wallet_route (PostSyncKeys appId keys)))) (\<lambda>n.
     seq (toast Toast_success (''Synced '' @ dec_of_int n @ '' key'' @ (if n = 1 then [] else ''s'')) [])
       (seq (update_tab (\<lambda>t. t\<lparr>wl_raw := [], wl_sync_open := False\<rparr>)) (list_reload E reload)))"

definition sync_keys :: "('e dialog_env_scheme) \<Rightarrow> string \<Rightarrow> route \<Rightarrow> string \<Rightarrow> string option \<Rightarrow> string option \<Rightarrow> int \<Rightarrow> ('t, unit) wlio" where
  "sync_keys E appId reload raw node group_address existing =
     await (read_inventory E raw node group_address) (\<lambda>keys.
     await (confirm_sync E existing keys) (\<lambda>confirmed.
     if \<not> confirmed then ret () else post_inventory E appId reload keys))"

text \<open>What the page hands to the modal.\<close>

definition sync_arguments :: "group_view option \<Rightarrow> key_stats option \<Rightarrow> string option \<times> string option \<times> int" where
  "sync_arguments g stats = (group_node_url g, (case g of None \<Rightarrow> None | Some v \<Rightarrow> a_group_address (gv_app v)), stat ks_total stats)"

subsection \<open>Properties\<close>

lemma proxy_ends: "node_proxy E node path body meth t = (res, t') \<Longrightarrow>
    t' = logged [Fetch (proxy_request E (current_token E t) node path body meth)] t"
  by (auto simp: node_proxy_def await_ends stored_token_apply lift_err_def current_token_def dest!: fetch_ends)

definition accepted :: "('e env_scheme) \<Rightarrow> event list \<Rightarrow> http_request \<Rightarrow> bool" where
  "accepted E h req = (case e_fetch E h req of Reply st body \<Rightarrow> reply_ok st | _ \<Rightarrow> False)"

lemma proxy_returns:
  assumes "node_proxy E node path body meth t = (Inr j, t')"
  shows "accepted E (trace t) (proxy_request E (current_token E t) node path body meth)"
  using assms by (auto simp: node_proxy_def await_returns stored_token_apply prim_returns op_returns accepted_def reply_json_def
      current_token_def Let_def split: if_splits)

lemma request_accepted:
  assumes "request E r t = (Inr j, t')"
  shows "accepted E (trace t) (request_of E (current_token E t) r)"
  using assms by (auto simp: request_apply accepted_def reply_json_def current_token_def Let_def split: if_splits http_reply.splits)

definition same_local :: "'t tab_scheme \<Rightarrow> 't tab_scheme \<Rightarrow> bool" where
  "same_local t t' \<longleftrightarrow> local_storage t' = local_storage t"

interpretation local_frame: frame same_local
  by unfold_locales (simp_all add: same_local_def)

lemmas same_local_frame [keeps_intros] = local_frame.frame_axioms

lemma load_same_local: "keeps same_local (load_signing_session E)"
  unfolding load_signing_session_def clear_signing_session_def ss_get_def ss_remove_def date_now_def
  by (intro keeps_intros) (simp_all add: same_local_def)

lemma load_silent:
  assumes "load_signing_session E t = (r, t')"
  shows "trace t' = trace t" "current_token E t' = current_token E t"
  using keepsD [OF session_ops_silent(3) [where P = "\<lambda>_. False"] assms] keepsD [OF load_same_local assms]
  by (auto simp: appends_def list_all_iff same_local_def current_token_def)

lemma list_reload_ends: "list_reload E r t = (res, t') \<Longrightarrow> res = Inr () \<and> t' = logged [Fetch (request_of E (current_token E t) r)] t"
  by (auto simp: list_reload_def try_catch_def await_ends ret_def split: prod.splits sum.splits dest!: request_ends)

lemma key_status_run:
  fixes t :: "'t wallets_tab_scheme" and E :: "'e env_scheme" and g :: "group_view option" and k :: wallet_key and s :: key_status
    and appId :: string
  defines "tok \<equiv> current_token E t"
  defines "node \<equiv> proxy_request E tok (the (group_node_url g)) (key_path s) (Some (key_body g k)) ''POST''"
  defines "rcd \<equiv> request_of E tok (record_status appId k s)"
  shows "case set_key_status E appId reload g k s t of
      (Inr _, t') \<Rightarrow> accepted E (trace t) node \<and> accepted E (trace t @ [Fetch node]) rcd \<and> wl_detail t' = None \<and>
        trace t' = trace t @ [Fetch node, Fetch rcd, Fetch (request_of E tok reload), Toast Toast_success (status_toast s) []]
    | (Inl e, t') \<Rightarrow> trace t' = trace t \<or> trace t' = trace t @ [Fetch node] \<or>
        accepted E (trace t) node \<and> trace t' = trace t @ [Fetch node, Fetch rcd]"
proof (cases "truthy_str (group_node_url g)")
  case False
  then show ?thesis by (simp add: set_key_status_def throw_def)
next
  case True
  obtain se t1 where l: "load_signing_session E t = (Inr se, t1)" using load_total by blast
  note l1 = load_silent [OF l]
  obtain r2 t2 where n: "node_proxy E (the (group_node_url g)) (key_path s) (Some (key_body g k)) ''POST'' t1 = (r2, t2)" by fastforce
  then have t2: "t2 = logged [Fetch node] t1" using proxy_ends [OF n] by (simp add: node_def tok_def l1)
  have an: "accepted E (trace t) node" if "r2 = Inr j" for j
    using proxy_returns [of E _ _ _ _ t1 j t2] n that by (simp add: l1 node_def tok_def)
  obtain r3 t3 where p: "request E (record_status appId k s) t2 = (r3, t3)" by fastforce
  then have t3: "t3 = logged [Fetch node, Fetch rcd] t1" using request_ends [OF p] by (simp add: t2 rcd_def tok_def l1)
  have ap: "accepted E (trace t @ [Fetch node]) rcd" if "r3 = Inr j" for j
    using request_accepted [of E _ t2 j t3] p that by (simp add: t2 l1 rcd_def tok_def)
  obtain t4 where q: "list_reload E reload t3 = (Inr (), t4)" and t4: "t4 = logged [Fetch node, Fetch rcd, Fetch (request_of E tok reload)] t1"
    using list_reload_ends [of E reload t3] by (metis append_Cons append_Nil l1(2) logged_simps(5,6) surj_pair t3 tok_def)
  show ?thesis
    using True l n p q l1 t2 t3 t4 an ap
    by (cases se; cases r2; cases r3)
      (simp_all add: set_key_status_def await_def seq_def throw_def toast_def log_event_apply update_tab_def)
qed

text \<open>C26: the operators are told first. Changing a key's status sends a node the change, and sends the platform
  its record only after the node accepted it; the list is read again and the change announced only
  after the platform accepted the record. The node's request carries the group, the key and nothing
  of the signing session, whose presence is all that was looked at.\<close>

theorem status_recorded_after_node:
  "(let tok = current_token E t;
       node = proxy_request E tok (the (group_node_url g)) (key_path s) (Some (key_body g k)) ''POST'';
       rcd = request_of E tok (record_status appId k s)
   in case set_key_status E appId reload g k s t of
      (Inr _, t') \<Rightarrow> accepted E (trace t) node \<and> accepted E (trace t @ [Fetch node]) rcd \<and> wl_detail t' = None \<and>
        trace t' = trace t @ [Fetch node, Fetch rcd, Fetch (request_of E tok reload), Toast Toast_success (status_toast s) []]
    | (Inl e, t') \<Rightarrow> trace t' = trace t \<or> trace t' = trace t @ [Fetch node] \<or>
        accepted E (trace t) node \<and> trace t' = trace t @ [Fetch node, Fetch rcd])"
  unfolding Let_def by (rule key_status_run)

lemma post_inventory_ends:
  fixes t :: "'t wallets_tab_scheme"
  shows "trace (snd (post_inventory E appId reload keys t)) =
      trace t @ [Fetch (request_of E (current_token E t) (wallet_route (PostSyncKeys appId keys)))] \<or>
    (\<exists>n. trace (snd (post_inventory E appId reload keys t)) =
      trace t @ [Fetch (request_of E (current_token E t) (wallet_route (PostSyncKeys appId keys))),
        Toast Toast_success (''Synced '' @ dec_of_int n @ '' key'' @ (if n = 1 then [] else ''s'')) [],
        Fetch (request_of E (current_token E t) reload)])"
proof -
  obtain r t1 where p: "typed (f_int ''synced'') (request E (wallet_route (PostSyncKeys appId keys))) t = (r, t1)" by fastforce
  from typed_request_ends [OF p]
  have t1: "t1 = logged [Fetch (request_of E (current_token E t) (wallet_route (PostSyncKeys appId keys)))] t" .
  show ?thesis
  proof (cases r)
    case (Inl e)
    then show ?thesis using p t1 by (simp add: post_inventory_def await_def)
  next
    case (Inr n)
    let ?m = "''Synced '' @ dec_of_int n @ '' key'' @ (if n = 1 then [] else ''s'')"
    let ?t2 = "(logged [Toast Toast_success ?m []] t1)\<lparr>wl_raw := [], wl_sync_open := False\<rparr>"
    obtain t3 where q: "list_reload E reload ?t2 = (Inr (), t3)" using list_reload_returns by blast
    have "t3 = logged [Fetch (request_of E (current_token E ?t2) reload)] ?t2" using list_reload_ends [OF q] by simp
    moreover have "current_token E ?t2 = current_token E t" by (simp add: current_token_def t1)
    moreover have "post_inventory E appId reload keys t = (Inr (), t3)"
      using p q Inr by (simp add: post_inventory_def await_def seq_def toast_def log_event_apply update_tab_def logged_def)
    ultimately show ?thesis by (intro disjI2 exI [of _ n]) (simp add: t1)
  qed
qed

text \<open>A node's answer that is an object with a list of keys, which the paste accepts, is read as no keys.\<close>

lemma object_answer_read_as_empty:
  assumes "json_ok (JArr ks)"
  shows "pasted_inventory (json_print (JObj [(''keys'', JArr ks)])) = Inr (JArr ks)"
    and "fetched_inventory (JObj [(''keys'', JArr ks)]) = JArr []"
  using assms by (simp_all add: pasted_inventory_def fetched_inventory_def parse_json_def json_parse_print js_prop_def del: json_print.simps)

text \<open>An inventory is replaced by what was read, and emptied only by consent. A sync whose reading fails
  sends the platform nothing. Otherwise it posts exactly the keys it read, once; before it posts none
  over a list that shows some, it asks, and a refusal ends it without a post.\<close>

theorem sync_posts_what_was_read:
  "case read_inventory E raw node group_address t of
     (Inl e, t1) \<Rightarrow> sync_keys E appId reload raw node group_address existing t = (Inl e, t1)
   | (Inr keys, t1) \<Rightarrow>
      (let asks = no_keys keys \<and> 0 < existing;
           question = (if asks then [Sdk ''window.confirm'' [empty_sync_message existing]] else []);
           post = Fetch (request_of E (current_token E t1) (wallet_route (PostSyncKeys appId keys)));
           out = sync_keys E appId reload raw node group_address existing t
       in if asks \<and> \<not> e_confirm E (trace t1) (empty_sync_message existing)
          then out = (Inr (), logged question t1)
          else trace (snd out) = trace t1 @ question @ [post] \<or>
            (\<exists>n. trace (snd out) = trace t1 @ question @ [post, Toast Toast_success (''Synced '' @ dec_of_int n @ '' key'' @
               (if n = 1 then [] else ''s'')) [], Fetch (request_of E (current_token E t1) reload)]))"
proof -
  obtain r t1 where rd: "read_inventory E raw node group_address t = (r, t1)" by fastforce
  show ?thesis
  proof (cases r)
    case (Inl e)
    then show ?thesis using rd by (simp add: sync_keys_def await_def)
  next
    case (Inr keys)
    let ?q = "if no_keys keys \<and> 0 < existing then [Sdk ''window.confirm'' [empty_sync_message existing]] else []"
    have c: "confirm_sync E existing keys t1 =
        (Inr (no_keys keys \<and> 0 < existing \<longrightarrow> e_confirm E (trace t1) (empty_sync_message existing)), logged ?q t1)"
      by (cases "no_keys keys \<and> 0 < existing") (simp_all only: confirm_sync_def external_logged ret_def if_True if_False simp_thms logged_simps)
    show ?thesis
      using rd Inr c post_inventory_ends [of E appId reload keys "logged ?q t1"]
      by (auto simp: sync_keys_def await_def ret_def Let_def)
  qed
qed

end
