(* ===== verification/Webhooks.thy ===== *)
theory Webhooks
  imports Trust Complex_Main
begin

text \<open>
  Webhooks and domains: \<open>web/app/(console)/apps/[appId]/settings/webhooks/page.tsx\<close>, with the receiver it
  tells developers to use, the server's \<open>Sign\<close> and \<open>Verify\<close> (\<open>backend/internal/webhook/dispatcher.go\<close>), and
  \<open>web/app/(console)/apps/[appId]/settings/domains/page.tsx\<close>. HMAC-SHA-256 is an argument.
\<close>

subsection \<open>Number of a text\<close>

text \<open>\<open>Number(s)\<close>, exact where the code has doubles: a number, an infinity, or no number at all.\<close>

datatype js_number = Not_a_number | Infinite | Finite rat

definition split_first :: "char \<Rightarrow> string \<Rightarrow> string \<times> string option" where
  "split_first d s = (takeWhile (\<lambda>c. c \<noteq> d) s,
     case dropWhile (\<lambda>c. c \<noteq> d) s of [] \<Rightarrow> None | c # r \<Rightarrow> Some r)"

definition all_digits :: "string \<Rightarrow> bool" where
  "all_digits s = list_all is_digit s"

text \<open>\<open>12.5\<close>, \<open>12.\<close>, \<open>.5\<close>, \<open>12\<close>, and an exponent after any of them.\<close>

definition mantissa :: "string \<Rightarrow> rat option" where
  "mantissa s = (case split_first (CHR ''.'') s of (whole, fr) \<Rightarrow>
     let f = (case fr of None \<Rightarrow> [] | Some x \<Rightarrow> x) in
     if all_digits whole \<and> all_digits f \<and> whole @ f \<noteq> []
     then Some (of_nat (dec_val (whole @ f)) / 10 ^ length f) else None)"

definition exponent :: "string \<Rightarrow> int option" where
  "exponent s = (if starts_with ''-'' s then (if tl s \<noteq> [] \<and> all_digits (tl s) then Some (- int (dec_val (tl s))) else None)
     else (let u = (if starts_with ''+'' s then tl s else s) in if u \<noteq> [] \<and> all_digits u then Some (int (dec_val u)) else None))"

definition scale10 :: "rat \<Rightarrow> int \<Rightarrow> rat" where
  "scale10 m e = (if 0 \<le> e then m * 10 ^ nat e else m / 10 ^ nat (- e))"

definition unsigned_number :: "string \<Rightarrow> js_number" where
  "unsigned_number s = (if s = ''Infinity'' then Infinite
     else (case split_first (CHR ''e'') (map (\<lambda>c. if c = CHR ''E'' then CHR ''e'' else c) s) of
       (m, None) \<Rightarrow> (case mantissa m of Some x \<Rightarrow> Finite x | None \<Rightarrow> Not_a_number)
     | (m, Some e) \<Rightarrow> (case (mantissa m, exponent e) of (Some x, Some k) \<Rightarrow> Finite (scale10 x k) | _ \<Rightarrow> Not_a_number)))"

definition number_of :: "string \<Rightarrow> js_number" where
  "number_of s = (case big_of_string s of Some n \<Rightarrow> Finite (of_int n)
     | None \<Rightarrow> (let u = trim s in
         if starts_with ''-'' u then (case unsigned_number (tl u) of Finite x \<Rightarrow> Finite (- x) | v \<Rightarrow> v)
         else if starts_with ''+'' u then unsigned_number (tl u) else unsigned_number u))"

subsection \<open>Signing and verifying a delivery\<close>

text \<open>The server's side: HMAC takes the secret and the message.\<close>

definition sign_delivery :: "(string \<Rightarrow> string \<Rightarrow> byte list) \<Rightarrow> string \<Rightarrow> string \<Rightarrow> string \<Rightarrow> string" where
  "sign_delivery hmac secret timestamp body = ''v1='' @ bytes_to_hex (hmac secret (timestamp @ ''.'' @ body))"

definition server_verify :: "(string \<Rightarrow> string \<Rightarrow> byte list) \<Rightarrow> string \<Rightarrow> string \<Rightarrow> string \<Rightarrow> string \<Rightarrow> bool" where
  "server_verify hmac secret timestamp body signature \<longleftrightarrow> sign_delivery hmac secret timestamp body = signature"

definition delivery_headers :: "(string \<Rightarrow> string \<Rightarrow> byte list) \<Rightarrow> string \<Rightarrow> int \<Rightarrow> string \<Rightarrow> string \<Rightarrow> (string \<times> string) list" where
  "delivery_headers hmac secret unix_seconds delivery_id body =
     (let timestamp = dec_of_int unix_seconds in
      [(''Content-Type'', ''application/json''), (''User-Agent'', ''signet-platform-webhooks/1''), (''Signet-Delivery'', delivery_id),
       (''Signet-Timestamp'', timestamp), (''Signet-Signature'', sign_delivery hmac secret timestamp body)])"

text \<open>The receiver the console shows: \<open>headers.get\<close> ignores case and joins repeated headers.\<close>

definition header_get :: "string \<Rightarrow> (string \<times> string) list \<Rightarrow> string option" where
  "header_get name hs = (case [v. (k, v) \<leftarrow> hs, to_lower k = name] of [] \<Rightarrow> None | vs \<Rightarrow> Some (join_with '', '' vs))"

definition header_or_empty :: "string \<Rightarrow> (string \<times> string) list \<Rightarrow> string" where
  "header_or_empty name hs = (case header_get name hs of None \<Rightarrow> [] | Some v \<Rightarrow> v)"

definition too_old :: "int \<Rightarrow> string \<Rightarrow> bool" where
  "too_old now_ms timestamp = (case number_of timestamp of
     Not_a_number \<Rightarrow> False | Infinite \<Rightarrow> True | Finite x \<Rightarrow> 300 < \<bar>of_int now_ms / 1000 - x\<bar>)"

definition verify_delivery :: "(string \<Rightarrow> string \<Rightarrow> byte list) \<Rightarrow> int \<Rightarrow> string \<Rightarrow> (string \<times> string) list \<Rightarrow> string \<Rightarrow> bool" where
  "verify_delivery hmac now_ms secret hs raw_body =
     (let timestamp = header_or_empty ''signet-timestamp'' hs; signature = header_or_empty ''signet-signature'' hs in
      if timestamp = [] \<or> too_old now_ms timestamp then False
      else
        (let expected = ''v1='' @ bytes_to_hex (hmac secret (timestamp @ ''.'' @ raw_body))
         in length expected = length signature \<and> expected = signature))"

subsection \<open>The webhooks page\<close>

record webhook =
  wh_id :: string
  wh_url :: string
  wh_events :: "string list"
  wh_enabled :: bool
  wh_description :: string
  wh_created_at :: string
  wh_secret :: "string option"

definition webhook_of_json :: "json \<Rightarrow> webhook option" where
  "webhook_of_json j = do { i \<leftarrow> f_str ''id'' j; u \<leftarrow> f_str ''url'' j; es \<leftarrow> f_list d_str ''events'' j;
     en \<leftarrow> f_bool ''enabled'' j;
     ds \<leftarrow> f_str ''description'' j; cr \<leftarrow> f_str ''created_at'' j; se \<leftarrow> f_optional ''secret'' j;
     Some \<lparr>wh_id = i, wh_url = u, wh_events = es, wh_enabled = en, wh_description = ds, wh_created_at = cr, wh_secret = se\<rparr> }"

record delivery =
  dl_id :: string
  dl_event :: string
  dl_payload :: json
  dl_status_code :: "int option"
  dl_error :: "string option"
  dl_attempt :: int
  dl_duration_ms :: "int option"
  dl_created_at :: string

record webhooks_tab = provider_tab +
  wt_open :: bool
  wt_secret :: "string option"
  wt_url :: string
  wt_selected :: "string list"

type_synonym ('t, 'a) whio = "'t webhooks_tab_scheme \<Rightarrow> (jserr + 'a) \<times> 't webhooks_tab_scheme"

definition subscription_text :: "webhook \<Rightarrow> string" where
  "subscription_text h = (let n = length (wh_events h) in
     if n = 0 then ''Subscribed to every event''
     else dec_of_nat n @ '' event'' @ (if n = 1 then [] else ''s'') @ '': '' @ join_with '', '' (take 3 (wh_events h)) @
       (if 3 < n then ellipsis else []))"

definition remove_webhook :: "('e env_scheme) \<Rightarrow> string \<Rightarrow> string \<Rightarrow> ('t, unit) whio" where
  "remove_webhook E appId i = await (request E (ops_route (DelWebhook appId i))) (\<lambda>_.
     seq (list_reload E (ops_route (GetWebhooks appId))) (toast Toast_success ''Webhook deleted'' []))"

text \<open>The answer of a test, with \<open>note\<close> and \<open>error\<close> as far as they are texts.\<close>

definition test_webhook :: "('e env_scheme) \<Rightarrow> string \<Rightarrow> string \<Rightarrow> ('t, unit) whio" where
  "test_webhook E appId i = await (request E (ops_route (PostTestWebhook appId i))) (\<lambda>result.
     await (lift_err (js_prop ''delivered'' result)) (\<lambda>delivered.
       let note = jstr (jget ''note'' result); err = (case jget ''error'' result of None \<Rightarrow> note | Some JNull \<Rightarrow> note | Some e \<Rightarrow> jstr (Some e)) in
       if (case delivered of None \<Rightarrow> False | Some v \<Rightarrow> js_truthy v)
       then toast Toast_success ''Endpoint accepted the test'' (or_else note [])
       else toast Toast_error ''Endpoint rejected the test'' (or_else err [])))"

definition webhook_body :: "string \<Rightarrow> string list \<Rightarrow> json" where
  "webhook_body u es = jobj [str_field ''url'' (trim u), (''events'', Some (JArr (map JStr es)))]"

definition create_webhook :: "('e env_scheme) \<Rightarrow> string \<Rightarrow> ('t, unit) whio" where
  "create_webhook E appId = await (reads (\<lambda>t. (wt_url t, wt_selected t))) (\<lambda>(u, es).
     await (typed webhook_of_json (request E (ops_route (PostWebhook appId (webhook_body u es))))) (\<lambda>hook.
     seq (update_tab (\<lambda>t. t\<lparr>wt_url := [], wt_selected := [], wt_open := False,
         wt_secret := Some (case wh_secret hook of None \<Rightarrow> [] | Some s \<Rightarrow> s)\<rparr>))
       (list_reload E (ops_route (GetWebhooks appId)))))"

definition create_webhook_enabled :: "bool \<Rightarrow> string \<Rightarrow> bool" where
  "create_webhook_enabled pending u \<longleftrightarrow> \<not> (pending \<or> trim u = [])"

definition toggle_event :: "string \<Rightarrow> bool \<Rightarrow> string list \<Rightarrow> string list" where
  "toggle_event e checked prev = (if checked then prev @ [e] else filter (\<lambda>x. x \<noteq> e) prev)"

definition delivery_row :: "intl \<Rightarrow> int \<Rightarrow> delivery \<Rightarrow> string \<times> tone \<times> string \<times> string \<times> string" where
  "delivery_row I now d = (dl_event d,
     (if truthy_str (dl_error d) then Tone_error else Tone_success),
     (if truthy_str (dl_error d) then (case dl_status_code d of None \<Rightarrow> ''failed'' | Some c \<Rightarrow> dec_of_int c)
      else (case dl_status_code d of None \<Rightarrow> [] | Some c \<Rightarrow> dec_of_int c)),
     (case dl_duration_ms d of None \<Rightarrow> em_dash | Some n \<Rightarrow> dec_of_int n @ '' ms''),
     relative_time I now (Some (dl_created_at d)))"

definition deliveries_route :: "string \<Rightarrow> webhook option \<Rightarrow> route option" where
  "deliveries_route appId h = map_option (\<lambda>w. ops_route (GetDeliveries appId (wh_id w))) h"

subsection \<open>The domains page\<close>

record domains_tab = provider_tab +
  dt_origin :: string

type_synonym ('t, 'a) dmio = "'t domains_tab_scheme \<Rightarrow> (jserr + 'a) \<times> 't domains_tab_scheme"

definition add_domain :: "('e env_scheme) \<Rightarrow> string \<Rightarrow> ('t, unit) dmio" where
  "add_domain E appId = await (reads dt_origin) (\<lambda>origin.
     await (request E (app_route (PostDomain appId (trim origin)))) (\<lambda>_.
     seq (update_tab (\<lambda>t. t\<lparr>dt_origin := []\<rparr>))
    (seq (list_reload E (app_route (GetDomains appId))) (toast Toast_success ''Domain allowed'' []))))"

definition remove_domain :: "('e env_scheme) \<Rightarrow> string \<Rightarrow> string \<Rightarrow> ('t, unit) dmio" where
  "remove_domain E appId i = await (request E (app_route (DelDomain appId i))) (\<lambda>_.
     seq (list_reload E (app_route (GetDomains appId))) (toast Toast_success ''Domain removed'' []))"

definition add_domain_enabled :: "bool \<Rightarrow> string \<Rightarrow> bool" where
  "add_domain_enabled pending origin \<longleftrightarrow> \<not> (pending \<or> trim origin = [])"

subsection \<open>Properties\<close>

lemma trim_no_space:
  assumes "s \<noteq> []" and "list_all (\<lambda>c. \<not> is_space c) s"
  shows "trim s = s"
proof -
  have "\<not> is_space (hd s)" "\<not> is_space (hd (rev s))"
    using assms hd_in_set [of s] hd_in_set [of "rev s"] by (auto simp: list_all_iff)
  then show ?thesis using assms(1) by (simp add: trim_def dropWhile_rev_no_space)
qed

lemma digit_facts: "is_digit c \<Longrightarrow> \<not> is_space c \<and> hex_digit_val c \<noteq> None \<and> the (hex_digit_val c) < 10 \<and>
    lower_char c = c \<and> c \<noteq> CHR ''-'' \<and> c \<noteq> CHR ''+'' \<and> c \<noteq> CHR ''x'' \<and> c \<noteq> CHR ''o'' \<and> c \<noteq> CHR ''b''"
  by (auto simp: is_digit_def is_space_def hex_digit_val_def lower_char_def Let_def)

lemma digit_no_space: "is_digit c \<Longrightarrow> \<not> is_space c"
  using digit_facts by blast

lemma radix_val_dec [simp]: "radix_val 10 (dec_of_nat n) = Some n"
proof -
  have "list_all (\<lambda>c. case hex_digit_val c of None \<Rightarrow> False | Some d \<Rightarrow> d < 10) (dec_of_nat n)"
    using dec_of_nat_digits [of n] digit_facts by (force simp: list_all_iff split: option.split)
  then show ?thesis using dec_val_dec_of_nat [of n] by (simp add: radix_val_def dec_val_def)
qed

lemma big_of_dec: "big_of_string (dec_of_nat n) = Some (int n)" "big_of_string (CHR ''-'' # dec_of_nat n) = Some (- int n)"
proof -
  obtain c cs where d: "dec_of_nat n = c # cs" by (cases "dec_of_nat n") auto
  then have ds: "is_digit c" "list_all is_digit cs" using dec_of_nat_digits [of n] by simp_all
  have r: "radix_val 10 (c # cs) = Some n" using radix_val_dec [of n] by (simp only: d)
  have t: "trim (c # cs) = c # cs" "trim (CHR ''-'' # c # cs) = CHR ''-'' # c # cs"
    using ds by (auto intro!: trim_no_space simp: list_all_iff digit_no_space) (simp add: is_space_def)
  have p: "to_lower (take 2 (c # cs)) \<notin> {''0x'', ''0o'', ''0b''}"
  proof (cases cs)
    case (Cons a as)
    then have "is_digit a" using ds(2) by simp
    then show ?thesis using Cons digit_facts [of a] digit_facts [OF ds(1)] by (auto simp: to_lower_def)
  qed (simp add: to_lower_def)
  have m: "to_lower (take 2 (CHR ''-'' # c # cs)) \<notin> {''0x'', ''0o'', ''0b''}"
    by (simp add: to_lower_def lower_char_def)
  have f: "c \<noteq> CHR ''-''" "c \<noteq> CHR ''+''" using digit_facts [OF ds(1)] by auto
  have w: "starts_with [a] (b # bs) \<longleftrightarrow> a = b" for a b bs by (auto simp: starts_with_def)
  show "big_of_string (dec_of_nat n) = Some (int n)"
    using p f unfolding big_of_string_def d t Let_def w by (simp add: r)
  show "big_of_string (CHR ''-'' # dec_of_nat n) = Some (- int n)"
    using m unfolding big_of_string_def d t Let_def w by (simp add: r)
qed

lemma number_of_dec: "number_of (dec_of_int i) = Finite (of_int i)"
  by (simp add: number_of_def dec_of_int_def big_of_dec)

lemma trim_set: "c \<in> set s \<Longrightarrow> \<not> is_space c \<Longrightarrow> c \<in> set (trim s)"
proof -
  have "c \<in> set (dropWhile P xs)" if "c \<in> set xs" and "\<not> P c" for P :: "char \<Rightarrow> bool" and xs
    using that by (induction xs) auto
  then show "c \<in> set s \<Longrightarrow> \<not> is_space c \<Longrightarrow> c \<in> set (trim s)" by (simp add: trim_def)
qed

lemma split_first_set: "set s \<subseteq> insert d (set (fst (split_first d s)) \<union> (case snd (split_first d s) of None \<Rightarrow> {} | Some r \<Rightarrow> set r))"
proof -
  have "s = takeWhile (\<lambda>c. c \<noteq> d) s @ dropWhile (\<lambda>c. c \<noteq> d) s" by simp
  moreover have "dropWhile (\<lambda>c. c \<noteq> d) s = x # r \<Longrightarrow> x = d" for x r
    using hd_dropWhile [of "\<lambda>c. c \<noteq> d" s] by auto
  ultimately show ?thesis
    unfolding split_first_def by (cases "dropWhile (\<lambda>c. c \<noteq> d) s") (auto dest: set_takeWhileD, (metis append_Nil2 set_append set_ConsD Un_iff)+)
qed

lemma brace_no_digit: "\<not> is_digit (CHR ''{'')" "hex_digit_val (CHR ''{'') = None"
  by code_simp+

lemma brace_no_digits: "CHR ''{'' \<in> set s \<Longrightarrow> \<not> all_digits s" "CHR ''{'' \<in> set s \<Longrightarrow> radix_val b s = None"
  using brace_no_digit by (force simp: all_digits_def radix_val_def list_all_iff)+

lemma brace_mantissa: "CHR ''{'' \<in> set s \<Longrightarrow> mantissa s = None"
  using split_first_set [of s "CHR ''.''"]
  by (auto simp: mantissa_def Let_def split_beta brace_no_digits split: option.splits)

lemma brace_exponent: "CHR ''{'' \<in> set s \<Longrightarrow> exponent s = None"
  by (cases s) (auto simp: exponent_def Let_def brace_no_digits starts_with_iff)

lemma brace_unsigned: assumes "CHR ''{'' \<in> set s" shows "unsigned_number s = Not_a_number"
proof -
  let ?s = "map (\<lambda>c. if c = CHR ''E'' then CHR ''e'' else c) s"
  have b: "CHR ''{'' \<in> set ?s" using assms by force
  have n: "s \<noteq> ''Infinity''" using assms by auto
  obtain m e where sp: "split_first (CHR ''e'') ?s = (m, e)" by fastforce
  have "CHR ''{'' \<in> set m \<or> (\<exists>x. e = Some x \<and> CHR ''{'' \<in> set x)"
    using b split_first_set [of ?s "CHR ''e''"] unfolding sp by (auto split: option.splits)
  then show ?thesis
    unfolding unsigned_number_def sp using n
    by (auto simp: brace_mantissa brace_exponent split: option.split)
qed

lemma brace_is_no_number: assumes "CHR ''{'' \<in> set s" shows "number_of s = Not_a_number"
proof -
  let ?u = "trim s"
  have u: "CHR ''{'' \<in> set ?u" using trim_set [OF assms] by (simp add: is_space_def)
  have d: "CHR ''{'' \<in> set (drop 2 ?u)" if "to_lower (take 2 ?u) \<in> {''0x'', ''0o'', ''0b''}"
  proof -
    have "CHR ''{'' \<in> set (take 2 ?u) \<Longrightarrow> lower_char (CHR ''{'') \<in> set (to_lower (take 2 ?u))"
      unfolding to_lower_def by simp
    then have "CHR ''{'' \<notin> set (take 2 ?u)" using that by (auto simp: lower_char_def)
    then show ?thesis using u by (metis Un_iff append_take_drop_id set_append)
  qed
  have t: "CHR ''{'' \<in> set (tl ?u)" if "starts_with [c] ?u" "c \<noteq> CHR ''{''" for c
    using u that by (cases ?u) (auto simp: starts_with_iff)
  have "big_of_string s = None"
    using u d t by (auto simp: big_of_string_def Let_def brace_no_digits)
  then show ?thesis
    using u t by (auto simp: number_of_def Let_def brace_unsigned)
qed

lemma header_names [simp]:
  "to_lower ''Content-Type'' = ''content-type''" "to_lower ''User-Agent'' = ''user-agent''" "to_lower ''Signet-Delivery'' = ''signet-delivery''"
  "to_lower ''Signet-Timestamp'' = ''signet-timestamp''" "to_lower ''Signet-Signature'' = ''signet-signature''"
  by code_simp+

lemma header_or_empty_sent [simp]:
  "header_or_empty ''signet-timestamp'' (delivery_headers hmac secret ts i body) = dec_of_int ts"
  "header_or_empty ''signet-signature'' (delivery_headers hmac secret ts i body) = sign_delivery hmac secret (dec_of_int ts) body"
  by (simp_all add: header_or_empty_def header_get_def delivery_headers_def Let_def)

lemma dec_of_int_not_Nil [simp]: "dec_of_int i \<noteq> []"
  by (simp add: dec_of_int_def)

lemma same_length_same: "length a = length b \<and> a = b \<longleftrightarrow> a = b"
  by auto

lemma fresh_timestamp: "\<not> too_old now_ms (dec_of_int ts) \<longleftrightarrow> \<bar>now_ms - 1000 * ts\<bar> \<le> 300000"
proof -
  have "(of_int now_ms :: rat) / 1000 - of_int ts = of_int (now_ms - 1000 * ts) / 1000" by (simp add: field_simps)
  then have "\<bar>(of_int now_ms :: rat) / 1000 - of_int ts\<bar> = of_int \<bar>now_ms - 1000 * ts\<bar> / 1000" by (simp only: abs_divide)
  moreover have "300 < (of_int k :: rat) / 1000 \<longleftrightarrow> 300000 < k" for k :: int
    using of_int_less_iff [where ?'a = rat, of 300000 k] by (simp add: field_simps)
  ultimately show ?thesis by (simp only: too_old_def number_of_dec js_number.case not_less [symmetric])
qed

text \<open>C27: the receiver the console hands out accepts what the server sends, and agrees with the server's own check.
  A delivery verifies under the endpoint's secret exactly within five minutes of its timestamp; and
  whatever the headers, the receiver accepts exactly what the server's \<open>Verify\<close> accepts for a timestamp
  that is present and not too old.\<close>

theorem delivery_verifies:
  "(verify_delivery hmac now_ms secret (delivery_headers hmac secret ts i body) body \<longleftrightarrow> \<bar>now_ms - 1000 * ts\<bar> \<le> 300000) \<and>
   (verify_delivery hmac now_ms secret hs body \<longleftrightarrow>
     (let timestamp = header_or_empty ''signet-timestamp'' hs in
      timestamp \<noteq> [] \<and> \<not> too_old now_ms timestamp \<and>
      server_verify hmac secret timestamp body (header_or_empty ''signet-signature'' hs)))"
  using fresh_timestamp [of now_ms ts]
  unfolding verify_delivery_def server_verify_def Let_def header_or_empty_sent same_length_same
  by (auto simp: sign_delivery_def simp del: append_Cons)

text \<open>C28: the receiver can be made to accept, at any later time, a body that was never sent. A text that is no
  number is never too old, and the signed material does not say where the timestamp ends: of a
  delivery captured once, whose body has a dot, the part before the dot can be moved into the
  timestamp, and the rest verifies as a body of its own.\<close>

theorem moved_dot_verifies:
  "verify_delivery hmac now_ms secret
     [(''Signet-Timestamp'', dec_of_int ts @ ''.{'' @ b), (''Signet-Signature'',
        header_or_empty ''signet-signature'' (delivery_headers hmac secret ts i (CHR ''{'' # b @ ''.'' @ rest)))] rest"
proof -
  let ?hs = "[(''Signet-Timestamp'', dec_of_int ts @ ''.{'' @ b), (''Signet-Signature'',
        sign_delivery hmac secret (dec_of_int ts) (CHR ''{'' # b @ ''.'' @ rest))]"
  have h: "header_or_empty ''signet-timestamp'' ?hs = dec_of_int ts @ ''.{'' @ b"
    "header_or_empty ''signet-signature'' ?hs = sign_delivery hmac secret (dec_of_int ts) (CHR ''{'' # b @ ''.'' @ rest)"
    by (simp_all add: header_or_empty_def header_get_def)
  have "\<not> too_old now_ms (dec_of_int ts @ ''.{'' @ b)"
    by (simp add: too_old_def brace_is_no_number)
  then show ?thesis
    unfolding header_or_empty_sent verify_delivery_def h Let_def by (simp add: sign_delivery_def)
qed

end
