(* ===== verification/Policies.thy ===== *)
theory Policies
  imports Trust
begin

text \<open>
  \<open>web/app/(console)/apps/[appId]/configuration/policies/page.tsx\<close>: the list of an app's policies and the
  dialogue that creates and edits them. The dialogue stays mounted while it is closed, and its fields
  are states that take their initial value only once: opening it for another policy does not fill it
  anew. That is why it is modelled as a step relation over the page's whole life.
\<close>

subsection \<open>Policies\<close>

datatype policy_kind = Key_scope | Spend_limit | Allowlist | Denylist | Rate_limit
datatype enforced_by = By_node | By_smart_account | By_advisory

definition policy_kind_name :: "policy_kind \<Rightarrow> string" where
  "policy_kind_name k = (case k of Key_scope \<Rightarrow> ''key_scope'' | Spend_limit \<Rightarrow> ''spend_limit'' | Allowlist \<Rightarrow> ''allowlist''
     | Denylist \<Rightarrow> ''denylist'' | Rate_limit \<Rightarrow> ''rate_limit'')"

record policy =
  py_id :: string
  py_name :: string
  py_kind :: policy_kind
  py_enforced_by :: enforced_by
  py_config :: json
  py_enabled :: bool
  py_created_at :: string
  py_updated_at :: string

definition KINDS :: "(policy_kind \<times> string \<times> enforced_by \<times> string) list" where
  "KINDS =
     [(Key_scope, ''Key scope'', By_node,
       ''Bind a key to one chain, contract, and message type. Every operator re-checks this before contributing a share, so it holds even if the node handling the request is hostile.''),
      (Allowlist, ''Destination allowlist'', By_smart_account,
       ''Only these addresses may receive value. Enforced by the account on-chain, atomically, at execution.''),
      (Denylist, ''Destination denylist'', By_smart_account,
       ''Block specific addresses. Enforced on-chain alongside the allowlist.''),
      (Spend_limit, ''Spend limit'', By_advisory,
       ''A cap per period. Recorded here and enforced by your own server '' @ em_dash @ '' the protocol has no per-value policy engine yet.''),
      (Rate_limit, ''Rate limit'', By_advisory,
       ''A ceiling on operations per period. Recorded here and enforced by your own server.'')]"

definition ENFORCEMENT_COPY :: "enforced_by \<Rightarrow> string \<times> tone" where
  "ENFORCEMENT_COPY e = (case e of By_node \<Rightarrow> (''Enforced by every operator'', Tone_success)
     | By_smart_account \<Rightarrow> (''Enforced on-chain'', Tone_accent) | By_advisory \<Rightarrow> (''Enforced by your server'', Tone_warn))"

definition kind_label :: "policy_kind \<Rightarrow> string" where
  "kind_label k = (case map_of KINDS k of None \<Rightarrow> policy_kind_name k | Some (l, _) \<Rightarrow> l)"

text \<open>The buttons of the dialogue: label, badge and description of a kind.\<close>

definition kind_buttons :: "(policy_kind \<times> string \<times> (string \<times> tone) \<times> string) list" where
  "kind_buttons = map (\<lambda>(k, l, e, d). (k, l, ENFORCEMENT_COPY e, d)) KINDS"

definition policy_row :: "policy \<Rightarrow> string \<times> (string \<times> tone) \<times> bool \<times> string \<times> bool" where
  "policy_row p = (py_name p, ENFORCEMENT_COPY (py_enforced_by p), \<not> py_enabled p, kind_label (py_kind p),
     (case py_config p of JObj fs \<Rightarrow> fs \<noteq> [] | _ \<Rightarrow> False))"

definition placeholder_for :: "policy_kind \<Rightarrow> json" where
  "placeholder_for k = (case k of
     Key_scope \<Rightarrow> JObj [(''chain_id'', JNum 8453), (''contract'', JStr ''0x833589fcd6edb6e08f4c7c32d4f71b54bda02913''),
       (''primary_type'', JStr ''TransferWithAuthorization'')]
   | Allowlist \<Rightarrow> JObj [(''addresses'', JArr [JStr (''0x'' @ ellipsis)])]
   | Denylist \<Rightarrow> JObj [(''addresses'', JArr [JStr (''0x'' @ ellipsis)])]
   | Spend_limit \<Rightarrow> JObj [(''asset'', JStr ''USDC''), (''amount'', JStr ''100.00''), (''period'', JStr ''day'')]
   | Rate_limit \<Rightarrow> JObj [(''operations'', JNum 100), (''period'', JStr ''hour'')])"

lemma every_kind_listed: "distinct (map fst KINDS) \<and> k \<in> fst ` set KINDS"
  by (cases k) (simp_all add: KINDS_def)

subsection \<open>The dialogue\<close>

record policy_page =
  pp_open :: bool
  pp_editing :: "policy option"
  pp_name :: string
  pp_kind :: policy_kind
  pp_config :: string
  pp_saving :: "json option"

text \<open>The states' initial values, read once when the page is mounted and no policy is being edited.
  \<open>JSON.stringify({}, null, 2)\<close> is \<open>{}\<close>.\<close>

definition policy_page_init :: policy_page where
  "policy_page_init = \<lparr>pp_open = False, pp_editing = None, pp_name = [], pp_kind = Key_scope, pp_config = ''{}'', pp_saving = None\<rparr>"

definition new_policy :: "policy_page \<Rightarrow> policy_page" where
  "new_policy s = s\<lparr>pp_editing := None, pp_open := True\<rparr>"

definition create_first :: "policy_page \<Rightarrow> policy_page" where
  "create_first s = s\<lparr>pp_open := True\<rparr>"

definition edit_policy :: "policy \<Rightarrow> policy_page \<Rightarrow> policy_page" where
  "edit_policy p s = s\<lparr>pp_editing := Some p, pp_open := True\<rparr>"

definition close_policy :: "policy_page \<Rightarrow> policy_page" where
  "close_policy s = s\<lparr>pp_open := False\<rparr>"

definition name_enabled :: "policy_page \<Rightarrow> bool" where
  "name_enabled s \<longleftrightarrow> pp_open s \<and> pp_editing s = None"

definition save_policy_enabled :: "policy_page \<Rightarrow> bool" where
  "save_policy_enabled s \<longleftrightarrow> pp_open s \<and> \<not> (pp_saving s \<noteq> None \<or> trim (pp_name s) = [])"

definition policy_title :: "policy_page \<Rightarrow> string" where
  "policy_title s = (if pp_editing s = None then ''New policy'' else ''Edit policy'')"

text \<open>The request of a save: the text parsed, an empty one as \<open>{}\<close>; the policy is always enabled.\<close>

definition invalid_config_message :: string where
  "invalid_config_message = ''The configuration is not valid JSON.''"

definition policy_body :: "policy_page \<Rightarrow> jserr + json" where
  "policy_body s = (case parse_json (if pp_config s = [] then ''{}'' else pp_config s) of
     Inl _ \<Rightarrow> Inl (Error invalid_config_message)
   | Inr parsed \<Rightarrow> Inr (jobj [str_field ''name'' (trim (pp_name s)), str_field ''kind'' (policy_kind_name (pp_kind s)),
       (''config'', Some parsed), (''enabled'', Some (JBool True))]))"

definition start_save :: "policy_page \<Rightarrow> policy_page" where
  "start_save s = (case policy_body s of Inl _ \<Rightarrow> s | Inr b \<Rightarrow> s\<lparr>pp_saving := Some b\<rparr>)"

definition policy_saved :: "policy_page \<Rightarrow> policy_page" where
  "policy_saved s = s\<lparr>pp_saving := None, pp_open := False\<rparr>"

definition policy_failed :: "policy_page \<Rightarrow> policy_page" where
  "policy_failed s = s\<lparr>pp_saving := None\<rparr>"

inductive policy_step :: "policy_page \<Rightarrow> policy_page \<Rightarrow> bool" where
  p_new: "\<not> pp_open s \<Longrightarrow> policy_step s (new_policy s)"
| p_first: "\<not> pp_open s \<Longrightarrow> policy_step s (create_first s)"
| p_edit: "\<not> pp_open s \<Longrightarrow> policy_step s (edit_policy p s)"
| p_close: "pp_open s \<Longrightarrow> policy_step s (close_policy s)"
| p_name: "name_enabled s \<Longrightarrow> policy_step s (s\<lparr>pp_name := n\<rparr>)"
| p_kind: "pp_open s \<Longrightarrow> policy_step s (s\<lparr>pp_kind := k\<rparr>)"
| p_config: "pp_open s \<Longrightarrow> policy_step s (s\<lparr>pp_config := c\<rparr>)"
| p_save: "save_policy_enabled s \<Longrightarrow> policy_step s (start_save s)"
| p_saved: "pp_saving s \<noteq> None \<Longrightarrow> policy_step s (policy_saved s)"
| p_failed: "pp_saving s \<noteq> None \<Longrightarrow> policy_step s (policy_failed s)"

inductive_cases policy_stepE: "policy_step s s'"

definition policy_start :: "policy_page \<Rightarrow> bool" where
  "policy_start s \<longleftrightarrow> s = policy_page_init"

definition delete_policy :: "('e env_scheme) \<Rightarrow> string \<Rightarrow> string \<Rightarrow> ('t, unit) io" where
  "delete_policy E appId i = await (request E (ops_route (DelPolicy appId i))) (\<lambda>_.
     seq (list_reload E (ops_route (GetPolicies appId))) (toast Toast_success ''Policy deleted'' []))"

definition save_policy :: "('e env_scheme) \<Rightarrow> string \<Rightarrow> policy_page \<Rightarrow> ('t, unit) io" where
  "save_policy E appId s = await (lift_err (policy_body s)) (\<lambda>b. await (request E (ops_route (PutPolicy appId b))) (\<lambda>_.
     seq (toast Toast_success ''Policy saved'' []) (list_reload E (ops_route (GetPolicies appId)))))"

subsection \<open>What the dialogue keeps\<close>

text \<open>A save under way carries a name, and the policy it will write is enabled.\<close>

definition policy_page_ok :: "policy_page \<Rightarrow> bool" where
  "policy_page_ok s \<longleftrightarrow> (case pp_saving s of None \<Rightarrow> True
     | Some b \<Rightarrow> (\<exists>n. f_str ''name'' b = Some n \<and> n \<noteq> []) \<and> f_bool ''enabled'' b = Some True)"

lemma policy_body_fields:
  assumes "policy_body s = Inr b"
  shows "f_str ''name'' b = Some (trim (pp_name s))" "f_bool ''enabled'' b = Some True"
  using assms by (auto simp: policy_body_def f_str_def f_bool_def jobj_def str_field_def split: sum.splits)

interpretation policies: machine policy_start policy_step policy_page_ok
proof
  show "policy_page_ok s" if "policy_start s" for s
    using that by (simp add: policy_start_def policy_page_init_def policy_page_ok_def)
  show "policy_page_ok s'" if "policy_page_ok s" and "policy_step s s'" for s s'
    using that(2,1)
    by cases (auto simp: policy_page_ok_def new_policy_def create_first_def edit_policy_def close_policy_def start_save_def
        policy_saved_def policy_failed_def save_policy_enabled_def policy_body_fields split: sum.splits)
qed

subsection \<open>Properties\<close>

text \<open>C29: editing a policy saves another one. After a policy has been created, opening any other one shows the
  fields of the first under a name that cannot be changed, and saving writes the first, enabled,
  with its configuration. Before any has been created, no policy opened for editing can be saved at all.\<close>

theorem edit_saves_another_policy:
  "(\<exists>s. reachable policy_start policy_step s \<and> pp_editing s = Some p \<and> \<not> name_enabled s \<and> save_policy_enabled s \<and>
     pp_saving (start_save s) = Some (JObj [(''name'', JStr ''first''), (''kind'', JStr ''key_scope''), (''config'', JObj []), (''enabled'', JBool True)])) \<and>
   reachable policy_start policy_step (edit_policy p policy_page_init) \<and> \<not> save_policy_enabled (edit_policy p policy_page_init) \<and>
   \<not> name_enabled (edit_policy p policy_page_init)"
proof -
  let ?s1 = "new_policy policy_page_init" let ?s2 = "?s1\<lparr>pp_name := ''first''\<rparr>" let ?s3 = "start_save ?s2"
  let ?s4 = "policy_saved ?s3" let ?s5 = "edit_policy p ?s4"
  have t: "trim ''first'' = ''first''" by code_simp
  have j: "parse_json ''{}'' = Inr (JObj [])" by code_simp
  have b: "policy_body s = Inr (JObj [(''name'', JStr ''first''), (''kind'', JStr ''key_scope''), (''config'', JObj []), (''enabled'', JBool True)])"
    if "pp_name s = ''first''" "pp_kind s = Key_scope" "pp_config s = ''{}''" for s
    using that by (simp add: policy_body_def t j jobj_def str_field_def policy_kind_name_def)
  note e = policy_page_init_def new_policy_def start_save_def policy_saved_def edit_policy_def name_enabled_def save_policy_enabled_def
  have "reachable policy_start policy_step policy_page_init" by (rule reach_init) (simp add: policy_start_def)
  moreover have "policy_step policy_page_init ?s1" by (rule p_new) (simp add: e)
  moreover have "policy_step ?s1 ?s2" by (rule p_name) (simp add: e)
  moreover have "policy_step ?s2 ?s3" by (rule p_save) (simp add: e t)
  moreover have "policy_step ?s3 ?s4" by (rule p_saved) (simp add: e b)
  moreover have "policy_step ?s4 ?s5" by (rule p_edit) (simp add: e)
  moreover have "policy_step policy_page_init (edit_policy p policy_page_init)" by (rule p_edit) (simp add: e)
  ultimately have r: "reachable policy_start policy_step ?s5" "reachable policy_start policy_step (edit_policy p policy_page_init)"
    by (meson reach_next)+
  have "pp_editing ?s5 = Some p \<and> \<not> name_enabled ?s5 \<and> save_policy_enabled ?s5 \<and> pp_saving (start_save ?s5) =
      Some (JObj [(''name'', JStr ''first''), (''kind'', JStr ''key_scope''), (''config'', JObj []), (''enabled'', JBool True)])"
    by (simp add: e b t)
  then show ?thesis using r by (intro conjI exI [of _ ?s5]) (simp_all add: e)
qed

end
