(* ===== verification/Chart.thy ===== *)
theory Chart
  imports Format Complex_Main
begin

text \<open>
  \<open>web/components/Chart.tsx\<close>: the geometry of the one chart the console draws. The values are counts and
  milliseconds, integers on the wire; coordinates are rationals, exact where the code has doubles, and
  so is \<open>Math.log10\<close>.
\<close>

subsection \<open>The axis\<close>

record series =
  se_key :: string
  se_label :: string
  se_color :: string
  se_values :: "int list"

definition chart_width :: rat where "chart_width = 800"
definition pad_top :: rat where "pad_top = 12"
definition pad_right :: rat where "pad_right = 8"
definition pad_bottom :: rat where "pad_bottom = 26"
definition pad_left :: rat where "pad_left = 42"

lemmas chart_box = chart_width_def pad_top_def pad_right_def pad_bottom_def pad_left_def

definition plot_w :: rat where
  "plot_w = chart_width - pad_left - pad_right"

definition plot_h :: "rat \<Rightarrow> rat" where
  "plot_h height = height - pad_top - pad_bottom"

text \<open>\<open>Math.floor(Math.log10(m))\<close> of a positive integer.\<close>

fun floor_log10 :: "nat \<Rightarrow> nat" where
  "floor_log10 m = (if m < 10 then 0 else Suc (floor_log10 (m div 10)))"

declare floor_log10.simps [simp del]

definition chart_peak :: "series list \<Rightarrow> int" where
  "chart_peak ss = foldr max (concat (map se_values ss)) 1"

definition magnitude :: "int \<Rightarrow> int" where
  "magnitude m = 10 ^ floor_log10 (nat m)"

text \<open>\<open>Math.ceil(a / b)\<close>\<close>

definition ceil_div :: "int \<Rightarrow> int \<Rightarrow> int" where
  "ceil_div a b = (a + b - 1) div b"

definition axis_max :: "series list \<Rightarrow> int" where
  "axis_max ss = (let m = chart_peak ss in ceil_div m (magnitude m) * magnitude m)"

subsection \<open>Points\<close>

definition chart_x :: "nat \<Rightarrow> nat \<Rightarrow> rat" where
  "chart_x n i = pad_left + (if n \<le> 1 then plot_w / 2 else of_nat i / of_nat (n - 1) * plot_w)"

definition chart_y :: "rat \<Rightarrow> int \<Rightarrow> int \<Rightarrow> rat" where
  "chart_y height mx v = pad_top + plot_h height - of_int v / of_int mx * plot_h height"

datatype path_step = Move_to rat rat | Line_to rat rat | Close_path

definition chart_line :: "rat \<Rightarrow> nat \<Rightarrow> int \<Rightarrow> series \<Rightarrow> path_step list" where
  "chart_line height n mx s =
     map (\<lambda>(i, v). (if i = 0 then Move_to else Line_to) (chart_x n i) (chart_y height mx v)) (enumerate 0 (se_values s))"

definition chart_area :: "rat \<Rightarrow> nat \<Rightarrow> int \<Rightarrow> series \<Rightarrow> path_step list" where
  "chart_area height n mx s = chart_line height n mx s @
     [Line_to (chart_x n (n - 1)) (pad_top + plot_h height), Line_to (chart_x n 0) (pad_top + plot_h height), Close_path]"

text \<open>A grid line: its height, and the number at its left, \<open>Math.round(max * g)\<close> for quarters \<open>g\<close>.\<close>

definition gridlines :: "rat \<Rightarrow> int \<Rightarrow> (rat \<times> int) list" where
  "gridlines height mx = map (\<lambda>q. (pad_top + plot_h height * (1 - of_int q / 4), round_div (mx * q) 4)) [0, 1, 2, 3, 4]"

text \<open>The value of a series under the pointer, \<open>s.values[hover] ?? 0\<close>, and the column that catches it.\<close>

definition hover_value :: "nat \<Rightarrow> series \<Rightarrow> int" where
  "hover_value i s = (if i < length (se_values s) then se_values s ! i else 0)"

definition hover_point :: "rat \<Rightarrow> nat \<Rightarrow> int \<Rightarrow> nat \<Rightarrow> series \<Rightarrow> rat \<times> rat" where
  "hover_point height n mx i s = (chart_x n i, chart_y height mx (hover_value i s))"

definition column_width :: "nat \<Rightarrow> rat" where
  "column_width n = plot_w / of_nat (max (n - 1) 1)"

definition column_left :: "nat \<Rightarrow> nat \<Rightarrow> rat" where
  "column_left n i = chart_x n i - column_width n / 2"

text \<open>The labels under the axis: every so many days, and the last day. \<open>l.slice(5)\<close> drops the year.\<close>

datatype anchor = Anchor_start | Anchor_middle | Anchor_end

definition tick_shown :: "nat \<Rightarrow> nat \<Rightarrow> bool" where
  "tick_shown n i \<longleftrightarrow> i mod ((n + 6) div 7) = 0 \<or> i = n - 1"

definition tick_labels :: "string list \<Rightarrow> (nat \<times> string \<times> anchor) list" where
  "tick_labels labels = (let n = length labels in
     map (\<lambda>(i, l). (i, drop 5 l, if i = 0 then Anchor_start else if i = n - 1 then Anchor_end else Anchor_middle))
       (filter (\<lambda>(i, l). tick_shown n i) (enumerate 0 labels)))"

definition chart_empty :: "string list \<Rightarrow> bool" where
  "chart_empty labels \<longleftrightarrow> length labels = 0"

definition aria_label :: "string list \<Rightarrow> series list \<Rightarrow> string" where
  "aria_label labels ss = join_with '', '' (map se_label ss) @ '' over '' @ dec_of_nat (length labels) @ '' days''"

definition legend :: "(int \<Rightarrow> string) \<Rightarrow> nat option \<Rightarrow> series list \<Rightarrow> (string \<times> string option) list" where
  "legend value_format hover ss = map (\<lambda>s. (se_label s, map_option (\<lambda>i. value_format (hover_value i s)) hover)) ss"

definition CHART_COLORS :: "(string \<times> string) list" where
  "CHART_COLORS = [(''accent'', ''#e8873c''), (''primary'', ''#486581''), (''success'', ''#3d9f6f''), (''error'', ''#c4523b''), (''muted'', ''#9fb3c8'')]"

definition chart_color :: "string \<Rightarrow> string" where
  "chart_color k = the (map_of CHART_COLORS k)"

subsection \<open>Lemmas\<close>

lemma floor_log10_digit [simp]: "m < 10 \<Longrightarrow> floor_log10 m = 0"
  by (simp add: floor_log10.simps [of m])

lemma floor_log10_bounds: "0 < m \<Longrightarrow> 10 ^ floor_log10 m \<le> m \<and> m < 10 * 10 ^ floor_log10 m"
proof (induction m rule: floor_log10.induct)
  case (1 m)
  show ?case
  proof (cases "m < 10")
    case True
    then show ?thesis using 1(2) by (simp add: floor_log10.simps [of m])
  next
    case False
    let ?p = "10 ^ floor_log10 (m div 10) :: nat"
    have "?p \<le> m div 10" "m div 10 < 10 * ?p" using 1(1) [OF False] False by auto
    then have "10 * ?p \<le> m" "m < 10 * (10 * ?p)" by (simp_all add: less_eq_div_iff_mult_less_eq div_less_iff_less_mult mult.commute)
    then show ?thesis using False by (simp add: floor_log10.simps [of m])
  qed
qed

text \<open>The recursion is the floor of the logarithm.\<close>

lemma floor_log10_is_floor:
  assumes "0 < m"
  shows "\<lfloor>log 10 (real m)\<rfloor> = int (floor_log10 m)"
proof -
  have "real (10 ^ floor_log10 m) \<le> real m" "real m < real (10 * 10 ^ floor_log10 m)"
    using floor_log10_bounds [OF assms] by (simp_all only: of_nat_le_iff of_nat_less_iff)
  then have "10 powr real (floor_log10 m) \<le> real m" "real m < 10 powr (real (floor_log10 m) + 1)"
    by (simp_all add: powr_add powr_realpow)
  then show ?thesis using assms by (simp add: floor_log_eq_powr_iff)
qed

lemma peak_at_least: "1 \<le> chart_peak ss" and peak_bounds: "s \<in> set ss \<Longrightarrow> v \<in> set (se_values s) \<Longrightarrow> v \<le> chart_peak ss"
proof -
  have a: "1 \<le> foldr max xs 1" "w \<in> set xs \<Longrightarrow> w \<le> foldr max xs 1" for xs :: "int list" and w
    by (induction xs) auto
  show "1 \<le> chart_peak ss" unfolding chart_peak_def by (rule a(1))
  show "v \<le> chart_peak ss" if "s \<in> set ss" and "v \<in> set (se_values s)"
    unfolding chart_peak_def by (rule a(2)) (use that in auto)
qed

lemma magnitude_bounds:
  assumes "1 \<le> m"
  shows "1 \<le> magnitude m" "magnitude m \<le> m" "m < 10 * magnitude m"
proof -
  have b: "10 ^ floor_log10 (nat m) \<le> nat m" "nat m < 10 * 10 ^ floor_log10 (nat m)"
    using floor_log10_bounds [of "nat m"] assms by auto
  have e: "int (10 ^ floor_log10 (nat m)) = magnitude m" by (simp add: magnitude_def)
  show "1 \<le> magnitude m" by (simp add: magnitude_def)
  have "int (10 ^ floor_log10 (nat m)) \<le> int (nat m)" "int (nat m) < int (10 * 10 ^ floor_log10 (nat m))"
    using b by (simp_all only: of_nat_le_iff of_nat_less_iff)
  then show "magnitude m \<le> m" "m < 10 * magnitude m" using e assms by auto
qed

lemma ceil_div_bounds:
  assumes "0 < (b::int)"
  shows "a \<le> ceil_div a b * b" "ceil_div a b * b < a + b"
proof -
  have "a + b - 1 = (a + b - 1) div b * b + (a + b - 1) mod b" by simp
  moreover have "0 \<le> (a + b - 1) mod b" "(a + b - 1) mod b < b" using assms by simp_all
  ultimately show "a \<le> ceil_div a b * b" "ceil_div a b * b < a + b" unfolding ceil_div_def by linarith+
qed

lemma axis_bounds:
  "1 \<le> axis_max ss" "chart_peak ss \<le> axis_max ss" "axis_max ss < 2 * chart_peak ss"
proof -
  let ?m = "chart_peak ss"
  note g = magnitude_bounds [OF peak_at_least [of ss]]
  have "0 < magnitude ?m" using g(1) by simp
  note c = ceil_div_bounds [OF this, of ?m]
  show "chart_peak ss \<le> axis_max ss" "axis_max ss < 2 * chart_peak ss" using c g(2) by (auto simp: axis_max_def Let_def)
  then show "1 \<le> axis_max ss" using peak_at_least [of ss] by simp
qed

text \<open>The axis ends at one digit followed by zeros.\<close>

lemma axis_round: "\<exists>d k. axis_max ss = d * 10 ^ k \<and> 1 \<le> d \<and> d \<le> 10"
proof -
  let ?m = "chart_peak ss" let ?d = "ceil_div ?m (magnitude ?m)"
  note g = magnitude_bounds [OF peak_at_least [of ss]]
  have p: "0 < magnitude ?m" using g(1) by simp
  have "?d * magnitude ?m < 11 * magnitude ?m" using ceil_div_bounds(2) [OF p, of ?m] g(3) by linarith
  then have "?d \<le> 10" using p by simp
  moreover have "0 < ?d * magnitude ?m" using ceil_div_bounds(1) [OF p, of ?m] peak_at_least [of ss] by linarith
  then have "1 \<le> ?d" using p by (simp add: zero_less_mult_iff)
  ultimately show ?thesis unfolding axis_max_def Let_def magnitude_def by blast
qed

lemma x_inside:
  assumes "i < n"
  shows "pad_left \<le> chart_x n i" "chart_x n i \<le> chart_width - pad_right"
proof -
  have "(of_nat i :: rat) / of_nat (n - 1) \<le> 1" using assms by (cases "n = 1") (auto simp: divide_le_eq_1)
  then have "(of_nat i :: rat) / of_nat (n - 1) * plot_w \<le> 1 * plot_w"
    by (rule mult_right_mono) (simp add: plot_w_def chart_box)
  moreover have "(0::rat) \<le> of_nat i / of_nat (n - 1) * plot_w" by (simp add: plot_w_def chart_box)
  moreover have "plot_w = chart_width - pad_left - pad_right" "0 \<le> plot_w" by (simp_all add: plot_w_def chart_box)
  ultimately show "pad_left \<le> chart_x n i" "chart_x n i \<le> chart_width - pad_right"
    by (auto simp: chart_x_def)
qed

lemma y_inside:
  assumes "0 \<le> v" and "v \<le> mx" and "0 < mx" and "38 \<le> height"
  shows "pad_top \<le> chart_y height mx v" "chart_y height mx v \<le> pad_top + plot_h height"
proof -
  have f: "(0::rat) \<le> of_int v / of_int mx" "(of_int v :: rat) / of_int mx \<le> 1" using assms by (simp_all add: divide_le_eq_1)
  have h: "0 \<le> plot_h height" using assms(4) by (simp add: plot_h_def chart_box)
  have "(of_int v :: rat) / of_int mx * plot_h height \<le> 1 * plot_h height" by (rule mult_right_mono [OF f(2) h])
  moreover have "0 \<le> (of_int v :: rat) / of_int mx * plot_h height" by (rule mult_nonneg_nonneg [OF f(1) h])
  ultimately show "pad_top \<le> chart_y height mx v" "chart_y height mx v \<le> pad_top + plot_h height"
    by (simp_all add: chart_y_def)
qed

lemma y_monotone:
  assumes "v < w" and "0 < mx" and "38 < height"
  shows "chart_y height mx w < chart_y height mx v"
proof -
  have "(of_int v :: rat) / of_int mx < of_int w / of_int mx" using assms(1,2) by (simp add: divide_strict_right_mono)
  moreover have "0 < plot_h height" using assms(3) by (simp add: plot_h_def chart_box)
  ultimately have "(of_int v :: rat) / of_int mx * plot_h height < of_int w / of_int mx * plot_h height" by (rule mult_strict_right_mono)
  then show ?thesis by (simp add: chart_y_def)
qed

lemma multiples_below: "length (filter (\<lambda>i. i mod k = 0) [0..<k * j]) = j" if "0 < k" for k j :: nat
proof (induction j)
  case (Suc j)
  have f: "filter (\<lambda>i. i mod k = 0) [k * j..<k * j + k] = [k * j]"
  proof -
    have "[k * j..<k * j + k] = k * j # [Suc (k * j)..<k * j + k]" using that by (simp add: upt_rec [of "k * j"])
    moreover have "filter (\<lambda>i. i mod k = 0) [Suc (k * j)..<k * j + k] = []"
    proof -
      have False if "Suc (k * j) \<le> i" "i < k * j + k" "i mod k = 0" for i
      proof -
        obtain q where q: "i = k * q" using \<open>i mod k = 0\<close> by auto
        have "k * j < k * q" "k * q < k * Suc j"
          using \<open>Suc (k * j) \<le> i\<close> \<open>i < k * j + k\<close> unfolding q mult_Suc_right by linarith+
        then have "j < q" "q < Suc j" by (simp_all only: mult_less_cancel1)
        then show False by simp
      qed
      then show ?thesis unfolding filter_empty_conv by (metis atLeastLessThan_iff set_upt)
    qed
    ultimately show ?thesis by simp
  qed
  have "[0..<k * Suc j] = [0..<k * j] @ [k * j..<k * j + k]"
    using upt_add_eq_append [of 0 "k * j" k] by (simp add: add.commute)
  then show ?case by (simp only: filter_append length_append f Suc) simp
qed simp

lemma count_below: "length (filter P [0..<n]) = card {i. i < n \<and> P i}"
proof -
  have "{x. P x} \<inter> set [0..<n] = {i. i < n \<and> P i}" by auto
  then show ?thesis by (simp only: distinct_length_filter [OF distinct_upt])
qed

lemma few_ticks: "length (filter (tick_shown n) [0..<n]) \<le> 8"
proof (cases "n = 0")
  case False
  define k where "k = (n + 6) div 7"
  have "7 * k + (n + 6) mod 7 = n + 6" "(n + 6) mod 7 < 7" by (simp_all add: k_def)
  then have k: "0 < k" "n \<le> k * 7" using False by linarith+
  have "card {i. i < n \<and> i mod k = 0} \<le> card {i. i < k * 7 \<and> i mod k = 0}" using k(2) by (intro card_mono) auto
  moreover have "card {i. i < k * 7 \<and> i mod k = 0} = 7" by (simp only: count_below [symmetric] multiples_below [OF k(1)])
  moreover have "{i. i < n \<and> tick_shown n i} \<subseteq> insert (n - 1) {i. i < n \<and> i mod k = 0}" by (auto simp: tick_shown_def k_def)
  then have "card {i. i < n \<and> tick_shown n i} \<le> card (insert (n - 1) {i. i < n \<and> i mod k = 0})" by (intro card_mono) auto
  moreover have "card (insert (n - 1) {i. i < n \<and> i mod k = 0}) \<le> Suc (card {i. i < n \<and> i mod k = 0})"
    by (simp add: card_insert_if)
  ultimately show ?thesis by (simp only: count_below)
qed simp

lemma tick_count: "length (tick_labels labels) \<le> 8"
proof -
  have "length (filter (\<lambda>(i, l). P i) (enumerate k xs)) = length (filter P [k..<k + length xs])" for P k and xs :: "'b list"
    by (induction xs arbitrary: k) (simp_all add: upt_conv_Cons del: upt_Suc)
  from this [of "tick_shown (length labels)" 0 labels] show ?thesis
    using few_ticks [of "length labels"] by (simp add: tick_labels_def Let_def)
qed

text \<open>On a chart without activity the numbers at the grid lines repeat.\<close>

lemma quiet_axis: "map snd (gridlines height (axis_max [])) = [0, 0, 1, 1, 1]"
  by (simp add: axis_max_def chart_peak_def magnitude_def ceil_div_def gridlines_def round_div_def)

subsection \<open>Properties\<close>

text \<open>C32: What is drawn stays inside the plot. For counts that are not negative and a chart that is higher than its
  margins, every point of every series lies in the plotting area, a larger value is drawn higher, and
  the axis ends at a digit followed by zeros that is at least the largest value (and one) and less
  than twice it. At most eight days are labelled.\<close>

theorem chart_stays_in_the_plot:
  assumes "s \<in> set ss" and "v \<in> set (se_values s)" and "0 \<le> v" and "i < n" and "38 < height"
  shows "let mx = axis_max ss; y = chart_y height mx v in
    pad_left \<le> chart_x n i \<and> chart_x n i \<le> chart_width - pad_right \<and>
    pad_top \<le> y \<and> y \<le> pad_top + plot_h height \<and>
    v \<le> mx \<and> mx < 2 * chart_peak ss \<and> (\<exists>d k. mx = d * 10 ^ k \<and> 1 \<le> d \<and> d \<le> 10) \<and>
    length (tick_labels labels) \<le> 8 \<and> (if w < v then y < chart_y height mx w else True)"
proof -
  have m: "0 < axis_max ss" "v \<le> axis_max ss" using axis_bounds [of ss] peak_bounds [OF assms(1,2)] by auto
  show ?thesis
    using x_inside [OF assms(4)] y_inside [OF assms(3) m(2,1) less_imp_le [OF assms(5)]] y_monotone [OF _ m(1) assms(5)]
      axis_bounds(3) [of ss] axis_round [of ss] m(2) tick_count [of labels]
    by (simp add: Let_def)
qed

theorem chart_stays_in_the_plot_witness:
  "axis_max [\<lparr>se_key = ''signs'', se_label = ''Signatures'', se_color = [], se_values = [0, 340, 1234]\<rparr>] < 2 * 1234"
proof -
  let ?s = "\<lparr>se_key = ''signs'', se_label = ''Signatures'', se_color = [], se_values = [0, 340, 1234]\<rparr>"
  have "chart_peak [?s] = 1234" by (simp add: chart_peak_def)
  then show ?thesis
    using chart_stays_in_the_plot [of ?s "[?s]" 340 1 3 220 "[]" 0] by (simp add: Let_def)
qed

end
