(* ===== verification/App_Settings.thy ===== *)
theory App_Settings
  imports Trust
begin

text \<open>
  The settings of an app (\<open>web/app/(console)/apps/[appId]/settings/page.tsx\<close>), with the server that saves them:
  \<open>handleUpdateApp\<close> (\<open>backend/internal/api/handlers_apps.go\<close>), the rules for environments
  (\<open>backend/internal/policy/policy.go\<close>) and the statement that writes the row
  (\<open>backend/internal/store/apps.go\<close>). The row's owner and its group are arguments of the server.
\<close>

subsection \<open>The screen\<close>

record environment_requirement =
  er_id :: string
  er_label :: string
  er_detail :: string
  er_met :: bool
  er_blocking :: bool

record environment_check =
  ec_from :: string
  ec_to :: string
  ec_allowed :: bool
  ec_requirements :: "environment_requirement list"
  ec_note :: string

record app_settings_tab = provider_tab +
  as_name :: string
  as_description :: string
  as_environment :: environment
  as_website :: string
  as_archive_open :: bool
  as_confirm :: string

type_synonym ('t, 'a) asio = "'t app_settings_tab_scheme \<Rightarrow> (jserr + 'a) \<times> 't app_settings_tab_scheme"

definition environment_name :: "environment \<Rightarrow> string" where
  "environment_name e = (case e of Development \<Rightarrow> ''development'' | Production \<Rightarrow> ''production'')"

text \<open>The states of the form before the app has arrived, and what the effect on its arrival sets.\<close>

definition app_form_start :: "'t app_settings_tab_scheme \<Rightarrow> bool" where
  "app_form_start t \<longleftrightarrow> as_name t = [] \<and> as_description t = [] \<and> as_environment t = Development \<and> as_website t = [] \<and>
     \<not> as_archive_open t \<and> as_confirm t = []"

definition app_form_loaded :: "app \<Rightarrow> 't app_settings_tab_scheme \<Rightarrow> 't app_settings_tab_scheme" where
  "app_form_loaded a t = t\<lparr>as_name := a_name a, as_description := a_description a, as_environment := a_environment a,
     as_website := (case a_website_url a of None \<Rightarrow> [] | Some w \<Rightarrow> w)\<rparr>"

definition environment_blocked :: "environment_check option \<Rightarrow> environment \<Rightarrow> bool" where
  "environment_blocked check e \<longleftrightarrow> e = Production \<and> map_option ec_allowed check = Some False"

definition settings_body :: "'t app_settings_tab_scheme \<Rightarrow> json" where
  "settings_body t = jobj [str_field ''name'' (as_name t), str_field ''description'' (as_description t),
     str_field ''environment'' (environment_name (as_environment t)), str_field ''website_url'' (as_website t)]"

definition save_app :: "('e env_scheme) \<Rightarrow> string \<Rightarrow> ('t, unit) asio" where
  "save_app E appId = await (reads settings_body) (\<lambda>b.
     await (request E (app_route (PatchApp appId b))) (\<lambda>_.
     seq (list_reload E (app_route (GetApp appId))) (seq (list_reload E (app_route (GetEnvironmentCheck appId ''production'')))
       (seq (refresh E) (toast Toast_success ''Saved'' [])))))"

definition archive_app :: "('e env_scheme) \<Rightarrow> string \<Rightarrow> ('t, unit) asio" where
  "archive_app E appId = await (request E (app_route (DelApp appId))) (\<lambda>result.
     await (lift_err (js_prop ''note'' result)) (\<lambda>note.
     seq (refresh E) (seq (toast Toast_info ''App archived'' (or_else (jstr note) [])) (navigate ''/apps''))))"

text \<open>Saving is possible unless a save is under way; archiving once the app's name has been typed.\<close>

definition save_app_enabled :: "bool \<Rightarrow> bool" where
  "save_app_enabled pending \<longleftrightarrow> \<not> pending"

definition archive_enabled :: "bool \<Rightarrow> string \<Rightarrow> app option \<Rightarrow> bool" where
  "archive_enabled archiving confirm a \<longleftrightarrow> \<not> (archiving \<or> Some confirm \<noteq> map_option a_name a)"

definition requirement_rows :: "environment_check \<Rightarrow> (bool \<times> string \<times> string) list" where
  "requirement_rows c = map (\<lambda>r. (er_met r, er_label r, er_detail r)) (ec_requirements c)"

definition promotion_links :: "string \<Rightarrow> app option \<Rightarrow> environment_check \<Rightarrow> (string \<times> string) list" where
  "promotion_links appId a c = (if ec_allowed c then [] else
     (''Add operators'', ''/apps/'' @ appId @ ''/group'') #
     (case a of None \<Rightarrow> [] | Some x \<Rightarrow> if a_org_id x = [] then [] else [(''Change plan'', ''/org/'' @ a_org_id x @ ''/billing'')]))"

definition settings_identifiers :: "intl \<Rightarrow> string \<Rightarrow> app option \<Rightarrow> (string \<times> string) list" where
  "settings_identifiers I appId a = (''App ID'', appId) #
     (case a of Some x \<Rightarrow> if truthy_str (a_group_address x) then [(''Group address'', the (a_group_address x))] else [] | None \<Rightarrow> []) @
     [(''Chain'', chain_name (map_option a_chain_id a)), (''Created'', format_date_time I (map_option a_created_at a))]"

subsection \<open>The rules for environments\<close>

record group_composition =
  gc_total :: int
  gc_first_party :: int
  gc_external :: int

definition min_external_operators :: int where
  "min_external_operators = 2"

definition plan_is_paid :: "string \<Rightarrow> bool" where
  "plan_is_paid plan \<longleftrightarrow> plan \<noteq> [] \<and> plan \<noteq> ''developer''"

definition production_requirements :: "string \<Rightarrow> group_composition \<Rightarrow> bool \<Rightarrow> environment_requirement list" where
  "production_requirements plan g has_group =
     [\<lparr>er_id = ''paid_plan'', er_label = ''A paid plan'',
       er_detail = ''Production usage is billed per active wallet. The free plan covers '' @
         ''development, where we deploy the group and pay its gas.'', er_met = plan_is_paid plan, er_blocking = True\<rparr>,
      \<lparr>er_id = ''external_operators'',
       er_label = ''At least '' @ dec_of_int min_external_operators @ '' operators outside O'' @ [CHR 0x27] @ ''Leary Labs'',
       er_detail = ''Your group has '' @ dec_of_int (gc_total g) @ '' active operator(s), '' @ dec_of_int (gc_first_party g) @
         '' of them ours. A group we run alone is single-operator '' @ em_dash @
         '' exactly the failure mode this network exists to remove '' @ em_dash @ '' which is why it cannot hold production traffic.'',
       er_met = gc_external g \<ge> min_external_operators, er_blocking = True\<rparr>,
      \<lparr>er_id = ''group_deployed'', er_label = ''A deployed signing group'',
       er_detail = ''An app with no group on-chain cannot sign anything at all.'', er_met = has_group, er_blocking = True\<rparr>]"

definition development_note :: string where
  "development_note = ''Only the move to production is gated. Invite operators into your '' @
     ''development group whenever you are ready; nothing about that is charged.''"

definition production_note :: string where
  "production_note = ''These are platform rules, not protocol ones. The contracts do not know what '' @
     ''an environment or a plan is '' @ em_dash @ '' this governs what the platform will run production '' @
     ''traffic on, and what it will sponsor.''"

definition check_environment :: "string \<Rightarrow> string \<Rightarrow> string \<Rightarrow> group_composition \<Rightarrow> bool \<Rightarrow> environment_check" where
  "check_environment from to plan g has_group =
     (if to \<noteq> ''production''
      then \<lparr>ec_from = from, ec_to = to, ec_allowed = True, ec_requirements = [], ec_note = development_note\<rparr>
      else let rs = production_requirements plan g has_group in
        \<lparr>ec_from = from, ec_to = to, ec_allowed = list_all (\<lambda>r. \<not> (er_blocking r \<and> \<not> er_met r)) rs,
         ec_requirements = rs, ec_note = production_note\<rparr>)"

subsection \<open>The server's update\<close>

text \<open>Decoding into strings: an absent or null field is empty, an unknown one is refused.\<close>

definition go_string :: "string \<Rightarrow> json \<Rightarrow> string option" where
  "go_string k j = (case jget k j of None \<Rightarrow> Some [] | Some JNull \<Rightarrow> Some [] | Some (JStr s) \<Rightarrow> Some s | _ \<Rightarrow> None)"

definition go_fields :: "string list \<Rightarrow> json \<Rightarrow> bool" where
  "go_fields names j \<longleftrightarrow> (case j of JObj fs \<Rightarrow> list_all (\<lambda>(k, v). k \<in> set names) fs | JNull \<Rightarrow> True | _ \<Rightarrow> False)"

record update_app_input =
  ui_name :: string
  ui_description :: string
  ui_environment :: string
  ui_website :: string
  ui_logo :: string

definition decode_update_app :: "json \<Rightarrow> update_app_input option" where
  "decode_update_app j = (if \<not> go_fields [''name'', ''description'', ''environment'', ''website_url'', ''logo_url''] j then None
     else do { n \<leftarrow> go_string ''name'' j; d \<leftarrow> go_string ''description'' j; e \<leftarrow> go_string ''environment'' j;
       w \<leftarrow> go_string ''website_url'' j; l \<leftarrow> go_string ''logo_url'' j;
       Some \<lparr>ui_name = n, ui_description = d, ui_environment = e, ui_website = w, ui_logo = l\<rparr> })"

text \<open>\<open>ptr\<close> makes an empty text absent, and \<open>COALESCE\<close> keeps the column then.\<close>

definition coalesce :: "string \<Rightarrow> string \<Rightarrow> string" where
  "coalesce v old = (if v = [] then old else v)"

definition coalesce_null :: "string \<Rightarrow> string option \<Rightarrow> string option" where
  "coalesce_null v old = (if v = [] then old else Some v)"

definition update_app :: "string \<Rightarrow> update_app_input \<Rightarrow> app \<Rightarrow> app" where
  "update_app now i a = a\<lparr>a_name := coalesce (trim (ui_name i)) (a_name a),
     a_description := coalesce (ui_description i) (a_description a),
     a_environment := (case map_of environment_names (ui_environment i) of None \<Rightarrow> a_environment a | Some e \<Rightarrow> e),
     a_website_url := coalesce_null (ui_website i) (a_website_url a), a_logo_url := coalesce_null (ui_logo i) (a_logo_url a),
     a_updated_at := now\<rparr>"

definition handle_update_app :: "string \<Rightarrow> role option \<Rightarrow> string \<Rightarrow> group_composition \<Rightarrow> json \<Rightarrow> app \<Rightarrow> (int \<times> string) + app" where
  "handle_update_app now access plan g j a =
     (if access = None \<or> the access < Developer then Inl (404, ''not found'')
      else case decode_update_app j of None \<Rightarrow> Inl (400, ''invalid request body'')
      | Some i \<Rightarrow>
         if ui_environment i \<noteq> [] \<and> map_of environment_names (ui_environment i) = None
         then Inl (400, ''environment must be development or production'')
         else if ui_environment i \<noteq> [] \<and> \<not> ec_allowed (check_environment (environment_name (a_environment a)) (ui_environment i) plan g (a_group_address a \<noteq> None))
         then Inl (409, ''this app cannot move to '' @ ui_environment i @ '' yet'')
         else if a_status a = Archived then Inl (404, ''not found'') else Inr (update_app now i a))"

subsection \<open>Lemmas\<close>

lemma environment_names_of [simp]: "map_of environment_names (environment_name e) = Some e" "environment_name e \<noteq> []"
  "environment_name e = ''production'' \<longleftrightarrow> e = Production"
  by (cases e; simp add: environment_name_def environment_names_def)+

lemma check_allowed [simp]: "ec_allowed (check_environment from (environment_name e) plan g has_group) \<longleftrightarrow>
    (if e = Production then plan_is_paid plan \<and> 2 \<le> gc_external g \<and> has_group else True)"
  by (simp add: check_environment_def production_requirements_def min_external_operators_def Let_def)

lemma body_decoded: "decode_update_app (settings_body t) = Some \<lparr>ui_name = as_name t, ui_description = as_description t,
    ui_environment = environment_name (as_environment t), ui_website = as_website t, ui_logo = []\<rparr>"
  by (simp add: decode_update_app_def settings_body_def go_string_def go_fields_def jobj_def str_field_def)

text \<open>A tab whose form has not been filled, and a production app.\<close>

definition demo_settings_tab :: app_settings_tab where
  "demo_settings_tab = \<lparr>trace = [], session_storage = Map.empty, local_storage = Map.empty, sp_status = Signed_in, sp_user = None,
     sp_organizations = [], sp_network = None, sp_active_org_id = None, as_name = [], as_description = [],
     as_environment = Development, as_website = [], as_archive_open = False, as_confirm = []\<rparr>"

definition demo_production_app :: app where
  "demo_production_app = demo_app\<lparr>a_environment := Production, a_description := ''pays''\<rparr>"

lemmas demo_settings_defs = demo_settings_tab_def demo_production_app_def demo_app_def

subsection \<open>Properties\<close>

lemma early_save_demotes:
  assumes "app_form_start t" and "a_status a \<noteq> Archived" and "Developer \<le> r"
  shows "handle_update_app now (Some r) plan g (settings_body t) a = Inr (a\<lparr>a_environment := Development, a_updated_at := now\<rparr>)"
  using assms by (simp add: app_form_start_def handle_update_app_def body_decoded update_app_def
      coalesce_def coalesce_null_def trim_def not_less)



end
