(* ===== verification/Org_Pages.thy ===== *)
theory Org_Pages
  imports App_Settings Chart
begin

text \<open>
  The screens of an organization and of the staff: members and invitations
  (\<open>web/app/(console)/org/[orgId]/members/page.tsx\<close>), settings (\<open>\<dots>/settings/page.tsx\<close>) with the server that
  saves them (\<open>backend/internal/store/orgs.go\<close>), billing (\<open>\<dots>/billing/page.tsx\<close>), the staff overview
  (\<open>web/app/(console)/staff/page.tsx\<close>) and an app's users (\<open>web/app/(console)/apps/[appId]/users/page.tsx\<close>).
\<close>

subsection \<open>Members\<close>

record org_member =
  om_user_id :: string
  om_subject :: string
  om_email :: "string option"
  om_display_name :: string
  om_avatar_url :: "string option"
  om_role :: role
  om_created_at :: string

record org_invite =
  iv_id :: string
  iv_email :: string
  iv_role :: role
  iv_expires_at :: string
  iv_created_at :: string
  iv_token :: "string option"
  iv_accept_url :: "string option"
  iv_accepted_at :: "string option"

definition ROLES :: "(role \<times> string \<times> string) list" where
  "ROLES =
     [(Owner, ''Owner'', ''Everything, including billing and transferring ownership.''),
      (Admin, ''Admin'', ''Manage apps, members, and billing settings.''),
      (Developer, ''Developer'', ''Create and configure apps. Cannot manage members.''),
      (Viewer, ''Viewer'', ''Read-only across every app.'')]"

definition role_name :: "role \<Rightarrow> string" where
  "role_name r = (case r of Owner \<Rightarrow> ''owner'' | Admin \<Rightarrow> ''admin'' | Developer \<Rightarrow> ''developer'' | Viewer \<Rightarrow> ''viewer'')"

definition role_label :: "role \<Rightarrow> string" where
  "role_label r = (case map_of ROLES r of None \<Rightarrow> [] | Some (l, _) \<Rightarrow> l)"

lemma every_role_listed: "distinct (map fst ROLES) \<and> r \<in> fst ` set ROLES"
  by (cases r) (simp_all add: ROLES_def)

lemma role_name_decodes: "map_of role_names (role_name r) = Some r"
  by (cases r) (simp_all add: role_name_def role_names_def)

definition set_role :: "('e env_scheme) \<Rightarrow> string \<Rightarrow> string \<Rightarrow> role \<Rightarrow> ('t, unit) io" where
  "set_role E orgId userId r = await (request E (org_route (PatchMemberRole orgId userId (role_name r)))) (\<lambda>_.
     seq (list_reload E (org_route (GetMembers orgId))) (toast Toast_success ''Role updated'' []))"

definition remove_member :: "('e env_scheme) \<Rightarrow> string \<Rightarrow> string \<Rightarrow> ('t, unit) io" where
  "remove_member E orgId userId = await (request E (org_route (DelMember orgId userId))) (\<lambda>_.
     seq (list_reload E (org_route (GetMembers orgId))) (toast Toast_success ''Member removed'' []))"

definition revoke_invite :: "('e env_scheme) \<Rightarrow> string \<Rightarrow> string \<Rightarrow> ('t, unit) io" where
  "revoke_invite E orgId i = await (request E (org_route (DelInvite orgId i))) (\<lambda>_.
     seq (list_reload E (org_route (GetInvites orgId))) (toast Toast_success ''Invitation revoked'' []))"

definition pending_invites :: "org_invite list option \<Rightarrow> org_invite list" where
  "pending_invites data = filter (\<lambda>i. \<not> truthy_str (iv_accepted_at i)) (case data of None \<Rightarrow> [] | Some is \<Rightarrow> is)"

definition member_row :: "intl \<Rightarrow> user option \<Rightarrow> org_member \<Rightarrow> string \<times> bool \<times> string option \<times> role \<times> string" where
  "member_row I u m =
     ((if om_display_name m \<noteq> [] then om_display_name m else if truthy_str (om_email m) then the (om_email m)
       else short_address 12 6 (Some (om_subject m))),
      Some (om_user_id m) = map_option u_id u,
      (if truthy_str (om_email m) \<and> om_display_name m \<noteq> [] then om_email m else None),
      om_role m, format_date I (Some (om_created_at m)))"

definition invite_row :: "intl \<Rightarrow> org_invite \<Rightarrow> string \<times> string" where
  "invite_row I i = (iv_email i, role_label (iv_role i) @ '' '' @ middle_dot @ '' expires '' @ format_date I (Some (iv_expires_at i)))"

record members_tab = provider_tab +
  mb_invite_open :: bool
  mb_invite_link :: "string option"
  mb_email :: string
  mb_role :: role

type_synonym ('t, 'a) mbio = "'t members_tab_scheme \<Rightarrow> (jserr + 'a) \<times> 't members_tab_scheme"

definition invite_start :: "'t members_tab_scheme \<Rightarrow> bool" where
  "invite_start t \<longleftrightarrow> mb_email t = [] \<and> mb_role t = Developer \<and> \<not> mb_invite_open t \<and> mb_invite_link t = None"

definition invite_roles :: "role list" where
  "invite_roles = map fst (filter (\<lambda>(r, _). r \<noteq> Owner) ROLES)"

definition choose_invite_role :: "role \<Rightarrow> 't members_tab_scheme \<Rightarrow> 't members_tab_scheme" where
  "choose_invite_role r t = (if r \<in> set invite_roles then t\<lparr>mb_role := r\<rparr> else t)"

definition invite_enabled_for :: "bool \<Rightarrow> string \<Rightarrow> bool" where
  "invite_enabled_for pending email \<longleftrightarrow> \<not> (pending \<or> CHR ''@'' \<notin> set email)"

text \<open>The reload of the invitations is not waited for; the link is shown whether or not it succeeds.\<close>

definition create_invite :: "('e env_scheme) \<Rightarrow> string \<Rightarrow> ('t, unit) mbio" where
  "create_invite E orgId = await (reads (\<lambda>t. (mb_email t, mb_role t))) (\<lambda>(email, r).
     await (request E (org_route (PostInvite orgId (trim email) (role_name r)))) (\<lambda>created.
     await (lift_err (js_prop ''accept_url'' created)) (\<lambda>u.
     seq (update_tab (\<lambda>t. t\<lparr>mb_email := [], mb_invite_open := False\<rparr>))
    (seq (list_reload E (org_route (GetInvites orgId)))
         (update_tab (\<lambda>t. t\<lparr>mb_invite_link := Some (case jstr u of None \<Rightarrow> [] | Some s \<Rightarrow> s)\<rparr>))))))"

subsection \<open>Settings of an organization\<close>

record asset =
  at_id :: string
  at_app_id :: "string option"
  at_kind :: string
  at_scope :: string
  at_url :: string
  at_content_type :: string
  at_byte_size :: nat
  at_created_at :: string

record org_settings_tab = provider_tab +
  os_name :: string
  os_email :: string
  os_website :: string
  os_logo :: string

type_synonym ('t, 'a) osio = "'t org_settings_tab_scheme \<Rightarrow> (jserr + 'a) \<times> 't org_settings_tab_scheme"

definition nullish_empty :: "string option \<Rightarrow> string" where
  "nullish_empty v = (case v of None \<Rightarrow> [] | Some s \<Rightarrow> s)"

definition org_form_start :: "'t org_settings_tab_scheme \<Rightarrow> bool" where
  "org_form_start t \<longleftrightarrow> os_name t = [] \<and> os_email t = [] \<and> os_website t = [] \<and> os_logo t = []"

definition org_form_loaded :: "organization \<Rightarrow> 't org_settings_tab_scheme \<Rightarrow> 't org_settings_tab_scheme" where
  "org_form_loaded og t = t\<lparr>os_name := o_name og, os_email := nullish_empty (o_billing_email og),
     os_website := nullish_empty (o_website_url og), os_logo := nullish_empty (o_logo_url og)\<rparr>"

definition org_body :: "'t org_settings_tab_scheme \<Rightarrow> json" where
  "org_body t = jobj [str_field ''name'' (os_name t), str_field ''billing_email'' (os_email t),
     str_field ''website_url'' (os_website t), str_field ''logo_url'' (os_logo t)]"

definition save_org :: "('e env_scheme) \<Rightarrow> string \<Rightarrow> ('t, unit) osio" where
  "save_org E orgId = await (reads org_body) (\<lambda>b.
     await (request E (org_route (PatchOrg orgId b))) (\<lambda>_.
     seq (list_reload E (org_route (GetOrg orgId))) (seq (refresh E) (toast Toast_success ''Saved'' []))))"

definition remove_asset :: "('e env_scheme) \<Rightarrow> string \<Rightarrow> string \<Rightarrow> ('t, unit) io" where
  "remove_asset E orgId i = await (request E (org_route (DelAsset orgId i))) (\<lambda>_.
     seq (list_reload E (org_route (GetAssets orgId))) (toast Toast_success ''Asset deleted'' []))"

definition upload_logo :: "('e env_scheme) \<Rightarrow> string \<Rightarrow> upload option \<Rightarrow> ('t, unit) osio" where
  "upload_logo E orgId picked = (case picked of None \<Rightarrow> ret ()
     | Some f \<Rightarrow> try_catch
         (await (upload_file E f \<lparr>up_org_id = orgId, up_app_id = None, up_scope = Some ''org''\<rparr>) (\<lambda>u.
          seq (update_tab (\<lambda>t. t\<lparr>os_logo := u\<rparr>)) (list_reload E (org_route (GetAssets orgId)))))
         (\<lambda>e. toast Toast_error ''Upload failed'' (err_message e)))"

definition asset_row :: "intl \<Rightarrow> asset \<Rightarrow> string list" where
  "asset_row I x = [at_scope x, at_content_type x, format_bytes (at_byte_size x), format_date I (Some (at_created_at x))]"

text \<open>The server: the fields are decoded, and \<open>COALESCE(NULLIF(v, ''), column)\<close> writes them.\<close>

record update_org_input =
  uo_name :: string
  uo_email :: string
  uo_logo :: string
  uo_website :: string

definition decode_update_org :: "json \<Rightarrow> update_org_input option" where
  "decode_update_org j = (if \<not> go_fields [''name'', ''billing_email'', ''logo_url'', ''website_url''] j then None
     else do { n \<leftarrow> go_string ''name'' j; e \<leftarrow> go_string ''billing_email'' j; l \<leftarrow> go_string ''logo_url'' j; w \<leftarrow> go_string ''website_url'' j;
       Some \<lparr>uo_name = n, uo_email = e, uo_logo = l, uo_website = w\<rparr> })"

definition update_org :: "update_org_input \<Rightarrow> organization \<Rightarrow> organization" where
  "update_org i og = og\<lparr>o_name := coalesce (uo_name i) (o_name og), o_billing_email := coalesce_null (uo_email i) (o_billing_email og),
     o_logo_url := coalesce_null (uo_logo i) (o_logo_url og), o_website_url := coalesce_null (uo_website i) (o_website_url og)\<rparr>"

definition handle_update_org :: "role option \<Rightarrow> json \<Rightarrow> organization \<Rightarrow> (int \<times> string) + organization" where
  "handle_update_org access j og = (if access = None \<or> the access < Admin then Inl (404, ''not found'')
     else case decode_update_org j of None \<Rightarrow> Inl (400, ''invalid request body'') | Some i \<Rightarrow> Inr (update_org i og))"

subsection \<open>Billing\<close>

record billing_account =
  ba_currency :: string
  ba_balance_micros :: int
  ba_rate_micros_per_maw :: int
  ba_low_balance_micros :: int
  ba_contract_address :: "string option"
  ba_chain_id :: "int option"
  ba_status :: string
  ba_payments_enabled :: bool
  ba_estimated_month_maw :: int
  ba_estimated_month_cost_micros :: int
  ba_updated_at :: string

record invoice =
  in_id :: string
  in_period_start :: string
  in_period_end :: string
  in_active_wallets :: int
  in_rate_micros_per_maw :: int
  in_amount_micros :: int
  in_status :: string
  in_issued_at :: "string option"
  in_paid_at :: "string option"

definition draft_invoice :: "('e env_scheme) \<Rightarrow> string \<Rightarrow> ('t, unit) io" where
  "draft_invoice E orgId = await (request E (org_route (PostDraftInvoice orgId None))) (\<lambda>result.
     await (lift_err (js_prop ''note'' result)) (\<lambda>note.
     seq (list_reload E (org_route (GetInvoices orgId))) (toast Toast_info ''Draft computed'' (or_else (jstr note) []))))"

definition payments_off :: "billing_account option \<Rightarrow> bool" where
  "payments_off a \<longleftrightarrow> (case a of None \<Rightarrow> False | Some b \<Rightarrow> \<not> ba_payments_enabled b)"

definition balance_tone :: "billing_account \<Rightarrow> tone option" where
  "balance_tone b = (if ba_balance_micros b < ba_low_balance_micros b \<and> ba_payments_enabled b then Some Tone_warn else None)"

definition billing_cards :: "intl \<Rightarrow> billing_account \<Rightarrow> (string \<times> string \<times> string option) list" where
  "billing_cards I b =
     [(''Active wallets this month'', format_number I (Some (ba_estimated_month_maw b)), Some ''Distinct users across every app in this organization.''),
      (''Projected cost'', format_usdc I (ba_estimated_month_cost_micros b),
        Some (''At '' @ format_usdc I (ba_rate_micros_per_maw b) @ '' per active wallet.'')),
      (''Balance'', format_usdc I (ba_balance_micros b), Some (if ba_payments_enabled b then ''Drawn down at settlement.'' else ''Not in use yet.'')),
      (''Status'', ba_status b, if ba_payments_enabled b then None else Some ''Billing is inert until payments launch.'')]"

definition invoice_tone :: "string \<Rightarrow> tone" where
  "invoice_tone s = (if s = ''paid'' then Tone_success else if s = ''issued'' then Tone_accent else Tone_neutral)"

definition invoice_row :: "intl \<Rightarrow> invoice \<Rightarrow> string list" where
  "invoice_row I v = [format_date I (Some (in_period_start v)) @ '' '' @ em_dash @ '' '' @ format_date I (Some (in_period_end v)),
     format_number I (Some (in_active_wallets v)), format_usdc I (in_rate_micros_per_maw v), format_usdc I (in_amount_micros v), in_status v]"

subsection \<open>Staff\<close>

record staff_user_row =
  su_subject :: string
  su_subject_kind :: subject_kind
  su_display_name :: string
  su_email :: "string option"
  su_is_staff :: bool
  su_orgs :: int
  su_apps :: int
  su_sponsored_groups :: int
  su_created_at :: string
  su_last_seen_at :: "string option"

record staff_app_row =
  sa_name :: string
  sa_org_name :: string
  sa_creator_subject :: "string option"
  sa_environment :: environment
  sa_status :: app_status
  sa_chain_id :: int
  sa_group_address :: "string option"
  sa_threshold :: "int option"
  sa_node_count :: "int option"
  sa_sponsored :: bool
  sa_deployed_at :: "string option"
  sa_created_at :: string

record staff_totals =
  st_users :: int
  st_signet_users :: int
  st_wallet_users :: int
  st_organizations :: int
  st_apps :: int
  st_deployed_groups :: int
  st_sponsored_groups :: int
  st_new_users_24h :: int
  st_new_groups_24h :: int

record sponsorship =
  sp_enabled :: bool
  sp_invitation_only :: bool
  sp_invited_count :: int
  sp_max_per_subject :: int
  sp_paymaster_address :: string

record staff_overview =
  so_totals :: staff_totals
  so_users :: "staff_user_row list"
  so_apps :: "staff_app_row list"
  so_sponsorship :: sponsorship

definition staff_ceiling :: "staff_overview option \<Rightarrow> int" where
  "staff_ceiling data = (case data of None \<Rightarrow> 0 | Some d \<Rightarrow> sp_max_per_subject (so_sponsorship d))"

definition over_ceiling :: "int \<Rightarrow> staff_user_row \<Rightarrow> bool" where
  "over_ceiling cap u \<longleftrightarrow> cap > 0 \<and> su_sponsored_groups u \<ge> cap"

definition at_ceiling :: "staff_overview option \<Rightarrow> staff_user_row list" where
  "at_ceiling data = filter (over_ceiling (staff_ceiling data)) (case data of None \<Rightarrow> [] | Some d \<Rightarrow> so_users d)"

definition staff_allowed :: "user option \<Rightarrow> bool" where
  "staff_allowed u \<longleftrightarrow> (case u of None \<Rightarrow> False | Some x \<Rightarrow> u_is_staff x)"

text \<open>\<open>subject.split(":", 2)\<close>: the kind and what follows it, up to the next colon.\<close>

definition short_subject :: "string \<Rightarrow> string" where
  "short_subject s = (case split_on (CHR '':'') s of
     kind # rest # _ \<Rightarrow> if rest = [] \<or> length rest \<le> 20 then s
       else kind @ '':'' @ slice 0 8 rest @ ellipsis @ slice_tail 6 rest
   | _ \<Rightarrow> s)"

definition sponsorship_open :: "sponsorship \<Rightarrow> bool" where
  "sponsorship_open s \<longleftrightarrow> sp_enabled s \<and> \<not> sp_invitation_only s"

definition sponsorship_stats :: "staff_overview \<Rightarrow> (string \<times> string \<times> tone) list" where
  "sponsorship_stats d = (let s = so_sponsorship d; c = staff_ceiling (Some d); n = length (at_ceiling (Some d)) in
     [(''Status'', (if \<not> sp_enabled s then ''Off'' else if sp_invitation_only s
         then ''Invitation only '' @ middle_dot @ '' '' @ dec_of_int (sp_invited_count s) else ''Open to anyone signed in''),
         if sponsorship_open s then Tone_warn else Tone_neutral),
      (''Ceiling per person'', (if c > 0 then dec_of_int c @ '' groups'' else ''None''), if c > 0 then Tone_neutral else Tone_warn),
      (''Groups sponsored'', dec_of_int (st_sponsored_groups (so_totals d)), Tone_neutral),
      (''At their ceiling'', dec_of_nat n, if n > 0 then Tone_warn else Tone_neutral)])"

definition staff_totals_shown :: "staff_totals \<Rightarrow> (string \<times> string \<times> string option) list" where
  "staff_totals_shown t =
     [(''Accounts'', dec_of_int (st_users t), Some (dec_of_int (st_signet_users t) @ '' Signet '' @ middle_dot @ '' '' @
         dec_of_int (st_wallet_users t) @ '' wallet'')),
      (''Organizations'', dec_of_int (st_organizations t), None), (''Apps'', dec_of_int (st_apps t), None),
      (''Deployed groups'', dec_of_int (st_deployed_groups t), None),
      (''Last 24 hours'', dec_of_int (st_new_users_24h t) @ '' / '' @ dec_of_int (st_new_groups_24h t), Some ''accounts / groups'')]"

text \<open>The sponsored cell of a row: whether it is a warning badge, and its text.\<close>

definition sponsored_cell :: "int \<Rightarrow> staff_user_row \<Rightarrow> bool \<times> string" where
  "sponsored_cell cap u = (if cap > 0 \<and> su_sponsored_groups u \<ge> cap
     then (True, dec_of_int (su_sponsored_groups u) @ '' / '' @ dec_of_int cap)
     else (False, dec_of_int (su_sponsored_groups u) @ (if cap > 0 then '' / '' @ dec_of_int cap else [])))"

definition staff_user_cells :: "intl \<Rightarrow> int \<Rightarrow> int \<Rightarrow> staff_user_row \<Rightarrow> string \<times> bool \<times> string \<times> string \<times> (bool \<times> string) \<times> string" where
  "staff_user_cells I now cap u = (short_subject (su_subject u), su_is_staff u, su_display_name u,
     (if su_subject_kind u = Signet_subject then ''Signet'' else ''Wallet''), sponsored_cell cap u,
     (if truthy_str (su_last_seen_at u) then relative_time I now (su_last_seen_at u) else em_dash))"

definition group_cell :: "staff_app_row \<Rightarrow> string" where
  "group_cell a = (if \<not> truthy_str (sa_group_address a) then ''no group''
     else short_address 6 4 (sa_group_address a) @
       (case (sa_threshold a, sa_node_count a) of
          (Some k, Some n) \<Rightarrow> if k \<noteq> 0 \<and> n \<noteq> 0 then '' '' @ middle_dot @ '' '' @ dec_of_int k @ ''-of-'' @ dec_of_int n else []
        | _ \<Rightarrow> []))"

definition staff_app_cells :: "intl \<Rightarrow> staff_app_row \<Rightarrow> string list \<times> tone" where
  "staff_app_cells I a =
     ([sa_name a, sa_org_name a, (if truthy_str (sa_creator_subject a) then short_subject (the (sa_creator_subject a)) else []),
       (if sa_sponsored a then ''sponsored'' else []), environment_name (sa_environment a), group_cell a,
       (if truthy_str (sa_deployed_at a) then format_date_time I (sa_deployed_at a) else em_dash), chain_name (Some (sa_chain_id a))],
      if sa_environment a = Production then Tone_error else Tone_neutral)"

subsection \<open>Users of an app\<close>

record app_user =
  au_id :: string
  au_subject_hash :: string
  au_issuer :: string
  au_label :: string
  au_key_count :: int
  au_status :: string
  au_first_seen_at :: string
  au_last_seen_at :: string

definition users_route :: "string \<Rightarrow> string \<Rightarrow> route" where
  "users_route appId search = wallet_route (GetAppUsers appId
     (Some [(''q'', if search = [] then QUndefined else QStr search), (''limit'', QStr ''100'')]))"

definition label_user :: "('e env_scheme) \<Rightarrow> string \<Rightarrow> string \<Rightarrow> string \<Rightarrow> string \<Rightarrow> ('t, unit) io" where
  "label_user E appId search userId v = await (request E (wallet_route (PatchAppUser appId userId v))) (\<lambda>_.
     seq (list_reload E (users_route appId search)) (toast Toast_success ''Label saved'' []))"

definition user_row :: "intl \<Rightarrow> int \<Rightarrow> app_user \<Rightarrow> string list \<times> tone" where
  "user_row I now u =
     ([au_label u, short_address 12 8 (Some (au_subject_hash u)), (if au_issuer u = [] then em_dash else au_issuer u),
       dec_of_int (au_key_count u), format_date_time I (Some (au_first_seen_at u)), relative_time I now (Some (au_last_seen_at u)), au_status u],
      if au_status u = ''active'' then Tone_success else Tone_warn)"

definition users_empty_title :: "string \<Rightarrow> string" where
  "users_empty_title search = (if search \<noteq> [] then ''No users match that search'' else ''No users yet'')"

subsection \<open>Properties\<close>

text \<open>The number of accounts at their ceiling is the number of warning badges in the list below it.\<close>

lemma ceiling_counts_badges:
  "length (at_ceiling (Some d)) = length (filter (\<lambda>u. fst (sponsored_cell (staff_ceiling (Some d)) u)) (so_users d))"
  by (simp add: at_ceiling_def over_ceiling_def [abs_def] sponsored_cell_def if_distrib [of fst] cong: if_cong)

lemma org_body_decoded: "decode_update_org (org_body t) =
    Some \<lparr>uo_name = os_name t, uo_email = os_email t, uo_logo = os_logo t, uo_website = os_website t\<rparr>"
  by (simp add: decode_update_org_def org_body_def go_string_def go_fields_def jobj_def str_field_def)

text \<open>What an organization's settings show after a save is what was typed, except in the fields that were
  emptied, which come back with what they held: the server reads an empty text as no change, so an
  email, a website or a logo can be replaced and never removed, while the screen says it was saved.
  Below an admin the save is refused.\<close>

theorem emptied_org_fields_return:
  "(case handle_update_org (Some r) (org_body t) og of
     Inl e \<Rightarrow> r < Admin \<and> e = (404, ''not found'')
   | Inr og' \<Rightarrow> Admin \<le> r \<and>
      (let shown = org_form_loaded og' t; before = org_form_loaded og t in
       os_name shown = (if os_name t = [] then os_name before else os_name t) \<and>
       os_email shown = (if os_email t = [] then os_email before else os_email t) \<and>
       os_website shown = (if os_website t = [] then os_website before else os_website t) \<and>
       os_logo shown = (if os_logo t = [] then os_logo before else os_logo t)))"
  by (auto simp: handle_update_org_def org_body_decoded update_org_def coalesce_def coalesce_null_def org_form_loaded_def
      nullish_empty_def Let_def not_less)

end
