(* ===== verification/Overview.thy ===== *)
theory Overview
  imports Wallets Operators Chart
begin

text \<open>
  The two screens that draw an app's activity: its overview (\<open>web/app/(console)/apps/[appId]/page.tsx\<close>) and its
  analytics (\<open>\<dots>/analytics/page.tsx\<close>), with \<open>formatPercent\<close>. An error rate is a rational. The browser's time
  zone is a pair of functions from and to local time, both in milliseconds.
\<close>

subsection \<open>Percentages\<close>

text \<open>\<open>x.toFixed(d)\<close>: the nearest multiple of \<open>10^-d\<close>, a half away from zero.\<close>

definition to_fixed :: "nat \<Rightarrow> rat \<Rightarrow> string" where
  "to_fixed d x = (let n = nat \<lfloor>\<bar>x\<bar> * 10 ^ d + 1 / 2\<rfloor> in
     (if x < 0 then ''-'' else []) @ dec_of_nat (n div 10 ^ d) @ (if d = 0 then [] else ''.'' @ dec_pad d (n mod 10 ^ d)))"

definition format_percent :: "rat \<Rightarrow> nat \<Rightarrow> string" where
  "format_percent rate d = to_fixed d (rate * 100) @ ''%''"

subsection \<open>Analytics\<close>

record usage_point =
  up_day :: string
  up_active_wallets :: int
  up_auth_count :: int
  up_keygen_count :: int
  up_sign_count :: int
  up_error_count :: int
  up_p50_latency_ms :: "int option"
  up_p95_latency_ms :: "int option"

record usage_summary =
  us_from :: string
  us_to :: string
  us_monthly_active_wallets :: int
  us_total_signs :: int
  us_total_keygens :: int
  us_total_auths :: int
  us_error_rate :: rat
  us_series :: "usage_point list"

definition RANGES :: "(string \<times> string) list" where
  "RANGES = [(''7'', ''7 days''), (''30'', ''30 days''), (''90'', ''90 days'')]"

definition range_days :: "string \<Rightarrow> int" where
  "range_days r = int (dec_val r)"

text \<open>\<open>setDate\<close> moves the local time by whole days; \<open>toISOString().slice(0, 10)\<close> is the day in UTC.\<close>

definition day_ms :: int where
  "day_ms = 86400000"

definition utc_day :: "int \<Rightarrow> string" where
  "utc_day ms = take 10 (iso_string (nat ms))"

definition range_start :: "(int \<Rightarrow> int) \<Rightarrow> (int \<Rightarrow> int) \<Rightarrow> int \<Rightarrow> int \<Rightarrow> int" where
  "range_start to_local to_utc now days = to_utc (to_local now - (days - 1) * day_ms)"

definition usage_window :: "(int \<Rightarrow> int) \<Rightarrow> (int \<Rightarrow> int) \<Rightarrow> int \<Rightarrow> string \<Rightarrow> string \<times> string" where
  "usage_window to_local to_utc now r = (utc_day (range_start to_local to_utc now (range_days r)), utc_day now)"

definition analytics_route :: "string \<Rightarrow> string \<times> string \<Rightarrow> route" where
  "analytics_route appId w = ops_route (GetUsage appId (Some [(''from'', QStr (fst w)), (''to'', QStr (snd w))]))"

definition usage_points :: "usage_summary option \<Rightarrow> usage_point list" where
  "usage_points u = (case u of None \<Rightarrow> [] | Some s \<Rightarrow> us_series s)"

definition latency_points :: "usage_summary option \<Rightarrow> usage_point list" where
  "latency_points u = filter (\<lambda>p. up_p95_latency_ms p \<noteq> None) (usage_points u)"

definition or_zero :: "int option \<Rightarrow> int" where
  "or_zero v = (case v of None \<Rightarrow> 0 | Some n \<Rightarrow> n)"

definition volume_series :: "usage_point list \<Rightarrow> series list" where
  "volume_series ps =
     [\<lparr>se_key = ''wallets'', se_label = ''Active wallets'', se_color = chart_color ''accent'', se_values = map up_active_wallets ps\<rparr>,
      \<lparr>se_key = ''signs'', se_label = ''Signatures'', se_color = chart_color ''primary'', se_values = map up_sign_count ps\<rparr>,
      \<lparr>se_key = ''keygens'', se_label = ''Key generations'', se_color = chart_color ''success'', se_values = map up_keygen_count ps\<rparr>]"

definition latency_series :: "usage_point list \<Rightarrow> series list" where
  "latency_series ps =
     [\<lparr>se_key = ''p50'', se_label = ''p50'', se_color = chart_color ''success'', se_values = map (\<lambda>p. or_zero (up_p50_latency_ms p)) ps\<rparr>,
      \<lparr>se_key = ''p95'', se_label = ''p95'', se_color = chart_color ''accent'', se_values = map (\<lambda>p. or_zero (up_p95_latency_ms p)) ps\<rparr>]"

definition failure_series :: "usage_point list \<Rightarrow> series list" where
  "failure_series ps =
     [\<lparr>se_key = ''errors'', se_label = ''Failed operations'', se_color = chart_color ''error'', se_values = map up_error_count ps\<rparr>]"

definition error_rate_tone :: "usage_summary option \<Rightarrow> tone" where
  "error_rate_tone u = (let r = (case u of None \<Rightarrow> 0 | Some s \<Rightarrow> us_error_rate s) in
     if r > 5 / 100 then Tone_error else if r > 1 / 100 then Tone_warn else Tone_success)"

definition usage_stat :: "(usage_summary \<Rightarrow> int) \<Rightarrow> usage_summary option \<Rightarrow> int" where
  "usage_stat f u = (case u of None \<Rightarrow> 0 | Some s \<Rightarrow> f s)"

definition analytics_cards :: "intl \<Rightarrow> usage_summary option \<Rightarrow> (string \<times> string) list" where
  "analytics_cards I u =
     [(''Active wallets'', format_number I (Some (usage_stat us_monthly_active_wallets u))),
      (''Signatures'', format_number I (Some (usage_stat us_total_signs u))),
      (''Keys generated'', format_number I (Some (usage_stat us_total_keygens u))),
      (''Error rate'', case u of None \<Rightarrow> em_dash | Some s \<Rightarrow> format_percent (us_error_rate s) 2)]"

subsection \<open>Overview of an app\<close>

definition overview_routes :: "string \<Rightarrow> route list" where
  "overview_routes appId = [app_route (GetApp appId), group_route (GetGroup appId), ops_route (GetUsage appId None),
     wallet_route (GetKeys appId (Some [(''limit'', QStr ''1'')]))]"

definition just_created :: "string option \<Rightarrow> bool" where
  "just_created created \<longleftrightarrow> created = Some ''1''"

definition overview_series :: "usage_summary option \<Rightarrow> string list \<times> series list" where
  "overview_series u = (map up_day (usage_points u), take 2 (volume_series (usage_points u)))"

definition group_onchain :: "group_view option \<Rightarrow> onchain_group_state option" where
  "group_onchain g = Option.bind g gv_onchain"

definition active_node_count :: "app \<Rightarrow> group_view option \<Rightarrow> int" where
  "active_node_count a g = (case group_onchain g of Some oc \<Rightarrow> int (length (og_active_nodes oc)) | None \<Rightarrow> or_zero (a_node_count a))"

definition overview_threshold :: "app \<Rightarrow> group_view option \<Rightarrow> int" where
  "overview_threshold a g = (case group_onchain g of Some oc \<Rightarrow> og_threshold oc | None \<Rightarrow> or_zero (a_threshold a))"

definition group_dot :: "app \<Rightarrow> tone \<times> bool" where
  "group_dot a = (case a_is_operational a of Some True \<Rightarrow> (Tone_success, True) | Some False \<Rightarrow> (Tone_error, False) | None \<Rightarrow> (Tone_neutral, False))"

definition group_status_text :: "app \<Rightarrow> string" where
  "group_status_text a = (if \<not> truthy_str (a_group_address a) then ''Not deployed''
     else (case a_is_operational a of None \<Rightarrow> ''Unsynced'' | Some True \<Rightarrow> ''Operational'' | Some False \<Rightarrow> ''Below threshold''))"

definition group_status_hint :: "app \<Rightarrow> group_view option \<Rightarrow> string" where
  "group_status_hint a g = (if \<not> truthy_str (a_group_address a) then ''Deploy a group to start signing.''
     else dec_of_int (overview_threshold a g) @ ''-of-'' @ dec_of_int (active_node_count a g) @ '' on '' @ chain_name (Some (a_chain_id a)))"

definition overview_cards :: "intl \<Rightarrow> app \<Rightarrow> group_view option \<Rightarrow> usage_summary option \<Rightarrow> key_stats option \<Rightarrow> (string \<times> string \<times> string option) list" where
  "overview_cards I a g u ks =
     [(''Group status'', group_status_text a, Some (group_status_hint a g)),
      (''Active wallets '' @ middle_dot @ '' 30d'', format_number I (Some (usage_stat us_monthly_active_wallets u)),
        Some ''Unique users who generated a key or signed.''),
      (''Signatures '' @ middle_dot @ '' 30d'', format_number I (Some (usage_stat us_total_signs u)),
        map_option (\<lambda>s. format_percent (us_error_rate s) 1 @ '' of all operations failed'') u),
      (''Keys held'', format_number I (Some (stat ks_total ks)),
        Some (case ks of None \<Rightarrow> ''Sync from the group to populate.''
          | Some s \<Rightarrow> dec_of_int (ks_enabled s) @ '' enabled '' @ middle_dot @ '' '' @ dec_of_int (ks_disabled s) @ '' disabled''))]"

definition overview_identifiers :: "intl \<Rightarrow> int \<Rightarrow> app \<Rightarrow> (string \<times> string) list" where
  "overview_identifiers I now a = (''App ID'', a_id a) #
     (if truthy_str (a_group_address a) then [(''Group address'', short_address 10 8 (a_group_address a))] else []) @
     [(''Chain'', chain_name (Some (a_chain_id a))),
      (''Last chain sync'', if truthy_str (a_synced_at a) then relative_time I now (a_synced_at a) else ''Never'')]"

definition overview_fleet :: "group_view \<Rightarrow> string" where
  "overview_fleet g = describe_fleet (length (gv_nodes g)) (length (group_by_operator (List.map_filter gn_operator (gv_nodes g))))"

text \<open>A node's dot, its name and its badge.\<close>

definition overview_node :: "group_node \<Rightarrow> tone \<times> string \<times> tone" where
  "overview_node n =
     ((case gn_status n of
         Node_active \<Rightarrow> (if (case gn_operator n of None \<Rightarrow> False | Some p \<Rightarrow> is_online p) then Tone_success else Tone_warn)
       | Node_pending \<Rightarrow> Tone_warn | Node_removing \<Rightarrow> Tone_error),
      (case gn_operator n of None \<Rightarrow> short_address 6 4 (Some (gn_address n)) | Some p \<Rightarrow> op_name p),
      (case gn_status n of Node_active \<Rightarrow> Tone_success | Node_pending \<Rightarrow> Tone_warn | Node_removing \<Rightarrow> Tone_error))"

subsection \<open>Properties\<close>

text \<open>With one offset from UTC the window has as many days as the range says.\<close>

lemma range_days_apart:
  assumes "\<And>t. to_local t = t + offset" and "\<And>t. to_utc t = t - offset"
  shows "now div day_ms - range_start to_local to_utc now days div day_ms = days - 1"
proof -
  have "range_start to_local to_utc now days = now + - (days - 1) * day_ms" unfolding range_start_def assms by (simp add: algebra_simps)
  then show ?thesis by (simp only: div_mult_self1 day_ms_def)
qed

text \<open>A change of the offset inside the window can cost it a day: late on 10 April 2026 in Central Europe the
  last thirty days are the 29 from 13 March.\<close>

definition cet :: "int \<Rightarrow> int" where
  "cet t = t + (if t < 1774746000000 then 3600000 else 7200000)"

definition cet_inverse :: "int \<Rightarrow> int" where
  "cet_inverse t = (if t < 1774749600000 then t - 3600000 else t - 7200000)"

lemma cet_inverse_of: "cet_inverse (cet t) = t"
  by (simp add: cet_def cet_inverse_def)

lemma thirty_days_are_29: "1775863800000 div day_ms - range_start cet cet_inverse 1775863800000 30 div day_ms = 28"
  by (simp add: day_ms_def range_start_def cet_def cet_inverse_def)

end
