(* ===== verification/Configuration.thy ===== *)
theory Configuration
  imports Settings_Form Trust
begin

text \<open>
  The configuration screens, all of them a settings form around their own controls: login methods, branding,
  embedded wallets, smart accounts, session signers, funding
  (\<open>web/app/(console)/apps/[appId]/configuration/*/page.tsx\<close>). A screen is its defaults, the type of its
  section (\<open>web/lib/types.ts\<close>), its controls, which of them it offers for a value, and the patch each
  makes. A number field holds an integer.
\<close>

subsection \<open>Sections and their types\<close>

datatype field_type = Is_bool | Is_text | Is_int | One_of "string list" | Some_of "string list" | Ints | Texts

fun has_type :: "field_type \<Rightarrow> json \<Rightarrow> bool" where
  "has_type Is_bool (JBool b) = True"
| "has_type Is_text (JStr s) = True"
| "has_type Is_int (JNum n) = True"
| "has_type (One_of xs) (JStr s) = (s \<in> set xs)"
| "has_type (Some_of xs) (JArr js) = list_all (\<lambda>j. case j of JStr s \<Rightarrow> s \<in> set xs | _ \<Rightarrow> False) js"
| "has_type Ints (JArr js) = list_all (\<lambda>j. case j of JNum n \<Rightarrow> True | _ \<Rightarrow> False) js"
| "has_type Texts (JArr js) = list_all (\<lambda>j. case j of JStr s \<Rightarrow> True | _ \<Rightarrow> False) js"
| "has_type _ _ = False"

text \<open>Every field of a section is optional.\<close>

definition typed_section :: "(string \<times> field_type) list \<Rightarrow> json \<Rightarrow> bool" where
  "typed_section S v \<longleftrightarrow> (case v of JObj fs \<Rightarrow>
     list_all (\<lambda>(k, t). case jget k v of None \<Rightarrow> True | Some j \<Rightarrow> has_type t j) S | _ \<Rightarrow> False)"

definition curve_names :: "string list" where
  "curve_names = [''frost_secp256k1'', ''frost_ed25519'', ''ecdsa_secp256k1'']"

definition login_section :: "(string \<times> field_type) list" where
  "login_section = map (\<lambda>k. (k, Is_bool)) [''google'', ''apple'', ''email'', ''sms'', ''passkey'', ''wallet'', ''farcaster'', ''telegram'',
     ''guest'', ''custom_jwt'', ''auth_key'', ''onchain_resolver''] @ [(''primary'', Texts)]"

definition branding_section :: "(string \<times> field_type) list" where
  "branding_section = [(''theme'', One_of [''light'', ''dark'', ''system'']), (''accent_color'', Is_text), (''logo_url'', Is_text),
     (''app_name'', Is_text), (''header_text'', Is_text), (''login_message'', Is_text), (''terms_url'', Is_text),
     (''privacy_url'', Is_text), (''show_wallet_ui'', Is_bool), (''corner_radius'', One_of [''sharp'', ''soft'', ''round''])]"

definition wallets_section :: "(string \<times> field_type) list" where
  "wallets_section = [(''creation'', One_of [''on_login'', ''on_demand'', ''off'']), (''curves'', Some_of curve_names),
     (''default_curve'', One_of curve_names), (''require_confirmation_on_sign'', Is_bool),
     (''require_confirmation_on_transaction'', Is_bool), (''prover'', One_of [''client'', ''server'']),
     (''session_ttl_seconds'', Is_int), (''default_chain_id'', Is_int), (''chain_ids'', Ints)]"

definition accounts_section :: "(string \<times> field_type) list" where
  "accounts_section = [(''enabled'', Is_bool), (''implementation'', One_of [''signet_kernel'', ''signet_minimal'', ''external'']),
     (''entrypoint'', Is_text), (''bundler_url'', Is_text), (''paymaster_url'', Is_text), (''paymaster_enabled'', Is_bool),
     (''sponsor_first_deployment'', Is_bool)]"

definition signers_section :: "(string \<times> field_type) list" where
  "signers_section = [(''enabled'', Is_bool), (''max_ttl_seconds'', Is_int), (''default_ttl_seconds'', Is_int),
     (''require_scope'', Is_bool), (''allowed_curves'', Some_of curve_names)]"

definition funding_section :: "(string \<times> field_type) list" where
  "funding_section = [(''enabled'', Is_bool), (''providers'', Texts), (''default_asset'', Is_text)]"

subsection \<open>Reading a section\<close>

text \<open>\<open>value.k ?? d\<close>, at the type of the field.\<close>

definition list_of :: "string \<Rightarrow> json \<Rightarrow> json list" where
  "list_of k v = (case jget k v of Some (JArr xs) \<Rightarrow> xs | _ \<Rightarrow> [])"

definition flag_of :: "bool \<Rightarrow> string \<Rightarrow> json \<Rightarrow> bool" where
  "flag_of d k v = (case jget k v of Some (JBool b) \<Rightarrow> b | _ \<Rightarrow> d)"

definition text_of :: "string \<Rightarrow> string \<Rightarrow> json \<Rightarrow> string" where
  "text_of d k v = (case jget k v of Some (JStr s) \<Rightarrow> s | _ \<Rightarrow> d)"

definition int_of_field :: "int \<Rightarrow> string \<Rightarrow> json \<Rightarrow> int" where
  "int_of_field d k v = (case jget k v of Some (JNum n) \<Rightarrow> n | _ \<Rightarrow> d)"

text \<open>\<open>{ k: on ? [...(value.k ?? []), x] : (value.k ?? []).filter((y) => y !== x) }\<close>\<close>

definition flip_patch :: "string \<Rightarrow> json \<Rightarrow> bool \<Rightarrow> json \<Rightarrow> json" where
  "flip_patch k x on v = JObj [(k, JArr (if on then list_of k v @ [x] else filter (\<lambda>y. y \<noteq> x) (list_of k v)))]"

text \<open>What a select shows: its value, or the first option when the value is none of them.\<close>

definition select_shows :: "json \<Rightarrow> json list \<Rightarrow> json option" where
  "select_shows v options = (if v \<in> set options then Some v else case options of [] \<Rightarrow> None | w # _ \<Rightarrow> Some w)"

subsection \<open>The screens\<close>

text \<open>Login methods.\<close>

datatype login_control = Method_toggle string bool

definition login_defaults :: json where
  "login_defaults = JObj []"

definition login_offers :: "json \<Rightarrow> login_control \<Rightarrow> bool" where
  "login_offers v c = (case c of Method_toggle k on \<Rightarrow>
     k \<in> fst ` set CHAIN_ENFORCED \<union> fst ` set CLIENT_METHODS \<and> on = (\<not> flag_of False k v))"

definition login_patch :: "login_control \<Rightarrow> json \<Rightarrow> json" where
  "login_patch c v = (case c of Method_toggle k on \<Rightarrow> JObj [(k, JBool on)])"

text \<open>Branding. An upload that fails is a toast and no edit.\<close>

definition ACCENTS :: "string list" where
  "ACCENTS = [''#e8873c'', ''#486581'', ''#3d9f6f'', ''#c4523b'', ''#6f42c1'', ''#0f766e'']"

definition branding_texts :: "string list" where
  "branding_texts = [''app_name'', ''header_text'', ''login_message'', ''terms_url'', ''privacy_url'']"

datatype branding_control = Branding_text string string | Logo_uploaded string | Logo_removed | Theme_button string |
  Accent string | Corner_button string | Wallet_ui bool

definition branding_defaults :: json where
  "branding_defaults = JObj [(''theme'', JStr ''system''), (''accent_color'', JStr ''#e8873c''), (''corner_radius'', JStr ''soft''),
     (''show_wallet_ui'', JBool True)]"

definition branding_offers :: "json \<Rightarrow> branding_control \<Rightarrow> bool" where
  "branding_offers v c = (case c of Branding_text k s \<Rightarrow> k \<in> set branding_texts | Logo_uploaded u \<Rightarrow> True
     | Logo_removed \<Rightarrow> text_of [] ''logo_url'' v \<noteq> [] | Theme_button t \<Rightarrow> t \<in> {''light'', ''dark'', ''system''}
     | Accent a \<Rightarrow> True | Corner_button r \<Rightarrow> r \<in> {''sharp'', ''soft'', ''round''} | Wallet_ui on \<Rightarrow> on = (\<not> flag_of True ''show_wallet_ui'' v))"

definition branding_patch :: "branding_control \<Rightarrow> json \<Rightarrow> json" where
  "branding_patch c v = JObj [case c of Branding_text k s \<Rightarrow> (k, JStr s) | Logo_uploaded u \<Rightarrow> (''logo_url'', JStr u)
     | Logo_removed \<Rightarrow> (''logo_url'', JStr []) | Theme_button t \<Rightarrow> (''theme'', JStr t) | Accent a \<Rightarrow> (''accent_color'', JStr a)
     | Corner_button r \<Rightarrow> (''corner_radius'', JStr r) | Wallet_ui on \<Rightarrow> (''show_wallet_ui'', JBool on)]"

definition branding_upload :: "('e env_scheme) \<Rightarrow> string \<Rightarrow> organization option \<Rightarrow> upload option \<Rightarrow> ('t, branding_control option) io" where
  "branding_upload E appId org picked = (case (picked, org) of
     (Some f, Some og) \<Rightarrow> try_catch
        (await (upload_file E f \<lparr>up_org_id = o_id og, up_app_id = Some appId, up_scope = Some ''branding''\<rparr>) (\<lambda>u. ret (Some (Logo_uploaded u))))
        (\<lambda>e. seq (toast Toast_error ''Upload failed'' (err_message e)) (ret None))
   | _ \<Rightarrow> ret None)"

text \<open>Embedded wallets.\<close>

definition CREATION_OPTIONS :: "(string \<times> string) list" where
  "CREATION_OPTIONS = [(''on_login'', ''On login''), (''on_demand'', ''On demand''), (''off'', ''Off'')]"

definition CURVES :: "string list" where
  "CURVES = [''frost_secp256k1'', ''ecdsa_secp256k1'', ''frost_ed25519'']"

definition PROVER_OPTIONS :: "(string \<times> string) list" where
  "PROVER_OPTIONS = [(''client'', ''In the browser''), (''server'', ''On your server'')]"

definition CHAINS :: "(int \<times> string) list" where
  "CHAINS = [(1, ''Ethereum''), (8453, ''Base''), (10, ''Optimism''), (42161, ''Arbitrum One''), (137, ''Polygon''),
     (11155111, ''Sepolia''), (84532, ''Base Sepolia''), (31337, ''Anvil (local)'')]"

datatype wallets_control = Creation_button string | Scheme_toggle string bool | Default_scheme string | Prover_button string |
  Session_ttl int | Confirm_sign bool | Confirm_transaction bool | Chain_button int | Default_chain int

definition wallets_defaults :: json where
  "wallets_defaults = JObj [(''creation'', JStr ''on_login''), (''curves'', JArr [JStr ''frost_secp256k1'']),
     (''default_curve'', JStr ''frost_secp256k1''), (''prover'', JStr ''client''), (''session_ttl_seconds'', JNum 3600),
     (''require_confirmation_on_transaction'', JBool True), (''chain_ids'', JArr [])]"

definition wallets_offers :: "json \<Rightarrow> wallets_control \<Rightarrow> bool" where
  "wallets_offers v c = (case c of Creation_button s \<Rightarrow> s \<in> fst ` set CREATION_OPTIONS
     | Scheme_toggle s on \<Rightarrow> s \<in> set CURVES \<and> on = (JStr s \<notin> set (list_of ''curves'' v))
     | Default_scheme s \<Rightarrow> JStr s \<in> set (list_of ''curves'' v)
     | Prover_button s \<Rightarrow> s \<in> fst ` set PROVER_OPTIONS | Session_ttl n \<Rightarrow> True
     | Confirm_sign on \<Rightarrow> on = (\<not> flag_of False ''require_confirmation_on_sign'' v)
     | Confirm_transaction on \<Rightarrow> on = (\<not> flag_of True ''require_confirmation_on_transaction'' v)
     | Chain_button i \<Rightarrow> i \<in> fst ` set CHAINS | Default_chain i \<Rightarrow> JNum i \<in> set (list_of ''chain_ids'' v))"

definition wallets_patch :: "wallets_control \<Rightarrow> json \<Rightarrow> json" where
  "wallets_patch c v = (case c of Creation_button s \<Rightarrow> JObj [(''creation'', JStr s)]
     | Scheme_toggle s on \<Rightarrow> flip_patch ''curves'' (JStr s) on v
     | Default_scheme s \<Rightarrow> JObj [(''default_curve'', JStr s)]
     | Prover_button s \<Rightarrow> JObj [(''prover'', JStr s)]
     | Session_ttl n \<Rightarrow> JObj [(''session_ttl_seconds'', JNum n)]
     | Confirm_sign on \<Rightarrow> JObj [(''require_confirmation_on_sign'', JBool on)]
     | Confirm_transaction on \<Rightarrow> JObj [(''require_confirmation_on_transaction'', JBool on)]
     | Chain_button i \<Rightarrow> flip_patch ''chain_ids'' (JNum i) (JNum i \<notin> set (list_of ''chain_ids'' v)) v
     | Default_chain i \<Rightarrow> JObj [(''default_chain_id'', JNum i)])"

text \<open>The two selects of the screen, with the option they show.\<close>

definition default_curve_shown :: "json \<Rightarrow> json option" where
  "default_curve_shown v = select_shows (JStr (text_of ''frost_secp256k1'' ''default_curve'' v)) (list_of ''curves'' v)"

definition default_chain_shown :: "json \<Rightarrow> json option" where
  "default_chain_shown v = (case list_of ''chain_ids'' v of [] \<Rightarrow> None
     | c # cs \<Rightarrow> select_shows (case jget ''default_chain_id'' v of None \<Rightarrow> c | Some d \<Rightarrow> d) (c # cs))"

definition chain_option :: "int \<Rightarrow> string" where
  "chain_option i = (case map_of CHAINS i of Some n \<Rightarrow> n | None \<Rightarrow> ''Chain '' @ dec_of_int i)"

text \<open>Smart accounts.\<close>

definition IMPLEMENTATIONS :: "(string \<times> string) list" where
  "IMPLEMENTATIONS = [(''signet_kernel'', ''Signet '' @ middle_dot @ '' Kernel v3''), (''signet_minimal'', ''Signet '' @ middle_dot @ '' minimal''),
     (''external'', ''Bring your own'')]"

datatype accounts_control = Accounts_enabled bool | Implementation_button string | Entrypoint string | Bundler string |
  Paymaster_toggle bool | Paymaster string | Sponsor_first bool

definition accounts_defaults :: json where
  "accounts_defaults = JObj [(''enabled'', JBool True), (''implementation'', JStr ''signet_kernel''), (''paymaster_enabled'', JBool False),
     (''sponsor_first_deployment'', JBool True)]"

definition accounts_offers :: "json \<Rightarrow> accounts_control \<Rightarrow> bool" where
  "accounts_offers v c = (case c of Accounts_enabled on \<Rightarrow> on = (\<not> flag_of True ''enabled'' v)
     | Implementation_button s \<Rightarrow> s \<in> fst ` set IMPLEMENTATIONS | Entrypoint s \<Rightarrow> True | Bundler s \<Rightarrow> True
     | Paymaster_toggle on \<Rightarrow> on = (\<not> flag_of False ''paymaster_enabled'' v)
     | Paymaster s \<Rightarrow> flag_of False ''paymaster_enabled'' v
     | Sponsor_first on \<Rightarrow> on = (\<not> flag_of True ''sponsor_first_deployment'' v))"

definition accounts_patch :: "accounts_control \<Rightarrow> json \<Rightarrow> json" where
  "accounts_patch c v = JObj [case c of Accounts_enabled on \<Rightarrow> (''enabled'', JBool on)
     | Implementation_button s \<Rightarrow> (''implementation'', JStr s) | Entrypoint s \<Rightarrow> (''entrypoint'', JStr s)
     | Bundler s \<Rightarrow> (''bundler_url'', JStr s) | Paymaster_toggle on \<Rightarrow> (''paymaster_enabled'', JBool on)
     | Paymaster s \<Rightarrow> (''paymaster_url'', JStr s) | Sponsor_first on \<Rightarrow> (''sponsor_first_deployment'', JBool on)]"

text \<open>Session signers: lifetimes are shown and entered in days.\<close>

datatype signers_control = Signers_enabled bool | Require_scope bool | Default_days int | Max_days int

definition signers_defaults :: json where
  "signers_defaults = JObj [(''enabled'', JBool True), (''default_ttl_seconds'', JNum 2592000), (''max_ttl_seconds'', JNum 7776000),
     (''require_scope'', JBool True)]"

definition signers_offers :: "json \<Rightarrow> signers_control \<Rightarrow> bool" where
  "signers_offers v c = (case c of Signers_enabled on \<Rightarrow> on = (\<not> flag_of True ''enabled'' v)
     | Require_scope on \<Rightarrow> on = (\<not> flag_of True ''require_scope'' v) | Default_days n \<Rightarrow> True | Max_days n \<Rightarrow> True)"

definition signers_patch :: "signers_control \<Rightarrow> json \<Rightarrow> json" where
  "signers_patch c v = JObj [case c of Signers_enabled on \<Rightarrow> (''enabled'', JBool on) | Require_scope on \<Rightarrow> (''require_scope'', JBool on)
     | Default_days n \<Rightarrow> (''default_ttl_seconds'', JNum (n * 86400)) | Max_days n \<Rightarrow> (''max_ttl_seconds'', JNum (n * 86400))]"

definition default_days_shown :: "json \<Rightarrow> int" where
  "default_days_shown v = round_div (int_of_field 2592000 ''default_ttl_seconds'' v) 86400"

definition max_days_shown :: "json \<Rightarrow> int" where
  "max_days_shown v = round_div (int_of_field 7776000 ''max_ttl_seconds'' v) 86400"

text \<open>Funding: the providers and the asset are disabled while funding is off.\<close>

definition PROVIDERS :: "(string \<times> string) list" where
  "PROVIDERS = [(''moonpay'', ''MoonPay''), (''coinbase'', ''Coinbase Onramp''), (''transak'', ''Transak''), (''bridge'', ''Cross-chain bridge'')]"

definition ASSETS :: "string list" where
  "ASSETS = [''USDC'', ''USDT'', ''ETH'', ''SOL'']"

datatype funding_control = Funding_enabled bool | Provider_toggle string bool | Default_asset string

definition funding_defaults :: json where
  "funding_defaults = JObj [(''enabled'', JBool False), (''providers'', JArr []), (''default_asset'', JStr ''USDC'')]"

definition funding_offers :: "json \<Rightarrow> funding_control \<Rightarrow> bool" where
  "funding_offers v c = (case c of Funding_enabled on \<Rightarrow> on = (\<not> flag_of False ''enabled'' v)
     | Provider_toggle p on \<Rightarrow> flag_of False ''enabled'' v \<and> p \<in> fst ` set PROVIDERS \<and> on = (JStr p \<notin> set (list_of ''providers'' v))
     | Default_asset a \<Rightarrow> flag_of False ''enabled'' v \<and> a \<in> set ASSETS)"

definition funding_patch :: "funding_control \<Rightarrow> json \<Rightarrow> json" where
  "funding_patch c v = (case c of Funding_enabled on \<Rightarrow> JObj [(''enabled'', JBool on)]
     | Provider_toggle p on \<Rightarrow> flip_patch ''providers'' (JStr p) on v | Default_asset a \<Rightarrow> JObj [(''default_asset'', JStr a)])"

subsection \<open>The life of a screen\<close>

text \<open>The steps of a settings form whose edits come from the controls the screen offers, and whose section
  arrives with its type.\<close>

inductive screen_step :: "(string \<times> field_type) list \<Rightarrow> json \<Rightarrow> (json \<Rightarrow> 'c \<Rightarrow> bool) \<Rightarrow> ('c \<Rightarrow> json \<Rightarrow> json) \<Rightarrow> settings_form \<Rightarrow> settings_form \<Rightarrow> bool"
  for S defaults offers patch where
  c_edit: "form_shown f \<Longrightarrow> offers (sf_value f) c \<Longrightarrow> screen_step S defaults offers patch f (form_set (patch c (sf_value f)) f)"
| c_load: "sf_data f = None \<or> sf_load_error f \<noteq> None \<Longrightarrow> typed_section S d \<Longrightarrow> screen_step S defaults offers patch f (form_loaded defaults d f)"
| c_load_fails: "sf_data f = None \<or> sf_load_error f \<noteq> None \<Longrightarrow> screen_step S defaults offers patch f (f\<lparr>sf_load_error := Some e\<rparr>)"
| c_save: "save_enabled f \<Longrightarrow> screen_step S defaults offers patch f (press_save f)"
| c_put: "sf_phase f = Putting v \<Longrightarrow> screen_step S defaults offers patch f (put_done f)"
| c_put_fails: "sf_phase f = Putting v \<Longrightarrow> screen_step S defaults offers patch f (put_failed e f)"
| c_reload: "sf_phase f = Reloading v \<Longrightarrow> typed_section S d \<Longrightarrow> screen_step S defaults offers patch f (save_done (form_loaded defaults d f))"
| c_reload_fails: "sf_phase f = Reloading v \<Longrightarrow> screen_step S defaults offers patch f (save_done (f\<lparr>sf_load_error := Some e\<rparr>))"

lemma screen_is_form: "screen_step S defaults offers patch f f' \<Longrightarrow> form_step defaults f f'"
  by (erule screen_step.cases) (auto intro: form_step.intros)

text \<open>What a save sends.\<close>

definition sends :: "settings_form \<Rightarrow> json option" where
  "sends f = (case sf_phase f of Putting v \<Rightarrow> Some v | _ \<Rightarrow> None)"

definition screen_ok :: "(string \<times> field_type) list \<Rightarrow> settings_form \<Rightarrow> bool" where
  "screen_ok S f \<longleftrightarrow> typed_section S (sf_value f) \<and> (case sends f of None \<Rightarrow> True | Some v \<Rightarrow> typed_section S v)"

lemma map_of_pairs: "map_of (map (\<lambda>(k, v). (k, g k v)) xs) k = map_option (g k) (map_of xs k)"
  by (induction xs) auto

lemma map_of_without: "map_of (filter (\<lambda>(k, v). k \<notin> A) xs) k = (if k \<in> A then None else map_of xs k)"
  by (induction xs) auto

lemma jget_merge: "jget k (jmerge (JObj a) (JObj b)) = (case jget k (JObj b) of None \<Rightarrow> jget k (JObj a) | Some w \<Rightarrow> Some w)"
proof -
  let ?g = "\<lambda>k v. case map_of (rev b) k of None \<Rightarrow> v | Some w \<Rightarrow> w"
  have "jget k (jmerge (JObj a) (JObj b)) =
      (map_of (map (\<lambda>(k, v). (k, ?g k v)) (rev a)) ++ map_of (filter (\<lambda>(k, v). k \<notin> fst ` set a) (rev b))) k"
    by (simp add: rev_map rev_filter)
  moreover have "map_of (rev a) k = None \<longleftrightarrow> k \<notin> fst ` set a" by (simp add: map_of_eq_None_iff)
  ultimately show ?thesis
    by (simp add: map_add_def map_of_pairs [of ?g] map_of_without split: option.splits) auto
qed

lemma typed_sectionE: "typed_section S v \<Longrightarrow> (\<And>fs. v = JObj fs \<Longrightarrow> P) \<Longrightarrow> P"
  by (cases v) (auto simp: typed_section_def)

lemma typed_merge:
  assumes "typed_section S a" and "typed_section S b"
  shows "typed_section S (jmerge a b)"
proof -
  obtain x y where xy: "a = JObj x" "b = JObj y" using assms by (auto elim!: typed_sectionE)
  obtain z where z: "jmerge (JObj x) (JObj y) = JObj z" by simp
  have g: "jget k (JObj z) = (case jget k (JObj y) of None \<Rightarrow> jget k (JObj x) | Some w \<Rightarrow> Some w)" for k
    using jget_merge [of k x y] by (simp only: z)
  have o: "typed_section S (JObj fs) \<longleftrightarrow> (\<forall>(k, t) \<in> set S. \<forall>j. jget k (JObj fs) = Some j \<longrightarrow> has_type t j)" for fs
    by (auto simp: typed_section_def list_all_iff simp del: jget.simps split: option.splits)
  show ?thesis
    using assms unfolding xy z o g by (fastforce split: option.splits)
qed

lemma typed_field: "typed_section S v \<Longrightarrow> (k, t) \<in> set S \<Longrightarrow> jget k v = Some j \<Longrightarrow> has_type t j"
  by (force simp: typed_section_def list_all_iff split: json.splits)

lemma typed_single: "typed_section S (JObj [(k, j)]) \<longleftrightarrow> list_all (\<lambda>(k', t). k' = k \<longrightarrow> has_type t j) S"
  by (auto simp: typed_section_def list_all_iff)

lemma typed_flip:
  assumes "typed_section S v" and "(k, t) \<in> set S" and "list_all (\<lambda>(k', t'). k' = k \<longrightarrow> t' = t) S"
    and "t = Texts \<and> (\<exists>s. x = JStr s) \<or> t = Ints \<and> (\<exists>n. x = JNum n) \<or> (\<exists>xs s. t = Some_of xs \<and> x = JStr s \<and> s \<in> set xs)"
  shows "typed_section S (flip_patch k x on v)"
proof -
  have "has_type t (JArr (list_of k v))"
    using assms(4) typed_field [OF assms(1,2)] by (cases "jget k v") (auto simp: list_of_def split: json.splits)
  then have "has_type t (JArr (if on then list_of k v @ [x] else filter (\<lambda>y. y \<noteq> x) (list_of k v)))"
    using assms(4) by (auto simp: list_all_iff)
  then show ?thesis using assms(3) by (auto simp: flip_patch_def typed_single list_all_iff)
qed

lemma typed_list_of: "typed_section S v \<Longrightarrow> (k, Some_of xs) \<in> set S \<Longrightarrow> JStr s \<in> set (list_of k v) \<Longrightarrow> s \<in> set xs"
  using typed_field [of S v k "Some_of xs"]
  by (cases "jget k v") (auto simp: list_of_def list_all_iff split: json.splits)

locale screen =
  fixes S :: "(string \<times> field_type) list" and defaults :: json and offers :: "json \<Rightarrow> 'c \<Rightarrow> bool" and patch :: "'c \<Rightarrow> json \<Rightarrow> json"
  assumes defaults_typed: "typed_section S defaults"
    and patch_typed: "typed_section S v \<Longrightarrow> offers v c \<Longrightarrow> typed_section S (patch c v)"
begin

lemma keeps_type: "reachable (form_start defaults) (screen_step S defaults offers patch) f \<Longrightarrow> screen_ok S f"
proof (induction rule: reachable.induct)
  case (reach_init s)
  then show ?case using defaults_typed by (auto simp: form_start_def form_init_def screen_ok_def sends_def)
next
  case (reach_next s s')
  note d = typed_merge [OF defaults_typed]
  from reach_next(2,3) show ?case
    by cases (auto simp: screen_ok_def sends_def form_set_def form_loaded_def press_save_def put_done_def put_failed_def save_done_def
        intro!: typed_merge patch_typed d split: save_phase.splits)
qed

end

lemmas section_defs = login_section_def branding_section_def wallets_section_def accounts_section_def signers_section_def
  funding_section_def curve_names_def typed_single

interpretation login_screen: screen login_section login_defaults login_offers login_patch
  by unfold_locales (auto simp: login_defaults_def login_offers_def login_patch_def section_defs CHAIN_ENFORCED_def CLIENT_METHODS_def typed_section_def [of _ "JObj []"]
      split: login_control.splits)

interpretation branding_screen: screen branding_section branding_defaults branding_offers branding_patch
  by unfold_locales (auto simp: branding_patch_def branding_offers_def branding_texts_def section_defs split: branding_control.splits,
      simp add: branding_defaults_def section_defs typed_section_def)

interpretation wallets_screen: screen wallets_section wallets_defaults wallets_offers wallets_patch
proof
  show "typed_section wallets_section wallets_defaults"
    by (simp add: wallets_defaults_def section_defs typed_section_def)
  show "typed_section wallets_section (wallets_patch c v)" if v: "typed_section wallets_section v" and o: "wallets_offers v c" for c v
  proof -
    have "typed_section wallets_section (flip_patch ''curves'' (JStr x) on v)" if "x \<in> set curve_names" for x on
      by (rule typed_flip [OF v, of _ "Some_of curve_names"]) (use that in \<open>simp_all add: wallets_section_def\<close>)
    moreover have "typed_section wallets_section (flip_patch ''chain_ids'' (JNum n) on v)" for n on
      by (rule typed_flip [OF v, of _ Ints]) (simp_all add: wallets_section_def)
    moreover have "s \<in> set curve_names" if "JStr s \<in> set (list_of ''curves'' v)" for s
      using typed_list_of [OF v _ that] by (simp add: wallets_section_def)
    moreover have "set CURVES = set curve_names" by (auto simp: CURVES_def curve_names_def)
    ultimately show ?thesis
      using o by (cases c) (auto simp: wallets_patch_def wallets_offers_def wallets_section_def typed_single
        CREATION_OPTIONS_def PROVER_OPTIONS_def)
  qed
qed

interpretation accounts_screen: screen accounts_section accounts_defaults accounts_offers accounts_patch
  by unfold_locales (auto simp: accounts_patch_def accounts_offers_def IMPLEMENTATIONS_def section_defs split: accounts_control.splits,
      simp add: accounts_defaults_def section_defs typed_section_def)

interpretation signers_screen: screen signers_section signers_defaults signers_offers signers_patch
  by unfold_locales (auto simp: signers_patch_def signers_offers_def section_defs split: signers_control.splits,
      simp add: signers_defaults_def section_defs typed_section_def)

interpretation funding_screen: screen funding_section funding_defaults funding_offers funding_patch
proof
  show "typed_section funding_section funding_defaults"
    by (simp add: funding_defaults_def section_defs typed_section_def)
  show "typed_section funding_section (funding_patch c v)" if v: "typed_section funding_section v" and o: "funding_offers v c" for c v
  proof -
    have "typed_section funding_section (flip_patch ''providers'' (JStr x) on v)" for x on
      by (rule typed_flip [OF v, of _ Texts]) (simp_all add: funding_section_def)
    then show ?thesis
      using o by (cases c) (auto simp: funding_patch_def funding_section_def typed_single)
  qed
qed

subsection \<open>Issued session signers\<close>

record delegation =
  de_id :: string
  de_key_id :: string
  de_parent_key_id :: string
  de_curve :: string
  de_label :: string
  de_subject_hash :: "string option"
  de_issued_at :: string
  de_expires_at :: string
  de_revoked_at :: "string option"

datatype signer_badge = Badge_revoked | Badge_expired | Remaining string

definition signer_badge_of :: "intl \<Rightarrow> int \<Rightarrow> delegation \<Rightarrow> signer_badge" where
  "signer_badge_of I now d = (if truthy_str (de_revoked_at d) then Badge_revoked
     else case countdown I now (Some (de_expires_at d)) of None \<Rightarrow> Badge_expired | Some r \<Rightarrow> Remaining r)"

definition revocable :: "intl \<Rightarrow> int \<Rightarrow> delegation \<Rightarrow> bool" where
  "revocable I now d \<longleftrightarrow> \<not> truthy_str (de_revoked_at d) \<and> countdown I now (Some (de_expires_at d)) \<noteq> None"

definition signer_row :: "intl \<Rightarrow> int \<Rightarrow> delegation \<Rightarrow> string list \<times> signer_badge \<times> bool" where
  "signer_row I now d =
     ([if de_label d = [] then ''Untitled'' else de_label d, short_address 18 8 (Some (de_key_id d)), curve_label (de_curve d),
       format_date_time I (Some (de_issued_at d))], signer_badge_of I now d, revocable I now d)"

definition delegations_route :: "string \<Rightarrow> bool \<Rightarrow> route" where
  "delegations_route appId include_revoked = wallet_route (GetDelegations appId include_revoked)"

definition revoke_signer :: "('e env_scheme) \<Rightarrow> string \<Rightarrow> bool \<Rightarrow> string \<Rightarrow> ('t, unit) io" where
  "revoke_signer E appId include_revoked i = await (request E (wallet_route (DelDelegation appId i))) (\<lambda>result.
     await (lift_err (js_prop ''note'' result)) (\<lambda>note.
     seq (list_reload E (delegations_route appId include_revoked)) (toast Toast_info ''Marked revoked'' (or_else (jstr note) []))))"

subsection \<open>The preview of the login modal\<close>

definition preview_radius :: "json \<Rightarrow> string" where
  "preview_radius v = (let r = text_of [] ''corner_radius'' v in if r = ''sharp'' then ''0px'' else if r = ''round'' then ''999px'' else ''12px'')"

definition preview_accent :: "json \<Rightarrow> string" where
  "preview_accent v = text_of ''#e8873c'' ''accent_color'' v"

definition preview_dark :: "json \<Rightarrow> bool" where
  "preview_dark v \<longleftrightarrow> text_of [] ''theme'' v = ''dark''"

definition preview_colors :: "json \<Rightarrow> string \<times> string \<times> string" where
  "preview_colors v = (if preview_dark v then (''#0a1929'', ''#f0f4f8'', ''#334e68'') else (''#ffffff'', ''#102a43'', ''#e2dfd9''))"

definition preview_heading :: "json \<Rightarrow> string" where
  "preview_heading v = (let h = text_of [] ''header_text'' v; n = text_of [] ''app_name'' v in
     if h \<noteq> [] then h else ''Sign in to '' @ (if n = [] then ''your app'' else n))"

subsection \<open>Properties\<close>

lemma days_shown_as_entered: "default_days_shown (jmerge (JObj fs) (signers_patch (Default_days n) v)) = n"
  by (simp add: default_days_shown_def signers_patch_def int_of_field_def jget_merge round_div_def del: jmerge.simps jget.simps)
     (simp add: jget.simps)

lemma revocable_iff_running: "revocable I now d \<longleftrightarrow> (\<exists>r. signer_badge_of I now d = Remaining r)"
  by (auto simp: revocable_def signer_badge_of_def split: option.splits)


text \<open>A screen on which ECDSA was switched on, FROST off, and the result saved.\<close>

definition demo_scheme_save :: settings_form where
  "demo_scheme_save = (let f = form_init wallets_defaults JNull; g = form_set (wallets_patch (Scheme_toggle ''ecdsa_secp256k1'' True) (sf_value f)) f;
     h = form_set (wallets_patch (Scheme_toggle ''frost_secp256k1'' False) (sf_value g)) g in press_save h)"

lemma demo_scheme_reachable:
  "reachable (form_start wallets_defaults) (screen_step wallets_section wallets_defaults wallets_offers wallets_patch) demo_scheme_save"
proof -
  let ?R = "reachable (form_start wallets_defaults) (screen_step wallets_section wallets_defaults wallets_offers wallets_patch)"
  let ?f = "form_init wallets_defaults JNull"
  let ?g = "form_set (wallets_patch (Scheme_toggle ''ecdsa_secp256k1'' True) (sf_value ?f)) ?f"
  let ?h = "form_set (wallets_patch (Scheme_toggle ''frost_secp256k1'' False) (sf_value ?g)) ?g"
  note e = form_init_def form_set_def form_shown_def wallets_offers_def CURVES_def list_of_def wallets_defaults_def wallets_patch_def
    flip_patch_def save_enabled_def save_pending_def
  have "?R ?f" by (rule reach_init) (auto simp: form_start_def)
  then have "?R ?g" by (rule reach_next) (rule c_edit, simp_all add: e)
  then have "?R ?h" by (rule reach_next) (rule c_edit, simp_all add: e)
  then have "?R (press_save ?h)" by (rule reach_next) (rule c_save, simp add: e)
  then show ?thesis by (simp only: demo_scheme_save_def Let_def)
qed

text \<open>A default can be saved that is not among the choices. Switching a scheme off leaves it the default,
  and the select beside it shows another one, which is not what is saved; likewise a default lifetime of
  session signers longer than the maximum is saved.\<close>

theorem stale_default_is_saved:
  "reachable (form_start wallets_defaults) (screen_step wallets_section wallets_defaults wallets_offers wallets_patch) demo_scheme_save \<and>
   (case sends demo_scheme_save of None \<Rightarrow> False | Some v \<Rightarrow>
      list_of ''curves'' v = [JStr ''ecdsa_secp256k1''] \<and> text_of [] ''default_curve'' v = ''frost_secp256k1'' \<and>
      default_curve_shown v = Some (JStr ''ecdsa_secp256k1'')) \<and>
   (\<exists>f v. reachable (form_start signers_defaults) (screen_step signers_section signers_defaults signers_offers signers_patch) f \<and>
      sends f = Some v \<and> max_days_shown v < default_days_shown v)"
proof -
  let ?R = "reachable (form_start signers_defaults) (screen_step signers_section signers_defaults signers_offers signers_patch)"
  let ?f = "form_init signers_defaults JNull" let ?g = "form_set (signers_patch (Max_days 1) (sf_value ?f)) ?f"
  note e = form_init_def form_set_def form_shown_def signers_offers_def signers_defaults_def signers_patch_def save_enabled_def
    save_pending_def press_save_def sends_def
  have "?R ?f" by (rule reach_init) (auto simp: form_start_def)
  then have "?R ?g" by (rule reach_next) (rule c_edit, simp_all add: e)
  then have "?R (press_save ?g)" by (rule reach_next) (rule c_save, simp add: e)
  moreover have "\<exists>v. sends (press_save ?g) = Some v \<and> max_days_shown v < default_days_shown v"
    by (simp add: e max_days_shown_def default_days_shown_def int_of_field_def round_div_def)
  moreover have "case sends demo_scheme_save of None \<Rightarrow> False | Some v \<Rightarrow>
      list_of ''curves'' v = [JStr ''ecdsa_secp256k1''] \<and> text_of [] ''default_curve'' v = ''frost_secp256k1'' \<and>
      default_curve_shown v = Some (JStr ''ecdsa_secp256k1'')"
    by (simp add: demo_scheme_save_def Let_def press_save_def sends_def form_set_def form_init_def wallets_patch_def flip_patch_def
        wallets_defaults_def list_of_def text_of_def default_curve_shown_def select_shows_def)
  ultimately show ?thesis using demo_scheme_reachable by blast
qed

end
