(* ===== verification/Ui.thy ===== *)
theory Ui
  imports Group_Page Hooks
begin

text \<open>
  \<open>web/components/ui.tsx\<close>: the shared widgets, as far as they have a life of their own. The value with its copy
  button, the tooltip, and the dialogue, whose effect freezes the page behind it; tones and what the
  plain widgets choose to show.
\<close>

subsection \<open>Plain widgets\<close>

definition TONE_CLASSES :: "tone \<Rightarrow> string" where
  "TONE_CLASSES t = (case t of Tone_success \<Rightarrow> ''bg-success-500/12 text-success-700 dark:text-success-400''
     | Tone_warn \<Rightarrow> ''bg-accent-500/14 text-accent-700 dark:text-accent-300''
     | Tone_error \<Rightarrow> ''bg-error-500/12 text-error-600 dark:text-error-400''
     | Tone_neutral \<Rightarrow> ''bg-fg/[0.06] text-muted''
     | Tone_accent \<Rightarrow> ''bg-accent-500/14 text-accent-700 dark:text-accent-300'')"

definition DOT_CLASSES :: "tone \<Rightarrow> string" where
  "DOT_CLASSES t = (case t of Tone_success \<Rightarrow> ''bg-success-500'' | Tone_warn \<Rightarrow> ''bg-accent-500''
     | Tone_error \<Rightarrow> ''bg-error-500'' | Tone_neutral \<Rightarrow> ''bg-faint'' | Tone_accent \<Rightarrow> ''bg-accent-500'')"

definition status_dot :: "tone \<Rightarrow> bool \<Rightarrow> string" where
  "status_dot t pulse = (if pulse \<and> t = Tone_success then ''pulse-dot'' else ''h-2 w-2 flex-none rounded-full '' @ DOT_CLASSES t)"

definition stat_card_class :: "tone option \<Rightarrow> string" where
  "stat_card_class t = (if t = Some Tone_success then ''text-success-600 dark:text-success-400''
     else if t = Some Tone_error then ''text-error-500'' else if t = Some Tone_accent then ''text-accent-600 dark:text-accent-400''
     else ''text-fg'')"

definition callout_class :: "tone \<Rightarrow> string" where
  "callout_class t = (if t = Tone_warn \<or> t = Tone_accent then ''border-accent-500/30 bg-accent-500/[0.07]''
     else if t = Tone_error then ''border-error-500/30 bg-error-500/[0.07]''
     else if t = Tone_success then ''border-success-500/30 bg-success-500/[0.07]'' else ''hairline bg-fg/[0.03]'')"

definition error_note :: "jserr \<Rightarrow> bool \<Rightarrow> string list" where
  "error_note e retry = [''Something went wrong'', err_message e] @ (if retry then [''Try again''] else [])"

definition tab_buttons :: "(string \<times> string \<times> int option) list \<Rightarrow> string \<Rightarrow> (string \<times> bool \<times> string) list" where
  "tab_buttons tabs active = map (\<lambda>(i, l, n). (l, active = i, case n of None \<Rightarrow> [] | Some c \<Rightarrow> dec_of_int c)) tabs"

datatype link_kind = Link_external | Link_internal

definition link_button :: "string \<Rightarrow> string option \<Rightarrow> link_kind \<times> string" where
  "link_button href variant =
     ((if starts_with ''http'' href then Link_external else Link_internal),
      (if variant = Some ''primary'' then ''btn-primary'' else if variant = Some ''accent'' then ''btn-accent'' else ''btn-ghost''))"

text \<open>A warning card and a warning dot look like accent ones; a warning card has no colour of its own.\<close>

lemma warn_looks_like_accent: "TONE_CLASSES Tone_warn = TONE_CLASSES Tone_accent" "stat_card_class (Some Tone_warn) = stat_card_class None"
  by (simp_all add: TONE_CLASSES_def stat_card_class_def)

subsection \<open>The copy button\<close>

text \<open>Timers are numbered; \<open>clearTimeout\<close> removes one that has not run.\<close>

record copy_value =
  cv_copied :: bool
  cv_timer :: "nat option"
  cv_pending :: "nat list"
  cv_next :: nat

definition copy_start :: "copy_value \<Rightarrow> bool" where
  "copy_start s \<longleftrightarrow> s = \<lparr>cv_copied = False, cv_timer = None, cv_pending = [], cv_next = 0\<rparr>"

definition clear_timer :: "nat option \<Rightarrow> nat list \<Rightarrow> nat list" where
  "clear_timer t ps = (case t of None \<Rightarrow> ps | Some i \<Rightarrow> filter (\<lambda>j. j \<noteq> i) ps)"

definition copy_done :: "copy_value \<Rightarrow> copy_value" where
  "copy_done s = s\<lparr>cv_copied := True, cv_timer := Some (cv_next s), cv_pending := clear_timer (cv_timer s) (cv_pending s) @ [cv_next s],
     cv_next := cv_next s + 1\<rparr>"

definition copy_timeout :: "nat \<Rightarrow> copy_value \<Rightarrow> copy_value" where
  "copy_timeout i s = s\<lparr>cv_copied := False, cv_pending := filter (\<lambda>j. j \<noteq> i) (cv_pending s)\<rparr>"

inductive copy_step :: "copy_value \<Rightarrow> copy_value \<Rightarrow> bool" where
  cp_done: "copy_step s (copy_done s)"
| cp_denied: "copy_step s s"
| cp_timeout: "i \<in> set (cv_pending s) \<Longrightarrow> copy_step s (copy_timeout i s)"

inductive_cases copy_stepE: "copy_step s s'"

definition copy_label :: "copy_value \<Rightarrow> string" where
  "copy_label s = (if cv_copied s then ''copied'' else ''copy'')"

text \<open>The label says \<open>copied\<close> exactly while one timer is running, the last one that was set.\<close>

definition copy_ok :: "copy_value \<Rightarrow> bool" where
  "copy_ok s \<longleftrightarrow> (if cv_copied s then (\<exists>i. cv_timer s = Some i \<and> cv_pending s = [i]) else cv_pending s = [])"

interpretation copies: machine copy_start copy_step copy_ok
  by unfold_locales (auto simp: copy_start_def copy_ok_def copy_done_def copy_timeout_def clear_timer_def elim!: copy_stepE split: option.splits if_splits)

subsection \<open>The tooltip\<close>

datatype tip_event = Mouse_enter | Mouse_leave | Focus | Blur | Click

definition tip_next :: "tip_event \<Rightarrow> bool \<Rightarrow> bool" where
  "tip_next e open = (case e of Mouse_enter \<Rightarrow> True | Mouse_leave \<Rightarrow> False | Focus \<Rightarrow> True | Blur \<Rightarrow> False | Click \<Rightarrow> \<not> open)"

definition tip_run :: "tip_event list \<Rightarrow> bool" where
  "tip_run es = fold tip_next es False"

text \<open>A tap is the events of a mouse that enters and presses: it opens the tip twice and closes it with the
  click, so without a pointer that hovers the tip opens only on every second tap.\<close>

lemma tap_closes: "\<not> tip_run [Mouse_enter, Focus, Click]" "tip_run ([Mouse_enter, Focus, Click] @ [Click])" "tip_run [Focus]" "tip_run [Mouse_enter]"
  by (simp_all add: tip_run_def tip_next_def)

subsection \<open>The dialogue\<close>

text \<open>Each open dialogue holds what the body's \<open>overflow\<close> was when its effect ran. A commit first cleans up the
  effects of the dialogues that close or are rendered again, then runs the new effects, both in the
  order of the tree, which is that of their numbers.\<close>

record dialogues =
  dg_overflow :: string
  dg_open :: "(nat \<times> string) list"

definition cleanup :: "nat \<Rightarrow> dialogues \<Rightarrow> dialogues" where
  "cleanup i s = (case map_of (dg_open s) i of None \<Rightarrow> s
     | Some previous \<Rightarrow> s\<lparr>dg_overflow := previous, dg_open := filter (\<lambda>(j, _). j \<noteq> i) (dg_open s)\<rparr>)"

definition run_effect :: "nat \<Rightarrow> dialogues \<Rightarrow> dialogues" where
  "run_effect i s = s\<lparr>dg_open := (i, dg_overflow s) # dg_open s, dg_overflow := ''hidden''\<rparr>"

definition commit :: "nat list \<Rightarrow> nat list \<Rightarrow> nat list \<Rightarrow> dialogues \<Rightarrow> dialogues" where
  "commit closing again opening s = fold run_effect (sort (again @ opening)) (fold cleanup (sort (closing @ again)) s)"

definition open_ids :: "dialogues \<Rightarrow> nat set" where
  "open_ids s = fst ` set (dg_open s)"

text \<open>The commits of a page on which at most one dialogue is open at a time.\<close>

inductive single_step :: "dialogues \<Rightarrow> dialogues \<Rightarrow> bool" where
  d_open: "open_ids s = {} \<Longrightarrow> single_step s (commit [] [] [i] s)"
| d_again: "open_ids s = {i} \<Longrightarrow> single_step s (commit [] [i] [] s)"
| d_close: "open_ids s = {i} \<Longrightarrow> single_step s (commit [i] [] [] s)"
| d_replace: "open_ids s = {i} \<Longrightarrow> single_step s (commit [i] [] [j] s)"

inductive_cases single_stepE: "single_step s s'"

definition dialogues_start :: "string \<Rightarrow> dialogues \<Rightarrow> bool" where
  "dialogues_start o0 s \<longleftrightarrow> s = \<lparr>dg_overflow = o0, dg_open = []\<rparr>"

definition dialogues_ok :: "string \<Rightarrow> dialogues \<Rightarrow> bool" where
  "dialogues_ok o0 s \<longleftrightarrow> dg_open s = [] \<and> dg_overflow s = o0 \<or> (\<exists>i. dg_open s = [(i, o0)] \<and> dg_overflow s = ''hidden'')"

interpretation dialogues: machine "dialogues_start o0" single_step "dialogues_ok o0" for o0
  by unfold_locales
    (auto simp: dialogues_start_def dialogues_ok_def commit_def cleanup_def run_effect_def open_ids_def elim!: single_stepE)

subsection \<open>Properties\<close>

text \<open>The page scrolls again when its dialogues are closed. On a page that shows one dialogue at a time,
  however often it renders and whichever dialogue replaces another, the body's overflow is what it was
  before whenever none is open, and hidden while one is. Two dialogues on top of each other break
  this: after one more render both can be closed, and the page stays frozen.\<close>

theorem page_scrolls_again:
  "(if reachable (dialogues_start o0) single_step s
    then dg_overflow s = (if open_ids s = {} then o0 else ''hidden'') else True) \<and>
   (let stacked = commit [] [] [1] (commit [] [] [0] \<lparr>dg_overflow = ''auto'', dg_open = []\<rparr>);
        closed = commit [0, 1] [] [] (commit [] [0, 1] [] stacked)
    in open_ids closed = {} \<and> dg_overflow closed = ''hidden'')"
proof -
  have "dg_overflow s = (if open_ids s = {} then o0 else ''hidden'')" if "reachable (dialogues_start o0) single_step s"
    using dialogues.invariant [OF that] by (auto simp: dialogues_ok_def open_ids_def)
  then show ?thesis
    by (simp add: commit_def cleanup_def run_effect_def open_ids_def)
qed

end
