(* ===== verification/Market.thy ===== *)
theory Market
  imports Overview Webhooks Routes
begin

text \<open>
  The operator marketplace (\<open>web/app/(marketing)/marketplace/page.tsx\<close>, \<open>\<dots>/marketplace/[address]/page.tsx\<close>), the
  status page (\<open>\<dots>/status/page.tsx\<close>), and the cards they are made of (\<open>web/components/NodeCard.tsx\<close>,
  \<open>web/components/OperatorCard.tsx\<close>). \<open>localeCompare\<close> is an argument.
\<close>

subsection \<open>Sorting\<close>

text \<open>\<open>Array.sort\<close> is stable: an element goes before the first that is not smaller.\<close>

fun insert_by :: "('a \<Rightarrow> 'a \<Rightarrow> rat) \<Rightarrow> 'a \<Rightarrow> 'a list \<Rightarrow> 'a list" where
  "insert_by f x [] = [x]"
| "insert_by f x (y # ys) = (if f x y \<le> 0 then x # y # ys else y # insert_by f x ys)"

definition js_sort :: "('a \<Rightarrow> 'a \<Rightarrow> rat) \<Rightarrow> 'a list \<Rightarrow> 'a list" where
  "js_sort f xs = foldr (insert_by f) xs []"

datatype sort_key_name = By_name | By_uptime | By_groups | By_newest

definition is_up :: "node_operator \<Rightarrow> int" where
  "is_up n = (if is_online n then 1 else 0)"

text \<open>\<open>health?.uptime_pct_24h ?? -1\<close>, and the time of a registration, zero without one.\<close>

definition uptime_of :: "node_operator \<Rightarrow> rat" where
  "uptime_of n = (case op_health n of None \<Rightarrow> -1
     | Some h \<Rightarrow> (case h_uptime_pct_24h h of None \<Rightarrow> -1 | Some s \<Rightarrow> (case number_of s of Finite x \<Rightarrow> x | _ \<Rightarrow> -1)))"

definition registered_ms :: "intl \<Rightarrow> node_operator \<Rightarrow> int" where
  "registered_ms I n = (case op_registered_at n of None \<Rightarrow> 0 | Some s \<Rightarrow> (case in_time I s of None \<Rightarrow> 0 | Some ms \<Rightarrow> ms))"

definition by_uptime :: "node_operator \<Rightarrow> node_operator \<Rightarrow> rat" where
  "by_uptime a b = (if op_verified a \<noteq> op_verified b then (if op_verified a then -1 else 1)
     else if is_up a \<noteq> is_up b then of_int (is_up b - is_up a) else uptime_of b - uptime_of a)"

definition comparator_of :: "(string \<Rightarrow> string \<Rightarrow> int) \<Rightarrow> intl \<Rightarrow> sort_key_name \<Rightarrow> node_operator \<Rightarrow> node_operator \<Rightarrow> rat" where
  "comparator_of locale_compare I k a b = (case k of By_name \<Rightarrow> of_int (locale_compare (op_name a) (op_name b))
     | By_groups \<Rightarrow> of_int (op_group_count b - op_group_count a)
     | By_newest \<Rightarrow> of_int (registered_ms I b - registered_ms I a) | By_uptime \<Rightarrow> by_uptime a b)"

definition sort_operators :: "(string \<Rightarrow> string \<Rightarrow> int) \<Rightarrow> intl \<Rightarrow> node_operator list \<Rightarrow> sort_key_name \<Rightarrow> node_operator list" where
  "sort_operators locale_compare I ns k = js_sort (comparator_of locale_compare I k) ns"

subsection \<open>The marketplace\<close>

definition CATEGORIES :: "(node_category option \<times> string) list" where
  "CATEGORIES = [(None, ''All''), (Some Signet_category, ''Signet''), (Some Enterprise, ''Enterprise''),
     (Some Infrastructure, ''Infrastructure''), (Some Custodian, ''Custodian''), (Some Independent, ''Independent'')]"

record market_filters =
  mf_category :: "node_category option"
  mf_search :: string
  mf_open_only :: bool
  mf_online_only :: bool
  mf_sort :: sort_key_name

definition market_start :: market_filters where
  "market_start = \<lparr>mf_category = None, mf_search = [], mf_open_only = False, mf_online_only = False, mf_sort = By_uptime\<rparr>"

definition market_keeps :: "market_filters \<Rightarrow> node_operator \<Rightarrow> bool" where
  "market_keeps f n \<longleftrightarrow>
     (if mf_category f \<noteq> None \<and> Some (op_category n) \<noteq> mf_category f then False
      else if mf_open_only f \<and> op_is_open n \<noteq> Some True then False
      else if mf_online_only f \<and> \<not> is_online n then False
      else if mf_search f \<noteq> [] then
        (let q = to_lower (mf_search f) in
          is_infix q (to_lower (op_name n)) \<or> is_infix q (to_lower (op_description n)) \<or>
          is_infix q (to_lower (op_jurisdiction n)) \<or> is_infix q (to_lower (op_address n)))
      else True)"

definition market_operators :: "(string \<Rightarrow> string \<Rightarrow> int) \<Rightarrow> intl \<Rightarrow> market_filters \<Rightarrow> node_operator list option \<Rightarrow> node_operator list" where
  "market_operators locale_compare I f data =
     sort_operators locale_compare I (filter (market_keeps f) (case data of None \<Rightarrow> [] | Some ns \<Rightarrow> ns)) (mf_sort f)"

definition market_groups :: "(string \<Rightarrow> string \<Rightarrow> int) \<Rightarrow> intl \<Rightarrow> market_filters \<Rightarrow> node_operator list option \<Rightarrow> operator_group list" where
  "market_groups locale_compare I f data = group_by_operator (market_operators locale_compare I f data)"

definition market_count :: "node_operator list \<Rightarrow> node_operator list option \<Rightarrow> string" where
  "market_count shown data = dec_of_nat (length shown) @ '' of '' @ dec_of_nat (case data of None \<Rightarrow> 0 | Some ns \<Rightarrow> length ns) @ '' operators''"

subsection \<open>Cards\<close>

definition CATEGORY_LABELS :: "node_category \<Rightarrow> string" where
  "CATEGORY_LABELS c = (case c of Signet_category \<Rightarrow> ''Signet'' | Enterprise \<Rightarrow> ''Enterprise'' | Infrastructure \<Rightarrow> ''Infrastructure''
     | Custodian \<Rightarrow> ''Custodian'' | Independent \<Rightarrow> ''Independent'')"

definition category_line :: "node_category \<Rightarrow> string \<Rightarrow> string" where
  "category_line c jurisdiction = CATEGORY_LABELS c @ (if jurisdiction = [] then [] else '' '' @ middle_dot @ '' '' @ jurisdiction)"

text \<open>\<open>name.split(/\s+/)\<close>, and the first letters of the first two words; the letters are bytes here.\<close>

lemma drop_spaces_shorter [termination_simp]: "length (dropWhile P xs) < Suc (length xs)"
  by (simp add: le_imp_less_Suc length_dropWhile_le)

fun split_spaces :: "string \<Rightarrow> string \<Rightarrow> string list" where
  "split_spaces w [] = [rev w]"
| "split_spaces w (c # s) = (if is_space c then rev w # split_spaces [] (dropWhile is_space s) else split_spaces (c # w) s)"

definition upper_char :: "char \<Rightarrow> char" where
  "upper_char c = (let n = (of_char c :: nat) in if 97 \<le> n \<and> n \<le> 122 then char_of (n - 32) else c)"

definition monogram :: "string \<Rightarrow> string" where
  "monogram name = (let initials = concat (map (\<lambda>w. case w of [] \<Rightarrow> [] | c # _ \<Rightarrow> [upper_char c]) (take 2 (split_spaces [] name)))
     in if initials = [] then ''?'' else initials)"

definition uptime_text :: "node_operator \<Rightarrow> string option" where
  "uptime_text n = (case Option.bind (op_health n) h_uptime_pct_24h of None \<Rightarrow> None
     | Some s \<Rightarrow> (case number_of s of Finite x \<Rightarrow> Some (to_fixed 1 x @ ''%'') | _ \<Rightarrow> None))"

definition health_line :: "node_operator \<Rightarrow> tone \<times> bool \<times> string" where
  "health_line n = (case op_health n of None \<Rightarrow> (Tone_neutral, False, ''Not yet probed'')
     | Some h \<Rightarrow> if h_online h
         then (Tone_success, True, ''Online'' @ (case h_latency_ms h of None \<Rightarrow> [] | Some ms \<Rightarrow> '' '' @ middle_dot @ '' '' @ dec_of_int ms @ '' ms''))
         else (Tone_error, False, ''Unreachable''))"

definition open_badge :: "bool option \<Rightarrow> tone \<times> string" where
  "open_badge v = (case v of Some True \<Rightarrow> (Tone_success, ''Open'') | Some False \<Rightarrow> (Tone_warn, ''By invitation'')
     | None \<Rightarrow> (Tone_neutral, ''Not on chain''))"

definition node_card :: "intl \<Rightarrow> node_operator \<Rightarrow> string list" where
  "node_card I n =
     [op_name n, category_line (op_category n) (op_jurisdiction n),
      (if op_description n = [] then ''This operator is registered on-chain but has not published a description yet.'' else op_description n),
      snd (snd (health_line n)), (case uptime_text n of None \<Rightarrow> [] | Some u \<Rightarrow> u @ '' / 24h''),
      dec_of_int (op_group_count n) @ '' group'' @ (if op_group_count n = 1 then [] else ''s''),
      (if truthy_str (op_registered_at n) then ''Since '' @ format_date I (op_registered_at n) else []),
      short_address 10 6 (Some (op_address n)), snd (open_badge (op_is_open n))]"

datatype card_shell = Shell_button | Shell_link string | Shell_plain

definition node_card_shell :: "bool \<Rightarrow> string option \<Rightarrow> card_shell" where
  "node_card_shell toggles href = (if toggles then Shell_button else if truthy_str href then Shell_link (the href) else Shell_plain)"

definition up_badge :: "operator_group \<Rightarrow> tone \<times> string" where
  "up_badge g = ((if grp_online_count g = length (grp_nodes g) then Tone_success else Tone_warn),
     dec_of_nat (grp_online_count g) @ ''/'' @ dec_of_nat (length (grp_nodes g)) @ '' up'')"

definition node_link :: "node_operator \<Rightarrow> string \<times> tone \<times> string \<times> string" where
  "node_link n = (''/marketplace/'' @ op_address n,
     (if is_online n then Tone_success else if op_health n \<noteq> None then Tone_error else Tone_neutral),
     (if op_region n = [] then short_address 6 4 (Some (op_address n)) else op_region n), short_address 6 4 (Some (op_address n)))"

definition operator_card :: "operator_group \<Rightarrow> string \<times> bool \<times> string \<times> (tone \<times> string) \<times> string \<times> (string \<times> tone \<times> string \<times> string) list" where
  "operator_card g = (grp_label g, grp_verified g, category_line (grp_category g) (grp_jurisdiction g), up_badge g,
     dec_of_nat (length (grp_nodes g)) @ '' '' @ (if length (grp_nodes g) = 1 then ''node'' else ''nodes''), map node_link (grp_nodes g))"

subsection \<open>The page of an operator, and the status page\<close>

definition invitations_badge :: "bool option \<Rightarrow> tone \<times> string" where
  "invitations_badge v = (case v of Some True \<Rightarrow> (Tone_success, ''Accepts automatically'') | Some False \<Rightarrow> (Tone_warn, ''Requires acceptance'')
     | None \<Rightarrow> (Tone_neutral, ''Not read from chain''))"

definition operator_stats :: "intl \<Rightarrow> node_operator \<Rightarrow> (string \<times> string \<times> string) list" where
  "operator_stats I n =
     [(''Status'', (case op_health n of None \<Rightarrow> ''Unprobed'' | Some h \<Rightarrow> if h_online h then ''Online'' else ''Unreachable''),
        (if truthy_str (Option.bind (op_health n) h_observed_at) then ''Last checked '' @ format_date_time I (Option.bind (op_health n) h_observed_at)
         else ''The platform has not been able to reach this node'' @ [CHR 0x27] @ ''s API yet.'')),
      (''Uptime '' @ middle_dot @ '' 24h'', (case uptime_text n of None \<Rightarrow> em_dash | Some u \<Rightarrow> u),
        ''Share of the platform'' @ [CHR 0x27] @ ''s health probes that succeeded.''),
      (''Signing latency'', (case Option.bind (op_health n) h_latency_ms of None \<Rightarrow> em_dash | Some ms \<Rightarrow> dec_of_int ms @ '' ms''),
        ''Round-trip to the node'' @ [CHR 0x27] @ ''s health endpoint from the platform, not end-to-end signing time.''),
      (''Groups served'', dec_of_int (op_group_count n), ''Signing groups this node is an active member of.'')]"

definition operator_fields :: "intl \<Rightarrow> node_operator \<Rightarrow> (string \<times> string) list" where
  "operator_fields I n =
     [(''Node address'', op_address n),
      (''Registry operator key'', if truthy_str (op_operator_address n) then the (op_operator_address n) else ''The node is its own operator''),
      (''Category'', to_lower (CATEGORY_LABELS (op_category n))),
      (''Region'', if op_region n = [] then em_dash else op_region n),
      (''Jurisdiction'', if op_jurisdiction n = [] then em_dash else op_jurisdiction n),
      (''Registered'', format_date I (op_registered_at n)), (''Invitations'', snd (invitations_badge (op_is_open n))),
      (''API endpoint'', if truthy_str (op_api_url n) then the (op_api_url n) else ''Not published'')]"

datatype operator_view = Operator_loading | Operator_failed string | Operator_shown node_operator

definition operator_page :: "bool \<Rightarrow> jserr option \<Rightarrow> node_operator option \<Rightarrow> operator_view" where
  "operator_page loading err data = (if loading then Operator_loading
     else case (err, data) of (None, Some n) \<Rightarrow> Operator_shown n
       | (Some e, _) \<Rightarrow> Operator_failed (err_message e) | (None, None) \<Rightarrow> Operator_failed ''Operator not found'')"

record network_status =
  ns_chain_id :: int
  ns_factory_address :: string
  ns_chain_reachable :: bool
  ns_chain_error :: "string option"
  ns_registered_nodes :: int
  ns_groups :: int
  ns_operators_listed :: int
  ns_operators_online :: int
  ns_checked_at :: string

definition status_cards :: "network_status \<Rightarrow> nat \<Rightarrow> (string \<times> string \<times> string \<times> tone option) list" where
  "status_cards s operators =
     [(''Chain'', chain_name (Some (ns_chain_id s)),
        (if ns_chain_reachable s then ''Factory '' @ short_address 6 4 (Some (ns_factory_address s))
         else ''The RPC endpoint is not reachable from the platform.''), Some (if ns_chain_reachable s then Tone_success else Tone_error)),
      (''Registered nodes'', (if ns_chain_reachable s then dec_of_int (ns_registered_nodes s) else em_dash), ''Nodes registered with the factory contract.'', None),
      (''Signing groups'', (if ns_chain_reachable s then dec_of_int (ns_groups s) else em_dash), ''Groups deployed by the factory, across every app.'', None),
      (''Nodes online'', dec_of_int (ns_operators_online s) @ '' / '' @ dec_of_int (ns_operators_listed s),
        (if operators > 0 then ''Listed nodes responding to health probes, across '' @ dec_of_nat operators @ '' operator'' @ (if operators = 1 then [] else ''s'') @ ''.''
         else ''Listed nodes responding to health probes.''),
        Some (if ns_operators_online s = ns_operators_listed s then Tone_success else Tone_accent))]"

subsection \<open>Sorting with a consistent comparator\<close>

locale consistent =
  fixes f :: "'a \<Rightarrow> 'a \<Rightarrow> rat"
  assumes either: "f x y \<le> 0 \<or> f y x \<le> 0"
    and chain: "f x y \<le> 0 \<Longrightarrow> f y z \<le> 0 \<Longrightarrow> f x z \<le> 0"
begin

abbreviation before :: "'a \<Rightarrow> 'a \<Rightarrow> bool" where "before x y \<equiv> f x y \<le> 0"

abbreviation alike :: "'a \<Rightarrow> 'a \<Rightarrow> bool" where "alike x y \<equiv> f x y \<le> 0 \<and> f y x \<le> 0"

lemma mset_insert: "mset (insert_by f x ys) = add_mset x (mset ys)"
  by (induction ys) auto

lemma mset_sort: "mset (js_sort f xs) = mset xs"
  unfolding js_sort_def by (induction xs) (simp_all add: mset_insert)

lemma set_insert: "set (insert_by f x ys) = insert x (set ys)"
  using mset_insert [of x ys] by (metis set_mset_add_mset_insert set_mset_mset)

lemma sorted_insert: "sorted_wrt before ys \<Longrightarrow> sorted_wrt before (insert_by f x ys)"
proof (induction ys)
  case (Cons y ys)
  then show ?case using either [of x y] by (auto simp: set_insert intro: chain [of x y])
qed simp

lemma sorted_sort: "sorted_wrt before (js_sort f xs)"
  unfolding js_sort_def by (induction xs) (simp_all add: sorted_insert)

lemma stable_insert: "sorted_wrt before ys \<Longrightarrow>
    filter (alike z) (insert_by f x ys) = (if alike z x then [x] else []) @ filter (alike z) ys"
proof (induction ys)
  case (Cons y ys)
  have "\<not> alike z y" if "alike z x" "\<not> before x y" using that either [of x y] chain [of x z y] chain [of y z x] by blast
  then show ?case using Cons by auto
qed simp

lemma stable_sort: "filter (alike z) (js_sort f xs) = filter (alike z) xs"
proof (induction xs)
  case (Cons x xs)
  then show ?case using stable_insert [OF sorted_sort [of xs], of z x] by (simp add: js_sort_def)
qed (simp add: js_sort_def)

end

interpretation uptime_order: consistent by_uptime
  by unfold_locales (auto simp: by_uptime_def is_up_def split: if_splits)

interpretation group_order: consistent "comparator_of locale_compare I By_groups" for locale_compare I
  by unfold_locales (auto simp: comparator_of_def)

interpretation newest_order: consistent "comparator_of locale_compare I By_newest" for locale_compare I
  by unfold_locales (auto simp: comparator_of_def)

subsection \<open>Properties\<close>

lemma keeps_any_sort [simp]: "market_keeps (f\<lparr>mf_sort := k\<rparr>) = market_keeps f"
  by (simp add: market_keeps_def [abs_def])

text \<open>The marketplace shows every node that matches the filters, once, in its order: reviewed operators lead,
  then those that answer, then by uptime, one that was never probed after one that was; nodes that are
  alike in all three keep the server's order.\<close>

theorem marketplace_in_order:
  "let shown = market_operators locale_compare I (f\<lparr>mf_sort := By_uptime\<rparr>) (Some ns) in
    mset shown = mset (filter (market_keeps f) ns) \<and>
    sorted_wrt (\<lambda>a b. if op_verified a \<noteq> op_verified b then op_verified a else if is_online a \<noteq> is_online b then is_online a
      else uptime_of b \<le> uptime_of a) shown \<and>
    filter (\<lambda>n. (op_verified n, is_online n, uptime_of n) = k) shown =
      filter (\<lambda>n. (op_verified n, is_online n, uptime_of n) = k \<and> market_keeps f n) ns"
proof -
  let ?xs = "filter (market_keeps f) ns"
  let ?P = "\<lambda>n. (op_verified n, is_online n, uptime_of n) = k"
  have shown: "market_operators locale_compare I (f\<lparr>mf_sort := By_uptime\<rparr>) (Some ns) = js_sort by_uptime ?xs"
    by (simp add: market_operators_def sort_operators_def comparator_of_def [abs_def])
  have b: "by_uptime a c \<le> 0 \<longleftrightarrow> (if op_verified a \<noteq> op_verified c then op_verified a
      else if is_online a \<noteq> is_online c then is_online a else uptime_of c \<le> uptime_of a)" for a c
    by (auto simp: by_uptime_def is_up_def)
  have "filter ?P (js_sort by_uptime ?xs) = filter ?P ?xs"
  proof (cases "\<exists>z \<in> set ?xs. ?P z")
    case True
    then obtain z where z: "?P z" by blast
    have "?P = (\<lambda>n. by_uptime z n \<le> 0 \<and> by_uptime n z \<le> 0)" using z by (auto simp: b fun_eq_iff split: if_splits)
    then show ?thesis by (simp only: uptime_order.stable_sort)
  next
    case False
    moreover have "set (js_sort by_uptime ?xs) = set ?xs" using uptime_order.mset_sort [of ?xs] by (metis set_mset_mset)
    ultimately have "filter ?P (js_sort by_uptime ?xs) = []" "filter ?P ?xs = []" unfolding filter_empty_conv by blast+
    then show ?thesis by simp
  qed
  then show ?thesis
    using uptime_order.mset_sort [of ?xs] uptime_order.sorted_sort [of ?xs]
    unfolding shown Let_def b by (simp add: conj_commute)
qed

lemma set_insert_by: "set (insert_by h x ys) \<subseteq> insert x (set ys)"
  by (induction ys) auto

lemma set_sort: "set (js_sort h xs) \<subseteq> set xs"
  unfolding js_sort_def by (induction xs) (use set_insert_by in fastforce)+

text \<open>The cards are made of the nodes that are left: a search that leaves out an operator's unreviewed node shows
  the operator as reviewed, and \<open>Online only\<close> shows every operator as fully up.\<close>

lemma online_only_all_up:
  assumes "mf_online_only f" and "g \<in> set (market_groups locale_compare I f data)"
  shows "fst (up_badge g) = Tone_success"
proof -
  let ?ns = "market_operators locale_compare I f data"
  obtain k ms where g: "g = group_of k ms" "(k, ms) \<in> set (by_operator ?ns)"
    using assms(2) by (auto simp: market_groups_def group_by_operator_def)
  then have "set ms \<subseteq> set ?ns" by (auto simp: by_operator_eq)
  also have "set ?ns \<subseteq> set (filter (market_keeps f) (case data of None \<Rightarrow> [] | Some ns \<Rightarrow> ns))"
    unfolding market_operators_def sort_operators_def by (rule set_sort)
  finally have "set ms \<subseteq> {n. market_keeps f n}" by auto
  moreover have "is_online n" if "market_keeps f n" for n
    using that assms(1) by (simp add: market_keeps_def split: if_splits)
  ultimately have "list_all is_online ms" by (auto simp: list_all_iff)
  then show ?thesis by (simp add: up_badge_def g(1) group_of_def filter_True list_all_iff)
qed

end
