(* ===== verification/Reveal.thy ===== *)
theory Reveal
  imports Market
begin

text \<open>
  \<open>web/components/ScrollFX.tsx\<close>: elements of the classes \<open>fx\<close> and \<open>fx-scale\<close> are hidden until they are first
  scrolled into view, when the observer adds the class \<open>in\<close> to them and lets go of them. The class is
  added to the document behind React's back, and React writes \<open>className\<close> when it changes; the
  marketplace (\<open>web/app/(marketing)/marketplace/page.tsx\<close>) gives its cards a class that depends on
  their place in the list.
\<close>

subsection \<open>The page\<close>

text \<open>The elements React holds below one parent, by their keys: the class it last wrote, whether \<open>in\<close> was added
  since, whether the observer watches the element, and whether the report of its insertion is due.\<close>

record fx_el =
  fe_class :: string
  fe_in :: bool
  fe_watched :: bool
  fe_new :: bool

type_synonym fx_page = "(string \<times> fx_el) list"

definition is_fx :: "string \<Rightarrow> bool" where
  "is_fx c \<longleftrightarrow> ''fx'' \<in> set (split_on (CHR '' '') c) \<or> ''fx-scale'' \<in> set (split_on (CHR '' '') c)"

text \<open>The style sheet: what is tagged is hidden until it has \<open>in\<close>.\<close>

definition seen :: "fx_el \<Rightarrow> bool" where
  "seen e \<longleftrightarrow> \<not> is_fx (fe_class e) \<or> fe_in e"

definition on_page :: "(fx_el \<Rightarrow> fx_el) \<Rightarrow> fx_page \<Rightarrow> fx_page" where
  "on_page f = map (\<lambda>(k, e). (k, f e))"

text \<open>The effect: without the observer everything is shown, otherwise what is tagged is watched.\<close>

definition observe :: "fx_el \<Rightarrow> fx_el" where
  "observe e = (if is_fx (fe_class e) then e\<lparr>fe_watched := True\<rparr> else e)"

definition fx_mount :: "bool \<Rightarrow> fx_page \<Rightarrow> fx_page" where
  "fx_mount has_observer p =
     (if \<not> has_observer then on_page (\<lambda>e. if is_fx (fe_class e) then e\<lparr>fe_in := True\<rparr> else e) p else on_page observe p)"

text \<open>An entry that intersects, and the elements that were added since the last report.\<close>

definition fx_enter :: "string \<Rightarrow> fx_page \<Rightarrow> fx_page" where
  "fx_enter k = map (\<lambda>(j, e). (j, if j = k then e\<lparr>fe_in := True, fe_watched := False\<rparr> else e))"

definition fx_added :: "fx_page \<Rightarrow> fx_page" where
  "fx_added = on_page (\<lambda>e. if fe_new e then observe (e\<lparr>fe_new := False\<rparr>) else e)"

text \<open>React's commit: a key that stays keeps its element, whose class is written when it differs from the last
  one written; a new key is a new element.\<close>

definition commit_el :: "fx_page \<Rightarrow> string \<Rightarrow> string \<Rightarrow> fx_el" where
  "commit_el p k c = (case map_of p k of
     Some e \<Rightarrow> if fe_class e = c then e else e\<lparr>fe_class := c, fe_in := False\<rparr>
   | None \<Rightarrow> \<lparr>fe_class = c, fe_in = False, fe_watched = False, fe_new = True\<rparr>)"

definition fx_commit :: "(string \<times> string) list \<Rightarrow> fx_page \<Rightarrow> fx_page" where
  "fx_commit cs p = map (\<lambda>(k, c). (k, commit_el p k c)) cs"

definition classes_stay :: "(string \<times> string) list \<Rightarrow> fx_page \<Rightarrow> bool" where
  "classes_stay cs p \<longleftrightarrow> (\<forall>(k, c) \<in> set cs. case map_of p k of None \<Rightarrow> True | Some e \<Rightarrow> fe_class e = c)"

text \<open>The steps of a page whose classes never change, and of one whose classes may.\<close>

inductive fx_step :: "bool \<Rightarrow> fx_page \<Rightarrow> fx_page \<Rightarrow> bool" for steady where
  x_enter: "map_of p k = Some e \<Longrightarrow> fe_watched e \<Longrightarrow> fx_step steady p (fx_enter k p)"
| x_added: "fx_step steady p (fx_added p)"
| x_commit: "(steady \<Longrightarrow> classes_stay cs p) \<Longrightarrow> distinct (map fst cs) \<Longrightarrow> fx_step steady p (fx_commit cs p)"

inductive_cases fx_stepE: "fx_step steady p p'"

definition fx_start :: "fx_page \<Rightarrow> bool" where
  "fx_start p \<longleftrightarrow> (\<exists>p0. p = fx_mount True p0 \<and> distinct (map fst p0) \<and> (\<forall>(k, e) \<in> set p0. \<not> fe_in e \<and> \<not> fe_new e))"

text \<open>Nothing is hidden for good: what is not seen is watched, or about to be.\<close>

definition waits :: "fx_el \<Rightarrow> bool" where
  "waits e \<longleftrightarrow> seen e \<or> fe_watched e \<or> fe_new e"

definition fx_ok :: "fx_page \<Rightarrow> bool" where
  "fx_ok p \<longleftrightarrow> list_all (\<lambda>(k, e). waits e) p"

lemma on_page_keys [simp]: "map fst (on_page f p) = map fst p" "map fst (fx_enter k p) = map fst p" "map fst (fx_added p) = map fst p"
    "map fst (fx_commit cs p) = map fst cs"
  by (auto simp: on_page_def fx_enter_def fx_added_def fx_commit_def)

lemma map_of_on_page: "map_of (on_page f p) k = map_option f (map_of p k)"
  by (induction p) (auto simp: on_page_def)

lemma map_of_enter: "map_of (fx_enter j p) k = map_option (\<lambda>e. if k = j then e\<lparr>fe_in := True, fe_watched := False\<rparr> else e) (map_of p k)"
  by (induction p) (auto simp: fx_enter_def)

lemma map_of_commit: "map_of (fx_commit cs p) k = map_option (commit_el p k) (map_of cs k)"
  by (induction cs) (auto simp: fx_commit_def)

lemmas map_of_pages = map_of_on_page map_of_enter map_of_commit

lemma ok_map: "fx_ok p \<Longrightarrow> (\<And>e. waits e \<Longrightarrow> waits (f e)) \<Longrightarrow> fx_ok (on_page f p)"
  by (auto simp: fx_ok_def on_page_def list_all_iff)

lemma waits_added: "waits e \<Longrightarrow> waits (if fe_new e then observe (e\<lparr>fe_new := False\<rparr>) else e)"
  by (auto simp: waits_def observe_def seen_def)

lemma waits_commit:
  assumes "fx_ok p" and "classes_stay cs p" and "(k, c) \<in> set cs"
  shows "waits (commit_el p k c)"
proof (cases "map_of p k")
  case (Some e)
  then have "fe_class e = c" using assms(2,3) by (fastforce simp: classes_stay_def)
  moreover have "waits e" using assms(1) map_of_SomeD [OF Some] by (auto simp: fx_ok_def list_all_iff)
  ultimately have "waits e" "fe_class e = c" by auto
  with Some show ?thesis by (simp add: commit_el_def)
qed (simp add: commit_el_def waits_def)

interpretation reveal: machine fx_start "fx_step True" fx_ok
proof
  show "fx_ok p" if "fx_start p" for p
    using that by (auto simp: fx_start_def fx_ok_def list_all_iff fx_mount_def on_page_def observe_def waits_def seen_def)
  show "fx_ok p'" if "fx_ok p" "fx_step True p p'" for p p'
    using that(2)
  proof cases
    case (x_enter k e)
    have "waits (if j = k then e\<lparr>fe_in := True, fe_watched := False\<rparr> else e)" if "waits e" for j e
      using that by (simp add: waits_def seen_def)
    then show ?thesis using that(1) x_enter(1) by (auto simp: fx_ok_def list_all_iff fx_enter_def)
  next
    case x_added
    then show ?thesis using that(1) by (simp add: fx_added_def ok_map waits_added)
  next
    case (x_commit cs)
    then show ?thesis using that(1) waits_commit unfolding x_commit(1) fx_ok_def [of "fx_commit cs p"]
      by (auto simp: fx_commit_def list_all_iff)
  qed
qed

subsection \<open>The cards of the marketplace\<close>

definition market_classes :: "string list \<Rightarrow> (string \<times> string) list" where
  "market_classes as = map (\<lambda>(i, a). (a, ''fx fx-d'' @ dec_of_nat (i mod 4 + 1))) (enumerate 0 as)"

definition market_cards :: "operator_group list \<Rightarrow> (string \<times> string) list" where
  "market_cards gs = market_classes (map grp_address gs)"

text \<open>A grid every card of which has been seen.\<close>

definition revealed_grid :: "string list \<Rightarrow> fx_page" where
  "revealed_grid as = map (\<lambda>(k, c). (k, \<lparr>fe_class = c, fe_in = True, fe_watched = False, fe_new = False\<rparr>)) (market_classes as)"

lemma market_class_fx: "is_fx (''fx fx-d'' @ s)"
  by (simp add: is_fx_def split: list.split)

lemma dec_below_five: "dec_of_nat (i mod 4 + 1) = dec_of_nat (j mod 4 + 1) \<longleftrightarrow> i mod 4 = j mod 4"
proof -
  have "i mod 4 \<in> {0, 1, 2, 3}" "j mod 4 \<in> {0, 1, 2, 3}" by auto
  moreover have "dec_of_nat (Suc 0) = ''1''" "dec_of_nat (Suc (Suc 0)) = ''2''" "dec_of_nat (Suc (Suc (Suc 0))) = ''3''"
      "dec_of_nat (Suc (Suc (Suc (Suc 0)))) = ''4''"
    by code_simp+
  ultimately show ?thesis by (auto simp: numeral_2_eq_2 numeral_3_eq_3)
qed

lemma map_of_classes: "distinct as \<Longrightarrow> i < length as \<Longrightarrow> map_of (market_classes as) (as ! i) = Some (''fx fx-d'' @ dec_of_nat (i mod 4 + 1))"
  unfolding market_classes_def
  by (rule map_of_is_SomeI) (auto simp: comp_def split_def in_set_enumerate_eq image_iff intro!: bexI [of _ "(i, as ! i)"])

text \<open>A key that is on the page throughout.\<close>

inductive stays :: "string \<Rightarrow> fx_page \<Rightarrow> fx_page \<Rightarrow> bool" for k where
  s_here: "stays k p p"
| s_next: "stays k p p' \<Longrightarrow> fx_step False p' p'' \<Longrightarrow> (\<exists>e. map_of p'' k = Some e \<and> is_fx (fe_class e)) \<Longrightarrow> stays k p p''"

definition blank :: "string \<Rightarrow> fx_page \<Rightarrow> bool" where
  "blank k p \<longleftrightarrow> (case map_of p k of None \<Rightarrow> False
     | Some e \<Rightarrow> is_fx (fe_class e) \<and> \<not> fe_in e \<and> \<not> fe_watched e \<and> \<not> fe_new e)"

lemma blank_for_good:
  assumes "stays k p p'" and "blank k p"
  shows "blank k p'"
  using assms
proof induction
  case (s_next p p' p'')
  then obtain e where e: "map_of p' k = Some e" "is_fx (fe_class e)" "\<not> fe_in e" "\<not> fe_watched e" "\<not> fe_new e"
    by (auto simp: blank_def split: option.splits)
  from s_next.hyps(2) show ?case
  proof cases
    case (x_enter j e')
    then have "j \<noteq> k" using e by auto
    then show ?thesis using x_enter e by (simp add: blank_def map_of_enter)
  next
    case x_added
    then show ?thesis using e by (simp add: blank_def fx_added_def map_of_on_page)
  next
    case (x_commit cs)
    then show ?thesis using e s_next.hyps(3) by (auto simp: blank_def map_of_commit commit_el_def split: if_splits)
  qed
qed

subsection \<open>Properties\<close>


end
