(* ===== verification/Html.thy ===== *)
theory Html
  imports Ui
begin

text \<open>
  What the components return: trees of elements, as JSX builds them, and the widgets of
  \<open>web/components/ui.tsx\<close> as functions to such trees. A screen's tree is a function of its state, and its
  handlers are values of a type of the screen's own, so that what a screen offers can be compared
  with the steps its model allows. Class names are left out unless they depend on the state, and
  so are icons; texts, attributes that carry meaning and handlers are kept.
\<close>

subsection \<open>Trees\<close>

datatype tag = T_a | T_article | T_aside | T_button | T_circle | T_code | T_dd | T_div | T_dl | T_dt | T_footer | T_form
  | T_g | T_h1 | T_h2 | T_h3 | T_header | T_img | T_input | T_label | T_li | T_line | T_link | T_main | T_nav | T_ol | T_option | T_p
  | T_pre | T_rect | T_section | T_select | T_span | T_strong | T_svg | T_svg_text | T_svg_title | T_table | T_tbody | T_td | T_textarea
  | T_th | T_thead | T_tr | T_ul

datatype 'e attr =
    Href string | Ident string | For_id string | Title string | Aria_label string | Aria_expanded bool | Aria_hidden | Aria_modal
  | Role string | Kind string | Disabled bool | Value string | Checked bool | Placeholder string | Target string | Rel string
  | Src string | Alt string | Key string | Class string | Style string | Auto_focus | Min_max int int | Col_span nat
  | Copies string
  | On_click 'e | On_change "string \<Rightarrow> 'e" | On_check "bool \<Rightarrow> 'e" | On_event string 'e

text \<open>The stateful widgets stay elements of their own, with their properties.\<close>

datatype tip_side = Tip_top | Tip_bottom | Tip_right

datatype 'e node =
    Text string
  | El tag "'e attr list" "'e node list"
  | Info_tip string tip_side "'e node list"
  | Copy_value string "string option" "string option"

definition copy_title :: "string \<Rightarrow> string option \<Rightarrow> string" where
  "copy_title v label = (case label of None \<Rightarrow> v | Some l \<Rightarrow> if l = [] then v else l @ '': '' @ v)"

text \<open>The elements in document order, the texts, and what lies inside an element that is pressed.\<close>

primrec elems :: "'e node \<Rightarrow> (tag \<times> 'e attr list) list" and elems_list :: "'e node list \<Rightarrow> (tag \<times> 'e attr list) list" where
  "elems (Text s) = []"
| "elems (El t as ns) = (t, as) # elems_list ns"
| "elems (Info_tip l sd ns) = (T_button, [Kind ''button'', Aria_label l]) # elems_list ns"
| "elems (Copy_value v d l) = [(T_button, [Kind ''button'', Title (copy_title v l), Copies v])]"
| "elems_list [] = []"
| "elems_list (n # ns) = elems n @ elems_list ns"

primrec texts :: "'e node \<Rightarrow> string list" and texts_list :: "'e node list \<Rightarrow> string list" where
  "texts (Text s) = [s]"
| "texts (El t as ns) = texts_list ns"
| "texts (Info_tip l sd ns) = texts_list ns"
| "texts (Copy_value v d l) = [case d of None \<Rightarrow> v | Some x \<Rightarrow> x]"
| "texts_list [] = []"
| "texts_list (n # ns) = texts n @ texts_list ns"

text \<open>No control stands inside another one; a tip and a copy button are controls.\<close>

definition pressable :: "tag \<Rightarrow> bool" where
  "pressable t \<longleftrightarrow> t = T_button \<or> t = T_a \<or> t = T_link"

primrec apart :: "bool \<Rightarrow> 'e node \<Rightarrow> bool" and apart_list :: "bool \<Rightarrow> 'e node list \<Rightarrow> bool" where
  "apart inside (Text s) = True"
| "apart inside (El t as ns) = (if pressable t then \<not> inside \<and> apart_list True ns else apart_list inside ns)"
| "apart inside (Info_tip l sd ns) = (\<not> inside \<and> apart_list inside ns)"
| "apart inside (Copy_value v d l) = (\<not> inside)"
| "apart_list inside [] = True"
| "apart_list inside (n # ns) = (apart inside n \<and> apart_list inside ns)"

subsection \<open>Reading a tree\<close>

text \<open>A reader takes something from each element, whatever plain attributes the element carries.\<close>

definition gather :: "(tag \<times> 'e attr list \<Rightarrow> 'x list) \<Rightarrow> 'e node list \<Rightarrow> 'x list" where
  "gather f ns = concat (map f (elems_list ns))"

definition read_node :: "(tag \<times> 'e attr list \<Rightarrow> 'x list) \<Rightarrow> 'e node \<Rightarrow> 'x list" where
  "read_node f n = concat (map f (elems n))"

definition plain :: "'e attr \<Rightarrow> bool" where
  "plain a \<longleftrightarrow> (case a of Class c \<Rightarrow> True | Kind k \<Rightarrow> True | Title s \<Rightarrow> True | Aria_label s \<Rightarrow> True | Aria_hidden \<Rightarrow> True
     | Aria_modal \<Rightarrow> True | Role r \<Rightarrow> True | Key k \<Rightarrow> True | Style s \<Rightarrow> True | Placeholder p \<Rightarrow> True | Value v \<Rightarrow> True | Checked b \<Rightarrow> True
     | Target t \<Rightarrow> True | Rel r \<Rightarrow> True | Auto_focus \<Rightarrow> True | Min_max i j \<Rightarrow> True | Col_span n \<Rightarrow> True | Src s \<Rightarrow> True | Alt s \<Rightarrow> True
     | Aria_expanded b \<Rightarrow> True | On_event n x \<Rightarrow> True | _ \<Rightarrow> False)"

definition is_disabled :: "'e attr list \<Rightarrow> bool" where
  "is_disabled as = list_ex (\<lambda>a. case a of Disabled b \<Rightarrow> b | _ \<Rightarrow> False) as"

definition clicks :: "tag \<times> 'e attr list \<Rightarrow> 'e list" where
  "clicks e = (if is_disabled (snd e) then [] else concat (map (\<lambda>a. case a of On_click x \<Rightarrow> [x] | _ \<Rightarrow> []) (snd e)))"

definition edits_of :: "tag \<times> 'e attr list \<Rightarrow> (string \<Rightarrow> 'e) list" where
  "edits_of e = (if is_disabled (snd e) then [] else concat (map (\<lambda>a. case a of On_change f \<Rightarrow> [f] | _ \<Rightarrow> []) (snd e)))"

definition checks_of :: "tag \<times> 'e attr list \<Rightarrow> (bool \<Rightarrow> 'e) list" where
  "checks_of e = (if is_disabled (snd e) then [] else concat (map (\<lambda>a. case a of On_check f \<Rightarrow> [f] | _ \<Rightarrow> []) (snd e)))"

definition hrefs_of :: "tag \<times> 'e attr list \<Rightarrow> string list" where
  "hrefs_of e = concat (map (\<lambda>a. case a of Href h \<Rightarrow> [h] | _ \<Rightarrow> []) (snd e))"

definition ids_of :: "tag \<times> 'e attr list \<Rightarrow> string list" where
  "ids_of e = concat (map (\<lambda>a. case a of Ident i \<Rightarrow> [i] | _ \<Rightarrow> []) (snd e))"

definition fors_of :: "tag \<times> 'e attr list \<Rightarrow> string list" where
  "fors_of e = concat (map (\<lambda>a. case a of For_id i \<Rightarrow> [i] | _ \<Rightarrow> []) (snd e))"

definition copies_of :: "tag \<times> 'e attr list \<Rightarrow> string list" where
  "copies_of e = concat (map (\<lambda>a. case a of Copies v \<Rightarrow> [v] | _ \<Rightarrow> []) (snd e))"

lemmas attr_reads = copies_of_def clicks_def edits_of_def checks_of_def hrefs_of_def ids_of_def fors_of_def is_disabled_def

text \<open>What can be pressed, typed into and ticked; where the links lead; the fields and the labels' fields; and the
  values put on the clipboard by the copy buttons.\<close>

abbreviation offers :: "'e node list \<Rightarrow> 'e list" where "offers \<equiv> gather clicks"
abbreviation edits :: "'e node list \<Rightarrow> (string \<Rightarrow> 'e) list" where "edits \<equiv> gather edits_of"
abbreviation checks :: "'e node list \<Rightarrow> (bool \<Rightarrow> 'e) list" where "checks \<equiv> gather checks_of"
abbreviation links :: "'e node list \<Rightarrow> string list" where "links \<equiv> gather hrefs_of"
abbreviation ids :: "'e node list \<Rightarrow> string list" where "ids \<equiv> gather ids_of"
abbreviation copies :: "'e node list \<Rightarrow> string list" where "copies \<equiv> gather copies_of"
abbreviation label_targets :: "'e node list \<Rightarrow> string list" where "label_targets \<equiv> gather fors_of"

text \<open>What every screen keeps to: a button says its kind, so that it never submits by accident; a link that
  opens another window withholds the opener; a labelled field exists.\<close>

definition has_kind :: "'e attr list \<Rightarrow> bool" where
  "has_kind as = list_ex (\<lambda>a. case a of Kind k \<Rightarrow> True | _ \<Rightarrow> False) as"

definition opens_window :: "'e attr list \<Rightarrow> bool" where
  "opens_window as = list_ex (\<lambda>a. case a of Target t \<Rightarrow> t = ''_blank'' | _ \<Rightarrow> False) as"

definition withholds_opener :: "'e attr list \<Rightarrow> bool" where
  "withholds_opener as = list_ex (\<lambda>a. case a of Rel r \<Rightarrow> is_infix ''noreferrer'' r | _ \<Rightarrow> False) as"

definition elem_ok :: "tag \<times> 'e attr list \<Rightarrow> bool" where
  "elem_ok e \<longleftrightarrow> (if fst e = T_button then has_kind (snd e) else True) \<and> (if opens_window (snd e) then withholds_opener (snd e) else True)"

definition sound_view :: "'e node list \<Rightarrow> bool" where
  "sound_view ns \<longleftrightarrow> list_all elem_ok (elems_list ns) \<and> apart_list False ns \<and> set (label_targets ns) \<subseteq> set (ids ns)"

named_theorems view_simps \<open>how the contents of a tree are read off\<close>

lemma elems_list_append [simp]: "elems_list (ns @ ms) = elems_list ns @ elems_list ms"
  by (induction ns) simp_all

lemma texts_list_append [simp]: "texts_list (ns @ ms) = texts_list ns @ texts_list ms"
  by (induction ns) simp_all

lemma apart_list_append [simp]: "apart_list i (ns @ ms) \<longleftrightarrow> apart_list i ns \<and> apart_list i ms"
  by (induction ns) simp_all

lemma texts_list_map: "texts_list (map f xs) = concat (map (\<lambda>x. texts (f x)) xs)"
  by (induction xs) simp_all

lemma apart_list_map: "apart_list i (map f xs) \<longleftrightarrow> (\<forall>x \<in> set xs. apart_list i [f x])"
  by (induction xs) simp_all

lemma elems_list_map: "elems_list (map f xs) = concat (map (\<lambda>x. elems_list [f x]) xs)"
  by (induction xs) simp_all

lemma apart_loosens:
  fixes n :: "'e node" and ns :: "'e node list"
  shows "apart True n \<Longrightarrow> apart False n" "apart_list True ns \<Longrightarrow> apart_list False ns"
  by (induction n and ns rule: apart.induct apart_list.induct) (auto split: if_splits)

subsection \<open>Widgets\<close>

definition check_mark :: string where "check_mark = [CHR 0xE2, CHR 0x9C, CHR 0x93]"
definition right_arrow :: string where "right_arrow = [CHR 0xE2, CHR 0x86, CHR 0x92]"
definition right_quote :: string where "right_quote = [CHR 0xE2, CHR 0x80, CHR 0x99]"

definition opt :: "bool \<Rightarrow> 'e node list \<Rightarrow> 'e node list" where
  "opt b ns = (if b then ns else [])"

lemma opt_simps [simp]: "opt True ns = ns" "opt False ns = []"
  by (simp_all add: opt_def)

definition badge :: "tone \<Rightarrow> bool \<Rightarrow> 'e node list \<Rightarrow> 'e node" where
  "badge tone dot children =
     El T_span [Class (''tag '' @ TONE_CLASSES tone)]
       (opt dot [El T_span [Class (''h-1.5 w-1.5 rounded-full '' @ DOT_CLASSES tone)] []] @ children)"

definition status_dot_view :: "tone \<Rightarrow> bool \<Rightarrow> 'e node" where
  "status_dot_view tone pulse = El T_span [Class (status_dot tone pulse)] []"

text \<open>The two widgets with a state of their own, in that state; \<open>act\<close> takes their own events.\<close>

definition copy_value_view :: "copy_value \<Rightarrow> 'e \<Rightarrow> string \<Rightarrow> string option \<Rightarrow> string option \<Rightarrow> 'e node" where
  "copy_value_view s copy v display label =
     El T_button [Kind ''button'', On_click copy, Title (copy_title v label)]
       [El T_span [] [Text (case display of None \<Rightarrow> v | Some d \<Rightarrow> d)],
        El T_span [Class (if cv_copied s then ''text-success-600'' else ''text-faint opacity-0 group-hover:opacity-100'')]
          [Text (copy_label s)]]"

definition tip_position :: "tip_side \<Rightarrow> string" where
  "tip_position side = (case side of Tip_bottom \<Rightarrow> ''top-full mt-2 left-1/2 -translate-x-1/2''
     | Tip_right \<Rightarrow> ''left-full ml-2 top-1/2 -translate-y-1/2'' | Tip_top \<Rightarrow> ''bottom-full mb-2 left-1/2 -translate-x-1/2'')"

definition info_tip_view :: "bool \<Rightarrow> (tip_event \<Rightarrow> 'e) \<Rightarrow> string \<Rightarrow> tip_side \<Rightarrow> 'e node list \<Rightarrow> 'e node" where
  "info_tip_view tip_open act label side children =
     El T_span []
       ([El T_button [Kind ''button'', Aria_label label, Aria_expanded tip_open, On_event ''mouseenter'' (act Mouse_enter),
           On_event ''mouseleave'' (act Mouse_leave), On_event ''focus'' (act Focus), On_event ''blur'' (act Blur), On_click (act Click)]
          [Text ''i'']] @
        opt tip_open [El T_span [Role ''tooltip'', Class (tip_position side)] children])"

definition info_tip :: "'e node list \<Rightarrow> 'e node" where
  "info_tip children = Info_tip ''More information'' Tip_top children"

definition info_below :: "'e node list \<Rightarrow> 'e node" where
  "info_below children = Info_tip ''More information'' Tip_bottom children"

definition page_header :: "string \<Rightarrow> 'e node list \<Rightarrow> 'e node list \<Rightarrow> string \<Rightarrow> 'e node" where
  "page_header title info actions eyebrow =
     El T_header []
       ([El T_div [] (opt (eyebrow \<noteq> []) [El T_p [] [Text eyebrow]] @
          [El T_h1 [] (Text title # opt (info \<noteq> []) [info_below info])])] @
        opt (actions \<noteq> []) [El T_div [] actions])"

definition section_card :: "string \<Rightarrow> 'e node list \<Rightarrow> 'e node list \<Rightarrow> 'e node list \<Rightarrow> 'e node" where
  "section_card title info actions children =
     El T_section []
       (opt (title \<noteq> [] \<or> actions \<noteq> [])
          [El T_div []
             ([El T_div [] (opt (title \<noteq> []) [El T_h2 [] (Text title # opt (info \<noteq> []) [info_tip info])])] @
              opt (actions \<noteq> []) [El T_div [] actions])] @
        children)"

definition stat_card :: "string \<Rightarrow> 'e node list \<Rightarrow> 'e node list \<Rightarrow> tone option \<Rightarrow> 'e node" where
  "stat_card label value hint tone =
     El T_div []
       ([El T_p [] [Text label], El T_div [Class (stat_card_class tone)] value] @ opt (hint \<noteq> []) [El T_p [] hint])"

definition empty_state :: "string \<Rightarrow> 'e node list \<Rightarrow> 'e node list \<Rightarrow> 'e node list \<Rightarrow> 'e node" where
  "empty_state title info action_nodes icon =
     El T_div []
       (opt (icon \<noteq> []) [El T_div [] icon] @
        [El T_p [] (Text title # opt (info \<noteq> []) [info_tip info])] @
        opt (action_nodes \<noteq> []) [El T_div [] action_nodes])"

definition skeleton :: "string \<Rightarrow> 'e node" where
  "skeleton class_name = El T_div [Class (''skeleton '' @ class_name)] []"

definition skeleton_rows :: "nat \<Rightarrow> 'e node" where
  "skeleton_rows rows = El T_div [] (replicate rows (skeleton ''h-12 w-full rounded-xl''))"

definition error_view :: "jserr \<Rightarrow> 'e option \<Rightarrow> 'e node" where
  "error_view e retry =
     El T_div []
       ([El T_p [] [Text ''Something went wrong''], El T_p [] [Text (err_message e)]] @
        (case retry of None \<Rightarrow> [] | Some r \<Rightarrow> [El T_button [Kind ''button'', On_click r] [Text ''Try again'']]))"

definition error_opt :: "jserr option \<Rightarrow> 'e option \<Rightarrow> 'e node list" where
  "error_opt e retry = (case e of None \<Rightarrow> [] | Some x \<Rightarrow> [error_view x retry])"

definition callout :: "tone \<Rightarrow> 'e node list \<Rightarrow> 'e node list \<Rightarrow> 'e node" where
  "callout tone title children =
     El T_div [Class (callout_class tone)]
       (opt (title \<noteq> []) [El T_p [] title] @
        opt (children \<noteq> []) [El T_div [Class (if title \<noteq> [] then ''mt-1.5'' else [])] children])"

definition modal :: "bool \<Rightarrow> 'e \<Rightarrow> string \<Rightarrow> 'e node list \<Rightarrow> 'e node list \<Rightarrow> 'e node list \<Rightarrow> 'e node list \<Rightarrow> bool \<Rightarrow> 'e node list" where
  "modal is_open close title description info children footer wide =
     opt is_open
       [El T_div []
          [El T_div [On_click close, Aria_hidden] [],
           El T_div [Role ''dialog'', Aria_modal, Aria_label title, Class (if wide then ''max-w-3xl'' else ''max-w-lg'')]
             ([El T_div []
                 ([El T_h2 [] (Text title # opt (info \<noteq> []) [info_tip info])] @
                  opt (description \<noteq> []) [El T_div [] description])] @
              children @
              opt (footer \<noteq> []) [El T_div [] footer])]]"

definition toggle_view :: "bool \<Rightarrow> (bool \<Rightarrow> 'e) \<Rightarrow> 'e node list \<Rightarrow> 'e node list \<Rightarrow> bool \<Rightarrow> 'e node" where
  "toggle_view checked change label info disabled =
     El T_label [Class (if disabled then ''opacity-55'' else ''cursor-pointer hover:bg-fg/[0.03]'')]
       [El T_span [] (El T_span [] label # opt (info \<noteq> []) [info_tip info]),
        El T_span []
          [El T_input [Kind ''checkbox'', Checked checked, Disabled disabled, On_check change] [],
           El T_span [Class (if checked then ''bg-accent-500'' else ''bg-fg/15'')] [],
           El T_span [Class (if checked then ''translate-x-4'' else [])] []]]"

definition tabs_view :: "(string \<times> string \<times> int option) list \<Rightarrow> string \<Rightarrow> (string \<Rightarrow> 'e) \<Rightarrow> 'e node" where
  "tabs_view tabs active change =
     El T_div []
       (map (\<lambda>(i, l, n). El T_button [Key i, Kind ''button'', On_click (change i),
            Class (if active = i then ''border-accent-500 text-fg'' else ''border-transparent text-muted hover:text-fg'')]
          (Text l # (case n of None \<Rightarrow> [] | Some c \<Rightarrow> [El T_span [] [Text (dec_of_int c)]]))) tabs)"

definition link_button_view :: "string \<Rightarrow> 'e node list \<Rightarrow> string option \<Rightarrow> 'e node" where
  "link_button_view href children variant =
     (case link_button href variant of
        (Link_external, cls) \<Rightarrow> El T_a [Href href, Target ''_blank'', Rel ''noreferrer'', Class cls] children
      | (Link_internal, cls) \<Rightarrow> El T_link [Href href, Class cls] children)"

lemmas widget_defs = badge_def status_dot_view_def info_tip_def info_below_def page_header_def section_card_def stat_card_def
  empty_state_def skeleton_def skeleton_rows_def error_view_def error_opt_def callout_def modal_def toggle_view_def

text \<open>A closed dialogue is nothing at all.\<close>

lemma modal_closed [simp]: "modal False close title description info children footer wide = []"
  by (simp add: modal_def)

subsection \<open>Readers and widgets\<close>

text \<open>Whatever is read from the elements, the widgets add nothing to what their parts hold but their own
  handlers, so a screen is read without unfolding them.\<close>

locale reader =
  fixes f :: "tag \<times> 'e attr list \<Rightarrow> 'x list"
  assumes bare: "f (t, []) = []"
    and skips: "plain a \<Longrightarrow> f (t, a # as) = f (t, as)"
begin

lemma skip [view_simps]: "f (t, Class c # as) = f (t, as)" "f (t, Kind c # as) = f (t, as)" "f (t, Title c # as) = f (t, as)"
    "f (t, Aria_label c # as) = f (t, as)" "f (t, Aria_hidden # as) = f (t, as)" "f (t, Aria_modal # as) = f (t, as)"
    "f (t, Role c # as) = f (t, as)" "f (t, Key c # as) = f (t, as)" "f (t, Style c # as) = f (t, as)"
    "f (t, Placeholder c # as) = f (t, as)" "f (t, Value c # as) = f (t, as)" "f (t, Checked b # as) = f (t, as)"
    "f (t, Target c # as) = f (t, as)" "f (t, Rel c # as) = f (t, as)" "f (t, Auto_focus # as) = f (t, as)"
    "f (t, Min_max i j # as) = f (t, as)" "f (t, Col_span n # as) = f (t, as)" "f (t, Src c # as) = f (t, as)"
    "f (t, Alt c # as) = f (t, as)" "f (t, Aria_expanded b # as) = f (t, as)" "f (t, On_event c x # as) = f (t, as)"
  by (simp_all add: skips plain_def)

lemma bare_el [view_simps]: "f (t, []) = []"
  by (rule bare)

lemma none [view_simps]: "gather f [] = []"
  by (simp add: gather_def)

lemma append [view_simps]: "gather f (ns @ ms) = gather f ns @ gather f ms"
  by (simp add: gather_def)

lemma first [view_simps]: "gather f (n # ns) = read_node f n @ gather f ns"
  by (simp add: gather_def read_node_def)

lemma element [view_simps]: "read_node f (El t as ns) = f (t, as) @ gather f ns"
  by (simp add: gather_def read_node_def)

lemma text_node [view_simps]: "read_node f (Text s) = []"
  by (simp add: read_node_def)

lemma tip [view_simps]: "read_node f (Info_tip l sd ns) = gather f ns"
  by (simp add: gather_def read_node_def skip bare)

lemma copy [view_simps]: "read_node f (Copy_value v d l) = f (T_button, [Copies v])"
  by (simp add: read_node_def skip)

lemma mapped [view_simps]: "gather f (map g xs) = concat (map (\<lambda>x. read_node f (g x)) xs)"
  by (induction xs) (simp_all add: first none)

lemma node_branch [view_simps]: "read_node f (if b then n else m) = (if b then read_node f n else read_node f m)"
  by simp

lemma branch [view_simps]: "gather f (if b then ns else ms) = (if b then gather f ns else gather f ms)"
  by simp

lemma optional [view_simps]: "gather f (opt b ns) = (if b then gather f ns else [])"
  by (simp add: opt_def none)

lemma guarded: "gather f (opt (ns \<noteq> []) [El t [] ns]) = gather f ns" "gather f (opt (ns \<noteq> []) [Info_tip l sd ns]) = gather f ns"
  by (cases ns; simp add: view_simps)+

lemma widget_parts [view_simps]:
  "read_node f (badge tn d ns) = gather f ns"
  "read_node f (status_dot_view tn p) = []"
  "read_node f (info_tip ns) = gather f ns"
  "read_node f (page_header s i as e) = gather f i @ gather f as"
  "read_node f (section_card s i as ns) = (if s = [] then [] else gather f i) @ gather f as @ gather f ns"
  "read_node f (stat_card s ns hint tno) = gather f ns @ gather f hint"
  "read_node f (empty_state s i as icon) = gather f icon @ gather f i @ gather f as"
  "read_node f (skeleton s) = []"
  "read_node f (skeleton_rows n) = []"
  "read_node f (callout tn i ns) = gather f i @ gather f ns"
proof -
  have r: "gather f (replicate n (skeleton s)) = []" for n s
    by (induction n) (simp_all add: skeleton_def view_simps)
  have c: "gather f (opt (ns \<noteq> []) [El t [Class c] ns]) = gather f ns" for ns t c
    by (cases ns) (simp_all add: view_simps)
  show "read_node f (section_card s i as ns) = (if s = [] then [] else gather f i) @ gather f as @ gather f ns"
    by (cases as; cases "s = []") (simp_all add: section_card_def guarded info_tip_def view_simps)
  show "read_node f (callout tn i ns) = gather f i @ gather f ns"
    by (simp add: callout_def guarded c first element append skip bare)
  show "read_node f (page_header s i as e) = gather f i @ gather f as"
    by (simp add: page_header_def guarded info_below_def first element append text_node tip optional none bare)
  show "read_node f (stat_card s ns hint tno) = gather f ns @ gather f hint"
    by (simp add: stat_card_def guarded first element append text_node none bare skip)
  show "read_node f (empty_state s i as icon) = gather f icon @ gather f i @ gather f as"
    by (simp add: empty_state_def guarded info_tip_def first element append text_node none bare)
  show "read_node f (skeleton_rows n) = []"
    by (simp add: skeleton_rows_def first element bare r none)
qed (simp_all add: widget_defs view_simps opt_def)

lemma widget_handlers [view_simps]:
  "read_node f (error_view e None) = []" "read_node f (error_view e (Some x)) = f (T_button, [On_click x])"
  "gather f (modal b close s d i ns foot w) =
     (if b then f (T_div, [On_click close, Aria_hidden]) @ gather f i @ gather f d @ gather f ns @ gather f foot else [])"
  "read_node f (toggle_view b g l i dis) = gather f l @ gather f i @ f (T_input, [Disabled dis, On_check g])"
  by (simp_all add: error_view_def modal_def toggle_view_def guarded info_tip_def first element append text_node tip none bare skip optional
      split: option.split)

end

interpretation offered: reader clicks
  by unfold_locales (auto simp: attr_reads plain_def split: attr.splits)

interpretation edited: reader edits_of
  by unfold_locales (auto simp: attr_reads plain_def split: attr.splits)

interpretation checked: reader checks_of
  by unfold_locales (auto simp: attr_reads plain_def split: attr.splits)

interpretation linked: reader hrefs_of
  by unfold_locales (auto simp: attr_reads plain_def split: attr.splits)

interpretation identified: reader ids_of
  by unfold_locales (auto simp: attr_reads plain_def split: attr.splits)

interpretation labelled: reader fors_of
  by unfold_locales (auto simp: attr_reads plain_def split: attr.splits)

interpretation copied: reader copies_of
  by unfold_locales (auto simp: attr_reads plain_def split: attr.splits)

text \<open>The handlers themselves, after the plain attributes are gone.\<close>

lemma handlers [view_simps]:
  "clicks (t, [On_click x]) = [x]" "clicks (t, [Disabled b, On_click x]) = (if b then [] else [x])"
  "clicks (t, [On_click x, Disabled b]) = (if b then [] else [x])" "clicks (t, [On_click x, Aria_hidden]) = [x]"
  "clicks (t, On_change c # as) = clicks (t, as)" "clicks (t, On_check d # as) = clicks (t, as)" "clicks (t, [Disabled b]) = []"
  "edits_of (t, [On_change c]) = [c]" "edits_of (t, [Disabled b, On_change c]) = (if b then [] else [c])"
  "edits_of (t, On_click x # as) = edits_of (t, as)" "edits_of (t, On_check d # as) = edits_of (t, as)" "edits_of (t, [Disabled b]) = []"
  "checks_of (t, [On_check d]) = [d]" "checks_of (t, [Disabled b, On_check d]) = (if b then [] else [d])"
  "checks_of (t, On_click x # as) = checks_of (t, as)" "checks_of (t, On_change c # as) = checks_of (t, as)" "checks_of (t, [Disabled b]) = []"
  "edits_of (t, [Disabled b, On_click x]) = []" "checks_of (t, [Disabled b, On_click x]) = []"
  "clicks (t, [Disabled b, On_check d]) = []" "clicks (t, [Disabled b, On_change c]) = []" "edits_of (t, [Disabled b, On_check d]) = []"
  "checks_of (t, [Disabled b, On_change c]) = []"
  by (simp_all add: attr_reads)

lemma copied_values [view_simps]: "copies_of (t, [Copies v]) = [v]" "clicks (t, Copies v # as) = clicks (t, as)"
    "edits_of (t, Copies v # as) = edits_of (t, as)" "checks_of (t, Copies v # as) = checks_of (t, as)" "hrefs_of (t, Copies v # as) = hrefs_of (t, as)"
    "ids_of (t, Copies v # as) = ids_of (t, as)" "fors_of (t, Copies v # as) = fors_of (t, as)"
    "copies_of (t, On_click x # as) = copies_of (t, as)" "copies_of (t, On_change c # as) = copies_of (t, as)"
    "copies_of (t, On_check d # as) = copies_of (t, as)" "copies_of (t, Disabled b # as) = copies_of (t, as)"
    "copies_of (t, Href h # as) = copies_of (t, as)" "copies_of (t, Ident i # as) = copies_of (t, as)" "copies_of (t, For_id i # as) = copies_of (t, as)"
  by (simp_all add: attr_reads)

lemma anchors [view_simps]:
  "clicks (t, Href h # as) = clicks (t, as)" "clicks (t, Ident i # as) = clicks (t, as)" "clicks (t, For_id i # as) = clicks (t, as)"
  "edits_of (t, Href h # as) = edits_of (t, as)" "edits_of (t, Ident i # as) = edits_of (t, as)" "edits_of (t, For_id i # as) = edits_of (t, as)"
  "checks_of (t, Href h # as) = checks_of (t, as)" "checks_of (t, Ident i # as) = checks_of (t, as)" "checks_of (t, For_id i # as) = checks_of (t, as)"
  "hrefs_of (t, Href h # as) = h # hrefs_of (t, as)" "hrefs_of (t, Ident i # as) = hrefs_of (t, as)" "hrefs_of (t, For_id i # as) = hrefs_of (t, as)"
  "ids_of (t, Href h # as) = ids_of (t, as)" "ids_of (t, Ident i # as) = i # ids_of (t, as)" "ids_of (t, For_id i # as) = ids_of (t, as)"
  "fors_of (t, Href h # as) = fors_of (t, as)" "fors_of (t, Ident i # as) = fors_of (t, as)" "fors_of (t, For_id i # as) = i # fors_of (t, as)"
  by (simp_all add: attr_reads)

lemma no_anchor [view_simps]:
  "hrefs_of (t, On_click x # as) = hrefs_of (t, as)" "hrefs_of (t, On_change c # as) = hrefs_of (t, as)"
  "hrefs_of (t, On_check d # as) = hrefs_of (t, as)" "hrefs_of (t, Disabled b # as) = hrefs_of (t, as)"
  "ids_of (t, On_click x # as) = ids_of (t, as)" "ids_of (t, On_change c # as) = ids_of (t, as)"
  "ids_of (t, On_check d # as) = ids_of (t, as)" "ids_of (t, Disabled b # as) = ids_of (t, as)"
  "fors_of (t, On_click x # as) = fors_of (t, as)" "fors_of (t, On_change c # as) = fors_of (t, as)"
  "fors_of (t, On_check d # as) = fors_of (t, as)" "fors_of (t, Disabled b # as) = fors_of (t, as)"
  by (simp_all add: attr_reads)

subsection \<open>Soundness of a tree\<close>

text \<open>The soundness of a tree, part by part; the fields and labels are collected over the whole.\<close>

definition parts_ok :: "'e node list \<Rightarrow> bool" where
  "parts_ok ns \<longleftrightarrow> list_all elem_ok (elems_list ns) \<and> apart_list False ns"

definition still :: "'e node list \<Rightarrow> bool" where
  "still ns \<longleftrightarrow> list_all elem_ok (elems_list ns) \<and> apart_list True ns"

named_theorems parts \<open>soundness of a tree, part by part\<close>

lemma sound_viewI: "parts_ok ns \<Longrightarrow> set (label_targets ns) \<subseteq> set (ids ns) \<Longrightarrow> sound_view ns"
  by (simp add: sound_view_def parts_ok_def)

lemma still_parts: "still ns \<Longrightarrow> parts_ok ns"
  by (simp add: still_def parts_ok_def apart_loosens)

lemma buttons_ok: "elem_ok (T_button, [Kind ''button'', Aria_label l])" "elem_ok (T_button, [Kind ''button'', Title l, Copies v])"
  by (simp_all add: elem_ok_def opens_window_def has_kind_def)

definition node_ok :: "'e node \<Rightarrow> bool" where
  "node_ok n \<longleftrightarrow> parts_ok [n]"

definition node_still :: "'e node \<Rightarrow> bool" where
  "node_still n \<longleftrightarrow> still [n]"

lemma parts_ok_simps [parts]:
  "parts_ok []" "parts_ok (n # ns) \<longleftrightarrow> node_ok n \<and> parts_ok ns" "parts_ok (ns @ ms) \<longleftrightarrow> parts_ok ns \<and> parts_ok ms"
  "node_ok (Text s)"
  "node_ok (El t as ns) \<longleftrightarrow> elem_ok (t, as) \<and> (if pressable t then still ns else parts_ok ns)"
  "node_ok (Info_tip l sd ns) \<longleftrightarrow> parts_ok ns"
  "node_ok (Copy_value v dis lab)"
  "parts_ok (map f xs) \<longleftrightarrow> (\<forall>x \<in> set xs. node_ok (f x))"
  "parts_ok (if b then ns else ms) \<longleftrightarrow> (if b then parts_ok ns else parts_ok ms)"
  "node_ok (if b then n else m) \<longleftrightarrow> (if b then node_ok n else node_ok m)"
  "parts_ok (opt b ns) \<longleftrightarrow> (if b then parts_ok ns else True)"
proof -
  show "parts_ok (map f xs) \<longleftrightarrow> (\<forall>x \<in> set xs. node_ok (f x))"
    by (induction xs) (simp_all add: parts_ok_def node_ok_def, blast)
qed (simp_all add: node_ok_def parts_ok_def still_def opt_def buttons_ok, blast+)

lemma still_simps [parts]:
  "still []" "still (n # ns) \<longleftrightarrow> node_still n \<and> still ns" "still (ns @ ms) \<longleftrightarrow> still ns \<and> still ms" "node_still (Text s)"
  "node_still (El t as ns) \<longleftrightarrow> elem_ok (t, as) \<and> \<not> pressable t \<and> still ns"
  "\<not> node_still (Info_tip l sd ns)" "\<not> node_still (Copy_value v dis lab)"
  "still (map f xs) \<longleftrightarrow> (\<forall>x \<in> set xs. node_still (f x))"
  "still (if b then ns else ms) \<longleftrightarrow> (if b then still ns else still ms)"
  "node_still (if b then n else m) \<longleftrightarrow> (if b then node_still n else node_still m)"
  "still (opt b ns) \<longleftrightarrow> (if b then still ns else True)"
proof -
  show "still (map f xs) \<longleftrightarrow> (\<forall>x \<in> set xs. node_still (f x))"
    by (induction xs) (simp_all add: still_def node_still_def, blast)
qed (simp_all add: node_still_def still_def opt_def, blast+)

lemmas [parts] = elem_ok_def has_kind_def opens_window_def withholds_opener_def pressable_def

lemma widget_parts_ok [parts]:
  "node_ok (badge tn d ns) \<longleftrightarrow> parts_ok ns" "node_still (badge tn d ns) \<longleftrightarrow> still ns"
  "node_ok (status_dot_view tn p)" "node_still (status_dot_view tn p)"
  "node_ok (info_tip ns) \<longleftrightarrow> parts_ok ns" "node_ok (error_view e r)" "node_ok (skeleton s)"
  by (auto simp: widget_defs parts split: option.splits)

lemma page_header_ok [parts]: "node_ok (page_header s i as e) \<longleftrightarrow> parts_ok i \<and> parts_ok as"
  by (auto simp: page_header_def info_below_def opt_def parts)

lemma section_card_ok [parts]: "node_ok (section_card s i as ns) \<longleftrightarrow> (if s = [] then True else parts_ok i) \<and> parts_ok as \<and> parts_ok ns"
  by (auto simp: section_card_def info_tip_def opt_def parts)

lemma empty_state_ok [parts]: "node_ok (empty_state s i as icon) \<longleftrightarrow> parts_ok i \<and> parts_ok as \<and> parts_ok icon"
  by (auto simp: empty_state_def info_tip_def opt_def parts)

lemma stat_card_ok [parts]: "node_ok (stat_card s ns hint tno) \<longleftrightarrow> parts_ok ns \<and> parts_ok hint"
  by (auto simp: stat_card_def opt_def parts)

lemma callout_ok [parts]: "node_ok (callout tn i ns) \<longleftrightarrow> parts_ok i \<and> parts_ok ns"
  by (auto simp: callout_def opt_def parts)

lemma modal_ok [parts]: "parts_ok (modal b close s d i ns foot w) \<longleftrightarrow> (if b then parts_ok d \<and> parts_ok i \<and> parts_ok ns \<and> parts_ok foot else True)"
  by (auto simp: modal_def info_tip_def opt_def parts)

lemma toggle_ok [parts]: "node_ok (toggle_view b g l i dis) \<longleftrightarrow> parts_ok l \<and> parts_ok i"
  by (auto simp: toggle_view_def info_tip_def opt_def parts)

lemma skeleton_rows_ok [parts]: "node_ok (skeleton_rows n)"
proof -
  have "parts_ok (replicate n (skeleton s))" for s by (induction n) (simp_all add: parts)
  then show ?thesis by (simp add: skeleton_rows_def parts)
qed

end
