(* ===== verification/Pages.thy ===== *)
theory Pages
  imports Html Console
begin

text \<open>
  Which addresses lead somewhere. The router (\<open>next\<close>) serves a page for every directory of \<open>web/app\<close> that
  holds a \<open>page.tsx\<close>; a directory in brackets stands for any segment, one in parentheses for none.
\<close>

subsection \<open>The pages\<close>

datatype segment = Lit string | Param

definition app_pages :: "segment list list" where
  "app_pages = map (\<lambda>ss. Lit ''apps'' # Param # map Lit ss)
     [[], [''users''], [''wallets''], [''analytics''], [''group''], [''credentials''], [''configuration'', ''login-methods''],
      [''configuration'', ''branding''], [''configuration'', ''wallets''], [''configuration'', ''smart-accounts''],
      [''configuration'', ''session-signers''], [''configuration'', ''policies''], [''configuration'', ''funding''],
      [''settings''], [''settings'', ''domains''], [''settings'', ''webhooks'']]"

definition pages :: "segment list list" where
  "pages = map (map Lit)
     [[], [''marketplace''], [''style-guide''], [''status''], [''pricing''], [''docs''], [''docs'', ''auth''], [''docs'', ''session-signers''],
      [''docs'', ''operators''], [''docs'', ''api''], [''docs'', ''concepts''], [''docs'', ''quickstart''], [''docs'', ''webhooks''],
      [''docs'', ''keys''], [''docs'', ''scoped-keys''], [''login''], [''auth'', ''callback''], [''apps''], [''apps'', ''new''],
      [''account''], [''staff''], [''onboarding'']] @
     app_pages @ map (\<lambda>s. [Lit ''org'', Param, Lit s]) [''settings'', ''billing'', ''members''] @
     [[Lit ''marketplace'', Param], [Lit ''invite'', Param]]"

definition fits :: "segment \<Rightarrow> string \<Rightarrow> bool" where
  "fits s w \<longleftrightarrow> (case s of Lit x \<Rightarrow> x = w | Param \<Rightarrow> True)"

text \<open>The segments of an address, without its query and fragment.\<close>

definition path_of :: "string \<Rightarrow> string" where
  "path_of href = takeWhile (\<lambda>c. c \<noteq> CHR ''?'' \<and> c \<noteq> CHR ''#'') href"

definition segments :: "string \<Rightarrow> string list" where
  "segments path = filter (\<lambda>w. w \<noteq> []) (split_on (CHR ''/'') path)"

definition served :: "string list \<Rightarrow> bool" where
  "served ws = list_ex (\<lambda>p. list_all2 fits p ws) pages"

definition outside :: "string \<Rightarrow> bool" where
  "outside href \<longleftrightarrow> starts_with ''http://'' href \<or> starts_with ''https://'' href \<or> starts_with ''mailto:'' href"

definition leads :: "string \<Rightarrow> bool" where
  "leads href \<longleftrightarrow> outside href \<or> starts_with ''/'' href \<and> served (segments (path_of href))"

text \<open>An identifier as it stands in an address.\<close>

definition plain_id :: "string \<Rightarrow> bool" where
  "plain_id i \<longleftrightarrow> i \<noteq> [] \<and> list_all (\<lambda>c. c \<noteq> CHR ''/'' \<and> c \<noteq> CHR ''?'' \<and> c \<noteq> CHR ''#'') i"

lemma takeWhile_all_append: "list_all P xs \<Longrightarrow> takeWhile P (xs @ ys) = xs @ takeWhile P ys"
  by (induction xs) auto

lemma path_of_append: "list_all (\<lambda>c. c \<noteq> CHR ''?'' \<and> c \<noteq> CHR ''#'') a \<Longrightarrow> path_of (a @ b) = a @ path_of b"
  by (simp add: path_of_def takeWhile_all_append)

lemma path_of_id: "plain_id i \<Longrightarrow> path_of (i @ b) = i @ path_of b"
  by (rule path_of_append) (auto simp: plain_id_def list_all_iff)

lemma path_of_simps: "path_of [] = []" "path_of (CHR ''/'' # s) = CHR ''/'' # path_of s" "path_of (CHR ''?'' # s) = []"
    "path_of (CHR ''#'' # s) = []"
  by (simp_all add: path_of_def)

lemma plain_idD: "plain_id i \<Longrightarrow> CHR ''/'' \<notin> set i" "plain_id i \<Longrightarrow> i \<noteq> []"
  unfolding plain_id_def list_all_iff by blast+

lemma segments_id: "plain_id i \<Longrightarrow> segments (i @ CHR ''/'' # s) = i # segments s" "plain_id i \<Longrightarrow> segments i = [i]"
  by (simp_all add: segments_def split_on_append split_on_no_sep plain_idD)

lemma segments_slash: "segments (CHR ''/'' # s) = segments s" "segments [] = []"
  by (simp_all add: segments_def)

text \<open>An address below an app, an organization, an operator or an invitation.\<close>

lemma segments_below:
  assumes "plain_id i"
  shows "segments (path_of (''/apps/'' @ i)) = [''apps'', i]" "segments (path_of (''/apps/'' @ i @ CHR ''/'' # s)) = ''apps'' # i # segments (path_of s)"
    "segments (path_of (''/org/'' @ i @ CHR ''/'' # s)) = ''org'' # i # segments (path_of s)"
    "segments (path_of (''/marketplace/'' @ i)) = [''marketplace'', i]"
proof -
  have n: "path_of i = i" using path_of_id [OF assms, of "[]"] by (simp add: path_of_simps)
  have l: "path_of (''/apps/'' @ t) = ''/apps/'' @ path_of t" "path_of (''/org/'' @ t) = ''/org/'' @ path_of t"
    "path_of (''/marketplace/'' @ t) = ''/marketplace/'' @ path_of t" for t
    by (rule path_of_append; simp)+
  have s: "segments (''/apps/'' @ t) = ''apps'' # segments t" "segments (''/org/'' @ t) = ''org'' # segments t"
    "segments (''/marketplace/'' @ t) = ''marketplace'' # segments t" for t
    by (simp_all add: segments_def)
  show "segments (path_of (''/apps/'' @ i)) = [''apps'', i]" "segments (path_of (''/marketplace/'' @ i)) = [''marketplace'', i]"
    "segments (path_of (''/apps/'' @ i @ CHR ''/'' # s)) = ''apps'' # i # segments (path_of s)"
    "segments (path_of (''/org/'' @ i @ CHR ''/'' # s)) = ''org'' # i # segments (path_of s)"
    by (simp_all only: l s n segments_id [OF assms] path_of_id [OF assms] path_of_simps)
qed

lemma served_app: "served (''apps'' # i # ws) \<longleftrightarrow> list_ex (\<lambda>p. list_all2 fits (tl (tl p)) ws) app_pages"
    "served [''marketplace'', i]" "served (''org'' # i # ws) \<longleftrightarrow> ws \<in> {[''settings''], [''billing''], [''members'']}"
  by (auto simp: served_def pages_def app_pages_def fits_def list_all2_Cons1 list_all2_Cons2)

lemma leads_below:
  assumes "plain_id i"
  shows "leads (''/apps/'' @ i)" "leads (''/marketplace/'' @ i)"
    "leads (''/apps/'' @ i @ CHR ''/'' # s) \<longleftrightarrow> list_ex (\<lambda>p. list_all2 fits (tl (tl p)) (segments (path_of s))) app_pages"
    "leads (''/org/'' @ i @ CHR ''/'' # s) \<longleftrightarrow> segments (path_of s) \<in> {[''settings''], [''billing''], [''members'']}"
  using segments_below [OF assms]
  by (simp_all add: leads_def served_app outside_def)
    (simp add: app_pages_def)

text \<open>The same, as the simplifier writes addresses.\<close>

lemmas leads_ids = leads_below [unfolded append_Cons append_Nil]

end
