(* ===== verification/Frames.thy ===== *)
theory Frames
  imports Pages Market
begin

text \<open>
  The trees of the frames around the screens: the console's sidebar with its app switcher, its user menu and
  its header (\<open>web/components/console\<close>, \<open>web/app/(console)/layout.tsx\<close>), the notices above on-chain actions,
  the theme toggle and the toasts; and the site's header, footer and documentation frame
  (\<open>web/components/SiteHeader.tsx\<close>, \<open>SiteFooter.tsx\<close>, \<open>docs/DocsShell.tsx\<close>). Letters are bytes where
  \<open>toUpperCase\<close> is used.
\<close>

subsection \<open>Theme toggle\<close>

datatype toggle_icon = Icon_system | Icon_dark | Icon_light

definition theme_icon :: "theme \<Rightarrow> bool \<Rightarrow> toggle_icon" where
  "theme_icon th dark = (if th = System then Icon_system else if dark then Icon_dark else Icon_light)"

definition theme_toggle :: "theme \<Rightarrow> (theme \<Rightarrow> 'e) \<Rightarrow> 'e node" where
  "theme_toggle th pick =
     El T_button [Kind ''button'', On_click (pick (next_theme th)),
       Title (''Theme: '' @ theme_name th @ ''. Click for '' @ theme_name (next_theme th) @ ''.''),
       Aria_label (''Theme: '' @ theme_name th @ ''. Switch to '' @ theme_name (next_theme th) @ ''.'')] []"

text \<open>The class \<open>dark\<close> of the document: what the inline script of \<open>web/app/layout.tsx\<close> sets before the first
  paint (nothing, when the storage throws), then what the provider's effects set while it mounts: its
  second effect runs once with the initial theme and again with the stored one.\<close>

definition script_dark :: "('e env_scheme) \<Rightarrow> 't tab_scheme \<Rightarrow> bool \<Rightarrow> bool option" where
  "script_dark E t media_dark = (if e_ls_throws E then None
     else (let th = (case local_storage t THEME_KEY of None \<Rightarrow> ''system'' | Some s \<Rightarrow> if s = [] then ''system'' else s)
           in Some (th = ''dark'' \<or> th = ''system'' \<and> media_dark)))"

definition mount_dark :: "('e env_scheme) \<Rightarrow> 't tab_scheme \<Rightarrow> bool \<Rightarrow> bool list" where
  "mount_dark E t media_dark =
     (let stored = stored_theme E t in is_dark System media_dark # (if stored = System then [] else [is_dark stored media_dark]))"

subsection \<open>Toasts\<close>

definition toast_class :: "toast_kind \<Rightarrow> string" where
  "toast_class k = (if k = Toast_error then ''border-error-500/35 bg-error-50 text-error-600 dark:bg-error-500/15 dark:text-error-400''
     else if k = Toast_success then ''border-success-500/35 bg-success-50 text-success-700 dark:bg-success-500/15 dark:text-success-400''
     else ''border-edge/15 bg-surface text-fg'')"

definition toaster_view :: "toaster \<Rightarrow> 'e node" where
  "toaster_view s =
     El T_div [Role ''status'']
       (map (\<lambda>t. El T_div [Key (dec_of_nat (ti_id t)), Class (toast_class (ti_kind t))]
          (El T_p [] [Text (ti_message t)] # opt (ti_detail t \<noteq> []) [El T_p [] [Text (ti_detail t)]])) (to_shown s))"

subsection \<open>App switcher\<close>

datatype switcher_event = Sw_toggle | Sw_org string | Sw_close

text \<open>What the menus do on a press outside and, for the switcher, on Escape; a menu that is closed listens to nothing.\<close>

datatype outside_event = Outside_press | Inside_press | Escape_key

definition switcher_outside :: "outside_event \<Rightarrow> bool \<Rightarrow> bool" where
  "switcher_outside ev is_open = (if \<not> is_open then False else ev = Inside_press)"

definition menu_outside :: "outside_event \<Rightarrow> bool \<Rightarrow> bool" where
  "menu_outside ev is_open = (if \<not> is_open then False else ev \<noteq> Outside_press)"

definition switcher_next :: "switcher_event \<Rightarrow> bool \<Rightarrow> bool" where
  "switcher_next ev is_open = (case ev of Sw_toggle \<Rightarrow> \<not> is_open | _ \<Rightarrow> False)"

definition initials :: "string \<Rightarrow> string" where
  "initials s = map upper_char (take 2 s)"

definition env_badge :: "environment \<Rightarrow> 'e node" where
  "env_badge e = badge (env_tone e) False [Text (env_short e)]"

definition chosen_class :: "bool \<Rightarrow> string" where
  "chosen_class b = (if b then ''text-fg'' else ''text-muted'')"

definition switcher_orgs :: "(switcher_event \<Rightarrow> 'e) \<Rightarrow> organization list \<Rightarrow> organization option \<Rightarrow> 'e node list" where
  "switcher_orgs act os active =
     opt (length os > 1)
       ([El T_p [] [Text ''Organization'']] @
        map (\<lambda>og. El T_button [Key (o_id og), Kind ''button'', On_click (act (Sw_org (o_id og))),
              Class (chosen_class (map_option o_id active = Some (o_id og)))]
            (El T_span [] [Text (o_name og)] # opt (map_option o_id active = Some (o_id og)) [El T_span [] [Text check_mark]])) os @
        [El T_div [] []])"

definition switcher_apps :: "(switcher_event \<Rightarrow> 'e) \<Rightarrow> app list \<Rightarrow> app option \<Rightarrow> 'e node list" where
  "switcher_apps act as active =
     (if as = [] then [El T_p [] [Text ''No apps in this organization yet.'']]
      else map (\<lambda>a. El T_link [Key (a_id a), Href (''/apps/'' @ a_id a), On_click (act Sw_close),
            Class (chosen_class (map_option a_id active = Some (a_id a)))]
          [El T_span [] [Text (a_name a)], env_badge (a_environment a)]) as)"

definition app_switcher :: "(switcher_event \<Rightarrow> 'e) \<Rightarrow> bool \<Rightarrow> app list \<Rightarrow> app option \<Rightarrow> organization list \<Rightarrow> organization option \<Rightarrow> 'e node" where
  "app_switcher act is_open as active os org =
     El T_div []
       (El T_button [Kind ''button'', On_click (act Sw_toggle), Aria_expanded is_open]
          ([El T_span [] [Text (initials (case switcher_name active org of None \<Rightarrow> ''?'' | Some n \<Rightarrow> n))],
            El T_span [] [El T_span [] [Text (switcher_title active org)],
              El T_span [] (case switcher_line active org as of None \<Rightarrow> [] | Some l \<Rightarrow> [Text l])]] @
           (case active of None \<Rightarrow> [] | Some a \<Rightarrow> [env_badge (a_environment a)])) #
        opt is_open
          [El T_div []
             (switcher_orgs act os org @ [El T_p [] [Text ''Apps'']] @ switcher_apps act (org_apps org as) active @
              [El T_div [] [], El T_link [Href ''/apps/new'', On_click (act Sw_close)] [Text ''+ New app'']])])"

subsection \<open>User menu\<close>

datatype menu_event = Me_toggle | Me_close | Me_sign_out | Me_theme theme

definition menu_next :: "menu_event \<Rightarrow> bool \<Rightarrow> bool" where
  "menu_next ev is_open = (case ev of Me_toggle \<Rightarrow> \<not> is_open | Me_theme th \<Rightarrow> is_open | _ \<Rightarrow> False)"

definition user_menu :: "(menu_event \<Rightarrow> 'e) \<Rightarrow> theme \<Rightarrow> bool \<Rightarrow> user option \<Rightarrow> 'e node list" where
  "user_menu act th is_open u = (case u of None \<Rightarrow> []
     | Some usr \<Rightarrow>
       [El T_div []
          ([theme_toggle th (\<lambda>t. act (Me_theme t)),
            El T_button [Kind ''button'', On_click (act Me_toggle), Aria_expanded is_open]
              [El T_span [] [Text (initials (user_label usr))], El T_span [] [Text (user_label usr)]]] @
           opt is_open
             [El T_div []
                [El T_div [] [El T_p [] [Text (user_label usr)], El T_p [] [Text (account_kind usr)]],
                 El T_div [] [],
                 El T_link [Href ''/account'', On_click (act Me_close)] [Text ''Account settings''],
                 El T_link [Href ''/docs'', On_click (act Me_close)] [Text ''Documentation''],
                 El T_div [] [],
                 El T_button [Kind ''button'', On_click (act Me_sign_out)] [Text ''Sign out'']]])])"

subsection \<open>Sidebar and shell\<close>

definition pressed :: "'e option \<Rightarrow> 'e attr list" where
  "pressed h = (case h of None \<Rightarrow> [] | Some x \<Rightarrow> [On_click x])"

definition nav_class :: "bool \<Rightarrow> string" where
  "nav_class active = ''nav-link '' @ (if active then ''nav-link-active'' else [])"

definition nav_entry :: "'e option \<Rightarrow> string \<Rightarrow> nav_item \<Rightarrow> 'e node" where
  "nav_entry leave pathname item =
     El T_link ([Key (nv_href item), Href (nv_href item), Class (nav_class (is_active pathname item))] @ pressed leave) [Text (nv_label item)]"

definition nav_group_view :: "'e option \<Rightarrow> string \<Rightarrow> nav_group \<Rightarrow> 'e node" where
  "nav_group_view leave pathname g =
     El T_div []
       [(case ng_title g of None \<Rightarrow> El T_div [] [] | Some t \<Rightarrow> El T_p [] [Text t]),
        El T_div [] (map (nav_entry leave pathname) (ng_items g))]"

definition sidebar :: "(switcher_event \<Rightarrow> 'e) \<Rightarrow> 'e option \<Rightarrow> bool \<Rightarrow> app list \<Rightarrow> app option \<Rightarrow> organization list \<Rightarrow> organization option \<Rightarrow>
    bool \<Rightarrow> string \<Rightarrow> 'e node" where
  "sidebar act leave switcher_open as active os org is_staff pathname =
     El T_aside []
       [El T_div [] [El T_link [Href ''/''] [El T_span [] [Text ''Signet'']]],
        El T_div [] [app_switcher act switcher_open as active os org],
        El T_nav []
          (opt (active = None)
             [El T_div []
                (map (\<lambda>(href, l, on). El T_link ([Href href, Class (nav_class on)] @ pressed leave) [Text l]) (sidebar_top active pathname))] @
           map (nav_group_view leave pathname) (sidebar_groups active org is_staff)),
        El T_div []
          [El T_link ([Href ''/marketplace''] @ pressed leave) [Text ''Operator marketplace''],
           El T_link ([Href ''/docs''] @ pressed leave) [Text ''Documentation'']]]"

datatype shell_event = Sh_switch switcher_event | Sh_menu menu_event | Sh_open_nav | Sh_close_nav

record shell_state =
  sh_mobile :: bool
  sh_switcher :: bool
  sh_mobile_switcher :: bool
  sh_menu :: bool
  sh_theme :: theme

definition console_header :: "shell_state \<Rightarrow> app option \<Rightarrow> user option \<Rightarrow> shell_event node" where
  "console_header s active u =
     El T_header []
       (El T_div []
          ([El T_button [Kind ''button'', On_click Sh_open_nav, Aria_label ''Open navigation''] []] @
           (case active of None \<Rightarrow> []
            | Some a \<Rightarrow> [El T_div [] [El T_p [] [Text (a_name a)], El T_p [] [Text (header_line a)]]])) #
        user_menu Sh_menu (sh_theme s) (sh_menu s) u)"

definition console_layout :: "shell_state \<Rightarrow> session_status \<Rightarrow> app list query \<Rightarrow> string option \<Rightarrow> organization list \<Rightarrow> organization option \<Rightarrow>
    user option \<Rightarrow> string \<Rightarrow> shell_event node list \<Rightarrow> shell_event node list" where
  "console_layout s status q appId os org u pathname children =
     (let as = shell_apps (q_data q); active = active_app (q_data q) appId;
          staff = (case u of None \<Rightarrow> False | Some usr \<Rightarrow> u_is_staff usr)
      in case shell_view status (q_loading q) (q_data q) of
        Shell_loading \<Rightarrow> [El T_div [] []]
      | Shell_nothing \<Rightarrow> []
      | Shell_frame ready \<Rightarrow>
        [El T_div []
          ([El T_div [] [sidebar Sh_switch None (sh_switcher s) as active os org staff pathname]] @
           opt (sh_mobile s)
             [El T_div []
                [El T_div [On_click Sh_close_nav] [],
                 El T_div [] [sidebar Sh_switch (Some Sh_close_nav) (sh_mobile_switcher s) as active os org staff pathname]]] @
           [El T_div []
              [console_header s active u,
               El T_main []
                 [if ready then El T_div [] children
                  else El T_div [] [skeleton ''h-9 w-64'', skeleton ''h-40 w-full rounded-2xl'']]]])])"

text \<open>A new path closes the navigation on small screens.\<close>

definition path_changed :: "shell_state \<Rightarrow> shell_state" where
  "path_changed s = s\<lparr>sh_mobile := False\<rparr>"

subsection \<open>Notices\<close>

definition session_notice_view :: "'e \<Rightarrow> user option \<Rightarrow> string option \<Rightarrow> jserr option \<Rightarrow> 'e node" where
  "session_notice_view restore u stage err =
     El T_div []
       (callout Tone_warn
          [Text ''No signing key in this tab'',
           info_tip
             [Text ''The key that signs on-chain actions is held in this tab only and is never persisted.'',
              Text (if can_restore_signing_session u
                then '' Your operators can issue it again from the session you already have '' @ em_dash @ '' no wallet prompt.''
                else '' It is bound to the credential you signed in with, so getting it back means signing in again.'')]]
          [(case session_notice u stage of
              Offer_restore enabled l \<Rightarrow> El T_button [Kind ''button'', Disabled (\<not> enabled), On_click restore] [Text l]
            | Offer_sign_in \<Rightarrow> El T_link [Href ''/login''] [Text ''Sign in again''])] #
        error_opt err None)"

text \<open>The notice of a screen's transport; \<open>restore\<close>, the stage and the error belong to the session notice.\<close>

definition transport_notice_view :: "'e \<Rightarrow> user option \<Rightarrow> string option \<Rightarrow> jserr option \<Rightarrow> notice \<Rightarrow> 'e node" where
  "transport_notice_view restore u stage err n = (case n of
     Notice_signet tn minutes ending \<Rightarrow>
       callout tn
         ([Text ''Signed by your Signet key''] @
          (case minutes of None \<Rightarrow> [] | Some m \<Rightarrow> [Text ('' '' @ middle_dot @ '' session expires in ''), Text (dec_of_int m), Text '' min'']) @
          [info_tip
             ([Text ''A quorum of your operators signs the operation and the platform relays it, so nothing opens and no gas leaves your wallet.''] @
              opt ending
                [Text '' '', Text (''The session lasts as long as the Google credential it was proved from and cannot be renewed without signing in again ''
                   @ em_dash @ '' worth doing now rather than partway through something.'')])])
         []
   | Notice_wallet who \<Rightarrow>
       callout Tone_warn
         [Text (''Signed by your wallet '' @ em_dash @ '' ''), Text who,
          info_tip [Text (''This group is managed by an address you hold directly, so the change goes out as an ordinary transaction from that ''
            @ ''account. Your wallet will ask you to confirm it, and you pay the gas. The platform records the result once it is mined.'')]]
         []
   | Notice_session what \<Rightarrow> session_notice_view restore u stage err
   | Notice_refused reason \<Rightarrow> callout Tone_warn [Text ''You cannot change this group''] [Text reason])"

subsection \<open>Site frame\<close>

definition SITE_NAV :: "(string \<times> string) list" where
  "SITE_NAV = [(''/marketplace'', ''Operators''), (''/docs'', ''Docs''), (''/status'', ''Status''), (''/pricing'', ''Pricing'')]"

datatype header_event = He_menu | He_theme theme

definition header_scrolled :: "int \<Rightarrow> bool" where
  "header_scrolled scroll_y \<longleftrightarrow> scroll_y > 8"

definition site_header :: "session_status \<Rightarrow> string \<Rightarrow> bool \<Rightarrow> bool \<Rightarrow> theme \<Rightarrow> header_event node" where
  "site_header status pathname scrolled is_open th =
     El T_header [Class (if scrolled then ''glass border-b hairline'' else [])]
       ([El T_div []
           [El T_link [Href ''/''] [El T_span [] [Text ''Signet'']],
            El T_nav [] (map (\<lambda>(href, l). El T_link [Key href, Href href,
                 Class (if starts_with href pathname then ''text-fg'' else ''text-muted hover:text-fg'')] [Text l]) SITE_NAV),
            El T_div []
              ([theme_toggle th He_theme] @
               (if status = Signed_in then [El T_link [Href ''/apps''] [Text ''Console'']]
                else [El T_link [Href ''/login''] [Text ''Sign in''], El T_link [Href ''/login''] [Text ''Get started'']]) @
               [El T_button [Kind ''button'', On_click He_menu, Aria_label ''Menu'', Aria_expanded is_open] []])]] @
        opt is_open
          [El T_div [] [El T_nav [] (map (\<lambda>(href, l). El T_link [Key href, Href href] [Text l]) SITE_NAV)]])"

record footer_link =
  fk_href :: string
  fk_label :: string
  fk_external :: bool

definition flink :: "string \<Rightarrow> string \<Rightarrow> footer_link" where
  "flink h l = \<lparr>fk_href = h, fk_label = l, fk_external = False\<rparr>"

definition repo_link :: "string \<Rightarrow> footer_link" where
  "repo_link name = \<lparr>fk_href = ''https://github.com/oleary-labs/'' @ name, fk_label = name, fk_external = True\<rparr>"

definition COLUMNS :: "(string \<times> footer_link list) list" where
  "COLUMNS = [(''Platform'', [flink ''/marketplace'' ''Operator marketplace'', flink ''/pricing'' ''Pricing'', flink ''/status'' ''Network status'',
       flink ''/style-guide'' ''Design system'']),
     (''Developers'', [flink ''/docs'' ''Documentation'', flink ''/docs/quickstart'' ''Quickstart'', flink ''/docs/api'' ''Platform API'',
       flink ''/docs/webhooks'' ''Webhooks'']),
     (''Protocol'', [repo_link ''signet-protocol'', repo_link ''signet-sdk'', repo_link ''signet-circuits'', repo_link ''signet-wallet''])]"

definition footer_link_view :: "footer_link \<Rightarrow> 'e node" where
  "footer_link_view l = El T_li [Key (fk_href l)]
     [if fk_external l then El T_a [Href (fk_href l), Target ''_blank'', Rel ''noreferrer''] [Text (fk_label l)]
      else El T_link [Href (fk_href l)] [Text (fk_label l)]]"

definition site_footer :: "int \<Rightarrow> 'e node" where
  "site_footer year =
     El T_footer []
       [El T_div []
          [El T_div []
             (El T_div [] [El T_span [] [Text ''Signet''],
                El T_p [] [Text (''Threshold signing governed by on-chain policy, enforced independently by every operator, '' @
                  ''with no operator ever holding a whole key.'')]] #
              map (\<lambda>(title, ls). El T_div [Key title] [El T_p [] [Text title], El T_ul [] (map footer_link_view ls)]) COLUMNS),
           El T_div []
             [El T_p [] [Text ([CHR 0xC2, CHR 0xA9] @ '' ''), Text (dec_of_int year),
                Text ('' O'' @ right_quote @ ''Leary Labs. Signet is open source.'')],
              El T_p [] [Text (''The trust hierarchy ends here '' @ em_dash @ '' not even with us.'')]]]]"

definition DOCS_NAV :: "(string \<times> (string \<times> string) list) list" where
  "DOCS_NAV = [(''Getting started'', [(''/docs'', ''Overview''), (''/docs/quickstart'', ''Quickstart''), (''/docs/concepts'', ''Core concepts'')]),
     (''Building'', [(''/docs/auth'', ''Authentication''), (''/docs/keys'', ''Keys and signing''), (''/docs/scoped-keys'', ''Scoped sub-keys''),
       (''/docs/session-signers'', ''Session signers'')]),
     (''Platform'', [(''/docs/api'', ''Platform API''), (''/docs/webhooks'', ''Webhooks''), (''/docs/operators'', ''Running a node'')])]"

definition docs_shell :: "string \<Rightarrow> 'e node list \<Rightarrow> 'e node" where
  "docs_shell pathname children =
     El T_div []
       [El T_nav []
          (map (\<lambda>(title, items). El T_div [Key title]
             [El T_p [] [Text title],
              El T_ul [] (map (\<lambda>(href, l). El T_li [Key href]
                [El T_link [Href href, Class (if pathname = href then ''bg-accent-500/[0.12] font-medium text-accent-700 dark:text-accent-300''
                    else ''text-muted hover:bg-fg/[0.05] hover:text-fg'')] [Text l]]) items)]) DOCS_NAV),
        El T_article [] children]"

definition code_block :: "string \<Rightarrow> string \<Rightarrow> 'e node" where
  "code_block title children =
     El T_div [] (opt (title \<noteq> []) [El T_div [] [El T_span [] [Text title]]] @ [El T_pre [] [Text children]])"

definition docs_note :: "bool \<Rightarrow> string \<Rightarrow> 'e node list \<Rightarrow> 'e node" where
  "docs_note warn title children =
     El T_div [Class (if warn then ''border-accent-500/30 bg-accent-500/[0.07]'' else ''border-primary-500/25 bg-primary-500/[0.05]'')]
       (opt (title \<noteq> []) [El T_p [] [Text title]] @ [El T_div [Class (if title \<noteq> [] then ''mt-1'' else [])] children])"

subsection \<open>Links\<close>

lemma attrs_append [view_simps]: "hrefs_of (t, as @ bs) = hrefs_of (t, as) @ hrefs_of (t, bs)" "hrefs_of (t, pressed leave) = []"
    "hrefs_of (t, Href h # pressed leave) = [h]"
  by (cases leave; simp add: attr_reads pressed_def)+

definition dead :: "string list \<Rightarrow> string list" where
  "dead hs = filter (\<lambda>h. \<not> leads h) hs"

lemma dead_simps [simp]: "dead [] = []" "dead (hs @ gs) = dead hs @ dead gs" "dead (h # hs) = (if leads h then [] else [h]) @ dead hs"
    "dead (if b then hs else gs) = (if b then dead hs else dead gs)"
  by (simp_all add: dead_def)

lemma dead_concat: "dead (concat (map f xs)) = concat (map (\<lambda>x. dead (f x)) xs)"
  by (induction xs) simp_all

lemma dead_none: "(\<And>h. h \<in> set hs \<Longrightarrow> leads h) \<Longrightarrow> dead hs = []"
  by (simp add: dead_def filter_empty_conv)

lemma links_to_pages [simp]: "leads ''/''" "leads ''/apps''" "leads ''/apps/new''" "leads ''/marketplace''" "leads ''/docs''" "leads ''/login''"
    "leads ''/account''" "leads ''/staff''" "leads ''/pricing''" "leads ''/status''" "leads ''/style-guide''"
  by code_simp+

lemma footer_leads: "leads ''/docs/quickstart''" "leads ''/docs/api''" "leads ''/docs/webhooks''" "leads ''/docs/concepts''" "leads ''/docs/auth''"
    "leads ''/docs/keys''" "leads ''/docs/scoped-keys''" "leads ''/docs/session-signers''" "leads ''/docs/operators''"
    "leads ''https://github.com/oleary-labs/signet-protocol''" "leads ''https://github.com/oleary-labs/signet-sdk''"
    "leads ''https://github.com/oleary-labs/signet-circuits''" "leads ''https://github.com/oleary-labs/signet-wallet''"
  by code_simp+

lemma nav_links: "links (map (nav_group_view leave p) gs) = map nv_href (nav_items gs)"
proof (induction gs)
  case (Cons g gs)
  have "links (map (nav_entry leave p) items) = map nv_href items" for items
    by (induction items) (simp_all add: nav_entry_def view_simps del: linked.mapped)
  then show ?case using Cons by (cases "ng_title g") (simp_all add: nav_group_view_def nav_items_def view_simps del: linked.mapped)
qed (simp add: nav_items_def view_simps)

definition app_leads :: "string \<Rightarrow> bool" where
  "app_leads s \<longleftrightarrow> s = [] \<or> hd s = CHR ''/'' \<and> list_ex (\<lambda>p. list_all2 fits (tl (tl p)) (segments (path_of (tl s)))) app_pages"

lemma leads_app: "plain_id a \<Longrightarrow> s = [] \<or> hd s = CHR ''/'' \<Longrightarrow> leads (''/apps/'' @ a @ s) \<longleftrightarrow> app_leads s"
  by (cases s) (simp_all add: app_leads_def leads_ids)

lemma dead_entries: "filter (\<lambda>e. \<not> app_leads (nv_href e)) app_entries = [nav_item ''/logs'' ''Activity'']"
    "list_all (\<lambda>e. nv_href e = [] \<or> hd (nv_href e) = CHR ''/'') app_entries"
  by code_simp+

lemma app_nav_dead: "plain_id a \<Longrightarrow> dead (map nv_href (nav_items (app_nav a))) = [''/apps/'' @ a @ ''/logs'']"
proof -
  assume a: "plain_id a"
  have "leads (''/apps/'' @ a @ nv_href e) \<longleftrightarrow> app_leads (nv_href e)" if "e \<in> set app_entries" for e
    using leads_app [OF a] dead_entries(2) that by (simp only: list_all_iff)
  then have "filter (\<lambda>e. \<not> leads (''/apps/'' @ a @ nv_href e)) app_entries = [nav_item ''/logs'' ''Activity'']"
    unfolding dead_entries(1) [symmetric] by (intro filter_cong) simp_all
  then show ?thesis
    unfolding nav_items_under dead_def
    by (simp only: filter_map comp_def under_def map_map nav_item.simps append_assoc) (simp add: nav_item_def)
qed

lemma org_nav_dead: "plain_id g \<Longrightarrow> dead (map nv_href (nav_items (org_nav g))) = []"
  unfolding nav_items_under
  by (rule dead_none) (auto simp: org_entries_def under_def nav_item_def leads_ids segments_def path_of_def)

lemma switcher_dead:
  assumes "\<forall>a \<in> set as. plain_id (a_id a)"
  shows "dead (links [app_switcher act b as active os org]) = []"
proof -
  have "leads (''/apps/'' @ a_id a)" if "a \<in> set (org_apps org as)" for a
    using that assms leads_below(1) by (auto simp: org_apps_def)
  then have "dead (links (switcher_apps act (org_apps org as) active)) = []"
    by (auto simp: switcher_apps_def view_simps env_badge_def intro!: dead_none)
  then show ?thesis
    by (auto simp: app_switcher_def switcher_orgs_def view_simps dead_concat env_badge_def concat_eq_Nil_conv split: option.split)
qed

lemma site_links_dead: "dead (links (user_menu mact th menu_open u)) = []" "dead (links [site_header status pathname scrolled is_open th]) = []"
    "dead (links [site_footer year]) = []" "dead (links [docs_shell pathname []]) = []"
  by (simp add: user_menu_def view_simps theme_toggle_def split: option.split,
      simp add: site_header_def view_simps theme_toggle_def SITE_NAV_def,
      simp add: site_footer_def COLUMNS_def flink_def repo_link_def footer_link_view_def view_simps footer_leads,
      simp add: docs_shell_def DOCS_NAV_def view_simps footer_leads)

subsection \<open>Properties\<close>

text \<open>The theme before the first paint is the chosen one, if the storage answers, and the provider ends on it
  too; but while it mounts it first applies the system's preference, so a chosen theme that differs
  from it is left for a moment.\<close>

lemma theme_flickers:
  "(case script_dark E t m of None \<Rightarrow> e_ls_throws E | Some d \<Rightarrow> d = is_dark (stored_theme E t) m)"
  "last (mount_dark E t m) = is_dark (stored_theme E t) m" "hd (mount_dark E t m) = m"
proof -
  have "map_of theme_names s = Some th \<Longrightarrow> is_dark th m = (s = ''dark'' \<or> s = ''system'' \<and> m)" for s th
    by (auto simp: theme_names_def is_dark_def split: if_splits)
  moreover have "map_of theme_names s = None \<Longrightarrow> \<not> (s = ''dark'' \<or> s = ''system'' \<and> m)" for s
    by (auto simp: theme_names_def split: if_splits)
  ultimately show "(case script_dark E t m of None \<Rightarrow> e_ls_throws E | Some d \<Rightarrow> d = is_dark (stored_theme E t) m)"
    by (auto simp: script_dark_def stored_theme_def Let_def is_dark_def split: option.split)
qed (auto simp: mount_dark_def Let_def is_dark_def)

text \<open>C35: No link of the frames leads nowhere, but one. Of the links of the console's sidebar with its switcher, of
  the user menu, of the site's header and footer and of the documentation's navigation, every one leads
  to a page of the application or out of it, whatever apps and organizations there are; only the
  \<open>Activity\<close> entry of an open app leads to a page the repository does not have.\<close>

theorem frame_links_lead:
  "(if list_all (\<lambda>a. plain_id (a_id a)) as \<and> (case active of None \<Rightarrow> True | Some a \<Rightarrow> plain_id (a_id a)) \<and>
       (case org of None \<Rightarrow> True | Some g \<Rightarrow> plain_id (o_id g))
    then dead (links [sidebar act leave sw as active os org is_staff pathname]) =
      (case active of None \<Rightarrow> [] | Some a \<Rightarrow> [''/apps/'' @ a_id a @ ''/logs'']) else True) \<and>
   dead (links (user_menu mact th menu_open u)) = [] \<and> dead (links [site_header status pathname scrolled is_open th]) = [] \<and>
   dead (links [site_footer year]) = [] \<and> dead (links [docs_shell pathname []]) = []"
proof -
  have "dead (links [sidebar act leave sw as active os org is_staff pathname]) =
      (case active of None \<Rightarrow> [] | Some a \<Rightarrow> [''/apps/'' @ a_id a @ ''/logs''])"
    if "list_all (\<lambda>a. plain_id (a_id a)) as" "case active of None \<Rightarrow> True | Some a \<Rightarrow> plain_id (a_id a)"
      "case org of None \<Rightarrow> True | Some g \<Rightarrow> plain_id (o_id g)"
  proof -
    have "dead (map nv_href (nav_items staff_nav)) = []" by (simp add: nav_items_def staff_nav_def exact_item_def)
    then have "dead (map nv_href (nav_items (sidebar_groups active org is_staff))) =
        (case active of None \<Rightarrow> [] | Some a \<Rightarrow> [''/apps/'' @ a_id a @ ''/logs''])"
      using that(2,3) by (auto simp: sidebar_groups_def nav_items_append app_nav_dead org_nav_dead split: option.splits)
    moreover have "dead (links [app_switcher act sw as active os org]) = []"
      using that(1) by (simp add: switcher_dead list_all_iff)
    ultimately show ?thesis
      by (simp add: sidebar_def view_simps nav_links sidebar_top_def del: linked.mapped)
  qed
  then show ?thesis by (simp only: site_links_dead) simp
qed

end
