(* ===== verification/Views_Trust.thy ===== *)
theory Views_Trust
  imports Frames Configuration
begin

text \<open>
  The trees of the two screens that decide whose credential the operators accept:
  \<open>web/app/(console)/apps/[appId]/credentials/page.tsx\<close> and \<open>\<dots>/configuration/login-methods/page.tsx\<close>, and the form
  around every configuration screen (\<open>web/components/console/SettingsForm.tsx\<close>). The handlers are the
  events of the screen; what they run is in \<open>Trust\<close> and \<open>Configuration\<close>.
\<close>

subsection \<open>Fields\<close>

definition label_for :: "string \<Rightarrow> string \<Rightarrow> 'e node" where
  "label_for i l = El T_label [For_id i] [Text l]"

definition field :: "string \<Rightarrow> string \<Rightarrow> string \<Rightarrow> (string \<Rightarrow> 'e) \<Rightarrow> 'e node" where
  "field i ph v change = El T_input [Ident i, Placeholder ph, Value v, On_change change] []"

definition button :: "'e \<Rightarrow> string \<Rightarrow> 'e node" where
  "button e l = El T_button [Kind ''button'', On_click e] [Text l]"

definition button_if :: "bool \<Rightarrow> 'e \<Rightarrow> string \<Rightarrow> 'e node" where
  "button_if enabled e l = El T_button [Kind ''button'', Disabled (\<not> enabled), On_click e] [Text l]"

lemmas control_defs = label_for_def field_def button_def button_if_def

subsection \<open>Keys and credentials\<close>

text \<open>What the page and its two dialogues keep.\<close>

record credentials_page =
  cr_secret_open :: bool
  cr_key_open :: bool
  cr_revealed :: "(string \<times> string \<times> string) option"
  cr_revoke_error :: "jserr option"
  cr_secret_label :: string
  cr_secret_pending :: bool
  cr_secret_error :: "jserr option"
  cr_key_label :: string
  cr_key_stage :: "string option"
  cr_key_pending :: bool
  cr_key_error :: "jserr option"
  cr_notice_stage :: "string option"
  cr_notice_error :: "jserr option"

datatype credentials_event = Cr_open_key | Cr_close_key | Cr_open_secret | Cr_close_secret | Cr_reload | Cr_revoke credential
  | Cr_secret_label string | Cr_create_secret | Cr_key_label string | Cr_create_key | Cr_saved | Cr_restore

definition has_group :: "group_view option \<Rightarrow> bool" where
  "has_group g = truthy_str (Option.bind g (\<lambda>v. a_group_address (gv_app v)))"

definition auth_key_item :: "credential \<Rightarrow> credentials_event node" where
  "auth_key_item c = (case auth_key_row c of (name, short, tn, status) \<Rightarrow>
     El T_li [Key (c_id c)]
       [El T_div [] [El T_p [] [Text name],
          El T_div [] [Copy_value (case c_public_key c of None \<Rightarrow> [] | Some k \<Rightarrow> k) (Some short) (Some ''Public key'')]],
        El T_div [] [badge tn True [Text status], button (Cr_revoke c) ''Revoke'']])"

definition secret_item :: "intl \<Rightarrow> int \<Rightarrow> credential \<Rightarrow> credentials_event node" where
  "secret_item I now c =
     El T_tr [Key (c_id c)] (map (\<lambda>s. El T_td [] [Text s]) (secret_row I now c) @ [El T_td [] [button (Cr_revoke c) ''Revoke'']])"

definition auth_keys_section :: "credential list query \<Rightarrow> group_view option \<Rightarrow> credentials_event node" where
  "auth_keys_section q g =
     section_card ''Authorization keys'' [] [button_if (has_group g) Cr_open_key ''Generate a key'']
       (error_opt (q_error q) (Some Cr_reload) @
        [if q_loading q then skeleton_rows 2
         else if auth_keys (q_data q) = [] then
           empty_state ''No authorization keys'' [] [button_if (has_group g) Cr_open_key ''Generate a key''] []
         else El T_ul [] (map auth_key_item (auth_keys (q_data q)))])"

definition secrets_section :: "intl \<Rightarrow> int \<Rightarrow> credential list query \<Rightarrow> credentials_event node" where
  "secrets_section I now q =
     section_card ''Application secrets'' [] [button Cr_open_secret ''New secret'']
       [if q_loading q then skeleton_rows 2
        else if app_secrets (q_data q) = [] then empty_state ''No application secrets'' [] [] []
        else El T_div [] [El T_table []
          [El T_thead [] [El T_tr [] (map (\<lambda>s. El T_th [] [Text s]) [''Label'', ''Secret'', ''Created'', ''Last used'', []])],
           El T_tbody [] (map (secret_item I now) (app_secrets (q_data q)))]]]"

definition new_secret_modal :: "credentials_page \<Rightarrow> credentials_event node list" where
  "new_secret_modal s =
     modal (cr_secret_open s) Cr_close_secret ''New application secret'' []
       [Text ''A bearer credential for the platform API. It cannot authorize anything on your signing group.'']
       (error_opt (cr_secret_error s) None @
        [label_for ''secret-label'' ''Label'', field ''secret-label'' ''CI pipeline'' (cr_secret_label s) Cr_secret_label])
       [button Cr_close_secret ''Cancel'',
        button_if (\<not> cr_secret_pending s) Cr_create_secret (if cr_secret_pending s then ''Creating'' @ ellipsis else ''Create secret'')]
       False"

definition new_key_modal :: "credentials_page \<Rightarrow> transport \<Rightarrow> credentials_event node list" where
  "new_key_modal s tr =
     modal (cr_key_open s) Cr_close_key ''Generate an authorization key'' []
       [Text (''The keypair is created here, in your browser. The public half goes on-chain so your operators trust it; the private half is '' @
          ''shown once and never sent anywhere.'')]
       (error_opt (cr_key_error s) None @
        (case tr of T_none reason \<Rightarrow>
            [callout Tone_warn
               [Text ''This session cannot write to the chain'',
                info_tip [Text ''Registering the key is an on-chain call, and neither route is open to you here:'', Text '' '', Text reason,
                  Text '' Add the key from your own tooling and record its public half here afterwards.'']] []]
          | _ \<Rightarrow> []) @
        [label_for ''key-label'' ''Label'', field ''key-label'' ''Backend service'' (cr_key_label s) Cr_key_label])
       [button_if (\<not> cr_key_pending s) Cr_close_key ''Cancel'',
        button_if (generate_enabled (cr_key_pending s) tr) Cr_create_key
          (if cr_key_pending s then (case cr_key_stage s of None \<Rightarrow> ''Working'' @ ellipsis | Some st \<Rightarrow> st) else ''Generate and register'')]
       False"

definition revealed_modal :: "(string \<times> string \<times> string) option \<Rightarrow> credentials_event node list" where
  "revealed_modal r = (let (title, v, note) = (case r of None \<Rightarrow> ([], [], []) | Some x \<Rightarrow> x) in
     modal (r \<noteq> None) Cr_saved title [Text ''Shown once.''] []
       [El T_div [] [Copy_value v None None], El T_p [] [Text note]]
       [button Cr_saved ''I have saved it''] False)"

definition credentials_view :: "intl \<Rightarrow> int \<Rightarrow> credentials_page \<Rightarrow> credential list query \<Rightarrow> group_view option \<Rightarrow> transport \<Rightarrow>
    int option \<Rightarrow> user option \<Rightarrow> credentials_event node list" where
  "credentials_view I now s q g tr minutes u =
     [page_header ''Keys & credentials'' [Text (''An authorization key is registered with your operators when you add it and removed when you '' @
        ''revoke it. App secrets live only here.'')] [] []] @
     opt (Option.bind g gv_onchain \<noteq> None)
       [transport_notice_view Cr_restore u (cr_notice_stage s) (cr_notice_error s)
          (transport_notice tr minutes ''register a key with your group'')] @
     (case cr_revoke_error s of None \<Rightarrow> [] | Some e \<Rightarrow> [El T_div [] [error_view e None]]) @
     [El T_div [] [auth_keys_section q g, secrets_section I now q]] @
     new_secret_modal s @ new_key_modal s tr @ revealed_modal (cr_revealed s)"

subsection \<open>The form of a configuration screen\<close>

datatype 'c form_event = Fm_control 'c | Fm_submit | Fm_reload

definition settings_form_view :: "('c form_event \<Rightarrow> 'e) \<Rightarrow> (json \<Rightarrow> ('c \<Rightarrow> 'e) \<Rightarrow> 'e node list) \<Rightarrow> settings_form \<Rightarrow> 'e node list" where
  "settings_form_view act children f = (case sf_load_error f of
     Some e \<Rightarrow> [error_view e (Some (act Fm_reload))]
   | None \<Rightarrow>
     [El T_form [On_event ''submit'' (act Fm_submit)]
        (children (sf_value f) (\<lambda>c. act (Fm_control c)) @ error_opt (sf_error f) None @
         [El T_div []
            (El T_button [Kind ''submit'', Disabled (\<not> save_enabled f)] [Text (save_label f)] #
             opt (sf_dirty f) [El T_span [] [Text ''You have unsaved changes.'']])])])"

subsection \<open>Login methods\<close>

record login_page =
  lp_add_open :: bool
  lp_busy :: "string option"
  lp_remove_error :: "jserr option"
  lp_issuer :: string
  lp_clients :: string
  lp_stage :: "string option"
  lp_pending :: bool
  lp_error :: "jserr option"

datatype login_event = Lp_open | Lp_close | Lp_reload | Lp_remove string string | Lp_issuer string | Lp_clients string | Lp_save
  | Lp_form "login_control form_event"

definition issuer_item :: "string option \<Rightarrow> issuer \<Rightarrow> login_event node" where
  "issuer_item busy i = (case issuer_row i of (name, addr, line, tn, status) \<Rightarrow>
     El T_li [Key (i_id i)]
       [El T_div [] [El T_p [] [Text name], El T_p [] [Text addr], El T_p [] [Text line]],
        El T_div [] [badge tn True [Text status],
          button_if (busy \<noteq> Some (i_id i)) (Lp_remove (i_id i) (i_issuer i)) (if busy = Some (i_id i) then ''Removing'' @ ellipsis else ''Remove'')]])"

definition no_issuers :: "login_event node" where
  "no_issuers = callout Tone_warn
     [Text ''No issuers configured'',
      info_tip [Text (''Without a trusted issuer your users cannot open a session at all. Add the OAuth provider they will sign in with.'')]] []"

definition issuers_section :: "login_page \<Rightarrow> issuer list query \<Rightarrow> login_event node" where
  "issuers_section s q =
     section_card ''Trusted issuers'' [] [button Lp_open ''Add an issuer'']
       (error_opt (q_error q) (Some Lp_reload) @ error_opt (lp_remove_error s) None @
        [if q_loading q then skeleton_rows 2
         else (case q_data q of
             None \<Rightarrow> no_issuers | Some [] \<Rightarrow> no_issuers | Some is \<Rightarrow> El T_ul [] (map (issuer_item (lp_busy s)) is))])"

definition method_toggle :: "json \<Rightarrow> (login_control \<Rightarrow> login_event) \<Rightarrow> string \<times> string \<Rightarrow> login_event node" where
  "method_toggle v set_value m = toggle_view (flag_of False (fst m) v) (\<lambda>on. set_value (Method_toggle (fst m) on)) [Text (snd m)] [] False"

definition login_children :: "json \<Rightarrow> (login_control \<Rightarrow> login_event) \<Rightarrow> login_event node list" where
  "login_children v set_value =
     [section_card ''Enforced by your operators'' [] [] [El T_div [] (map (method_toggle v set_value) CHAIN_ENFORCED)],
      section_card ''Offered in your login modal'' [] []
        [El T_div [] (map (method_toggle v set_value) CLIENT_METHODS),
         callout Tone_warn
           [Text ''Not all of these are enforceable yet'',
            info_tip [Text (''Email and SMS codes, passkeys, Farcaster, Telegram, and guest accounts need an issuer the protocol can verify in '' @
              ''zero knowledge '' @ em_dash @ '' today, an OIDC provider with an RSA-2048 JWKS. Enabling one records your intent and drives your '' @
              ''own login UI; it does not make the nodes accept a credential they cannot verify. See FEATURE_EXPANSION.md for what each one needs.'')]] []]]"

definition save_issuer_label :: "bool \<Rightarrow> (string \<Rightarrow> string) \<Rightarrow> string option \<Rightarrow> string" where
  "save_issuer_label pending copy stage = (if pending
     then (if truthy_str stage then copy (the stage) @ ellipsis else ''Saving'' @ ellipsis) else ''Save issuer'')"

definition add_issuer_modal :: "(string \<Rightarrow> string) \<Rightarrow> login_page \<Rightarrow> login_event node list" where
  "add_issuer_modal copy s =
     modal (lp_add_open s) Lp_close ''Add a trusted issuer'' []
       [Text ''The issuer URL exactly as it appears in the `iss` claim of the tokens your users will present.'']
       (error_opt (lp_error s) None @
        [label_for ''issuer'' ''Issuer URL'', field ''issuer'' ''https://accounts.google.com'' (lp_issuer s) Lp_issuer,
         label_for ''clients'' ''Allowed client IDs'', field ''clients'' ''123-abc.apps.googleusercontent.com'' (lp_clients s) Lp_clients])
       [button Lp_close ''Cancel'',
        button_if (save_issuer_enabled (lp_pending s) (lp_issuer s)) Lp_save (save_issuer_label (lp_pending s) copy (lp_stage s))]
       False"

definition login_methods_view :: "(string \<Rightarrow> string) \<Rightarrow> login_page \<Rightarrow> issuer list query \<Rightarrow> settings_form \<Rightarrow> login_event node list" where
  "login_methods_view copy s q f =
     [page_header ''Login methods'' [Text (''An empty client-ID list accepts any client from that issuer. A list containing an empty string '' @
        ''matches nothing '' @ em_dash @ '' narrow it to your own OAuth client before launch.'')] [] [],
      El T_div [] (issuers_section s q # settings_form_view Lp_form login_children f)] @
     add_issuer_modal copy s"

subsection \<open>What the screens offer\<close>

lemma controls [view_simps]:
  "read_node clicks (button e l) = [e]" "read_node clicks (button_if b e l) = (if b then [e] else [])"
  "read_node clicks (label_for i l) = []" "read_node clicks (field i ph v c) = []"
  "read_node edits_of (button e l) = []" "read_node edits_of (button_if b e l) = []"
  "read_node edits_of (label_for i l) = []" "read_node edits_of (field i ph v c) = [c]"
  by (simp_all add: control_defs view_simps)

lemma control_ids [view_simps]:
  "read_node ids_of (button e l) = []" "read_node ids_of (button_if b e l) = []"
  "read_node ids_of (label_for i l) = []" "read_node ids_of (field i ph v c) = [i]"
  "read_node fors_of (button e l) = []" "read_node fors_of (button_if b e l) = []"
  "read_node fors_of (label_for i l) = [i]" "read_node fors_of (field i ph v c) = []"
  by (simp_all add: control_defs view_simps)

lemma control_rest [view_simps]:
  "read_node checks_of (button e l) = []" "read_node checks_of (button_if b e l) = []"
  "read_node checks_of (label_for i l) = []" "read_node checks_of (field i ph v c) = []"
  "read_node hrefs_of (button e l) = []" "read_node hrefs_of (button_if b e l) = []"
  "read_node hrefs_of (label_for i l) = []" "read_node hrefs_of (field i ph v c) = []"
  "read_node copies_of (button e l) = []" "read_node copies_of (button_if b e l) = []"
  "read_node copies_of (label_for i l) = []" "read_node copies_of (field i ph v c) = []"
  by (simp_all add: control_defs view_simps)

lemma controls_ok [parts]: "node_ok (button e l)" "node_ok (button_if b e l)" "node_ok (label_for i l)" "node_ok (field i ph v c)"
  by (simp_all add: control_defs parts)

lemma errors [view_simps]: "offers (error_opt e None) = []" "offers (error_opt e (Some y)) = (if e = None then [] else [y])"
    "edits (error_opt e r) = []" "checks (error_opt e r) = []" "links (error_opt e r) = []" "ids (error_opt e r) = []"
    "label_targets (error_opt e r) = []" "copies (error_opt e r) = []"
  by (cases r; simp add: error_opt_def view_simps split: option.split)+

lemma errors_ok [parts]: "parts_ok (error_opt e r)"
  by (simp add: error_opt_def parts split: option.splits)

lemma notice_read [view_simps]: "read_node clicks (transport_notice_view restore u stage err n) =
    (case n of Notice_session what \<Rightarrow> if can_restore_signing_session u \<and> stage = None then [restore] else [] | _ \<Rightarrow> [])"
  "read_node edits_of (transport_notice_view restore u stage err n) = []" "read_node checks_of (transport_notice_view restore u stage err n) = []"
  "read_node ids_of (transport_notice_view restore u stage err n) = []" "read_node fors_of (transport_notice_view restore u stage err n) = []"
  "read_node copies_of (transport_notice_view restore u stage err n) = []"
  by (auto simp: transport_notice_view_def session_notice_view_def session_notice_def view_simps split: notice.splits option.splits)

lemma notice_ok [parts]: "node_ok (transport_notice_view restore u stage err n)"
  by (auto simp: transport_notice_view_def session_notice_view_def session_notice_def parts split: notice.splits option.splits)

lemma concat_const [simp]: "concat (map (\<lambda>x. []) xs) = []"
  by (induction xs) simp_all

lemma concat_singles: "concat (map (\<lambda>x. [f x]) xs) = map f xs"
  by (induction xs) simp_all

definition public_key_of :: "credential \<Rightarrow> string" where
  "public_key_of c = (case c_public_key c of None \<Rightarrow> [] | Some k \<Rightarrow> k)"

lemma credential_items: "read_node clicks (auth_key_item c) = [Cr_revoke c]" "read_node copies_of (auth_key_item c) = [public_key_of c]"
    "read_node clicks (secret_item I now c) = [Cr_revoke c]" "read_node copies_of (secret_item I now c) = []"
  by (simp_all add: auth_key_item_def auth_key_row_def secret_item_def secret_row_def public_key_of_def view_simps)

lemma credential_sections:
  "read_node clicks (auth_keys_section q g) = (if has_group g then [Cr_open_key] else []) @ (if q_error q = None then [] else [Cr_reload]) @
     (if q_loading q then [] else if auth_keys (q_data q) = [] then (if has_group g then [Cr_open_key] else [])
      else map Cr_revoke (auth_keys (q_data q)))"
  "read_node copies_of (auth_keys_section q g) = (if q_loading q then [] else map public_key_of (auth_keys (q_data q)))"
  "read_node clicks (secrets_section I now q) = Cr_open_secret # (if q_loading q then [] else map Cr_revoke (app_secrets (q_data q)))"
  "read_node copies_of (secrets_section I now q) = []"
  by (simp_all add: auth_keys_section_def secrets_section_def view_simps credential_items concat_singles)

lemma credential_modals:
  "offers (new_secret_modal s) = (if cr_secret_open s then [Cr_close_secret, Cr_close_secret] @ (if cr_secret_pending s then [] else [Cr_create_secret]) else [])"
  "offers (new_key_modal s tr) = (if cr_key_open s then [Cr_close_key] @ (if cr_key_pending s then [] else [Cr_close_key]) @
     (if generate_enabled (cr_key_pending s) tr then [Cr_create_key] else []) else [])"
  "offers (revealed_modal r) = (if r = None then [] else [Cr_saved, Cr_saved])"
  "copies (new_secret_modal s) = []" "copies (new_key_modal s tr) = []"
  "copies (revealed_modal r) = (case r of None \<Rightarrow> [] | Some (title, v, note) \<Rightarrow> [v])"
  by (simp_all add: new_secret_modal_def new_key_modal_def revealed_modal_def view_simps split: option.splits transport.split prod.split)

lemma toggles_read: "checks (map (method_toggle v f) ms) = map (\<lambda>m on. f (Method_toggle (fst m) on)) ms"
    "offers (map (method_toggle v f) ms) = []" "edits (map (method_toggle v f) ms) = []"
  by (induction ms) (simp_all add: method_toggle_def view_simps del: checked.mapped offered.mapped edited.mapped)

lemma login_children_read: "checks (login_children v f) = map (\<lambda>m on. f (Method_toggle (fst m) on)) (CHAIN_ENFORCED @ CLIENT_METHODS)"
    "offers (login_children v f) = []"
  by (simp_all add: login_children_def view_simps toggles_read del: checked.mapped offered.mapped)

lemma form_read:
  "checks (settings_form_view act children f) = (if form_shown f then checks (children (sf_value f) (\<lambda>c. act (Fm_control c))) else [])"
  "edits (settings_form_view act children f) = (if form_shown f then edits (children (sf_value f) (\<lambda>c. act (Fm_control c))) else [])"
  "offers (settings_form_view act children f) = (if form_shown f then offers (children (sf_value f) (\<lambda>c. act (Fm_control c))) else [act Fm_reload])"
  by (auto simp: settings_form_view_def form_shown_def view_simps split: option.splits)

lemma issuer_item_read: "read_node clicks (issuer_item busy i) = (if busy = Some (i_id i) then [] else [Lp_remove (i_id i) (i_issuer i)])"
    "read_node checks_of (issuer_item busy i) = []"
  by (simp_all add: issuer_item_def issuer_row_def view_simps)

lemma issuers_read: "read_node clicks (issuers_section s q) = Lp_open # (if q_error q = None then [] else [Lp_reload]) @
     (if q_loading q then [] else concat (map (\<lambda>i. if lp_busy s = Some (i_id i) then [] else [Lp_remove (i_id i) (i_issuer i)])
        (case q_data q of None \<Rightarrow> [] | Some is \<Rightarrow> is)))" "read_node checks_of (issuers_section s q) = []"
  by (auto simp: issuers_section_def no_issuers_def view_simps issuer_item_read split: option.split list.split)

lemma add_issuer_read: "checks (add_issuer_modal copy s) = []"
    "offers (add_issuer_modal copy s) = (if lp_add_open s then [Lp_close, Lp_close] @
       (if save_issuer_enabled (lp_pending s) (lp_issuer s) then [Lp_save] else []) else [])"
  by (simp_all add: add_issuer_modal_def view_simps)

subsection \<open>Soundness\<close>

lemma credential_items_ok [parts]: "node_ok (auth_key_item c)" "node_ok (secret_item I now c)"
  by (simp_all add: auth_key_item_def auth_key_row_def secret_item_def parts)

lemma credential_sections_ok [parts]: "node_ok (auth_keys_section q g)" "node_ok (secrets_section I now q)"
  by (simp_all add: auth_keys_section_def secrets_section_def parts)

lemma credential_modals_ok [parts]: "parts_ok (new_secret_modal s)" "parts_ok (new_key_modal s tr)" "parts_ok (revealed_modal r)"
  by (simp_all add: new_secret_modal_def new_key_modal_def revealed_modal_def parts split: transport.split prod.split)

lemma credential_fields: "read_node fors_of (auth_keys_section q g) = []" "read_node fors_of (secrets_section I now q) = []"
    "label_targets (new_secret_modal s) = ids (new_secret_modal s)" "label_targets (new_key_modal s tr) = ids (new_key_modal s tr)"
    "label_targets (revealed_modal r) = []"
  by (simp_all add: auth_keys_section_def secrets_section_def auth_key_item_def auth_key_row_def secret_item_def
      new_secret_modal_def new_key_modal_def revealed_modal_def view_simps split: transport.split prod.split)

lemma credentials_sound: "sound_view (credentials_view I now s q g tr minutes u)"
  by (rule sound_viewI; simp add: credentials_view_def parts view_simps credential_fields split: option.split; blast)

lemma login_sections_ok [parts]: "node_ok (issuer_item busy i)" "node_ok (issuers_section s q)" "parts_ok (login_children v f)"
    "parts_ok (add_issuer_modal copy s)"
  by (simp_all add: issuer_item_def issuer_row_def issuers_section_def no_issuers_def login_children_def method_toggle_def add_issuer_modal_def
      parts split: option.split list.split)

lemma settings_form_ok_view [parts]: "parts_ok (settings_form_view act children f) \<longleftrightarrow> (if form_shown f then parts_ok (children (sf_value f) (\<lambda>c. act (Fm_control c))) else True)"
  by (auto simp: settings_form_view_def form_shown_def parts split: option.splits)

lemma form_fields: "ids (settings_form_view act children f) = (if form_shown f then ids (children (sf_value f) (\<lambda>c. act (Fm_control c))) else [])"
    "label_targets (settings_form_view act children f) = (if form_shown f then label_targets (children (sf_value f) (\<lambda>c. act (Fm_control c))) else [])"
  by (auto simp: settings_form_view_def form_shown_def view_simps split: option.splits)

lemma login_fields: "read_node fors_of (issuers_section s q) = []" "label_targets (login_children v f) = []"
    "label_targets (add_issuer_modal copy s) = ids (add_issuer_modal copy s)"
  by (simp_all add: issuers_section_def issuer_item_def issuer_row_def no_issuers_def login_children_def method_toggle_def add_issuer_modal_def
      view_simps split: option.split list.split)

lemma login_methods_sound: "sound_view (login_methods_view copy s q f)"
  by (rule sound_viewI; simp add: login_methods_view_def parts view_simps login_fields form_fields; blast)

subsection \<open>Properties\<close>

text \<open>What the screen of keys and secrets offers and hands out. A key can be asked for only if the app has a
  group, and registered only if the dialogue is open, no registration is under way and the group can be
  changed; every credential listed can be revoked, and nothing else; and the copy buttons hold the
  public keys and, while it is revealed, the one secret just made, never what the platform keeps.
  While a registration is under way \<open>Cancel\<close> is disabled, but a press beside the dialogue still closes it.\<close>

theorem credentials_screen:
  "let v = credentials_view I now s q g tr minutes u in
     (Cr_open_key \<in> set (offers v) \<longleftrightarrow> has_group g) \<and>
     (Cr_create_key \<in> set (offers v) \<longleftrightarrow> cr_key_open s \<and> generate_enabled (cr_key_pending s) tr) \<and>
     (Cr_create_secret \<in> set (offers v) \<longleftrightarrow> cr_secret_open s \<and> \<not> cr_secret_pending s) \<and>
     {c. Cr_revoke c \<in> set (offers v)} = (if q_loading q then {} else set (auth_keys (q_data q)) \<union> set (app_secrets (q_data q))) \<and>
     (Cr_close_key \<in> set (offers v) \<longleftrightarrow> cr_key_open s) \<and>
     copies v = (if q_loading q then [] else map public_key_of (auth_keys (q_data q))) @
       (case cr_revealed s of None \<Rightarrow> [] | Some (title, secret, note) \<Rightarrow> [secret])"
proof -
  obtain N where n: "offers (opt (Option.bind g gv_onchain \<noteq> None) [transport_notice_view Cr_restore u (cr_notice_stage s) (cr_notice_error s)
      (transport_notice tr minutes ''register a key with your group'')]) = N" "set N \<subseteq> {Cr_restore}"
    by (rule that [OF refl]) (auto simp: view_simps split: notice.splits)
  have o: "offers (credentials_view I now s q g tr minutes u) = N @ read_node clicks (auth_keys_section q g) @ read_node clicks (secrets_section I now q) @
      offers (new_secret_modal s) @ offers (new_key_modal s tr) @ offers (revealed_modal (cr_revealed s))"
    unfolding credentials_view_def offered.append n(1) by (simp add: view_simps split: option.split)
  have c: "copies (credentials_view I now s q g tr minutes u) = read_node copies_of (auth_keys_section q g) @ copies (revealed_modal (cr_revealed s))"
    unfolding credentials_view_def by (simp add: view_simps credential_sections credential_modals split: option.split)
  show ?thesis
    unfolding Let_def o c credential_sections credential_modals using n(2)
    by (intro conjI; (auto; fail | auto split: option.splits; fail))
qed

text \<open>What the screen of login methods offers. Its switches, once the form is shown, are one for each method,
  and flipping one is exactly what the model of the form allows; an issuer can be removed unless its
  removal is under way, and added only from the open dialogue with an address typed.\<close>

theorem login_methods_screen:
  "let v = login_methods_view copy s q f in
     checks v = (if form_shown f then map (\<lambda>m on. Lp_form (Fm_control (Method_toggle (fst m) on))) (CHAIN_ENFORCED @ CLIENT_METHODS) else []) \<and>
     {c. login_offers (sf_value f) c} = (\<lambda>m. Method_toggle (fst m) (\<not> flag_of False (fst m) (sf_value f))) ` set (CHAIN_ENFORCED @ CLIENT_METHODS) \<and>
     {(i, u). Lp_remove i u \<in> set (offers v)} = (if q_loading q then {} else
       {(i_id i, i_issuer i) | i. i \<in> set (case q_data q of None \<Rightarrow> [] | Some is \<Rightarrow> is) \<and> lp_busy s \<noteq> Some (i_id i)}) \<and>
     (Lp_save \<in> set (offers v) \<longleftrightarrow> lp_add_open s \<and> save_issuer_enabled (lp_pending s) (lp_issuer s))"
proof -
  have c: "checks (login_methods_view copy s q f) = (if form_shown f
      then map (\<lambda>m on. Lp_form (Fm_control (Method_toggle (fst m) on))) (CHAIN_ENFORCED @ CLIENT_METHODS) else [])"
    unfolding login_methods_view_def checked.append
    by (simp add: view_simps add_issuer_read issuers_read form_read login_children_read)
  have o: "offers (login_methods_view copy s q f) = read_node clicks (issuers_section s q) @ (if form_shown f then [] else [Lp_form Fm_reload]) @
      offers (add_issuer_modal copy s)"
    unfolding login_methods_view_def offered.append
    by (simp add: view_simps form_read login_children_read)
  show ?thesis
    unfolding Let_def c o issuers_read add_issuer_read
    by (intro conjI, blast, auto simp: login_offers_def split: login_control.splits if_splits) force+
qed

end
