(* ===== verification/Views_Hooks.thy ===== *)
theory Views_Hooks
  imports Views_Trust
begin

text \<open>
  The trees of the webhooks and the domains page
  (\<open>web/app/(console)/apps/[appId]/settings/webhooks/page.tsx\<close>, \<open>\<dots>/settings/domains/page.tsx\<close>). The operations their
  events run are in \<open>Webhooks\<close>.
\<close>

subsection \<open>The webhooks page\<close>

datatype webhooks_event = Wh_open | Wh_close | Wh_reload | Wh_inspect webhook | Wh_test string | Wh_remove string | Wh_url string
  | Wh_event string bool | Wh_create | Wh_saved | Wh_close_deliveries

definition webhook_item :: "webhook \<Rightarrow> webhooks_event node" where
  "webhook_item h =
     El T_li [Key (wh_id h)]
       [El T_div []
          [El T_div []
             [El T_div [] [El T_p [] [Text (wh_url h)],
                badge (if wh_enabled h then Tone_success else Tone_neutral) True [Text (if wh_enabled h then ''enabled'' else ''disabled'')]],
              El T_p [] [Text (subscription_text h)]],
           El T_div [] [button (Wh_inspect h) ''Deliveries'', button (Wh_test (wh_id h)) ''Send test'', button (Wh_remove (wh_id h)) ''Delete'']]]"

definition webhooks_section :: "webhook list query \<Rightarrow> webhooks_event node" where
  "webhooks_section q =
     section_card [] [] []
       (error_opt (q_error q) (Some Wh_reload) @
        [if q_loading q then skeleton_rows 2
         else if (case q_data q of None \<Rightarrow> True | Some hs \<Rightarrow> hs = []) then
           empty_state ''No endpoints yet'' [] [button Wh_open ''Add endpoint''] []
         else El T_ul [] (map webhook_item (the (q_data q)))])"

text \<open>The receiver the page prints, line by line; \<open>verify_delivery\<close> is its meaning.\<close>

definition verify_ts :: "string list" where
  "verify_ts = [
     ''import { createHmac, timingSafeEqual } from \"node:crypto\";'',
     '''',
     ''export function verify(secret: string, headers: Headers, rawBody: string) {'',
     ''  const timestamp = headers.get(\"signet-timestamp\") ?? \"\";'',
     ''  const signature = headers.get(\"signet-signature\") ?? \"\";'',
     '''',
     ''  // Reject stale deliveries outright '' @ em_dash @ '' the timestamp is signed, but an'',
     ''  // attacker can still resend a genuine old one.'',
     ''  const age = Math.abs(Date.now() / 1000 - Number(timestamp));'',
     ''  if (!timestamp || age > 300) return false;'',
     '''',
     ''  const mac = createHmac(\"sha256\", secret);'',
     ''  mac.update(timestamp);'',
     ''  mac.update(\".\");'',
     ''  mac.update(rawBody);'',
     ''  const expected = `v1=${mac.digest(\"hex\")}`;'',
     '''',
     ''  const a = Buffer.from(expected);'',
     ''  const b = Buffer.from(signature);'',
     ''  return a.length === b.length && timingSafeEqual(a, b);'',
     ''}'']"

definition verifying_section :: "webhooks_event node" where
  "verifying_section =
     section_card ''Verifying a delivery'' [] []
       [El T_p [] [Text ''Every request carries '', El T_code [] [Text ''Signet-Timestamp''], Text '' and '', El T_code [] [Text ''Signet-Signature''],
          Text (''. The signature covers the timestamp and the body together, so a captured delivery cannot be replayed later with a fresh '' @
            ''timestamp. Compare it in constant time, and reject anything older than a few minutes.'')],
        El T_div [] [El T_div [] [El T_span [] [Text ''verify.ts'']],
          El T_pre [] [Text (join_with [CHR 0x0A] verify_ts)]]]"

definition event_box :: "string list \<Rightarrow> string \<Rightarrow> webhooks_event node" where
  "event_box selected e =
     El T_label [Key e]
       [El T_input [Kind ''checkbox'', Checked (e \<in> set selected), On_check (Wh_event e)] [], El T_span [] [Text e]]"

definition new_webhook_modal :: "bool \<Rightarrow> string list \<Rightarrow> string \<Rightarrow> string list \<Rightarrow> bool \<Rightarrow> jserr option \<Rightarrow> webhooks_event node list" where
  "new_webhook_modal is_open events u selected pending err =
     modal is_open Wh_close ''Add a webhook endpoint'' [] []
       (error_opt err None @
        [label_for ''url'' ''Endpoint URL'', field ''url'' ''https://api.acme.dev/webhooks/signet'' u Wh_url,
         El T_div []
           [El T_span [] [Text ''Events''],
            El T_p [] [Text ''Leave everything unselected to receive all events, including any added later.''],
            El T_div [] (map (event_box selected) events)]])
       [button Wh_close ''Cancel'',
        button_if (create_webhook_enabled pending u) Wh_create (if pending then ''Creating'' @ ellipsis else ''Create endpoint'')]
       True"

definition secret_modal :: "string option \<Rightarrow> webhooks_event node list" where
  "secret_modal secret =
     modal (secret \<noteq> None) Wh_saved ''Signing secret''
       [Text ''Shown once. Store it wherever your endpoint reads its configuration from.''] []
       [El T_div [] [Copy_value (case secret of None \<Rightarrow> [] | Some s \<Rightarrow> s) None None]]
       [button Wh_saved ''I have saved it''] False"

definition delivery_item :: "intl \<Rightarrow> int \<Rightarrow> delivery \<Rightarrow> webhooks_event node" where
  "delivery_item I now d = (case delivery_row I now d of (ev, tn, status, took, ago) \<Rightarrow>
     El T_tr [Key (dl_id d)]
       [El T_td [] [Text ev],
        El T_td [] [if truthy_str (dl_error d) then El T_span [Title (the (dl_error d))] [badge tn False [Text status]]
                    else badge tn False [Text status]],
        El T_td [] [Text took],
        El T_td [Title (format_date_time I (Some (dl_created_at d)))] [Text ago]])"

definition no_deliveries :: "webhooks_event node" where
  "no_deliveries = empty_state ''No deliveries yet'' [] [] []"

definition deliveries_body :: "intl \<Rightarrow> int \<Rightarrow> delivery list query \<Rightarrow> webhooks_event node" where
  "deliveries_body I now q =
     (if q_loading q then skeleton_rows 4
      else if (case q_data q of None \<Rightarrow> True | Some ds \<Rightarrow> ds = []) then no_deliveries
      else El T_div [] [El T_table []
        [El T_thead [] [El T_tr [] (map (\<lambda>s. El T_th [] [Text s]) [''Event'', ''Result'', ''Took'', ''When''])],
         El T_tbody [] (map (delivery_item I now) (the (q_data q)))]])"

definition deliveries_modal :: "intl \<Rightarrow> int \<Rightarrow> webhook option \<Rightarrow> delivery list query \<Rightarrow> webhooks_event node list" where
  "deliveries_modal I now w q = (case w of None \<Rightarrow> [] | Some h \<Rightarrow>
     modal True Wh_close_deliveries ''Recent deliveries'' [Text (wh_url h)] []
       [deliveries_body I now q,
        callout Tone_neutral
          [Text ''Deliveries are not retried'',
           info_tip [Text ''A failed delivery is recorded and left alone. Reconcile against the API for anything you cannot miss.'']] []]
       [] True)"

definition webhooks_view :: "intl \<Rightarrow> int \<Rightarrow> 't webhooks_tab_scheme \<Rightarrow> webhook list query \<Rightarrow> string list \<Rightarrow> bool \<Rightarrow> jserr option \<Rightarrow>
    webhook option \<Rightarrow> delivery list query \<Rightarrow> webhooks_event node list" where
  "webhooks_view I now t q events pending err inspecting deliveries =
     [page_header ''Webhooks'' [] [button Wh_open ''Add endpoint''] [], webhooks_section q, El T_div [] [verifying_section]] @
     new_webhook_modal (wt_open t) events (wt_url t) (wt_selected t) pending err @ secret_modal (wt_secret t) @
     deliveries_modal I now inspecting deliveries"

subsection \<open>The domains page\<close>

record app_domain =
  dm_id :: string
  dm_origin :: string
  dm_verified_at :: "string option"
  dm_created_at :: string

definition app_domain_of_json :: "json \<Rightarrow> app_domain option" where
  "app_domain_of_json j = do { i \<leftarrow> f_str ''id'' j; og \<leftarrow> f_str ''origin'' j; v \<leftarrow> f_nullable ''verified_at'' j; c \<leftarrow> f_str ''created_at'' j;
     Some \<lparr>dm_id = i, dm_origin = og, dm_verified_at = v, dm_created_at = c\<rparr> }"

datatype domains_event = Dm_origin string | Dm_add | Dm_reload | Dm_remove string

definition domain_item :: "intl \<Rightarrow> app_domain \<Rightarrow> domains_event node" where
  "domain_item I d =
     El T_li [Key (dm_id d)]
       [El T_div [] [El T_p [] [Text (dm_origin d)], El T_p [] [Text (''Added '' @ format_date I (Some (dm_created_at d)))]],
        button (Dm_remove (dm_id d)) ''Remove'']"

definition domain_form :: "string \<Rightarrow> bool \<Rightarrow> domains_event node" where
  "domain_form origin pending =
     El T_form [On_event ''submit'' Dm_add]
       [El T_input [Placeholder ''https://app.acme.dev'', Value origin, On_change Dm_origin, Aria_label ''Origin''] [],
        El T_button [Kind ''submit'', Disabled (\<not> add_domain_enabled pending origin)] [Text (if pending then ''Adding'' @ ellipsis else ''Add origin'')]]"

definition domains_view :: "intl \<Rightarrow> string \<Rightarrow> bool \<Rightarrow> jserr option \<Rightarrow> app_domain list query \<Rightarrow> domains_event node list" where
  "domains_view I origin pending err q =
     [page_header ''Domains'' [Text (''An origin is a scheme and host '' @ em_dash @ '' https://app.acme.dev, not https://app.acme.dev/login. Browsers '' @
        ''report it without a path, so a stored path never matches.'')] [] [],
      section_card ''Allowed origins'' [] []
        ([domain_form origin pending] @ error_opt err None @ error_opt (q_error q) (Some Dm_reload) @
         [if q_loading q then skeleton_rows 2
          else if (case q_data q of None \<Rightarrow> True | Some ds \<Rightarrow> ds = []) then empty_state ''No origins allowed yet'' [] [] []
          else El T_ul [] (map (domain_item I) (the (q_data q)))])]"

text \<open>A submit of the form adds nothing while the field is blank.\<close>

definition domain_submit :: "('e env_scheme) \<Rightarrow> string \<Rightarrow> ('t, unit) dmio" where
  "domain_submit E appId = await (reads dt_origin) (\<lambda>origin. if trim origin \<noteq> [] then add_domain E appId else ret ())"

subsection \<open>What the screens offer\<close>

lemma webhook_items: "read_node clicks (webhook_item h) = [Wh_inspect h, Wh_test (wh_id h), Wh_remove (wh_id h)]"
    "read_node checks_of (webhook_item h) = []" "read_node copies_of (webhook_item h) = []" "read_node fors_of (webhook_item h) = []"
    "read_node checks_of (event_box sel e) = [Wh_event e]" "read_node clicks (event_box sel e) = []" "read_node copies_of (event_box sel e) = []"
    "read_node fors_of (event_box sel e) = []" "read_node ids_of (event_box sel e) = []"
    "read_node clicks (delivery_item I now d) = []" "read_node checks_of (delivery_item I now d) = []" "read_node copies_of (delivery_item I now d) = []"
    "read_node fors_of (delivery_item I now d) = []"
  by (simp_all add: webhook_item_def event_box_def delivery_item_def delivery_row_def view_simps)

lemma webhook_sections:
  "read_node clicks (webhooks_section q) = (if q_error q = None then [] else [Wh_reload]) @
     (if q_loading q then [] else case q_data q of None \<Rightarrow> [Wh_open] | Some hs \<Rightarrow>
        (if hs = [] then [Wh_open] else concat (map (\<lambda>h. [Wh_inspect h, Wh_test (wh_id h), Wh_remove (wh_id h)]) hs)))"
  "read_node checks_of (webhooks_section q) = []" "read_node copies_of (webhooks_section q) = []" "read_node fors_of (webhooks_section q) = []"
  "read_node clicks verifying_section = []" "read_node checks_of verifying_section = []" "read_node copies_of verifying_section = []"
  "read_node fors_of verifying_section = []"
  by (simp_all add: webhooks_section_def verifying_section_def view_simps webhook_items split: option.split)

lemma webhook_modals:
  "offers (new_webhook_modal b es u sel pnd err) = (if b then [Wh_close, Wh_close] @ (if create_webhook_enabled pnd u then [Wh_create] else []) else [])"
  "checks (new_webhook_modal b es u sel pnd err) = (if b then map Wh_event es else [])" "copies (new_webhook_modal b es u sel pnd err) = []"
  "label_targets (new_webhook_modal b es u sel pnd err) = ids (new_webhook_modal b es u sel pnd err)"
  "offers (secret_modal x) = (if x = None then [] else [Wh_saved, Wh_saved])" "checks (secret_modal x) = []" "label_targets (secret_modal x) = []"
  "copies (secret_modal x) = (case x of None \<Rightarrow> [] | Some y \<Rightarrow> [y])"
  "offers (deliveries_modal I now w ds) = (if w = None then [] else [Wh_close_deliveries])" "checks (deliveries_modal I now w ds) = []"
  "copies (deliveries_modal I now w ds) = []" "label_targets (deliveries_modal I now w ds) = []"
  by (simp_all add: new_webhook_modal_def secret_modal_def deliveries_modal_def deliveries_body_def no_deliveries_def view_simps webhook_items
      concat_singles split: option.split)

lemma webhook_parts_ok [parts]: "node_ok (webhook_item h)" "node_ok (webhooks_section q)" "node_ok verifying_section"
    "parts_ok (new_webhook_modal b es u sel pnd err)" "parts_ok (secret_modal x)" "node_ok (delivery_item I now d)" "parts_ok (deliveries_modal I now w ds)"
  by (simp_all add: webhook_item_def webhooks_section_def verifying_section_def new_webhook_modal_def event_box_def secret_modal_def
      delivery_item_def delivery_row_def deliveries_modal_def deliveries_body_def no_deliveries_def parts split: option.split)

lemma webhooks_sound: "sound_view (webhooks_view I now t q es pnd err w ds)"
  by (rule sound_viewI; simp add: webhooks_view_def parts view_simps webhook_sections webhook_modals; blast)

lemma domain_items: "read_node clicks (domain_item I d) = [Dm_remove (dm_id d)]" "node_ok (domain_item I d)" "read_node fors_of (domain_item I d) = []"
  by (simp_all add: domain_item_def view_simps parts)

lemma domains_offer: "offers (domains_view I og pnd err q) = (if q_error q = None then [] else [Dm_reload]) @
    (if q_loading q then [] else map (\<lambda>d. Dm_remove (dm_id d)) (case q_data q of None \<Rightarrow> [] | Some ds \<Rightarrow> ds))"
  by (simp add: domains_view_def domain_form_def view_simps domain_items concat_singles split: option.split)

lemma domains_sound: "sound_view (domains_view I og pnd err q)"
  by (rule sound_viewI; simp add: domains_view_def domain_form_def parts view_simps domain_items split: option.split)

subsection \<open>Properties\<close>

text \<open>What the webhooks screen offers. Each endpoint listed can be inspected, tested and deleted; one box
  stands for each kind of event the platform names, while the dialogue is open; an endpoint is created
  only from the open dialogue with an address typed; the only secret that can be copied is the one just
  revealed. The list of deliveries does not tell a failure from emptiness: opened after the list of
  nothing, a read that fails leaves the same dialogue as one that finds no delivery.\<close>

theorem webhooks_screen:
  "(let v = webhooks_view I now t q es pnd err w ds; hooks = (if q_loading q then {} else set (case q_data q of None \<Rightarrow> [] | Some hs \<Rightarrow> hs)) in
     {h. Wh_inspect h \<in> set (offers v)} = hooks \<and> {i. Wh_test i \<in> set (offers v)} = wh_id ` hooks \<and> {i. Wh_remove i \<in> set (offers v)} = wh_id ` hooks \<and>
     checks v = (if wt_open t then map Wh_event es else []) \<and>
     (Wh_create \<in> set (offers v) \<longleftrightarrow> wt_open t \<and> create_webhook_enabled pnd (wt_url t)) \<and>
     copies v = (case wt_secret t of None \<Rightarrow> [] | Some x \<Rightarrow> [x])) \<and>
   (let u = query_effect (query_cleanup (d\<lparr>q_data := Some []\<rparr>)) in
     deliveries_modal I now (Some h) (query_settle (q_generation u) (Inl e) u) = deliveries_modal I now (Some h) (query_settle (q_generation u) (Inr []) u))"
proof -
  have o: "offers (webhooks_view I now t q es pnd err w ds) = Wh_open # read_node clicks (webhooks_section q) @
      offers (new_webhook_modal (wt_open t) es (wt_url t) (wt_selected t) pnd err) @ offers (secret_modal (wt_secret t)) @ offers (deliveries_modal I now w ds)"
    by (simp add: webhooks_view_def view_simps webhook_sections)
  have c: "checks (webhooks_view I now t q es pnd err w ds) = (if wt_open t then map Wh_event es else [])"
      "copies (webhooks_view I now t q es pnd err w ds) = (case wt_secret t of None \<Rightarrow> [] | Some x \<Rightarrow> [x])"
    by (simp_all add: webhooks_view_def view_simps webhook_sections webhook_modals)
  have "let u = query_effect (query_cleanup (d\<lparr>q_data := Some []\<rparr>)) in
     deliveries_modal I now (Some h) (query_settle (q_generation u) (Inl e) u) = deliveries_modal I now (Some h) (query_settle (q_generation u) (Inr []) u)"
    by (simp add: Let_def query_effect_def query_cleanup_def query_run_def query_settle_def deliveries_modal_def deliveries_body_def)
  then show ?thesis
    unfolding Let_def o c webhook_sections webhook_modals
    by (auto split: option.splits if_splits)
qed

end
