(* ===== verification/Views_Market.thy ===== *)
theory Views_Market
  imports Views_Trust Reveal
begin

text \<open>
  The trees of the operator directory: the cards (\<open>web/components/NodeCard.tsx\<close>, \<open>web/components/OperatorCard.tsx\<close>), the
  marketplace, an operator's page and the status page (\<open>web/app/(marketing)/marketplace\<close>, \<open>\<dots>/status\<close>). What they
  print is computed in \<open>Market\<close>; here it is put in its place, with links and handlers.
\<close>

subsection \<open>Cards\<close>

definition verified_mark :: "bool \<Rightarrow> 'e node list" where
  "verified_mark b = opt b [El T_span [Title ''Reviewed by the Signet team''] []]"

definition card_picture :: "string option \<Rightarrow> string \<Rightarrow> 'e node" where
  "card_picture logo name = (if truthy_str logo then El T_img [Src (the logo), Alt []] [] else El T_div [] [Text (monogram name)])"

definition check_box :: "bool \<Rightarrow> 'e node" where
  "check_box selected = El T_span [Class (if selected then ''border-accent-500 bg-accent-500 text-white'' else ''border-fg/20'')] []"

definition health_view :: "node_operator \<Rightarrow> 'e node list" where
  "health_view n = (case op_health n of
     None \<Rightarrow> [status_dot_view Tone_neutral False, El T_span [] [Text ''Not yet probed'']]
   | Some h \<Rightarrow> [status_dot_view (if h_online h then Tone_success else Tone_error) (h_online h),
        Text (if h_online h then ''Online'' else ''Unreachable'')] @
        (case h_latency_ms h of None \<Rightarrow> [] | Some ms \<Rightarrow>
          opt (h_online h) [El T_span [] [Text (middle_dot @ '' '' @ dec_of_int ms @ '' ms'')]]))"

definition node_card_body :: "intl \<Rightarrow> node_operator \<Rightarrow> bool \<Rightarrow> bool \<Rightarrow> 'e node list" where
  "node_card_body I n toggles selected =
     [El T_div []
        ([card_picture (op_logo_url n) (op_name n),
          El T_div [] [El T_div [] (El T_h3 [] [Text (op_name n)] # verified_mark (op_verified n)),
            El T_p [] [Text (category_line (op_category n) (op_jurisdiction n))]]] @
         opt toggles [check_box selected]),
      El T_p [] [Text (if op_description n = [] then ''This operator is registered on-chain but has not published a description yet.''
        else op_description n)],
      El T_div []
        ([El T_span [] (health_view n)] @
         (case uptime_text n of None \<Rightarrow> []
            | Some u \<Rightarrow> [El T_span [Title ''Share of successful probes in the last 24 hours''] [Text (u @ '' / 24h'')]]) @
         [El T_span [] [Text (dec_of_int (op_group_count n) @ '' group'' @ (if op_group_count n = 1 then [] else ''s''))]] @
         opt (truthy_str (op_registered_at n)) [El T_span [] [Text (''Since '' @ format_date I (op_registered_at n))]]),
      El T_div []
        [El T_span [] [Text (short_address 10 6 (Some (op_address n)))],
         badge (fst (open_badge (op_is_open n))) (op_is_open n \<noteq> None) [Text (snd (open_badge (op_is_open n)))]]]"

definition card_shell_class :: "bool \<Rightarrow> string" where
  "card_shell_class selected = ''card flex h-full flex-col p-5 text-left transition '' @
     (if selected then ''ring-2 ring-accent-500/40 border-accent-500/60'' else ''hover:shadow-pop'')"

definition node_card_view :: "intl \<Rightarrow> node_operator \<Rightarrow> bool \<Rightarrow> 'e option \<Rightarrow> string option \<Rightarrow> 'e node" where
  "node_card_view I n selected toggle href =
     (let body = node_card_body I n (toggle \<noteq> None) selected; cls = card_shell_class selected in
      case node_card_shell (toggle \<noteq> None) href of
        Shell_button \<Rightarrow> El T_button [Kind ''button'', Class cls, On_click (the toggle)] body
      | Shell_link h \<Rightarrow> El T_link [Href h, Class cls] body
      | Shell_plain \<Rightarrow> El T_div [Class cls] body)"

definition node_link_view :: "node_operator \<Rightarrow> 'e node" where
  "node_link_view n = (case node_link n of (href, tn, place, short) \<Rightarrow>
     El T_li [Key (op_address n)]
       [El T_link [Href href]
          [El T_span [] [status_dot_view tn False, El T_span [] [Text place]], El T_span [] [Text short]]])"

definition operator_card_view :: "operator_group \<Rightarrow> 'e node" where
  "operator_card_view g =
     El T_div []
       ([El T_div []
           [card_picture (grp_logo_url g) (grp_label g),
            El T_div [] [El T_div [] (El T_h3 [] [Text (grp_label g)] # verified_mark (grp_verified g)),
              El T_p [] [Text (category_line (grp_category g) (grp_jurisdiction g))]],
            badge (fst (up_badge g)) False [Text (snd (up_badge g))]]] @
        opt (grp_description g \<noteq> []) [El T_p [] [Text (grp_description g)]] @
        [El T_div []
           [El T_p [] [Text (dec_of_nat (length (grp_nodes g)) @ '' '' @ (if length (grp_nodes g) = 1 then ''node'' else ''nodes''))],
            El T_ul [] (map node_link_view (grp_nodes g))]] @
        opt (truthy_str (grp_website_url g))
          [El T_a [Href (the (grp_website_url g)), Target ''_blank'', Rel ''noreferrer noopener''] [Text ''Visit website'']])"

subsection \<open>The marketplace\<close>

datatype market_event = Mk_search string | Mk_sort string | Mk_open bool | Mk_online bool | Mk_category "node_category option" | Mk_reload

definition sort_options :: "(sort_key_name \<times> string \<times> string) list" where
  "sort_options = [(By_uptime, ''uptime'', ''Sort: uptime''), (By_name, ''name'', ''Sort: name''), (By_groups, ''groups'', ''Sort: groups served''),
     (By_newest, ''newest'', ''Sort: newest'')]"

definition sort_value :: "sort_key_name \<Rightarrow> string" where
  "sort_value k = (case map_of sort_options k of None \<Rightarrow> [] | Some p \<Rightarrow> fst p)"

definition sort_named :: "string \<Rightarrow> sort_key_name" where
  "sort_named v = (case find (\<lambda>(k, w, l). w = v) sort_options of None \<Rightarrow> By_uptime | Some (k, _) \<Rightarrow> k)"

definition market_set :: "market_event \<Rightarrow> market_filters \<Rightarrow> market_filters" where
  "market_set ev f = (case ev of Mk_search v \<Rightarrow> f\<lparr>mf_search := v\<rparr> | Mk_sort v \<Rightarrow> f\<lparr>mf_sort := sort_named v\<rparr>
     | Mk_open b \<Rightarrow> f\<lparr>mf_open_only := b\<rparr> | Mk_online b \<Rightarrow> f\<lparr>mf_online_only := b\<rparr> | Mk_category c \<Rightarrow> f\<lparr>mf_category := c\<rparr> | Mk_reload \<Rightarrow> f)"

definition tick_box :: "bool \<Rightarrow> (bool \<Rightarrow> 'e) \<Rightarrow> string \<Rightarrow> 'e node" where
  "tick_box on change l = El T_label [] [El T_input [Kind ''checkbox'', Checked on, On_check change] [], Text l]"

definition market_controls :: "market_filters \<Rightarrow> nat \<Rightarrow> nat \<Rightarrow> market_event node" where
  "market_controls f shown listed =
     El T_div []
       [El T_div []
          [El T_input [Placeholder (''Search operators'' @ ellipsis), Value (mf_search f), On_change Mk_search, Aria_label ''Search operators''] [],
           El T_select [Value (sort_value (mf_sort f)), On_change Mk_sort, Aria_label ''Sort operators'']
             (map (\<lambda>(k, v, l). El T_option [Value v] [Text l]) sort_options),
           tick_box (mf_open_only f) Mk_open ''Open only'', tick_box (mf_online_only f) Mk_online ''Online only''],
        El T_div []
          [El T_div [] (map (\<lambda>(c, l). El T_button [Key l, Kind ''button'',
               Class (if mf_category f = c then ''bg-accent-500/14 text-accent-700 dark:text-accent-300'' else ''text-muted hover:bg-fg/[0.05] hover:text-fg''),
               On_click (Mk_category c)] [Text l]) CATEGORIES),
           El T_p [] [Text (dec_of_nat shown @ '' of '' @ dec_of_nat listed @ '' operators'')]]]"

definition market_grid :: "operator_group list \<Rightarrow> 'e node" where
  "market_grid gs = El T_div [] (map (\<lambda>(g, a, cls). El T_div [Key a, Class cls] [operator_card_view g]) (zip gs (market_cards gs)))"

definition grid_skeleton :: "nat \<Rightarrow> 'e node" where
  "grid_skeleton n = El T_div [] (replicate n (skeleton ''h-[236px] rounded-2xl''))"

definition market_view :: "(string \<Rightarrow> string \<Rightarrow> int) \<Rightarrow> intl \<Rightarrow> market_filters \<Rightarrow> node_operator list query \<Rightarrow> market_event node list" where
  "market_view locale_compare I f q =
     (let shown = market_operators locale_compare I f (q_data q); gs = group_by_operator shown in
      [El T_div []
        ([page_header ''Choose who signs for your users'' [] [] ''Operator marketplace'',
          market_controls f (length shown) (case q_data q of None \<Rightarrow> 0 | Some ns \<Rightarrow> length ns)] @
         error_opt (q_error q) (Some Mk_reload) @
         (if q_loading q then [grid_skeleton 6]
          else if shown = [] then [empty_state ''No operators match those filters'' [] [] []]
          else [El T_p [] [Text (describe_fleet (length shown) (length gs))], market_grid gs]))])"

subsection \<open>The page of an operator\<close>

datatype operator_event = Op_reload

definition dl_field :: "string \<Rightarrow> 'e node list \<Rightarrow> 'e node" where
  "dl_field l children = El T_div [] [El T_dt [] [Text l], El T_dd [] children]"

definition operator_stat :: "node_operator \<Rightarrow> string \<times> string \<times> string \<Rightarrow> 'e node" where
  "operator_stat n r = (case r of (l, v, h) \<Rightarrow>
     (if l = ''Status'' then
        stat_card l [El T_span [] (case op_health n of
            Some hl \<Rightarrow> [status_dot_view (if h_online hl then Tone_success else Tone_error) (h_online hl), Text v]
          | None \<Rightarrow> [El T_span [] [Text v]])] [Text h]
          (case op_health n of None \<Rightarrow> None | Some hl \<Rightarrow> Some (if h_online hl then Tone_success else Tone_error))
      else stat_card l [Text v] [Text h] None))"

text \<open>The fields with something to copy: the two addresses and the endpoint, when they are published.\<close>

definition operator_field :: "node_operator \<Rightarrow> string \<times> string \<Rightarrow> 'e node" where
  "operator_field n r = (case r of (l, v) \<Rightarrow> dl_field l
     [if l = ''Node address'' then Copy_value v None (Some ''Node address'')
      else if l = ''Registry operator key'' \<and> truthy_str (op_operator_address n) then Copy_value v None (Some ''Operator key'')
      else if l = ''API endpoint'' \<and> truthy_str (op_api_url n) then Copy_value v None None
      else if l = ''Invitations'' then badge (fst (invitations_badge (op_is_open n))) (op_is_open n \<noteq> None) [Text v]
      else if l = ''Registry operator key'' \<or> l = ''API endpoint'' then El T_span [] [Text v]
      else Text v])"

definition operator_powers :: "string list" where
  "operator_powers =
     [''Holds one share of each key in the groups it belongs to '' @ em_dash @ '' never a whole key.'',
      ''Verifies your users'' @ right_quote @ '' credentials independently before contributing a share.'',
      ''Cannot produce a signature alone, or block one if your threshold is still met.'',
      ''Cannot add itself to your group, or stop you removing it.'']"

definition operator_shown :: "intl \<Rightarrow> node_operator \<Rightarrow> operator_event node" where
  "operator_shown I n =
     El T_div []
       [El T_link [Href ''/marketplace''] [Text ([CHR 0xE2, CHR 0x86, CHR 0x90] @ '' All operators'')],
        page_header (op_name n) []
          (opt (truthy_str (op_website_url n)) [El T_a [Href (the (op_website_url n)), Target ''_blank'', Rel ''noreferrer''] [Text ''Visit website'']])
          (if op_verified n then ''Reviewed operator'' else ''Listed operator''),
        El T_div [] (map (operator_stat n) (operator_stats I n)),
        El T_div []
          [section_card ''Operator'' [] [] [El T_dl [] (map (operator_field n) (operator_fields I n))],
           El T_div []
             ([section_card ''What this operator can and cannot do'' [] [] [El T_ul [] (map (\<lambda>s. El T_li [] [El T_span [] [], Text s]) operator_powers)]] @
              opt (truthy_str (Option.bind (op_health n) h_last_error))
                [callout Tone_error [Text ''Last probe error''] [El T_code [] [Text (the (Option.bind (op_health n) h_last_error))]]] @
              opt (\<not> op_verified n)
                [callout Tone_warn [Text ''Not yet reviewed'']
                   [Text (''This operator is registered on-chain but has not been reviewed by the Signet team. '' @
                      ''Its self-reported details have not been checked.'')]] @
              [El T_link [Href ''/apps/new''] [Text ''Build a group with this operator'']])]]"

definition operator_page_view :: "intl \<Rightarrow> node_operator query \<Rightarrow> operator_event node list" where
  "operator_page_view I q = (case operator_page (q_loading q) (q_error q) (q_data q) of
     Operator_loading \<Rightarrow> [El T_div [] [skeleton ''h-10 w-72'', skeleton ''h-40 w-full rounded-2xl'']]
   | Operator_failed m \<Rightarrow>
       [El T_div [] [error_view (Error m) (Some Op_reload), El T_link [Href ''/marketplace''] [Text ''Back to the marketplace'']]]
   | Operator_shown n \<Rightarrow> [operator_shown I n])"

subsection \<open>The status page\<close>

datatype status_event = St_refresh_both | St_reload

definition status_section :: "intl \<Rightarrow> nat \<Rightarrow> network_status query \<Rightarrow> status_event node list" where
  "status_section I operators q =
     error_opt (q_error q) (Some St_reload) @
     (if q_loading q then [El T_div [] (replicate 4 (skeleton ''h-28 rounded-2xl''))]
      else (case q_data q of None \<Rightarrow> []
        | Some s \<Rightarrow>
           [El T_div [] (map (\<lambda>(l, v, h, tn). stat_card l [Text v] [Text h] tn) (status_cards s operators))] @
           opt (truthy_str (ns_chain_error s))
             [callout Tone_warn [Text ''Chain reads are degraded'']
                [El T_p [] [Text (''The marketplace and console still work '' @ em_dash @
                   '' group state simply shows the last value the platform was able to read. The error was:'')],
                 El T_code [] [Text (the (ns_chain_error s))]]] @
           [El T_p [] [Text (''Checked '' @ format_date_time I (Some (ns_checked_at s)) @ ''.'')]]))"

definition status_operators :: "node_operator list query \<Rightarrow> status_event node" where
  "status_operators q = (let ns = (case q_data q of None \<Rightarrow> [] | Some ns \<Rightarrow> ns); gs = group_by_operator ns in
     section_card ''Operators'' [] []
       (if q_loading q then [grid_skeleton 3]
        else [El T_p [] [Text (describe_fleet (length ns) (length gs))], El T_div [] (map operator_card_view gs)]))"

definition status_view :: "intl \<Rightarrow> network_status query \<Rightarrow> node_operator list query \<Rightarrow> status_event node list" where
  "status_view I q ops =
     [El T_div []
        ([page_header ''What the network is doing right now'' [] [button St_refresh_both ''Refresh''] ''Network status''] @
         status_section I (length (group_by_operator (case q_data ops of None \<Rightarrow> [] | Some ns \<Rightarrow> ns))) q @
         [El T_div [] [status_operators ops],
          El T_div [] [status_dot_view Tone_success True,
            Text (''Probes run every couple of minutes. A node that stops responding shows as unreachable within one interval.'')]])]"

subsection \<open>What the pages offer\<close>

lemma no_handlers: "gather f (verified_mark b) = []" "read_node f (card_picture l nm) = []" "read_node f (check_box b) = []"
    "gather f (health_view n) = []" if "reader f" for f
  using that by (auto simp: verified_mark_def card_picture_def check_box_def health_view_def opt_def reader.skip reader.bare_el reader.first reader.element
      reader.text_node reader.none reader.append reader.widget_parts split: option.split)

lemma readers: "reader clicks" "reader edits_of" "reader checks_of" "reader hrefs_of" "reader ids_of" "reader fors_of" "reader copies_of"
  by unfold_locales

lemmas [view_simps] = readers [THEN no_handlers(1)] readers [THEN no_handlers(2)] readers [THEN no_handlers(3)] readers [THEN no_handlers(4)]

lemma card_bodies: "gather f (node_card_body I n tg sel) = []" if "reader f" for f
  using that no_handlers [OF that] by (auto simp: node_card_body_def opt_def reader.skip reader.bare_el reader.first reader.element
      reader.text_node reader.none reader.append reader.widget_parts split: option.split)

lemma node_cards [view_simps]:
  "read_node clicks (node_card_view I n sel (Some e) h) = [e]" "read_node clicks (node_card_view I n sel None h) = []"
  "read_node hrefs_of (node_card_view I n sel (Some e) h) = []"
  "read_node hrefs_of (node_card_view I n sel None h) = (if truthy_str h then [the h] else [])"
  "read_node edits_of (node_card_view I n sel tg h) = []" "read_node checks_of (node_card_view I n sel tg h) = []"
  "read_node ids_of (node_card_view I n sel tg h) = []" "read_node fors_of (node_card_view I n sel tg h) = []"
  "read_node copies_of (node_card_view I n sel tg h) = []"
  by (simp_all add: node_card_view_def node_card_shell_def readers [THEN card_bodies] view_simps Let_def split: card_shell.split)

definition node_href :: "node_operator \<Rightarrow> string" where
  "node_href n = ''/marketplace/'' @ op_address n"

definition card_links :: "operator_group \<Rightarrow> string list" where
  "card_links g = map node_href (grp_nodes g) @ (if truthy_str (grp_website_url g) then [the (grp_website_url g)] else [])"

lemma node_links: "read_node hrefs_of (node_link_view n) = [node_href n]" "read_node clicks (node_link_view n) = []" "read_node fors_of (node_link_view n) = []"
  by (simp_all add: node_link_view_def node_link_def node_href_def view_simps)

lemma operator_cards [view_simps]: "read_node hrefs_of (operator_card_view g) = card_links g" "read_node clicks (operator_card_view g) = []"
    "read_node fors_of (operator_card_view g) = []"
  by (simp_all add: operator_card_view_def card_links_def view_simps node_links concat_singles)

lemma zip_cards: "length gs = length cs \<Longrightarrow> concat (map (\<lambda>x. h (fst x)) (zip gs cs)) = concat (map h gs)"
  by (induction gs cs rule: list_induct2) simp_all

lemma grid_links: "read_node hrefs_of (market_grid gs) = concat (map card_links gs)" "read_node clicks (market_grid gs) = []"
    "read_node fors_of (market_grid gs) = []"
proof -
  have "length gs = length (market_cards gs)" by (simp add: market_cards_def market_classes_def)
  note z = zip_cards [OF this]
  show "read_node hrefs_of (market_grid gs) = concat (map card_links gs)"
    using z [of card_links] by (simp add: market_grid_def view_simps split_def)
qed (simp_all add: market_grid_def view_simps split_def)

lemma grid_skeletons [view_simps]: "read_node hrefs_of (grid_skeleton k) = []" "read_node clicks (grid_skeleton k) = []" "read_node fors_of (grid_skeleton k) = []"
  by (induction k) (simp_all add: grid_skeleton_def view_simps)

subsection \<open>Soundness\<close>

lemma card_parts_still [parts]: "still (verified_mark b)" "node_still (card_picture l nm)" "node_still (check_box b)" "still (health_view n)"
    "still (node_card_body I n tg sel)"
  by (auto simp: verified_mark_def card_picture_def check_box_def health_view_def node_card_body_def opt_def parts split: option.split)

lemma still_ok [parts]: "parts_ok (verified_mark b)" "node_ok (card_picture l nm)"
  using still_parts [OF card_parts_still(1)] still_parts [of "[card_picture l nm]"] by (auto simp: parts)

lemma cards_ok [parts]: "node_ok (node_card_view I n sel tg h)" "node_ok (operator_card_view g)" "node_ok (market_grid gs)" "node_ok (grid_skeleton k)"
proof -
  show "node_ok (node_card_view I n sel tg h)"
    using still_parts [OF card_parts_still(5)] by (auto simp: node_card_view_def parts Let_def split: card_shell.split)
  show o: "node_ok (operator_card_view g)" for g :: operator_group
    by (auto simp: operator_card_view_def node_link_view_def node_link_def parts split: option.split)
  show "node_ok (market_grid gs)" by (auto simp: market_grid_def o parts)
  show "node_ok (grid_skeleton k)" by (induction k) (simp_all add: grid_skeleton_def parts)
qed

lemma skeletons_read: "gather f (replicate k (skeleton s)) = []" if "reader f" for f
  using that by (induction k) (simp_all add: reader.none reader.first reader.widget_parts)

lemmas [view_simps] = readers [THEN skeletons_read]

lemma skeletons_ok [parts]: "parts_ok (replicate k (skeleton s))"
  by (induction k) (simp_all add: parts)

lemma market_sound: "sound_view (market_view lc I f q)"
  by (rule sound_viewI; auto simp: market_view_def market_controls_def tick_box_def parts view_simps grid_links Let_def)

lemma operator_fields_ok: "node_ok (operator_field n r)" "read_node fors_of (operator_field n r) = []"
  by (simp_all add: operator_field_def dl_field_def parts view_simps split: prod.split)

lemma operator_stats_ok: "node_ok (operator_stat n r)" "read_node fors_of (operator_stat n r) = []"
  by (simp_all add: operator_stat_def parts view_simps split: prod.split option.split)

lemma operator_page_sound: "sound_view (operator_page_view I q)"
  by (rule sound_viewI; auto simp: operator_page_view_def operator_shown_def parts view_simps operator_fields_ok operator_stats_ok
      split: operator_view.split)

lemma status_sound: "sound_view (status_view I q ops)"
proof (rule sound_viewI)
  show "parts_ok (status_view I q ops)"
    by (auto simp: status_view_def status_section_def status_operators_def parts Let_def split: option.split prod.splits)
qed (auto simp: status_view_def status_section_def status_operators_def view_simps Let_def split_def split: option.split)

subsection \<open>Properties\<close>

lemma mset_js_sort: "mset (js_sort h xs) = mset xs"
proof -
  have "mset (insert_by h x ys) = add_mset x (mset ys)" for x ys by (induction ys) auto
  then show ?thesis unfolding js_sort_def by (induction xs) simp_all
qed

lemma mset_grouped: "mset (concat (map grp_nodes (group_by_operator ns))) = mset ns"
proof -
  have "mset (concat (map grp_nodes (group_by_operator ns))) = (\<Sum>k\<leftarrow>first_seen (map operator_key ns). mset (filter (\<lambda>n. operator_key n = k) ns))"
    by (simp add: group_by_operator_def by_operator_eq group_of_def comp_def mset_concat)
  then show ?thesis
    using filter_key_mset [of "first_seen (map operator_key ns)" operator_key ns] by simp
qed

definition websites :: "operator_group list \<Rightarrow> string list" where
  "websites gs = concat (map (\<lambda>g. if truthy_str (grp_website_url g) then [the (grp_website_url g)] else []) gs)"

lemma mset_card_links: "mset (concat (map card_links gs)) = image_mset node_href (mset (concat (map grp_nodes gs))) + mset (websites gs)"
  by (induction gs) (simp_all add: card_links_def websites_def)

text \<open>C37: The marketplace leads to every node that matches the filters, once, whatever the order chosen, and
  besides to the operators' own sites and nowhere else; its categories are always offered, and a retry when
  the list could not be read. The status page does not tell a failure of that list from an empty
  network: its section of operators is the same.\<close>

theorem directory_screens:
  "mset (links (market_view lc I f q)) = (if q_loading q then {#}
     else image_mset node_href (filter_mset (market_keeps f) (mset (case q_data q of None \<Rightarrow> [] | Some ns \<Rightarrow> ns))) +
       mset (websites (market_groups lc I f (q_data q)))) \<and>
   offers (market_view lc I f q) = map (\<lambda>c. Mk_category (fst c)) CATEGORIES @ (if q_error q = None then [] else [Mk_reload]) \<and>
   (let u = query_effect query_init; n = q_generation u in
     status_view I st (query_settle n (Inl e) u) = status_view I st (query_settle n (Inr []) u))"
proof -
  let ?shown = "market_operators lc I f (q_data q)"
  have "group_by_operator [] = []" by (simp add: group_by_operator_def by_operator_def)
  then have "links (market_view lc I f q) = (if q_loading q then [] else concat (map card_links (group_by_operator ?shown)))"
    by (auto simp: market_view_def market_controls_def tick_box_def view_simps grid_links Let_def split_def)
  moreover have "mset ?shown = filter_mset (market_keeps f) (mset (case q_data q of None \<Rightarrow> [] | Some ns \<Rightarrow> ns))"
    by (simp add: market_operators_def sort_operators_def mset_js_sort)
  ultimately have "mset (links (market_view lc I f q)) = (if q_loading q then {#}
     else image_mset node_href (filter_mset (market_keeps f) (mset (case q_data q of None \<Rightarrow> [] | Some ns \<Rightarrow> ns))) +
       mset (websites (market_groups lc I f (q_data q))))"
    by (simp add: mset_card_links mset_grouped market_groups_def)
  moreover have "offers (market_view lc I f q) = map (\<lambda>c. Mk_category (fst c)) CATEGORIES @ (if q_error q = None then [] else [Mk_reload])"
    by (simp add: market_view_def market_controls_def tick_box_def view_simps grid_links Let_def split_def CATEGORIES_def)
  moreover have "let u = query_effect query_init; n = q_generation u in
     status_view I st (query_settle n (Inl e) u) = status_view I st (query_settle n (Inr []) u)"
    by (simp add: Let_def query_effect_def query_init_def query_run_def query_settle_def status_view_def status_operators_def)
  ultimately show ?thesis by blast
qed

end
