(* ===== verification/Views_Wizard.thy ===== *)
theory Views_Wizard
  imports Views_Market
begin

text \<open>
  The tree of the wizard (\<open>web/app/(console)/apps/new/page.tsx\<close>), and that it is exactly the machine of
  \<open>New_App\<close>: what can be pressed, typed and ticked on the page are the machine's steps, no more and no
  fewer. A block with the class \<open>hidden\<close> is not displayed, and is left out of the tree.
\<close>

subsection \<open>The page\<close>

datatype wizard_event = Wz_bar nat | Wz_name string | Wz_description string | Wz_mode wizard_mode | Wz_toggle string | Wz_threshold string
  | Wz_delay int | Wz_issuer string bool | Wz_client string string | Wz_manual string | Wz_back | Wz_continue | Wz_deploy
  | Wz_retry | Wz_review | Wz_link | Wz_restore

definition step_button :: "wizard_page \<Rightarrow> nat \<times> wizard_step \<times> string \<Rightarrow> wizard_event node" where
  "step_button w r = (case r of (i, s, l) \<Rightarrow>
     El T_li [Key l]
       (El T_button [Kind ''button'',
            Class (if int i = step_index w then ''bg-accent-500/14 text-accent-700 dark:text-accent-300''
              else if int i < step_index w then ''text-muted hover:text-fg'' else ''text-faint''),
            Disabled (int i > step_index w \<or> wp_stage w \<noteq> None), On_click (Wz_bar i)]
          [El T_span [Class (if int i < step_index w then ''border-success-500 bg-success-500 text-white''
             else if int i = step_index w then ''border-accent-500 text-accent-600'' else ''border-fg/15'')]
             [Text (if int i < step_index w then check_mark else dec_of_nat (i + 1))], Text l] #
        opt (i + 1 < length (steps_of (wz_mode w))) [El T_span [] [Text right_arrow]]))"

definition step_bar :: "wizard_page \<Rightarrow> wizard_event node" where
  "step_bar w = El T_ol [] (map (step_button w) (enumerate 0 (steps_of (wz_mode w))))"

definition mode_options :: "(wizard_mode \<times> string \<times> string) list" where
  "mode_options =
     [(Mode_deploy, ''Create a new group'', ''Pick operators and a threshold here. Your smart wallet deploys the group and is its manager from '' @
        ''the first block.''),
      (Mode_attach, ''Link a group that already exists'', ''For a group deployed out of band '' @ em_dash @ '' by CLI, or across organisations. '' @
        ''Its operators, threshold and issuers are read from the chain, so this wizard does not ask for them.'')]"

definition mode_button :: "wizard_mode \<Rightarrow> wizard_mode \<times> string \<times> string \<Rightarrow> wizard_event node" where
  "mode_button mode r = (case r of (m, title, body) \<Rightarrow>
     El T_button [Key title, Kind ''button'', Class (if mode = m then ''border-accent-500 bg-accent-500/[0.06]'' else ''border-fg/15 hover:border-fg/30''),
         On_click (Wz_mode m)]
       [El T_span [] [El T_span [Aria_hidden, Class (if mode = m then ''border-accent-500 bg-accent-500'' else ''border-fg/25'')] [], Text title],
        El T_span [] [Text body]])"

definition details_view :: "network_config option \<Rightarrow> wizard_page \<Rightarrow> wizard_event node list" where
  "details_view network w =
     [section_card ''App'' [] []
        [El T_div []
           [El T_div [] [label_for ''app-name'' ''App name'', El T_input [Ident ''app-name'', Value (wz_name w), Placeholder ''Acme Wallet'', Auto_focus, On_change Wz_name] []],
            El T_div [] [El T_label [For_id ''app-desc''] [Text ''Description '', El T_span [] [Text ''(optional)'']],
              El T_textarea [Ident ''app-desc'', Value (wz_description w), Placeholder ''What this app does, for your teammates.'', On_change Wz_description] []],
            El T_div [] [El T_span [] [Text ''Chain''], El T_p [] [Text (chain_name (map_option n_chain_id network))]],
            El T_div [] [El T_span [] [Text ''Signing group''], El T_div [] (map (mode_button (wz_mode w)) mode_options)]]]]"

definition picker_view :: "nat \<Rightarrow> int \<Rightarrow> string list \<Rightarrow> wizard_event node" where
  "picker_view n_ops threshold jurisdictions = (case threshold_picker n_ops threshold jurisdictions min_operators of
     Picker_prompt p \<Rightarrow> El T_p [] [Text p]
   | Picker_single \<Rightarrow> El T_div []
       [El T_div [] [El T_span [] [Text ''1-of-1''], El T_span [] [Text ''a single operator'']],
        callout Tone_warn [Text ''One signer holds this group'',
          info_tip [Text (''A development group is free, sponsored, and ours to run '' @ em_dash @ '' one operator holds the whole signing '' @
            ''authority, which is exactly why it cannot be promoted to production.'')]] []]
   | Picker_range n t tolerance collusion warning \<Rightarrow> El T_div []
       ([El T_div [] [El T_span [] [Text (dec_of_int t @ ''-of-'' @ dec_of_nat n)], El T_span [] [Text (''threshold of '' @ dec_of_nat n @ '' operators'')]],
         El T_input [Kind ''range'', Min_max 1 (int n), Value (dec_of_int t), Aria_label ''Signing threshold'', On_change Wz_threshold] [],
         El T_div [] [El T_div [] [El T_p [] [Text ''Fault tolerance''], El T_p [] [Text tolerance]],
           El T_div [] [El T_p [] [Text ''To forge a signature''], El T_p [] [Text collusion]]]] @
        (case warning of None \<Rightarrow> [] | Some m \<Rightarrow> [callout Tone_warn [Text ''Worth reconsidering'', info_tip [Text m]] []])))"

definition delay_button :: "int \<Rightarrow> int \<times> string \<times> string \<Rightarrow> wizard_event node" where
  "delay_button delay r = (case r of (d, l, hint) \<Rightarrow>
     El T_button [Key l, Kind ''button'', Class (if delay = d then ''border-accent-500 bg-accent-500/[0.08]'' else ''hover:bg-fg/[0.03] hairline''), On_click (Wz_delay d)]
       [El T_span [] [Text l], El T_span [] [Text hint]])"

definition choose_operators :: "intl \<Rightarrow> network_config option \<Rightarrow> node_operator list query \<Rightarrow> wizard_page \<Rightarrow> wizard_event node" where
  "choose_operators I network q w = (let ops = offered_operators network (q_data q) in
     section_card ''Choose your operators'' [] []
       [if q_loading q then grid_skeleton 6
        else if ops = [] then empty_state ''No operators are listed yet'' [] [] []
        else El T_div [] (map (\<lambda>n. node_card_view I n (op_address n \<in> set (wz_selected w)) (Some (Wz_toggle (op_address n))) None) ops)])"

definition operators_view :: "intl \<Rightarrow> network_config option \<Rightarrow> node_operator list query \<Rightarrow> wizard_page \<Rightarrow> wizard_event node list" where
  "operators_view I network q w =
     [El T_div []
        [callout Tone_warn [Text (''Our operators, our gas '' @ em_dash @ '' a single-operator group''),
           info_tip [Text (''Invite others once it exists. Production needs two operators outside O'' @ right_quote @ ''Leary Labs and a paid plan.'')]] [],
         choose_operators I network q w,
         section_card ''Set your threshold'' [] []
           [picker_view (length (wz_selected w)) (wz_threshold w) (map op_jurisdiction (selected_operators (offered_operators network (q_data q)) w)),
            El T_div []
              [El T_span [] [Text ''Removal timelock''],
               El T_p [] [Text (''How long a queued operator removal waits before it can be executed. The delay is what gives you time to notice a '' @
                 ''removal you did not intend '' @ em_dash @ '' including one initiated by a compromised manager key.'')],
               El T_div [] (map (delay_button (wz_removal_delay w)) REMOVAL_DELAYS)]]]]"

definition issuer_card :: "wizard_page \<Rightarrow> known_issuer \<Rightarrow> wizard_event node" where
  "issuer_card w k = (let on = ki_issuer k \<in> set (wz_issuers w); cid = ''cid-'' @ ki_provider k in
     El T_div [Key (ki_issuer k)]
       (El T_label []
          [El T_input [Kind ''checkbox'', Checked on, On_check (Wz_issuer (ki_issuer k))] [],
           El T_span [] [El T_span [] [Text (ki_label k)], El T_span [] [Text (ki_issuer k)]]] #
        opt on [El T_div [] [label_for cid ''Allowed client IDs'',
          field cid (''123-abc.apps.googleusercontent.com, '' @ ellipsis)
            (case wz_client_ids w (ki_issuer k) of None \<Rightarrow> [] | Some v \<Rightarrow> v) (Wz_client (ki_issuer k))]]))"

definition login_view :: "wizard_page \<Rightarrow> wizard_event node list" where
  "login_view w = [section_card ''How will your users sign in?'' [] [] [El T_div [] (map (issuer_card w) KNOWN_ISSUERS)]]"

definition review_link_view :: "network_config option \<Rightarrow> wizard_page \<Rightarrow> wizard_event node list" where
  "review_link_view network w =
     [El T_div []
        [section_card ''Review'' [] []
           [El T_dl [] (map (\<lambda>(l, v). dl_field l [Text v]) (review_rows network w)),
            El T_div []
              ([label_for ''group-address'' ''Group address'',
                El T_input [Ident ''group-address'', Value (wz_manual_address w), Placeholder (''0x'' @ ellipsis), Auto_focus, On_change Wz_manual] [],
                El T_p [] [Text (''The platform reads this group from the chain and refuses the link unless the account you signed in with is its '' @
                  ''manager. A pasted address is not evidence on its own.'')]] @
               (case address_complaint w of None \<Rightarrow> [] | Some m \<Rightarrow> [El T_p [] [Text m]]))],
         callout Tone_accent [Text ''What the chain decides, not this screen'',
           info_tip [Text (''The operator set, threshold, removal timelock and trusted issuers all live on the group contract, and the operators '' @
             ''read them there. Linking records the connection and syncs those values in; it changes nothing on-chain, so it needs no signature '' @
             ''and no gas.'')]] []]]"

definition review_node :: "node_operator \<Rightarrow> wizard_event node" where
  "review_node n = El T_li [Key (op_address n)]
     (El T_span [] [El T_span [] [Text (op_name n)], El T_span [] [Text (op_address n)]] #
      opt (must_accept n) [El T_span [] [Text ''Must accept'']])"

definition gas_callout :: "bool \<Rightarrow> wizard_event node" where
  "gas_callout sponsored = (if sponsored
     then callout Tone_success [Text ''No wallet prompt, no gas'',
       info_tip [Text (''Your Signet key signs this and our paymaster pays. Your smart wallet calls createGroup, so it is the group'' @ right_quote @
         ''s manager from the first block.'')]] []
     else callout Tone_neutral [Text (''Signed by your Signet key '' @ em_dash @ '' not sponsored''),
       info_tip [Text (''Your smart wallet calls createGroup and becomes the manager. Production groups are not sponsored, so the wallet pays its '' @
         ''own gas.'')]] [])"

definition review_create_view :: "network_config option \<Rightarrow> node_operator list query \<Rightarrow> bool \<Rightarrow> wizard_event node \<Rightarrow> wizard_page \<Rightarrow> wizard_event node list" where
  "review_create_view network q can_sign restore_notice w = (let ops = selected_operators (offered_operators network (q_data q)) w in
     [El T_div []
        ([section_card ''Review'' [] []
            [El T_dl [] (map (\<lambda>(l, v). dl_field l [Text v]) (review_rows network w)),
             El T_div [] [El T_p [] [Text ''Nodes''], El T_ul [] (map review_node ops)]]] @
         opt (\<not> can_sign) [restore_notice] @
         [gas_callout (sponsored_by network)] @
         opt (list_ex must_accept ops)
           [callout Tone_warn [Text ''Some nodes must accept first'',
              info_tip [Text (''Nodes that are not open start pending. The group is operational once at least '' @ dec_of_int (wz_threshold w) @
                '' are active; the pending list is on the group screen.'')]] []])])"

definition progress_view :: "deploy_stage \<Rightarrow> wizard_event node" where
  "progress_view st = El T_div []
     [El T_p [] [Text (deploy_stage_copy st)], El T_div [] [El T_div [] []],
      El T_p [] [Text (''Keep this tab open. Threshold signing waits for a quorum of your operators to respond, which can take a few seconds '' @
        ''across regions.'')]]"

definition failure_view :: "wizard_page \<Rightarrow> jserr \<Rightarrow> wizard_event node" where
  "failure_view w e =
     El T_div []
       ([error_view e None, El T_div [] [button Wz_retry ''Try again'', button Wz_review ''Back to review'']] @
        opt (\<not> attaching w)
          [El T_div []
             [El T_p [] [Text ''Already deployed a group elsewhere?''],
              El T_p [] [Text ''Paste its address and the platform will verify on-chain that you are its manager before linking it.''],
              El T_div []
                [El T_input [Placeholder (''0x'' @ ellipsis), Value (wz_manual_address w), On_change Wz_manual] [],
                 button_if (trim (wz_manual_address w) \<noteq> []) Wz_link ''Link it'']]])"

definition deploy_view :: "wizard_page \<Rightarrow> wizard_event node list" where
  "deploy_view w =
     [section_card (if attaching w then ''Linking'' else ''Deploying'') [] []
        ((case wp_stage w of None \<Rightarrow> [] | Some st \<Rightarrow> opt (st \<noteq> D_stage Done) [progress_view st]) @
         (case wp_error w of None \<Rightarrow> [] | Some e \<Rightarrow> [failure_view w e]))]"

definition wizard_foot :: "bool \<Rightarrow> wizard_page \<Rightarrow> wizard_event node list" where
  "wizard_foot can_sign w = opt (wz_step w \<noteq> At_deploy)
     [El T_div []
        [button_if (step_index w \<noteq> 0) Wz_back ''Back'',
         if wz_step w = At_review
         then button_if (if attaching w then address_valid w else can_sign) Wz_deploy
           (if attaching w then ''Link signing group'' else ''Deploy signing group'')
         else button_if (can_continue w) Wz_continue ''Continue'']]"

definition wizard_body :: "intl \<Rightarrow> network_config option \<Rightarrow> node_operator list query \<Rightarrow> bool \<Rightarrow> wizard_event node \<Rightarrow> wizard_page \<Rightarrow> wizard_event node list" where
  "wizard_body I network q can_sign restore_notice w = (case wz_step w of
     At_details \<Rightarrow> details_view network w
   | At_operators \<Rightarrow> operators_view I network q w
   | At_login \<Rightarrow> login_view w
   | At_review \<Rightarrow> if attaching w then review_link_view network w else review_create_view network q can_sign restore_notice w
   | At_deploy \<Rightarrow> deploy_view w)"

text \<open>\<open>n_stage\<close> and \<open>n_error\<close> are the state of the notice about the signing session.\<close>

definition wizard_view :: "intl \<Rightarrow> network_config option \<Rightarrow> node_operator list query \<Rightarrow> bool \<Rightarrow> user option \<Rightarrow> string option \<Rightarrow> jserr option \<Rightarrow>
    wizard_page \<Rightarrow> wizard_event node list" where
  "wizard_view I network q can_sign u n_stage n_error w =
     [page_header ''Create a signing group'' [] [El T_link [Href ''/apps''] [Text ''Cancel'']] ''New app'', step_bar w] @
     wizard_body I network q can_sign (session_notice_view Wz_restore u n_stage n_error) w @
     wizard_foot can_sign w"

subsection \<open>Handlers\<close>

text \<open>What each control runs. \<open>ready\<close> says that organization, network and user are there; the slider's value is
  converted with \<open>Number\<close>.\<close>

definition wizard_run :: "bool \<Rightarrow> wizard_event \<Rightarrow> wizard_page \<Rightarrow> wizard_page" where
  "wizard_run ready ev w = (case ev of
     Wz_bar i \<Rightarrow> press_bar (int i) w
   | Wz_name v \<Rightarrow> w\<lparr>wz_name := v\<rparr>
   | Wz_description v \<Rightarrow> w\<lparr>wz_description := v\<rparr>
   | Wz_mode m \<Rightarrow> choose_mode m w
   | Wz_toggle a \<Rightarrow> toggle_operator a w
   | Wz_threshold v \<Rightarrow> w\<lparr>wz_threshold := (case number_of v of Finite r \<Rightarrow> \<lfloor>r\<rfloor> | _ \<Rightarrow> 0)\<rparr>
   | Wz_delay d \<Rightarrow> w\<lparr>wz_removal_delay := d\<rparr>
   | Wz_issuer i b \<Rightarrow> toggle_issuer i b w
   | Wz_client i v \<Rightarrow> w\<lparr>wz_client_ids := (wz_client_ids w)(i \<mapsto> v)\<rparr>
   | Wz_manual v \<Rightarrow> w\<lparr>wz_manual_address := v\<rparr>
   | Wz_back \<Rightarrow> press_back w
   | Wz_continue \<Rightarrow> press_continue w
   | Wz_deploy \<Rightarrow> press_deploy ready w
   | Wz_retry \<Rightarrow> maybe_launch ready None w
   | Wz_review \<Rightarrow> w\<lparr>wz_step := At_review\<rparr>
   | Wz_link \<Rightarrow> maybe_launch ready (Some (wz_manual_address w)) w
   | Wz_restore \<Rightarrow> w)"

text \<open>What a user can bring a tree to send: a press, a text typed, a box ticked or cleared. A browser keeps a slider
  inside its range, and a press on a box sends the other value; the restore button is the notice's own.\<close>

definition can_send :: "'e node list \<Rightarrow> 'e \<Rightarrow> bool" where
  "can_send ns e \<longleftrightarrow> e \<in> set (offers ns) \<or> (\<exists>c \<in> set (edits ns). \<exists>v. e = c v) \<or> (\<exists>c \<in> set (checks ns). \<exists>b. e = c b)"

definition wizard_input :: "wizard_page \<Rightarrow> wizard_event \<Rightarrow> bool" where
  "wizard_input w ev = (case ev of
     Wz_threshold v \<Rightarrow> v \<in> (\<lambda>n. dec_of_int (int n)) ` {1..length (wz_selected w)}
   | Wz_issuer i b \<Rightarrow> b = (i \<notin> set (wz_issuers w))
   | Wz_restore \<Rightarrow> False
   | _ \<Rightarrow> True)"

text \<open>The steps no control causes: the effect that drops what is not offered, and a deployment's own progress.\<close>

definition wizard_own :: "string list \<Rightarrow> wizard_page \<Rightarrow> wizard_page \<Rightarrow> bool" where
  "wizard_own offered w w' \<longleftrightarrow> w' = keep_offered offered w \<or>
     0 < wp_running w \<and> (w' = deploy_succeeded w \<or> (\<exists>e. w' = deploy_failed e w) \<or> (\<exists>st. w' = w\<lparr>wp_stage := Some st\<rparr>))"

definition shown_operators :: "network_config option \<Rightarrow> node_operator list query \<Rightarrow> string list" where
  "shown_operators network q = (if q_loading q then [] else map op_address (offered_operators network (q_data q)))"

subsection \<open>What the page offers\<close>

lemma can_send_append: "can_send (ns @ ms) e \<longleftrightarrow> can_send ns e \<or> can_send ms e"
  by (auto simp: can_send_def view_simps)

lemma step_bar_read: "read_node clicks (step_bar w) = map Wz_bar (filter (\<lambda>i. \<not> (int i > step_index w \<or> wp_stage w \<noteq> None)) [0..<length (steps_of (wz_mode w))])"
    "read_node edits_of (step_bar w) = []" "read_node checks_of (step_bar w) = []"
proof -
  have b: "read_node clicks (step_button w x) = (if \<not> (int (fst x) > step_index w \<or> wp_stage w \<noteq> None) then [Wz_bar (fst x)] else [])"
      "read_node edits_of (step_button w x) = []" "read_node checks_of (step_button w x) = []" for x
    by (auto simp: step_button_def view_simps split: prod.split)
  have f: "concat (map (\<lambda>x. if P (fst x) then [Wz_bar (fst x)] else []) (enumerate n xs)) = map Wz_bar (filter P [n..<n + length xs])" for n xs P
  proof (induction xs arbitrary: n)
    case (Cons x xs)
    have "[n..<n + length (x # xs)] = n # [Suc n..<Suc n + length xs]" by (simp add: upt_conv_Cons del: upt_Suc)
    with Cons [of "Suc n"] show ?case by simp
  qed simp
  show "read_node clicks (step_bar w) = map Wz_bar (filter (\<lambda>i. \<not> (int i > step_index w \<or> wp_stage w \<noteq> None)) [0..<length (steps_of (wz_mode w))])"
    using f [of "\<lambda>i. \<not> (int i > step_index w \<or> wp_stage w \<noteq> None)" 0 "steps_of (wz_mode w)"]
    by (simp only: step_bar_def offered.element offered.mapped offered.bare_el b) simp
  show "read_node edits_of (step_bar w) = []" "read_node checks_of (step_bar w) = []"
    by (simp_all only: step_bar_def edited.element checked.element edited.mapped checked.mapped edited.bare_el checked.bare_el b) simp_all
qed

lemma details_read: "offers (details_view n w) = [Wz_mode Mode_deploy, Wz_mode Mode_attach]" "edits (details_view n w) = [Wz_name, Wz_description]"
    "checks (details_view n w) = []"
  by (simp_all add: details_view_def mode_options_def mode_button_def view_simps)

lemma picker_read: "read_node clicks (picker_view k t js) = []" "read_node checks_of (picker_view k t js) = []"
    "read_node edits_of (picker_view k t js) = (if 1 < k then [Wz_threshold] else [])"
  by (auto simp: picker_view_def threshold_picker_def min_operators_def view_simps split: option.split)

lemma grid_skeleton_quiet: "read_node edits_of (grid_skeleton k) = []" "read_node checks_of (grid_skeleton k) = []"
  by (simp_all add: grid_skeleton_def view_simps)

lemma choose_read: "read_node clicks (choose_operators I n q w) = map Wz_toggle (shown_operators n q)" "read_node checks_of (choose_operators I n q w) = []"
    "read_node edits_of (choose_operators I n q w) = []"
  by (simp_all add: choose_operators_def shown_operators_def view_simps grid_skeleton_quiet concat_singles Let_def)

lemma operators_read: "offers (operators_view I n q w) = map Wz_toggle (shown_operators n q) @ map (\<lambda>r. Wz_delay (fst r)) REMOVAL_DELAYS"
    "edits (operators_view I n q w) = (if 1 < length (wz_selected w) then [Wz_threshold] else [])" "checks (operators_view I n q w) = []"
  by (simp_all add: operators_view_def view_simps choose_read picker_read delay_button_def split_def concat_singles)

lemma issuer_card_read: "read_node clicks (issuer_card w k) = []" "read_node checks_of (issuer_card w k) = [Wz_issuer (ki_issuer k)]"
    "read_node edits_of (issuer_card w k) = (if ki_issuer k \<in> set (wz_issuers w) then [Wz_client (ki_issuer k)] else [])"
  by (simp_all add: issuer_card_def view_simps Let_def)

lemma login_read: "offers (login_view w) = []" "checks (login_view w) = map (\<lambda>k. Wz_issuer (ki_issuer k)) KNOWN_ISSUERS"
    "edits (login_view w) = concat (map (\<lambda>k. if ki_issuer k \<in> set (wz_issuers w) then [Wz_client (ki_issuer k)] else []) KNOWN_ISSUERS)"
  by (simp_all add: login_view_def view_simps issuer_card_read concat_singles)

lemma dl_fields_read [view_simps]: "read_node clicks (dl_field l ns) = offers ns" "read_node edits_of (dl_field l ns) = edits ns"
    "read_node checks_of (dl_field l ns) = checks ns" "read_node ids_of (dl_field l ns) = ids ns" "read_node fors_of (dl_field l ns) = label_targets ns"
  by (simp_all add: dl_field_def view_simps)

lemma session_notice_read: "set (read_node clicks (session_notice_view Wz_restore u st e)) \<subseteq> {Wz_restore}"
    "read_node edits_of (session_notice_view Wz_restore u st e) = []" "read_node checks_of (session_notice_view Wz_restore u st e) = []"
  by (auto simp: session_notice_view_def session_notice_def view_simps split: if_splits)

lemma review_link_read: "offers (review_link_view n w) = []" "edits (review_link_view n w) = [Wz_manual]" "checks (review_link_view n w) = []"
  by (simp_all add: review_link_view_def view_simps split_def split: option.split)

lemma review_create_read: "set (offers (review_create_view n q cs (session_notice_view Wz_restore u st e) w)) \<subseteq> {Wz_restore}"
    "edits (review_create_view n q cs (session_notice_view Wz_restore u st e) w) = []"
    "checks (review_create_view n q cs (session_notice_view Wz_restore u st e) w) = []"
  using session_notice_read
  by (auto simp: review_create_view_def review_node_def gas_callout_def view_simps split_def Let_def split: option.split)

lemma deploy_read: "offers (deploy_view w) = (if wp_error w = None then [] else [Wz_retry, Wz_review] @
      (if \<not> attaching w \<and> trim (wz_manual_address w) \<noteq> [] then [Wz_link] else []))"
    "edits (deploy_view w) = (if wp_error w = None \<or> attaching w then [] else [Wz_manual])" "checks (deploy_view w) = []"
  by (simp_all add: deploy_view_def progress_view_def failure_view_def view_simps split: option.split)

lemma foot_read: "offers (wizard_foot cs w) = (if back_enabled w then [Wz_back] else []) @ (if deploy_enabled cs w then [Wz_deploy] else []) @
      (if continue_enabled w then [Wz_continue] else [])"
    "edits (wizard_foot cs w) = []" "checks (wizard_foot cs w) = []"
  by (simp_all add: wizard_foot_def back_enabled_def deploy_enabled_def continue_enabled_def view_simps)

lemmas wizard_reads = step_bar_read details_read operators_read login_read review_link_read deploy_read foot_read

subsection \<open>The page is the machine\<close>

text \<open>The condition under which each event can be sent.\<close>

definition wizard_allows :: "string list \<Rightarrow> bool \<Rightarrow> wizard_page \<Rightarrow> wizard_event \<Rightarrow> bool" where
  "wizard_allows offered can_sign w ev = (case ev of
     Wz_bar i \<Rightarrow> bar_enabled (int i) (wp_stage w \<noteq> None) w
   | Wz_name v \<Rightarrow> wz_step w = At_details | Wz_description v \<Rightarrow> wz_step w = At_details | Wz_mode m \<Rightarrow> wz_step w = At_details
   | Wz_toggle a \<Rightarrow> wz_step w = At_operators \<and> a \<in> set offered
   | Wz_threshold v \<Rightarrow> wz_step w = At_operators \<and> 1 < length (wz_selected w)
   | Wz_delay d \<Rightarrow> wz_step w = At_operators \<and> d \<in> fst ` set REMOVAL_DELAYS
   | Wz_issuer i b \<Rightarrow> wz_step w = At_login \<and> i \<in> ki_issuer ` set KNOWN_ISSUERS
   | Wz_client i v \<Rightarrow> wz_step w = At_login \<and> i \<in> ki_issuer ` set KNOWN_ISSUERS \<and> i \<in> set (wz_issuers w)
   | Wz_manual v \<Rightarrow> wz_step w = At_review \<and> attaching w \<or> failure_shown w \<and> \<not> attaching w
   | Wz_back \<Rightarrow> back_enabled w | Wz_continue \<Rightarrow> continue_enabled w | Wz_deploy \<Rightarrow> deploy_enabled can_sign w
   | Wz_retry \<Rightarrow> failure_shown w | Wz_review \<Rightarrow> failure_shown w
   | Wz_link \<Rightarrow> failure_shown w \<and> \<not> attaching w \<and> trim (wz_manual_address w) \<noteq> []
   | Wz_restore \<Rightarrow> False)"

lemma modes: "m = Mode_deploy \<or> m = Mode_attach"
  by (cases m) simp_all

lemma bar_sends: "can_send [step_bar w] ev \<longleftrightarrow> (\<exists>i. ev = Wz_bar i \<and> bar_enabled (int i) (wp_stage w \<noteq> None) w)"
  by (auto simp: can_send_def wizard_reads view_simps bar_enabled_def)

lemma foot_sends: "can_send (wizard_foot cs w) ev \<longleftrightarrow>
    ev = Wz_back \<and> back_enabled w \<or> ev = Wz_deploy \<and> deploy_enabled cs w \<or> ev = Wz_continue \<and> continue_enabled w"
  by (auto simp: can_send_def wizard_reads)

lemma body_sends:
  assumes "ev \<noteq> Wz_restore"
  shows "can_send (wizard_body I n q cs (session_notice_view Wz_restore u st e) w) ev \<longleftrightarrow>
    wizard_allows (shown_operators n q) cs w ev \<and> (case ev of Wz_bar i \<Rightarrow> False | Wz_back \<Rightarrow> False | Wz_deploy \<Rightarrow> False | Wz_continue \<Rightarrow> False | _ \<Rightarrow> True)"
proof -
  have r: "\<not> can_send (review_create_view n q cs (session_notice_view Wz_restore u st e) w) ev"
    using review_create_read [of n q cs u st e w] assms by (auto simp: can_send_def)
  show ?thesis
  proof (cases "wz_step w")
    case At_details
    then show ?thesis using modes
      by (simp add: wizard_body_def can_send_def wizard_reads wizard_allows_def failure_shown_def split: wizard_event.split)
  next
    case At_operators
    then show ?thesis
      by (auto simp: wizard_body_def can_send_def wizard_reads wizard_allows_def failure_shown_def image_iff split: wizard_event.split)
  next
    case At_login
    then show ?thesis
      by (auto simp: wizard_body_def can_send_def wizard_reads wizard_allows_def failure_shown_def image_iff split: wizard_event.split if_splits)
  next
    case At_review
    then show ?thesis
      using r by (auto simp: wizard_body_def wizard_reads wizard_allows_def failure_shown_def can_send_def split: wizard_event.split)
  next
    case At_deploy
    then show ?thesis
      by (auto simp: wizard_body_def can_send_def wizard_reads wizard_allows_def failure_shown_def split: wizard_event.split)
  qed
qed

lemma wizard_sends:
  assumes "ev \<noteq> Wz_restore"
  shows "can_send (wizard_view I n q cs u st e w) ev \<longleftrightarrow> wizard_allows (shown_operators n q) cs w ev"
proof -
  have "wizard_view I n q cs u st e w = [page_header ''Create a signing group'' [] [El T_link [Href ''/apps''] [Text ''Cancel'']] ''New app''] @
      [step_bar w] @ wizard_body I n q cs (session_notice_view Wz_restore u st e) w @ wizard_foot cs w"
    by (simp add: wizard_view_def)
  moreover have "\<not> can_send [page_header ''Create a signing group'' [] [El T_link [Href ''/apps''] [Text ''Cancel'']] ''New app''] ev"
    by (simp add: can_send_def view_simps)
  ultimately have "can_send (wizard_view I n q cs u st e w) ev \<longleftrightarrow> can_send [step_bar w] ev \<or>
      can_send (wizard_body I n q cs (session_notice_view Wz_restore u st e) w) ev \<or> can_send (wizard_foot cs w) ev"
    by (simp only: can_send_append) blast
  then show ?thesis
    unfolding bar_sends foot_sends body_sends [OF assms] using assms
    by (cases ev) (auto simp: wizard_allows_def)
qed

lemma slider_value: "wizard_run ready (Wz_threshold (dec_of_int i)) w = w\<lparr>wz_threshold := i\<rparr>"
  by (simp add: wizard_run_def number_of_dec)

lemma allowed_steps: "wizard_allows offered cs w ev \<Longrightarrow> wizard_input w ev \<Longrightarrow> wizard_page_step offered w (wizard_run ready ev w)"
proof (cases ev)
  case (Wz_threshold v)
  assume a: "wizard_allows offered cs w ev" "wizard_input w ev"
  then obtain k where k: "v = dec_of_int (int k)" "1 \<le> k" "k \<le> length (wz_selected w)"
    by (auto simp: Wz_threshold wizard_input_def)
  show ?thesis
    unfolding Wz_threshold k(1) slider_value
    using a(1) k(2,3) by (intro w_operators w_threshold) (auto simp: Wz_threshold wizard_allows_def)
qed (auto simp: wizard_allows_def wizard_input_def wizard_run_def
    intro: wizard_page_step.intros details_step.intros operators_step.intros login_step.intros)

lemma usedI:
  assumes "wizard_allows offered cs w ev" and "wizard_input w ev" and "w' = wizard_run ready ev w"
  shows "wizard_own offered w w' \<or> (\<exists>cs ready ev. wizard_allows offered cs w ev \<and> wizard_input w ev \<and> w' = wizard_run ready ev w)"
  using assms by blast

lemmas event_simps = wizard_allows_def wizard_input_def wizard_run_def

lemma steps_allowed:
  assumes "wizard_page_step offered w w'"
  shows "wizard_own offered w w' \<or> (\<exists>cs ready ev. wizard_allows offered cs w ev \<and> wizard_input w ev \<and> w' = wizard_run ready ev w)"
  using assms
proof cases
  case w_details
  then show ?thesis
  proof cases
    case (w_name v)
    then show ?thesis by (intro usedI [where ev = "Wz_name v"]) (simp_all add: event_simps)
  next
    case (w_description v)
    then show ?thesis by (intro usedI [where ev = "Wz_description v"]) (simp_all add: event_simps)
  next
    case (w_mode m)
    then show ?thesis by (intro usedI [where ev = "Wz_mode m"]) (simp_all add: event_simps)
  qed
next
  case w_operators
  then show ?thesis
  proof cases
    case (w_toggle a)
    then show ?thesis by (intro usedI [where ev = "Wz_toggle a"]) (simp_all add: event_simps)
  next
    case (w_threshold v)
    then have "v = int (nat v)" "nat v \<in> {1..length (wz_selected w)}" unfolding atLeastAtMost_iff by linarith+
    then have "wizard_input w (Wz_threshold (dec_of_int v))" unfolding wizard_input_def wizard_event.case by (metis image_eqI)
    moreover have "wizard_allows offered cs w (Wz_threshold (dec_of_int v))" for cs using w_threshold by (simp add: wizard_allows_def)
    ultimately show ?thesis using usedI w_threshold(1) slider_value by metis
  next
    case (w_delay d)
    then show ?thesis by (intro usedI [where ev = "Wz_delay d"]) (simp_all add: event_simps)
  qed
next
  case w_login
  then show ?thesis
  proof cases
    case (w_issuer k)
    then show ?thesis by (intro usedI [where ev = "Wz_issuer (ki_issuer k) (ki_issuer k \<notin> set (wz_issuers w))"]) (simp_all add: event_simps)
  next
    case (w_client_id k v)
    then show ?thesis by (intro usedI [where ev = "Wz_client (ki_issuer k) v"]) (simp_all add: event_simps)
  qed
next
  case (w_manual v)
  then show ?thesis by (intro usedI [where ev = "Wz_manual v"]) (simp_all add: event_simps)
next
  case (w_bar i)
  moreover from this have "0 \<le> i" by (simp add: bar_enabled_def)
  ultimately show ?thesis by (intro usedI [where ev = "Wz_bar (nat i)"]) (simp_all add: event_simps)
next
  case w_back
  then show ?thesis by (intro usedI [where ev = Wz_back]) (simp_all add: event_simps)
next
  case w_continue
  then show ?thesis by (intro usedI [where ev = Wz_continue]) (simp_all add: event_simps)
next
  case (w_deploy cs ready)
  then show ?thesis by (intro usedI [where ev = Wz_deploy and cs = cs and ready = ready]) (simp_all add: event_simps)
next
  case (w_retry ready)
  then show ?thesis by (intro usedI [where ev = Wz_retry and ready = ready]) (simp_all add: event_simps)
next
  case w_review
  then show ?thesis by (intro usedI [where ev = Wz_review]) (simp_all add: event_simps)
next
  case (w_link ready)
  then show ?thesis by (intro usedI [where ev = Wz_link and ready = ready]) (simp_all add: event_simps)
qed (auto simp: wizard_own_def)

lemma own_steps: "wizard_own offered w w' \<Longrightarrow> wizard_page_step offered w w'"
  by (auto simp: wizard_own_def intro: wizard_page_step.intros)

subsection \<open>Soundness\<close>

lemma picker_ok [parts]: "node_ok (picker_view k t js)" "read_node fors_of (picker_view k t js) = []"
  by (simp_all add: picker_view_def threshold_picker_def parts view_simps split: option.split)

lemma wizard_items_ok [parts]: "node_ok (step_button w r)" "node_ok (mode_button m mo)" "node_ok (delay_button d de)" "node_ok (issuer_card w k)"
    "node_ok (review_node n)" "node_ok (dl_field l ns) \<longleftrightarrow> parts_ok ns" "node_ok (gas_callout b)" "node_ok (progress_view st)" "node_ok (failure_view w e)"
  by (auto simp: step_button_def mode_button_def delay_button_def issuer_card_def review_node_def dl_field_def gas_callout_def progress_view_def
      failure_view_def parts Let_def split: prod.split)

lemma wizard_parts_ok [parts]: "node_ok (step_bar w)" "parts_ok (details_view n w)" "parts_ok (operators_view I n q w)" "parts_ok (login_view w)"
    "parts_ok (review_link_view n w)" "parts_ok (review_create_view n q cs nd w) \<longleftrightarrow> (if cs then True else node_ok nd)" "parts_ok (deploy_view w)"
    "parts_ok (wizard_foot cs w)" "node_ok (session_notice_view Wz_restore u st e)"
  by (auto simp: step_bar_def details_view_def operators_view_def choose_operators_def login_view_def review_link_view_def review_create_view_def
      deploy_view_def wizard_foot_def session_notice_view_def session_notice_def parts Let_def split: option.split)

lemma wizard_item_labels: "read_node fors_of (step_button w r) = []" "read_node fors_of (issuer_card w k) = read_node ids_of (issuer_card w k)"
    "read_node fors_of (review_node nd) = []" "read_node fors_of (session_notice_view Wz_restore u st e) = []"
  by (simp_all add: step_button_def issuer_card_def review_node_def session_notice_view_def session_notice_def view_simps Let_def split: prod.split)

lemma wizard_labels: "label_targets (details_view n w) = ids (details_view n w)" "label_targets (operators_view I n q w) = []"
    "label_targets (login_view w) = ids (login_view w)" "label_targets (review_link_view n w) = ids (review_link_view n w)"
    "label_targets (review_create_view n q cs (session_notice_view Wz_restore u st e) w) = []" "label_targets (deploy_view w) = []"
    "read_node fors_of (step_bar w) = []" "label_targets (wizard_foot cs w) = []"
  by (simp_all add: step_bar_def details_view_def mode_button_def operators_view_def choose_operators_def delay_button_def
      login_view_def review_link_view_def review_create_view_def gas_callout_def wizard_item_labels
      deploy_view_def progress_view_def failure_view_def wizard_foot_def parts view_simps Let_def split_def split: option.split)

lemma wizard_sound: "sound_view (wizard_view I n q cs u st e w)"
proof (rule sound_viewI)
  show "parts_ok (wizard_view I n q cs u st e w)"
    by (simp add: wizard_view_def wizard_body_def parts split: wizard_step.split)
  have "set (label_targets (wizard_body I n q cs (session_notice_view Wz_restore u st e) w)) \<subseteq>
      set (ids (wizard_body I n q cs (session_notice_view Wz_restore u st e) w))"
    by (simp add: wizard_body_def wizard_labels split: wizard_step.split)
  then show "set (label_targets (wizard_view I n q cs u st e w)) \<subseteq> set (ids (wizard_view I n q cs u st e w))"
    by (auto simp: wizard_view_def view_simps wizard_labels)
qed

subsection \<open>Properties\<close>

text \<open>C33: The page of the wizard is its machine. What a user can press, type or tick on it, run by its handler, is a
  step of the machine in which every deployment was shown to be sound; and every step of the machine is
  one of these, or one the page takes by itself: dropping a selection that is no longer offered, or the
  progress of a deployment under way.\<close>

theorem wizard_page_is_its_machine:
  "wizard_page_step (shown_operators network q) w w' \<longleftrightarrow>
     wizard_own (shown_operators network q) w w' \<or>
     (\<exists>can_sign ready ev. can_send (wizard_view I network q can_sign u n_stage n_error w) ev \<and> wizard_input w ev \<and> w' = wizard_run ready ev w)"
proof -
  have "can_send (wizard_view I network q cs u n_stage n_error w) ev \<and> wizard_input w ev \<longleftrightarrow>
      wizard_allows (shown_operators network q) cs w ev \<and> wizard_input w ev" for cs ev
    by (cases "ev = Wz_restore") (simp_all add: wizard_input_def wizard_sends)
  then show ?thesis
    using own_steps allowed_steps steps_allowed by meson
qed

end
