(* ===== verification/Views_Group.thy ===== *)
theory Views_Group
  imports Views_Wizard
begin

text \<open>
  The tree of the signing group's screen (\<open>web/app/(console)/apps/[appId]/group/page.tsx\<close>). Its buttons are those of
  \<open>Group_Page\<close>, whose \<open>button_call\<close> says what each of them asks the group to do.
\<close>

subsection \<open>The screen\<close>

record group_screen =
  gs_invite_open :: bool
  gs_attach_open :: bool
  gs_pending :: "string option"
  gs_syncing :: bool
  gs_address :: string
  gs_linking :: bool
  gs_link_error :: "jserr option"
  gs_notice_stage :: "string option"
  gs_notice_error :: "jserr option"

datatype group_event = Gp_reload | Gp_sync | Gp_open_invite | Gp_close_invite | Gp_open_attach | Gp_close_attach | Gp_address string | Gp_link
  | Gp_call group_button | Gp_restore

definition group_header :: "group_event node list \<Rightarrow> group_event node" where
  "group_header actions = page_header ''Signing group''
     [Text (''Every change here is an on-chain transaction from your own account. The platform reads your group and caches it; it cannot alter it.'')]
     actions []"

definition attach_modal :: "group_screen \<Rightarrow> group_event node list" where
  "attach_modal s =
     modal (gs_attach_open s) Gp_close_attach ''Link an existing signing group'' []
       [Text ''The platform reads the contract and refuses the link unless the account you signed in with is its manager.'']
       (error_opt (gs_link_error s) None @
        [label_for ''group-address'' ''Group address'', field ''group-address'' (''0x'' @ ellipsis) (gs_address s) Gp_address])
       [button Gp_close_attach ''Cancel'',
        button_if (link_enabled (gs_linking s) (gs_address s)) Gp_link (if gs_linking s then ''Verifying'' @ ellipsis else ''Link group'')]
       False"

definition no_group_view :: "group_screen \<Rightarrow> group_event node list" where
  "no_group_view s =
     [group_header [],
      empty_state ''No signing group attached'' []
        [El T_div [] [El T_link [Href ''/apps/new''] [Text ''Deploy a group''], button Gp_open_attach ''Link an existing group'']] []] @
     attach_modal s"

definition node_row :: "group_node \<Rightarrow> group_event node list \<Rightarrow> group_event node" where
  "node_row n acts =
     El T_li [Key (gn_address n)]
       [El T_div [] [status_dot_view (node_tone n) (node_pulses n),
          El T_div [] [El T_p [] [Text (node_name n)], El T_p [] [Text (short_address 12 8 (Some (gn_address n)))]]],
        El T_div []
          ((case gn_operator n of None \<Rightarrow> [] | Some op \<Rightarrow> opt (op_jurisdiction op \<noteq> []) [El T_span [] [Text (op_jurisdiction op)]]) @
           [badge (fst (node_badge n)) False [Text (snd (node_badge n))]] @ acts)]"

definition active_section :: "bool \<Rightarrow> group_screen \<Rightarrow> group_view \<Rightarrow> group_event node" where
  "active_section can_sign s g = (let active = nodes_with Node_active (Some g) in
     section_card (''Active operators ('' @ dec_of_nat (length active) @ '')'') []
       [button_if (invite_enabled can_sign) Gp_open_invite ''Invite an operator'']
       [if active = [] then empty_state ''No active operators'' [] [] []
        else El T_ul [] (map (\<lambda>n. node_row n
          [button_if (queue_enabled (gs_pending s) can_sign) (Gp_call (B_queue (gn_address n)))
             (if gs_pending s = Some ''Queue removal'' then ellipsis else ''Queue removal'')]) active)])"

definition pending_section :: "group_view \<Rightarrow> group_event node list" where
  "pending_section g = (let waiting = nodes_with Node_pending (Some g) in
     opt (waiting \<noteq> []) [section_card (''Awaiting acceptance ('' @ dec_of_nat (length waiting) @ '')'') [] []
       [El T_ul [] (map (\<lambda>n. node_row n []) waiting)]])"

definition execute_button :: "bool \<Rightarrow> string option \<Rightarrow> string \<Rightarrow> group_event node" where
  "execute_button enabled remaining a = (case remaining of
     None \<Rightarrow> El T_button [Kind ''button'', Disabled (\<not> enabled), On_click (Gp_call (B_execute a))] [Text ''Execute'']
   | Some r \<Rightarrow> El T_button [Kind ''button'', Title (''Executable in '' @ r), Disabled (\<not> enabled), On_click (Gp_call (B_execute a))] [Text ''Execute''])"

definition removing_actions :: "intl \<Rightarrow> int \<Rightarrow> group_screen \<Rightarrow> group_node \<Rightarrow> group_event node" where
  "removing_actions I now s n = (let remaining = countdown I now (gn_execute_after n) in
     El T_div []
       ((case remaining of None \<Rightarrow> [] | Some r \<Rightarrow> opt (r \<noteq> []) [El T_span [] [Text r]]) @
        [button_if (cancel_enabled (gs_pending s)) (Gp_call (B_cancel (gn_address n))) ''Cancel'',
         execute_button (execute_enabled (gs_pending s) remaining) remaining (gn_address n)]))"

definition removing_section :: "intl \<Rightarrow> int \<Rightarrow> group_screen \<Rightarrow> group_view \<Rightarrow> group_event node list" where
  "removing_section I now s g = (let leaving = nodes_with Node_removing (Some g) in
     opt (leaving \<noteq> []) [section_card (''Queued removals ('' @ dec_of_nat (length leaving) @ '')'') [] []
       [El T_ul [] (map (\<lambda>n. node_row n [removing_actions I now s n]) leaving)]])"

definition reshare_section :: "bool \<Rightarrow> group_screen \<Rightarrow> group_event node" where
  "reshare_section can_sign s =
     section_card ''Refresh key shares'' [] []
       [El T_div []
          [button_if (reshare_enabled (gs_pending s) can_sign) (Gp_call B_reshare)
             (if gs_pending s = Some ''Reshare request'' then ''Requesting'' @ ellipsis else ''Request a reshare''),
           El T_p [] [Text (''Worth doing after an operator leaves, or on a schedule if you want stolen shares to expire on their own.'')]]]"

definition detail_field :: "intl \<Rightarrow> group_view \<Rightarrow> string \<times> string \<Rightarrow> group_event node" where
  "detail_field I g r = (case r of (l, v) \<Rightarrow> dl_field l
     (if l = ''Group address'' then [Copy_value (case a_group_address (gv_app g) of None \<Rightarrow> [] | Some a \<Rightarrow> a) (Some v) (Some ''Group address'')]
      else if l = ''Manager'' then
        (case gv_onchain g of None \<Rightarrow> [Text v] | Some oc \<Rightarrow> [Copy_value (og_manager oc) (Some v) None])
      else if l = ''Identity resolver'' then
        [Text v] @ (case Option.bind (gv_onchain g) og_pending_resolver of None \<Rightarrow> []
          | Some p \<Rightarrow> [El T_span [] [Text (''Change queued '' @ em_dash @ '' executable '' @
              format_date_time I (Some (iso_string (nat (fst p * 1000)))))]])
      else [Text v]))"

definition stat_extras :: "group_view \<Rightarrow> (group_event node list \<times> tone option) list" where
  "stat_extras g = (let active = dec_of_nat (length (nodes_with Node_active (Some g))); t = dec_of_int (shown_threshold g);
       changes = length (nodes_with Node_pending (Some g)) + length (nodes_with Node_removing (Some g)) in
     [([Text (''Any '' @ t @ '' of the '' @ active @ '' active operators can sign.'')], None),
      ([Text (status_hint g)], Some (if operational g then Tone_success else Tone_error)),
      ([Text ''How long a queued removal waits before anyone can execute it.''], None),
      ([Text ''Invitations awaiting acceptance, plus queued removals.''], if 0 < changes then Some Tone_warn else None)])"

definition stat_value :: "group_view \<Rightarrow> string \<times> string \<Rightarrow> group_event node list" where
  "stat_value g r = (if fst r = ''Status''
     then [El T_span [] [status_dot_view (if operational g then Tone_success else Tone_error) (operational g), Text (snd r)]]
     else [Text (snd r)])"

definition group_stats :: "group_view \<Rightarrow> group_event node" where
  "group_stats g = El T_div []
     (map (\<lambda>(r, hint, tn). stat_card (fst r) (stat_value g r) hint tn) (zip (stat_cards g) (stat_extras g)))"

definition invite_modal :: "intl \<Rightarrow> group_screen \<Rightarrow> group_view \<Rightarrow> node_operator list option \<Rightarrow> group_event node list" where
  "invite_modal I s g ops =
     modal (gs_invite_open s) Gp_close_invite ''Invite an operator'' []
       [Text ''Open operators join immediately. Others enter a pending state until they accept.'']
       [if invitable (Some g) ops = [] then empty_state ''Every listed operator is already in this group'' [] [] []
        else El T_div [] (map (\<lambda>n. node_card_view I n False (Some (Gp_call (B_invite (op_address n)))) None) (invitable (Some g) ops))]
       [] True"

definition below_threshold :: "group_view \<Rightarrow> group_event node list" where
  "below_threshold g = (let active = dec_of_nat (length (nodes_with Node_active (Some g))); t = dec_of_int (shown_threshold g) in
     opt (\<not> operational g) [El T_div [] [callout Tone_error
       [Text (''Below threshold '' @ em_dash @ '' '' @ active @ '' of '' @ t @ '' operators active''),
        info_tip [Text (''Your users cannot generate keys or sign until at least '' @ t @ '' are active. Invite another operator, or ask the '' @
          ''pending ones to accept.'')]] []]])"

definition sync_note :: "group_view \<Rightarrow> group_event node list" where
  "sync_note g = opt (truthy_str (gv_sync_error g)) [El T_div [] [callout Tone_warn
     [Text ''Showing the last state the platform could read'',
      info_tip [Text (''The chain could not be read just now, so the membership below may be stale. The group itself is unaffected '' @ em_dash @
        '' this is a platform-side read failure.'')]]
     [El T_code [] [Text (case gv_sync_error g of None \<Rightarrow> [] | Some e \<Rightarrow> e)]]]]"

definition group_shown :: "intl \<Rightarrow> int \<Rightarrow> user option \<Rightarrow> int option \<Rightarrow> bool \<Rightarrow> group_screen \<Rightarrow> group_view \<Rightarrow> node_operator list option \<Rightarrow> group_event node list" where
  "group_shown I now u minutes can_sign s g ops =
     [group_header [button_if (\<not> gs_syncing s) Gp_sync (if gs_syncing s then ''Syncing'' @ ellipsis else ''Sync from chain'')],
      transport_notice_view Gp_restore u (gs_notice_stage s) (gs_notice_error s)
        (transport_notice (choose_transport u (map_option og_manager (gv_onchain g)) can_sign) minutes ''change the group'')] @
     sync_note g @ [group_stats g] @ below_threshold g @
     [El T_div []
        ([active_section can_sign s g] @ pending_section g @ removing_section I now s g @
         [reshare_section can_sign s, section_card ''Group details'' [] [] [El T_dl [] (map (detail_field I g) (group_details I g))]])] @
     invite_modal I s g ops @ attach_modal s"

definition group_screen_view :: "intl \<Rightarrow> int \<Rightarrow> user option \<Rightarrow> int option \<Rightarrow> bool \<Rightarrow> group_screen \<Rightarrow> group_view query \<Rightarrow> node_operator list option \<Rightarrow> group_event node list" where
  "group_screen_view I now u minutes can_sign s q ops = (case q_error q of
     Some e \<Rightarrow> [error_view e (Some Gp_reload)]
   | None \<Rightarrow> (case q_data q of
       None \<Rightarrow> [El T_div [] [skeleton ''h-9 w-64'', skeleton ''h-40 w-full rounded-2xl'']]
     | Some g \<Rightarrow> if truthy_str (a_group_address (gv_app g)) then group_shown I now u minutes can_sign s g ops else no_group_view s))"

subsection \<open>What the screen offers\<close>

lemma node_row_read [view_simps]: "read_node clicks (node_row n as) = offers as" "read_node fors_of (node_row n as) = label_targets as"
    "read_node copies_of (node_row n as) = copies as"
  by (simp_all add: node_row_def view_simps split: option.split)

definition removing_offers :: "intl \<Rightarrow> int \<Rightarrow> group_screen \<Rightarrow> group_node \<Rightarrow> group_event list" where
  "removing_offers I now s n = (if cancel_enabled (gs_pending s) then [Gp_call (B_cancel (gn_address n))] else []) @
     (if execute_enabled (gs_pending s) (countdown I now (gn_execute_after n)) then [Gp_call (B_execute (gn_address n))] else [])"

lemma execute_read [view_simps]: "read_node clicks (execute_button b r a) = (if b then [Gp_call (B_execute a)] else [])"
    "read_node fors_of (execute_button b r a) = []" "read_node copies_of (execute_button b r a) = []"
  by (cases r; simp add: execute_button_def view_simps)+

lemma removing_read [view_simps]: "read_node clicks (removing_actions I now s n) = removing_offers I now s n"
    "read_node fors_of (removing_actions I now s n) = []" "read_node copies_of (removing_actions I now s n) = []"
  by (simp_all add: removing_actions_def removing_offers_def view_simps Let_def split: option.split)

lemma group_sections_read:
  "read_node clicks (active_section cs s g) = (if invite_enabled cs then [Gp_open_invite] else []) @
     (if queue_enabled (gs_pending s) cs then map (\<lambda>n. Gp_call (B_queue (gn_address n))) (nodes_with Node_active (Some g)) else [])"
  "offers (pending_section g) = []"
  "offers (removing_section I now s g) = concat (map (removing_offers I now s) (nodes_with Node_removing (Some g)))"
  "read_node clicks (reshare_section cs s) = (if reshare_enabled (gs_pending s) cs then [Gp_call B_reshare] else [])"
  "read_node clicks (detail_field I g r) = []"
  "read_node clicks (group_stats g) = []" "offers (below_threshold g) = []" "offers (sync_note g) = []"
  "offers (invite_modal I s g ops) = (if gs_invite_open s then Gp_close_invite # map (\<lambda>n. Gp_call (B_invite (op_address n))) (invitable (Some g) ops) else [])"
  "offers (attach_modal s) = (if gs_attach_open s then [Gp_close_attach, Gp_close_attach] @ (if link_enabled (gs_linking s) (gs_address s) then [Gp_link] else []) else [])"
  "read_node clicks (group_header as) = offers as"
  by (simp_all add: active_section_def pending_section_def removing_section_def reshare_section_def detail_field_def group_stats_def stat_extras_def
      stat_cards_def stat_value_def below_threshold_def sync_note_def invite_modal_def attach_modal_def group_header_def view_simps concat_singles Let_def
      split: prod.split option.split)

lemma group_shown_read: "\<exists>N. set N \<subseteq> {Gp_restore} \<and> offers (group_shown I now u m cs s g ops) =
   (if gs_syncing s then [] else [Gp_sync]) @ N @ read_node clicks (active_section cs s g) @ offers (removing_section I now s g) @
   read_node clicks (reshare_section cs s) @ offers (invite_modal I s g ops) @ offers (attach_modal s)"
  by (rule exI [of _ "read_node clicks (transport_notice_view Gp_restore u (gs_notice_stage s) (gs_notice_error s)
        (transport_notice (choose_transport u (map_option og_manager (gv_onchain g)) cs) m ''change the group''))"])
    (auto simp: group_shown_def view_simps group_sections_read split: notice.splits)

lemma group_items_ok [parts]: "node_ok (node_row n as) \<longleftrightarrow> parts_ok as" "node_ok (execute_button b r a)" "node_ok (removing_actions I now s n)"
    "node_ok (detail_field I g rw)" "node_ok (group_header as) \<longleftrightarrow> parts_ok as" "node_ok (reshare_section cs s)"
  by (auto simp: node_row_def execute_button_def removing_actions_def detail_field_def group_header_def reshare_section_def parts Let_def
      split: option.split prod.split)

lemma group_parts_ok [parts]: "node_ok (active_section cs s g)" "parts_ok (pending_section g)" "parts_ok (removing_section I now s g)"
    "node_ok (group_stats g)" "parts_ok (below_threshold g)" "parts_ok (sync_note g)" "parts_ok (invite_modal I s g ops)" "parts_ok (attach_modal s)"
  by (simp_all add: active_section_def pending_section_def removing_section_def group_stats_def stat_extras_def stat_cards_def stat_value_def
      below_threshold_def sync_note_def invite_modal_def attach_modal_def parts Let_def split: prod.split)

lemma group_labels: "read_node fors_of (active_section cs s g) = []" "label_targets (pending_section g) = []" "label_targets (removing_section I now s g) = []"
    "read_node fors_of (reshare_section cs s) = []" "read_node fors_of (detail_field I g r) = []" "read_node fors_of (group_stats g) = []"
    "label_targets (below_threshold g) = []" "label_targets (sync_note g) = []" "label_targets (invite_modal I s g ops) = []"
    "label_targets (attach_modal s) = ids (attach_modal s)" "read_node fors_of (group_header as) = label_targets as"
  by (simp_all add: active_section_def pending_section_def removing_section_def reshare_section_def detail_field_def group_stats_def stat_extras_def
      stat_cards_def stat_value_def below_threshold_def sync_note_def invite_modal_def attach_modal_def group_header_def view_simps Let_def
      split: prod.split option.split)

lemma group_sound: "sound_view (group_screen_view I now u m cs s q ops)"
proof (rule sound_viewI)
  show "parts_ok (group_screen_view I now u m cs s q ops)"
    by (simp add: group_screen_view_def group_shown_def no_group_view_def parts split: option.split)
  show "set (label_targets (group_screen_view I now u m cs s q ops)) \<subseteq> set (ids (group_screen_view I now u m cs s q ops))"
    by (auto simp: group_screen_view_def group_shown_def no_group_view_def view_simps group_labels split: option.splits if_splits)
qed

subsection \<open>Properties\<close>


end
