(* ===== verification/Views_Wallets.thy ===== *)
theory Views_Wallets
  imports Views_Trust
begin

text \<open>
  The tree of the wallets screen (\<open>web/app/(console)/apps/[appId]/wallets/page.tsx\<close>): the table of keys, the dialogue
  of one key and the dialogue that syncs the inventory. What they run is in \<open>Wallets\<close>.
\<close>

subsection \<open>The screen\<close>

datatype keys_event = Kw_open_sync | Kw_close_sync | Kw_tab string | Kw_search string | Kw_reload | Kw_detail wallet_key | Kw_close_detail
  | Kw_set wallet_key key_status | Kw_raw string | Kw_sync

record keys_screen =
  kw_tab :: string
  kw_search :: string
  kw_detail :: "wallet_key option"
  kw_status_pending :: bool
  kw_sync_open :: bool
  kw_raw :: string
  kw_syncing :: bool
  kw_sync_error :: "jserr option"

type_synonym keys_answer = "wallet_key list \<times> key_stats option"

definition answer_stats :: "keys_answer query \<Rightarrow> key_stats option" where
  "answer_stats q = Option.bind (q_data q) snd"

definition answer_keys :: "keys_answer query \<Rightarrow> wallet_key list" where
  "answer_keys q = (case q_data q of None \<Rightarrow> [] | Some d \<Rightarrow> fst d)"

definition key_cards :: "intl \<Rightarrow> key_stats option \<Rightarrow> keys_event node" where
  "key_cards I stats = El T_div []
     (map (\<lambda>((l, v), hint, tn). stat_card l [Text v] hint tn)
       (zip (wallet_cards I stats)
         [([], None), ([], Some Tone_success),
          ([Text ''Disabled keys refuse to sign and cannot mint delegations.''], if stat ks_disabled stats \<noteq> 0 then Some Tone_warn else None),
          ([Text ''Keys constrained to a specific contract and message type.''], None)]))"

definition key_tabs :: "keys_screen \<Rightarrow> key_stats option \<Rightarrow> keys_event node" where
  "key_tabs s stats = tabs_view
     [(''all'', ''All keys'', map_option ks_total stats), (''scoped'', ''Scoped'', None), (''disabled'', ''Disabled'', map_option ks_disabled stats)]
     (kw_tab s) Kw_tab"

definition key_row_view :: "intl \<Rightarrow> int \<Rightarrow> wallet_key \<Rightarrow> keys_event node" where
  "key_row_view I now k = (let r = key_row I now k in
     El T_tr [Key (wk_id k), On_click (Kw_detail k)]
       [El T_td [] (El T_p [] [Text (r ! 0)] # opt (truthy_str (wk_parent_key_id k)) [El T_p [] [Text ''sub-key'']]),
        El T_td [] [Text (r ! 1)],
        El T_td [] [badge (if wk_scope_kind k = ''unscoped'' then Tone_neutral else Tone_accent) False [Text (r ! 2)]],
        El T_td [] [Text (r ! 3)],
        El T_td [] [badge (key_row_tone (wk_status k)) True [Text (r ! 4)]],
        El T_td [] [Text (r ! 5)]])"

definition keys_section :: "intl \<Rightarrow> int \<Rightarrow> keys_screen \<Rightarrow> keys_answer query \<Rightarrow> keys_event node" where
  "keys_section I now s q =
     section_card [] [] []
       ([El T_div []
           [key_tabs s (answer_stats q),
            El T_input [Placeholder (''Search key ID or address'' @ ellipsis), Value (kw_search s), On_change Kw_search, Aria_label ''Search keys''] []]] @
        error_opt (q_error q) (Some Kw_reload) @
        [if q_loading q then skeleton_rows 6
         else if answer_keys q = [] then empty_state ''No keys here yet'' [] [button Kw_open_sync ''Sync from nodes''] []
         else El T_div [] [El T_table []
           [El T_thead [] [El T_tr [] (map (\<lambda>t. El T_th [] [Text t]) [''Key'', ''Scheme'', ''Scope'', ''Address'', ''Status'', ''Synced''])],
            El T_tbody [] (map (key_row_view I now) (answer_keys q))]]])"

text \<open>The fields of the dialogue that can be copied, with what they show of the value.\<close>

definition key_copies :: "string \<Rightarrow> string \<Rightarrow> (string \<times> string option) option" where
  "key_copies l v = (if l = ''Key ID'' then Some (short_address 26 12 (Some v), Some ''Key ID'')
     else if l = ''Address'' then Some (short_address 10 8 (Some v), Some ''Address'')
     else if l = ''Public key'' then Some (short_address 14 8 (Some v), Some ''Public key'')
     else if l = ''Parent key'' then Some (short_address 22 10 (Some v), None)
     else if l = ''User'' then Some (short_address 14 8 (Some v), None) else None)"

definition key_field :: "wallet_key \<Rightarrow> string \<times> string \<Rightarrow> keys_event node" where
  "key_field k r = (case r of (l, v) \<Rightarrow> El T_div [] [El T_dt [] [Text l], El T_dd []
     [case key_copies l v of Some (short, title) \<Rightarrow> Copy_value v (Some short) title
      | None \<Rightarrow> if l = ''Status'' then badge (key_detail_tone (wk_status k)) True [Text v] else Text v]])"

definition scope_line :: "string \<times> string \<Rightarrow> keys_event node" where
  "scope_line r = (case r of (l, v) \<Rightarrow> El T_div [] [El T_span [] [Text l],
     if l = ''Contract: '' then Copy_value v (Some (short_address 10 8 (Some v))) None
     else if l = ''Type hash: '' then Copy_value v (Some (short_address 12 8 (Some v))) None else Text v])"

definition scope_callout :: "wallet_key \<Rightarrow> keys_event node list" where
  "scope_callout k = opt (wk_scope_kind k \<noteq> ''unscoped'')
     [El T_div [] [callout Tone_accent
        [Text (''Scoped: '' @ scope_label (wk_scope_kind k)),
         info_tip [Text (''This key can only sign the exact payload shape below. Every operator re-checks the scope independently before '' @
           ''contributing a share, so the constraint holds even if the node that received the request is malicious.'')]]
        [El T_dl [] (map scope_line (key_scope_lines k))]]]"

definition key_modal :: "string \<Rightarrow> wallet_key option \<Rightarrow> bool \<Rightarrow> keys_event node list" where
  "key_modal appId row pending = (case row of None \<Rightarrow> [] | Some k \<Rightarrow>
     modal True Kw_close_detail (if wk_label k = [] then ''Key'' else wk_label k) [] []
       ([El T_dl [] (map (key_field k) (key_details k))] @ scope_callout k @
        opt (wk_parties k \<noteq> []) [El T_div [] [El T_p [] [Text ''Shareholders''], El T_ul [] (map (\<lambda>p. El T_li [Key p] [Text p]) (wk_parties k))]] @
        [El T_div []
           [El T_link [Href (''/apps/'' @ appId @ ''/configuration/session-signers'')] [Text (''Session signers for this key '' @ right_arrow)],
            button_if (\<not> pending) (Kw_set k (fst (key_button k pending))) (snd (key_button k pending))]])
       [] True)"

definition sync_modal :: "keys_screen \<Rightarrow> keys_event node list" where
  "sync_modal s =
     modal (kw_sync_open s) Kw_close_sync ''Sync key inventory'' []
       [Text (''The platform holds no credential your nodes would accept '' @ em_dash @ '' that is deliberate '' @ em_dash @ '' so the inventory is '' @
         ''fetched with your own authorization key and cached here.'')]
       (error_opt (kw_sync_error s) None @
        [El T_div []
           [El T_label [For_id ''raw''] [Text ''Paste an '', El T_code [] [Text ''/admin/keys''], Text '' response '', El T_span [] [Text ''(optional)'']],
            El T_textarea [Ident ''raw'', Placeholder (''[{\"key_id\":\"'' @ ellipsis @ ''\",\"curve\":\"frost_secp256k1\",\"ethereum_address\":\"0x'' @ ellipsis @ ''\"}]''),
              Value (kw_raw s), On_change Kw_raw] []]])
       [button Kw_close_sync ''Cancel'', button_if (\<not> kw_syncing s) Kw_sync (if kw_syncing s then ''Syncing'' @ ellipsis else ''Sync'')]
       True"

definition keys_view :: "string \<Rightarrow> intl \<Rightarrow> int \<Rightarrow> keys_screen \<Rightarrow> keys_answer query \<Rightarrow> keys_event node list" where
  "keys_view appId I now s q =
     [page_header ''Wallets''
        [Text (''Syncing needs a credential your group trusts. The platform holds none, so the console fetches the inventory with your own '' @
          ''authorization key and caches the result.'')]
        [button Kw_open_sync ''Sync from nodes''] [],
      key_cards I (answer_stats q), keys_section I now s q] @
     key_modal appId (kw_detail s) (kw_status_pending s) @ sync_modal s"

subsection \<open>What the screen offers\<close>

lemma key_row_read: "read_node clicks (key_row_view I now k) = [Kw_detail k]" "read_node copies_of (key_row_view I now k) = []"
    "read_node hrefs_of (key_row_view I now k) = []" "read_node fors_of (key_row_view I now k) = []"
  by (simp_all add: key_row_view_def view_simps Let_def)

lemma click_class [view_simps]: "clicks (t, [On_click x, Class c]) = [x]"
  by (simp add: attr_reads)

lemma tabs_read [view_simps]: "read_node clicks (tabs_view ts a c) = map (\<lambda>t. c (fst t)) ts" "read_node edits_of (tabs_view ts a c) = []"
    "read_node checks_of (tabs_view ts a c) = []" "read_node hrefs_of (tabs_view ts a c) = []" "read_node ids_of (tabs_view ts a c) = []"
    "read_node fors_of (tabs_view ts a c) = []" "read_node copies_of (tabs_view ts a c) = []"
  by (induction ts) (auto simp: tabs_view_def view_simps split: option.split)

lemma tabs_ok [parts]: "node_ok (tabs_view ts a c)"
  by (auto simp: tabs_view_def parts split: option.split)

lemma key_tabs_read: "read_node clicks (key_tabs s stats) = map Kw_tab [''all'', ''scoped'', ''disabled'']" "read_node copies_of (key_tabs s stats) = []"
    "read_node hrefs_of (key_tabs s stats) = []" "read_node fors_of (key_tabs s stats) = []"
  by (simp_all add: key_tabs_def view_simps)

lemma key_cards_read: "read_node clicks (key_cards I stats) = []" "read_node copies_of (key_cards I stats) = []"
    "read_node hrefs_of (key_cards I stats) = []" "read_node fors_of (key_cards I stats) = []"
  by (simp_all add: key_cards_def wallet_cards_def view_simps)

lemma keys_section_read: "read_node clicks (keys_section I now s q) = map Kw_tab [''all'', ''scoped'', ''disabled''] @
      (if q_error q = None then [] else [Kw_reload]) @
      (if q_loading q then [] else if answer_keys q = [] then [Kw_open_sync] else map Kw_detail (answer_keys q))"
    "read_node copies_of (keys_section I now s q) = []" "read_node hrefs_of (keys_section I now s q) = []" "read_node fors_of (keys_section I now s q) = []"
  by (simp_all add: keys_section_def view_simps key_tabs_read key_row_read concat_singles)

lemma key_field_read: "read_node clicks (key_field k (l, v)) = []" "read_node hrefs_of (key_field k (l, v)) = []" "read_node fors_of (key_field k (l, v)) = []"
    "read_node copies_of (key_field k (l, v)) = (if key_copies l v = None then [] else [v])"
  by (simp_all add: key_field_def view_simps split: option.split)

lemma scope_read: "offers (scope_callout k) = []" "links (scope_callout k) = []" "label_targets (scope_callout k) = []"
    "copies (scope_callout k) = (if wk_scope_kind k = ''unscoped'' then [] else
       (if truthy_str (wk_scope_contract k) then [the (wk_scope_contract k)] else []) @ (if truthy_str (wk_scope_type_hash k) then [the (wk_scope_type_hash k)] else []))"
  by (simp_all add: scope_callout_def key_scope_lines_def scope_line_def view_simps split: option.split prod.split)

lemma key_modal_read: "offers (key_modal appId row pnd) = (case row of None \<Rightarrow> [] | Some k \<Rightarrow> Kw_close_detail #
      (if pnd then [] else [Kw_set k (if wk_status k = Key_enabled then Key_disabled else Key_enabled)]))"
    "links (key_modal appId row pnd) = (if row = None then [] else [''/apps/'' @ appId @ ''/configuration/session-signers''])"
    "label_targets (key_modal appId row pnd) = []"
  by (simp_all add: key_modal_def key_button_def view_simps scope_read key_field_read split_def split: option.split)
    (auto simp: key_field_def view_simps split: option.split)

lemma sync_modal_read: "offers (sync_modal s) = (if kw_sync_open s then [Kw_close_sync, Kw_close_sync] @ (if kw_syncing s then [] else [Kw_sync]) else [])"
    "label_targets (sync_modal s) = ids (sync_modal s)" "copies (sync_modal s) = []" "links (sync_modal s) = []"
  by (simp_all add: sync_modal_def view_simps)

definition copied_values :: "wallet_key \<Rightarrow> string list" where
  "copied_values k = [wk_key_id k] @ concat (map (\<lambda>v. if truthy_str v then [the v] else [])
     ([wk_address k, wk_public_key k, wk_parent_key_id k, wk_subject_hash k] @
      (if wk_scope_kind k = ''unscoped'' then [] else [wk_scope_contract k, wk_scope_type_hash k])))"

lemma key_modal_copies: "copies (key_modal appId row pnd) = (case row of None \<Rightarrow> [] | Some k \<Rightarrow> copied_values k)"
  by (simp add: key_modal_def key_details_def key_copies_def copied_values_def view_simps key_field_read scope_read split: option.split)

lemma key_items_ok [parts]: "node_ok (key_row_view I now k)" "node_ok (key_tabs s st)" "node_ok (key_cards I st)" "node_ok (key_field k r)"
    "node_ok (scope_line r)"
  by (simp_all add: key_row_view_def key_tabs_def key_cards_def wallet_cards_def key_field_def scope_line_def parts Let_def
      split: option.split prod.split)

lemma keys_parts_ok [parts]: "node_ok (keys_section I now s q)" "parts_ok (scope_callout k)" "parts_ok (sync_modal s)"
  by (simp_all add: keys_section_def scope_callout_def sync_modal_def parts)

lemma key_modal_ok [parts]: "parts_ok (key_modal appId row pnd)"
  by (simp add: key_modal_def parts split: option.split)

lemma keys_sound: "sound_view (keys_view appId I now s q)"
  by (rule sound_viewI; simp add: keys_view_def parts view_simps key_cards_read keys_section_read key_modal_read sync_modal_read; blast)

subsection \<open>Properties\<close>

text \<open>What the wallets screen offers for a key. Each key listed can be opened, and no other; the open key has one
  button, which asks for the other status and is off while a change is under way, and a key the nodes have
  deleted is offered to be enabled; what the copy buttons hold are the full values of the fields the key has, and
  of its scope if it has one. Syncing needs the dialogue to be open and no sync under way, nothing else: no
  session, no group, no text.\<close>

theorem keys_screen_offers:
  "let v = keys_view appId I now s q in
     {k. Kw_detail k \<in> set (offers v)} = (if q_loading q then {} else set (answer_keys q)) \<and>
     (Kw_set k st \<in> set (offers v) \<longleftrightarrow> kw_detail s = Some k \<and> \<not> kw_status_pending s \<and>
        st = (if wk_status k = Key_enabled then Key_disabled else Key_enabled)) \<and>
     (Kw_sync \<in> set (offers v) \<longleftrightarrow> kw_sync_open s \<and> \<not> kw_syncing s) \<and>
     copies v = (case kw_detail s of None \<Rightarrow> [] | Some k \<Rightarrow> copied_values k)"
proof -
  have o: "offers (keys_view appId I now s q) = Kw_open_sync # read_node clicks (keys_section I now s q) @
      offers (key_modal appId (kw_detail s) (kw_status_pending s)) @ offers (sync_modal s)"
    by (simp add: keys_view_def view_simps key_cards_read)
  have c: "copies (keys_view appId I now s q) = (case kw_detail s of None \<Rightarrow> [] | Some k \<Rightarrow> copied_values k)"
    by (simp add: keys_view_def view_simps key_cards_read keys_section_read sync_modal_read key_modal_copies)
  show ?thesis
    unfolding Let_def o c keys_section_read key_modal_read sync_modal_read
    by (cases "kw_detail s"; cases "q_loading q"; intro conjI) auto
qed

end
