(* ===== verification/Views_Org.thy ===== *)
theory Views_Org
  imports Views_Wallets Views_Market Org_Pages
begin

text \<open>
  The trees of an organization's screens and of the staff's: members and invitations, settings, billing
  (\<open>web/app/(console)/org/[orgId]/*/page.tsx\<close>) and the overview for staff (\<open>web/app/(console)/staff/page.tsx\<close>). What they
  compute and run is in \<open>Org_Pages\<close>.
\<close>

definition or_empty :: "'a list query \<Rightarrow> 'a list" where
  "or_empty q = (case q_data q of None \<Rightarrow> [] | Some xs \<Rightarrow> xs)"

definition head_row :: "string list \<Rightarrow> 'e node" where
  "head_row ts = El T_thead [] [El T_tr [] (map (\<lambda>t. El T_th [] [Text t]) ts)]"

lemma head_row_read [view_simps]: "read_node clicks (head_row ts) = []" "read_node edits_of (head_row ts) = []" "read_node checks_of (head_row ts) = []"
    "read_node hrefs_of (head_row ts) = []" "read_node ids_of (head_row ts) = []" "read_node fors_of (head_row ts) = []" "read_node copies_of (head_row ts) = []"
    "node_ok (head_row ts)"
  by (simp_all add: head_row_def view_simps parts)

lemmas [parts] = head_row_read(8)

subsection \<open>Members\<close>

datatype members_event = Mb_open | Mb_close | Mb_reload | Mb_set_role string string | Mb_remove string | Mb_revoke string
  | Mb_email string | Mb_role role | Mb_create | Mb_done

definition member_view :: "intl \<Rightarrow> user option \<Rightarrow> org_member \<Rightarrow> members_event node" where
  "member_view I u m = (case member_row I u m of (name, is_me, email, r, joined) \<Rightarrow>
     El T_tr [Key (om_user_id m)]
       [El T_td [] [El T_div []
          ([El T_p [] (Text name # opt is_me [El T_span [] [Text ''you'']])] @
           (case email of None \<Rightarrow> [] | Some e \<Rightarrow> [El T_p [] [Text e]]))],
        El T_td [] [El T_select [Value (role_name r), On_change (Mb_set_role (om_user_id m))]
          (map (\<lambda>(x, l, d). El T_option [Key (role_name x), Value (role_name x)] [Text l]) ROLES)],
        El T_td [] [Text joined],
        El T_td [] [button (Mb_remove (om_user_id m)) ''Remove'']])"

definition members_section :: "intl \<Rightarrow> user option \<Rightarrow> org_member list query \<Rightarrow> members_event node" where
  "members_section I u q =
     section_card (''Members ('' @ dec_of_nat (length (or_empty q)) @ '')'') [] []
       (error_opt (q_error q) (Some Mb_reload) @
        [if q_loading q then skeleton_rows 3
         else El T_div [] [El T_table [] [head_row [''Person'', ''Role'', ''Joined'', []], El T_tbody [] (map (member_view I u) (or_empty q))]]])"

definition invite_item :: "intl \<Rightarrow> org_invite \<Rightarrow> members_event node" where
  "invite_item I i = (case invite_row I i of (email, line) \<Rightarrow>
     El T_li [Key (iv_id i)]
       [El T_div [] [El T_p [] [Text email], El T_p [] [Text line]],
        El T_div [] [badge Tone_warn False [Text ''pending''], button (Mb_revoke (iv_id i)) ''Revoke'']])"

definition invites_section :: "intl \<Rightarrow> org_invite list query \<Rightarrow> members_event node list" where
  "invites_section I q = (let is = pending_invites (q_data q) in
     opt (is \<noteq> []) [section_card (''Pending invitations ('' @ dec_of_nat (length is) @ '')'') [] [] [El T_ul [] (map (invite_item I) is)]])"

definition roles_section :: "members_event node" where
  "roles_section = section_card ''What each role can do'' [] []
     [El T_ul [] (map (\<lambda>(r, l, d). El T_li [Key (role_name r)] [El T_span [] [Text l], El T_span [] [Text d]]) ROLES)]"

definition role_button :: "role \<Rightarrow> role \<Rightarrow> members_event node" where
  "role_button chosen r =
     El T_button [Key (role_name r), Kind ''button'', Class (if chosen = r then ''border-accent-500 bg-accent-500/[0.08]'' else ''hover:bg-fg/[0.03] hairline''),
         On_click (Mb_role r)]
       [El T_span [] [Text (role_label r)], El T_span [] [Text (case map_of ROLES r of None \<Rightarrow> [] | Some (l, d) \<Rightarrow> d)]]"

definition invite_someone_modal :: "'t members_tab_scheme \<Rightarrow> bool \<Rightarrow> jserr option \<Rightarrow> members_event node list" where
  "invite_someone_modal t pending err =
     modal (mb_invite_open t) Mb_close ''Invite someone'' [] []
       (error_opt err None @
        [label_for ''invite-email'' ''Email'',
         El T_input [Ident ''invite-email'', Kind ''email'', Placeholder ''teammate@acme.dev'', Value (mb_email t), On_change Mb_email] [],
         El T_div [] [El T_span [] [Text ''Role''], El T_div [] (map (role_button (mb_role t)) invite_roles)]])
       [button Mb_close ''Cancel'', button_if (invite_enabled_for pending (mb_email t)) Mb_create (if pending then ''Creating'' @ ellipsis else ''Create invitation'')]
       False"

definition link_modal :: "string option \<Rightarrow> members_event node list" where
  "link_modal link =
     modal (link \<noteq> None) Mb_done ''Send this link'' []
       [Text (''The platform does not send email, so nothing has been delivered yet '' @ em_dash @ '' pass this on however you normally would.'')]
       [El T_div [] [Copy_value (case link of None \<Rightarrow> [] | Some l \<Rightarrow> l) None None],
        El T_p [] [Text (''The link works once and expires in seven days. Anyone holding it can join with the role you chose, so treat it like '' @
          ''a password.'')]]
       [button Mb_done ''Done''] False"

definition members_view :: "intl \<Rightarrow> user option \<Rightarrow> 't members_tab_scheme \<Rightarrow> org_member list query \<Rightarrow> org_invite list query \<Rightarrow> bool \<Rightarrow> jserr option \<Rightarrow>
    members_event node list" where
  "members_view I u t members invites pending err =
     [page_header ''Members'' [] [button Mb_open ''Invite someone''] [],
      El T_div [] ([members_section I u members] @ invites_section I invites @ [roles_section])] @
     invite_someone_modal t pending err @ link_modal (mb_invite_link t)"

subsection \<open>Settings of an organization\<close>

datatype org_event = Os_name string | Os_email string | Os_website string | Os_upload string | Os_submit | Os_remove string

definition labelled_input :: "string \<Rightarrow> string \<Rightarrow> string \<Rightarrow> string \<Rightarrow> (string \<Rightarrow> 'e) \<Rightarrow> 'e node" where
  "labelled_input i l kind v change = El T_div [] [label_for i l, El T_input [Ident i, Kind kind, Value v, On_change change] []]"

definition logo_field :: "string \<Rightarrow> org_event node" where
  "logo_field logo =
     El T_div []
       [El T_span [] [Text ''Logo''],
        El T_div []
          [if logo \<noteq> [] then El T_img [Src logo, Alt []] [] else El T_div [] [Text ''none''],
           El T_label [] [Text ''Upload'', El T_input [Kind ''file'', On_change Os_upload] []]]]"

definition org_form_view :: "'t org_settings_tab_scheme \<Rightarrow> bool \<Rightarrow> jserr option \<Rightarrow> org_event node" where
  "org_form_view t pending err =
     El T_form [On_event ''submit'' Os_submit]
       ([labelled_input ''org-name'' ''Name'' ''text'' (os_name t) Os_name, labelled_input ''org-email'' ''Billing email'' ''email'' (os_email t) Os_email,
         labelled_input ''org-site'' ''Website'' ''text'' (os_website t) Os_website, logo_field (os_logo t)] @
        error_opt err None @
        [El T_button [Kind ''submit'', Disabled pending] [Text (if pending then ''Saving'' @ ellipsis else ''Save changes'')]])"

definition asset_item :: "intl \<Rightarrow> asset \<Rightarrow> org_event node" where
  "asset_item I x = El T_tr [Key (at_id x)]
     (El T_td [] [Copy_value (at_url x) (Some (hd (asset_row I x))) (Some ''Asset URL'')] #
      map (\<lambda>c. El T_td [] [Text c]) (tl (asset_row I x)) @ [El T_td [] [button (Os_remove (at_id x)) ''Delete'']])"

definition assets_section :: "intl \<Rightarrow> asset list query \<Rightarrow> org_event node" where
  "assets_section I q = section_card ''Stored assets'' [] []
     [if or_empty q = [] then El T_p [] [Text ''Nothing uploaded yet.'']
      else El T_div [] [El T_table [] [head_row [''Asset'', ''Type'', ''Size'', ''Uploaded'', []], El T_tbody [] (map (asset_item I) (or_empty q))]]]"

definition org_settings_view :: "string \<Rightarrow> intl \<Rightarrow> 't org_settings_tab_scheme \<Rightarrow> organization query \<Rightarrow> asset list query \<Rightarrow> bool \<Rightarrow> jserr option \<Rightarrow>
    org_event node list" where
  "org_settings_view orgId I t org assets pending err =
     [page_header ''Organization settings'' [] [] [],
      El T_div []
        [El T_div [] [section_card ''Details'' [] [] [org_form_view t pending err], assets_section I assets],
         El T_div [] [section_card ''Identifiers'' [] [] [El T_dl []
           [dl_field ''Organization ID'' [Copy_value orgId None (Some ''Organization ID'')],
            dl_field ''Slug'' [Text (case q_data org of None \<Rightarrow> em_dash | Some g \<Rightarrow> o_slug g)],
            dl_field ''Apps'' [Text (dec_of_int (case q_data org of None \<Rightarrow> 0 | Some g \<Rightarrow> o_app_count g))]]]]]]"

subsection \<open>Billing\<close>

datatype billing_event = Bl_reload | Bl_draft

definition payments_note :: "billing_account option \<Rightarrow> billing_event node list" where
  "payments_note a = opt (payments_off a) [El T_div [] [callout Tone_warn
     [Text ''Payments are not switched on'',
      info_tip [Text (''Everything below is computed from real metered usage at the published rate, so you can see what this would cost. No '' @
        ''balance is drawn down and nothing is charged.'')]] []]]"

definition billing_card :: "billing_account \<Rightarrow> string \<times> string \<times> string option \<Rightarrow> billing_event node" where
  "billing_card b r = (case r of (l, v, hint) \<Rightarrow>
     stat_card l [Text v] (case hint of None \<Rightarrow> [] | Some h \<Rightarrow> [Text h]) (if l = ''Balance'' then balance_tone b else None))"

definition invoice_item :: "intl \<Rightarrow> invoice \<Rightarrow> billing_event node" where
  "invoice_item I v = El T_tr [Key (in_id v)]
     (map (\<lambda>c. El T_td [] [Text c]) (butlast (invoice_row I v)) @ [El T_td [] [badge (invoice_tone (in_status v)) False [Text (in_status v)]]])"

definition invoices_section :: "intl \<Rightarrow> invoice list query \<Rightarrow> bool \<Rightarrow> billing_event node" where
  "invoices_section I q pending =
     section_card ''Invoices'' [] [button_if (\<not> pending) Bl_draft (if pending then ''Computing'' @ ellipsis else ''Compute this month'')]
       [if q_loading q then skeleton_rows 3
        else if or_empty q = [] then empty_state ''No invoices yet'' [] [] []
        else El T_div [] [El T_table [] [head_row [''Period'', ''Active wallets'', ''Rate'', ''Amount'', ''Status''], El T_tbody [] (map (invoice_item I) (or_empty q))]]]"

definition settlement_points :: "string list" where
  "settlement_points =
     [''You keep a USDC balance in a billing contract you top up yourself. No invoice cycle, no card, no churn call.'',
      ''Each period, metered active wallets are settled against that balance.'',
      ''Revenue splits between the operators who served your group and the protocol treasury, at a published rate rather than a negotiated one.'',
      ''A low balance warns first. It never silently stops your users signing in.'']"

definition billing_view :: "intl \<Rightarrow> billing_account query \<Rightarrow> invoice list query \<Rightarrow> bool \<Rightarrow> billing_event node list" where
  "billing_view I q invoices pending =
     [page_header ''Billing''
        [Text (''Payments are not switched on. Usage is metered and priced at the published per-active-wallet rate so you can see the cost; '' @
           ''nothing is charged.'')] [] []] @
     payments_note (q_data q) @ error_opt (q_error q) (Some Bl_reload) @
     (if q_loading q then [El T_div [] (replicate 4 (skeleton ''h-28 rounded-2xl''))]
      else (case q_data q of None \<Rightarrow> []
        | Some b \<Rightarrow>
           [El T_div [] (map (billing_card b) (billing_cards I b)),
            El T_div []
              [invoices_section I invoices pending,
               El T_div [] [section_card ''How settlement will work'' [] []
                 [El T_ul [] (map (\<lambda>p. El T_li [] [El T_span [] [], Text p]) settlement_points)]]]]))"

subsection \<open>Staff\<close>

datatype staff_event = Sf_refresh | Sf_retry

definition stat_field :: "string \<Rightarrow> string \<Rightarrow> string option \<Rightarrow> tone \<Rightarrow> staff_event node" where
  "stat_field l v hint tn = El T_div []
     ([El T_dt [] [Text l], El T_dd [Class (if tn = Tone_warn then ''text-accent-600 dark:text-accent-400'' else ''text-fg'')] [Text v]] @
      (case hint of None \<Rightarrow> [] | Some h \<Rightarrow> [El T_dd [] [Text h]]))"

definition sponsorship_section :: "staff_overview \<Rightarrow> staff_event node" where
  "sponsorship_section d =
     section_card ''Sponsorship''
       [Text (''What the deploy route is enforcing right now, read from the server'' @ [CHR 0x27] @ ''s own configuration rather than inferred.'')] []
       ([El T_dl [] (map (\<lambda>(l, v, tn). stat_field l v None tn) (sponsorship_stats d))] @
        opt (sponsorship_open (so_sponsorship d)) [callout Tone_accent
          [Text ''Anyone who signs in can have a group deployed at our expense'',
           info_tip [Text (''Intended while the network is courting developers. The per-person ceiling bounds one account; the shared limit is the '' @
             ''paymaster deposit, which is the number to keep modest and alarmed. Set SPONSORED_SUBJECTS to make it invitation-only.'')]] []])"

definition staff_user_item :: "intl \<Rightarrow> int \<Rightarrow> int \<Rightarrow> staff_user_row \<Rightarrow> staff_event node" where
  "staff_user_item I now cap u = (case staff_user_cells I now cap u of (subject, staff, name, route, (warn, sponsored), ago) \<Rightarrow>
     El T_tr [Key (su_subject u)]
       [El T_td [] ([El T_span [] [Text subject]] @ opt staff [El T_span [] [badge Tone_accent False [Text ''staff'']]] @
          opt (name \<noteq> []) [El T_span [] [Text name]]),
        El T_td [] [Text route], El T_td [] [Text (dec_of_int (su_orgs u))], El T_td [] [Text (dec_of_int (su_apps u))],
        El T_td [] [if warn then badge Tone_warn False [Text sponsored] else El T_span [] [Text sponsored]],
        El T_td [] [Text ago]])"

definition staff_accounts_section :: "intl \<Rightarrow> int \<Rightarrow> staff_overview \<Rightarrow> staff_event node" where
  "staff_accounts_section I now d =
     section_card ''Accounts'' [Text ''Ordered by sponsored groups, so whoever is costing the most appears first.''] []
       [if so_users d = [] then empty_state ''Nobody has signed in yet'' [] [] []
        else El T_div [] [El T_table [] [head_row [''Subject'', ''Route'', ''Orgs'', ''Apps'', ''Sponsored'', ''Last seen''],
          El T_tbody [] (map (staff_user_item I now (staff_ceiling (Some d))) (so_users d))]]]"

definition staff_app_item :: "intl \<Rightarrow> nat \<times> staff_app_row \<Rightarrow> staff_event node" where
  "staff_app_item I r = (case r of (i, a) \<Rightarrow> (case staff_app_cells I a of (c, tn) \<Rightarrow>
     El T_li [Key (sa_org_name a @ ''-'' @ sa_name a @ ''-'' @ dec_of_nat i)]
       [El T_span [] ([El T_span [] [Text (c ! 0)], El T_span [] [Text (c ! 1)]] @ opt (c ! 2 \<noteq> []) [El T_span [] [Text (c ! 2)]]),
        El T_span []
          (opt (sa_sponsored a) [badge Tone_accent False [Text ''sponsored'']] @
           [badge tn False [Text (c ! 4)], El T_span [] [Text (c ! 5)], El T_span [] [Text (c ! 6)], El T_span [] [Text (c ! 7)]])]))"

definition staff_apps_section :: "intl \<Rightarrow> staff_overview \<Rightarrow> staff_event node" where
  "staff_apps_section I d =
     section_card ''Apps'' [Text ''Newest first, across every organization.''] []
       [if so_apps d = [] then empty_state ''No apps yet'' [] [] [] else El T_ul [] (map (staff_app_item I) (enumerate 0 (so_apps d)))]"

definition staff_refused :: "staff_event node list" where
  "staff_refused =
     [page_header ''Platform overview'' [] [] ''Staff'',
      callout Tone_warn [Text ''This page is restricted to platform staff'']
        [Text (''Staff is granted by sign-in subject through STAFF_SUBJECTS, so it is tied to the credential you signed in with rather than to '' @
          ''your person. Signing in by the other route gives you a different subject and no staff rights.'')]]"

definition staff_view :: "intl \<Rightarrow> int \<Rightarrow> user option \<Rightarrow> staff_overview query \<Rightarrow> staff_event node list" where
  "staff_view I now u q = (if \<not> staff_allowed u then staff_refused
     else [page_header ''Platform overview'' [] [button Sf_refresh ''Refresh''] ''Staff''] @ error_opt (q_error q) (Some Sf_retry) @
       (case q_data q of
          None \<Rightarrow> opt (q_loading q) [skeleton_rows 6]
        | Some d \<Rightarrow> [El T_div []
            [sponsorship_section d,
             section_card ''Totals'' [] [] [El T_dl [] (map (\<lambda>(l, v, h). stat_field l v h Tone_neutral) (staff_totals_shown (so_totals d)))],
             staff_accounts_section I now d, staff_apps_section I d]]))"

subsection \<open>What the screens offer\<close>

lemma member_items: "read_node clicks (member_view I u m) = [Mb_remove (om_user_id m)]" "read_node edits_of (member_view I u m) = [Mb_set_role (om_user_id m)]"
    "read_node fors_of (member_view I u m) = []" "read_node clicks (invite_item I i) = [Mb_revoke (iv_id i)]" "read_node fors_of (invite_item I i) = []"
    "read_node clicks (role_button c r) = [Mb_role r]" "read_node fors_of (role_button c r) = []" "read_node edits_of (invite_item I i) = []"
    "read_node edits_of (role_button c r) = []" "read_node ids_of (role_button c r) = []"
  by (simp_all add: member_view_def member_row_def invite_item_def invite_row_def role_button_def view_simps split_def split: option.split)

lemma member_sections: "read_node clicks (members_section I u q) = (if q_error q = None then [] else [Mb_reload]) @
      (if q_loading q then [] else map (\<lambda>m. Mb_remove (om_user_id m)) (or_empty q))"
    "read_node fors_of (members_section I u q) = []" "offers (invites_section I is) = map (\<lambda>i. Mb_revoke (iv_id i)) (pending_invites (q_data is))"
    "label_targets (invites_section I is) = []" "read_node clicks roles_section = []" "read_node fors_of roles_section = []"
    "read_node edits_of (members_section I u q) = (if q_loading q then [] else map (\<lambda>m. Mb_set_role (om_user_id m)) (or_empty q))"
    "edits (invites_section I is) = []" "read_node edits_of roles_section = []"
  by (simp_all add: members_section_def invites_section_def roles_section_def view_simps member_items concat_singles Let_def split_def)

lemma member_modals: "offers (invite_someone_modal t pnd e) = (if mb_invite_open t then Mb_close # map Mb_role invite_roles @ [Mb_close] @
      (if invite_enabled_for pnd (mb_email t) then [Mb_create] else []) else [])"
    "label_targets (invite_someone_modal t pnd e) = ids (invite_someone_modal t pnd e)"
    "offers (link_modal l) = (if l = None then [] else [Mb_done, Mb_done])" "label_targets (link_modal l) = []"
  by (simp_all add: invite_someone_modal_def link_modal_def view_simps member_items concat_singles)

lemma org_items_ok [parts]: "node_ok (member_view I u m)" "node_ok (invite_item I i)" "node_ok (role_button c r)" "node_ok (labelled_input fi l kd v ch)"
    "node_ok (logo_field lg)" "node_ok (asset_item I x)" "node_ok (billing_card b bc)" "node_ok (invoice_item I iv)" "node_ok (stat_field l v h tn)"
    "node_ok (staff_user_item I now cap su)" "node_ok (staff_app_item I sa)" "node_ok (dl_field l ns) \<longleftrightarrow> parts_ok ns"
  by (auto simp: member_view_def member_row_def invite_item_def invite_row_def role_button_def labelled_input_def logo_field_def asset_item_def billing_card_def
      invoice_item_def stat_field_def staff_user_item_def staff_user_cells_def staff_app_item_def dl_field_def parts split: option.split prod.split)

lemma org_sections_ok [parts]: "node_ok (members_section I u q)" "parts_ok (invites_section I is)" "node_ok roles_section"
    "parts_ok (invite_someone_modal t pnd e)" "parts_ok (link_modal l)" "node_ok (org_form_view ot pnd e)" "node_ok (assets_section I aq)"
    "parts_ok (payments_note b)" "node_ok (invoices_section I vq pnd)"
    "node_ok (sponsorship_section d)" "node_ok (staff_accounts_section I now d)" "node_ok (staff_apps_section I d)" "parts_ok staff_refused"
  by (simp_all add: members_section_def invites_section_def roles_section_def invite_someone_modal_def link_modal_def org_form_view_def assets_section_def
      payments_note_def invoices_section_def sponsorship_section_def staff_accounts_section_def staff_apps_section_def staff_refused_def parts Let_def split: prod.split)

lemma members_sound: "sound_view (members_view I u t q is pnd e)"
  by (rule sound_viewI; simp add: members_view_def parts view_simps member_sections member_modals; blast)

lemma labelled_read [view_simps]: "read_node clicks (labelled_input i l kd v ch) = []" "read_node edits_of (labelled_input i l kd v ch) = [ch]"
    "read_node checks_of (labelled_input i l kd v ch) = []" "read_node ids_of (labelled_input i l kd v ch) = [i]"
    "read_node fors_of (labelled_input i l kd v ch) = [i]" "read_node copies_of (labelled_input i l kd v ch) = []"
  by (simp_all add: labelled_input_def view_simps)

lemma org_settings_read: "offers (org_settings_view oid I t og aq pnd e) = map (\<lambda>x. Os_remove (at_id x)) (or_empty aq)"
    "label_targets (org_settings_view oid I t og aq pnd e) = [''org-name'', ''org-email'', ''org-site'']"
    "ids (org_settings_view oid I t og aq pnd e) = [''org-name'', ''org-email'', ''org-site'']"
  by (simp_all add: org_settings_view_def org_form_view_def logo_field_def assets_section_def asset_item_def asset_row_def dl_field_def view_simps concat_singles)

lemma org_settings_sound: "sound_view (org_settings_view oid I t og aq pnd e)"
  by (rule sound_viewI) (simp add: org_settings_view_def parts , simp add: org_settings_read)

lemma billing_read: "offers (billing_view I q iq pnd) = (if q_error q = None then [] else [Bl_reload]) @
      (if q_loading q \<or> q_data q = None \<or> pnd then [] else [Bl_draft])" "edits (billing_view I q iq pnd) = []" "checks (billing_view I q iq pnd) = []"
    "label_targets (billing_view I q iq pnd) = []"
  by (simp_all add: billing_view_def payments_note_def billing_card_def billing_cards_def invoices_section_def invoice_item_def view_simps split_def split: option.split)

lemma billing_sound: "sound_view (billing_view I q iq pnd)"
  by (rule sound_viewI) (simp add: billing_view_def parts split: option.split, simp add: billing_read)

lemma staff_items: "read_node clicks (staff_user_item I now c u) = []" "read_node edits_of (staff_user_item I now c u) = []"
    "read_node checks_of (staff_user_item I now c u) = []" "read_node hrefs_of (staff_user_item I now c u) = []" "read_node fors_of (staff_user_item I now c u) = []"
    "read_node clicks (staff_app_item I a) = []" "read_node edits_of (staff_app_item I a) = []" "read_node checks_of (staff_app_item I a) = []"
    "read_node hrefs_of (staff_app_item I a) = []" "read_node fors_of (staff_app_item I a) = []" "read_node clicks (stat_field l v h tn) = []"
    "read_node edits_of (stat_field l v h tn) = []" "read_node checks_of (stat_field l v h tn) = []" "read_node hrefs_of (stat_field l v h tn) = []"
    "read_node fors_of (stat_field l v h tn) = []"
  by (simp_all add: staff_user_item_def staff_user_cells_def staff_app_item_def stat_field_def view_simps split: prod.split option.split)

lemma staff_read: "offers (staff_view I now u q) = (if staff_allowed u then Sf_refresh # (if q_error q = None then [] else [Sf_retry]) else [])"
    "edits (staff_view I now u q) = []" "checks (staff_view I now u q) = []" "links (staff_view I now u q) = []" "label_targets (staff_view I now u q) = []"
  by (simp_all add: staff_view_def staff_refused_def sponsorship_section_def staff_accounts_section_def staff_apps_section_def view_simps staff_items split_def
      split: option.split)

lemma staff_sound: "sound_view (staff_view I now u q)"
  by (rule sound_viewI) (simp add: staff_view_def parts split_def split: option.split, simp add: staff_read)

subsection \<open>Properties\<close>

text \<open>The staff's screen reads and nothing else. It offers to read again and has no field, no box and no link; to a
  visitor who is not staff it offers nothing and shows nothing of what was read.\<close>

theorem staff_reads_only:
  "offers (staff_view I now u q) = (if staff_allowed u then Sf_refresh # (if q_error q = None then [] else [Sf_retry]) else []) \<and>
   edits (staff_view I now u q) = [] \<and> checks (staff_view I now u q) = [] \<and> links (staff_view I now u q) = [] \<and>
   (if staff_allowed u then True else staff_view I now u q = staff_view I now' u q')"
  by (simp add: staff_read) (simp add: staff_view_def)

text \<open>What the members' screen offers, to every visitor alike: each member listed, oneself included, can be given any role
  and removed, each invitation not yet accepted can be revoked, and an invitation makes anybody but an owner. The
  platform decides which of these it allows.\<close>

theorem members_screen_offers:
  "let v = members_view I u t q is pnd e; ms = (if q_loading q then [] else or_empty q) in
     {i. Mb_remove i \<in> set (offers v)} = om_user_id ` set ms \<and>
     {i. Mb_revoke i \<in> set (offers v)} = iv_id ` set (pending_invites (q_data is)) \<and>
     {r. Mb_role r \<in> set (offers v)} = (if mb_invite_open t then {Admin, Developer, Viewer} else {}) \<and>
     (Mb_create \<in> set (offers v) \<longleftrightarrow> mb_invite_open t \<and> invite_enabled_for pnd (mb_email t)) \<and>
     edits v = map (\<lambda>m. Mb_set_role (om_user_id m)) ms @ (if mb_invite_open t then [Mb_email] else [])"
proof -
  have o: "offers (members_view I u t q is pnd e) = Mb_open # read_node clicks (members_section I u q) @ offers (invites_section I is) @
      offers (invite_someone_modal t pnd e) @ offers (link_modal (mb_invite_link t))"
    by (simp add: members_view_def view_simps member_sections)
  have c: "edits (members_view I u t q is pnd e) = (if q_loading q then [] else map (\<lambda>m. Mb_set_role (om_user_id m)) (or_empty q)) @
      (if mb_invite_open t then [Mb_email] else [])"
    by (simp add: members_view_def view_simps member_sections invite_someone_modal_def link_modal_def member_items)
  have r: "invite_roles = [Admin, Developer, Viewer]" by (simp add: invite_roles_def ROLES_def)
  show ?thesis
    unfolding Let_def o c member_sections member_modals r
    by (intro conjI) (auto split: if_splits)
qed

end
