(* ===== verification/Views_App.thy ===== *)
theory Views_App
  imports Views_Org
begin

text \<open>
  The trees of an app's overview, analytics and settings (\<open>web/app/(console)/apps/[appId]/page.tsx\<close>,
  \<open>\<dots>/analytics/page.tsx\<close>, \<open>\<dots>/settings/page.tsx\<close>) and of the chart (\<open>web/components/Chart.tsx\<close>), whose geometry is in
  \<open>Chart\<close>; positions, paths and colours are left out of the tree.
\<close>

subsection \<open>The chart\<close>

definition chart_svg :: "(nat option \<Rightarrow> 'e) \<Rightarrow> (int \<Rightarrow> string) \<Rightarrow> rat \<Rightarrow> nat option \<Rightarrow> string list \<Rightarrow> series list \<Rightarrow> 'e node" where
  "chart_svg set_hover value_format height hover labels ss =
     El T_svg [Role ''img'', Aria_label (aria_label labels ss), On_event ''mouseleave'' (set_hover None)]
       (map (\<lambda>(y, v). El T_g [] [El T_line [] [], El T_svg_text [] [Text (value_format v)]]) (gridlines height (axis_max ss)) @
        map (\<lambda>s. El T_g [Key (se_key s)] []) ss @
        (case hover of None \<Rightarrow> [] | Some i \<Rightarrow> [El T_g [] (El T_line [] [] # map (\<lambda>s. El T_circle [Key (se_key s)] []) ss)]) @
        map (\<lambda>i. El T_rect [On_event ''mouseenter'' (set_hover (Some i))] []) [0..<length labels] @
        map (\<lambda>(i, l, a). El T_svg_text [] [Text l]) (tick_labels labels))"

definition chart_legend :: "(int \<Rightarrow> string) \<Rightarrow> nat option \<Rightarrow> string list \<Rightarrow> series list \<Rightarrow> 'e node" where
  "chart_legend value_format hover labels ss =
     El T_div []
       (map (\<lambda>(l, v). El T_span [] (El T_span [] [] # Text l # (case v of None \<Rightarrow> [] | Some x \<Rightarrow> [El T_span [] [Text x]]))) (legend value_format hover ss) @
        (case hover of None \<Rightarrow> [] | Some i \<Rightarrow> [El T_span [] [Text (if i < length labels then labels ! i else [])]]))"

definition chart_view :: "(nat option \<Rightarrow> 'e) \<Rightarrow> (int \<Rightarrow> string) \<Rightarrow> rat \<Rightarrow> nat option \<Rightarrow> string list \<Rightarrow> series list \<Rightarrow> 'e node" where
  "chart_view set_hover value_format height hover labels ss =
     (if chart_empty labels then El T_div [] [Text ''No activity in this range yet.'']
      else El T_div [] [chart_svg set_hover value_format height hover labels ss, chart_legend value_format hover labels ss])"

lemma chart_read [view_simps]: "read_node clicks (chart_view h vf ht hv ls ss) = []" "read_node edits_of (chart_view h vf ht hv ls ss) = []"
    "read_node checks_of (chart_view h vf ht hv ls ss) = []" "read_node hrefs_of (chart_view h vf ht hv ls ss) = []"
    "read_node ids_of (chart_view h vf ht hv ls ss) = []" "read_node fors_of (chart_view h vf ht hv ls ss) = []" "read_node copies_of (chart_view h vf ht hv ls ss) = []"
  by (simp_all add: chart_view_def chart_svg_def chart_legend_def view_simps split_def split: option.split)

lemma chart_ok [parts]: "node_ok (chart_view h vf ht hv ls ss)"
  by (auto simp: chart_view_def chart_svg_def chart_legend_def parts split: option.split)

subsection \<open>Overview of an app\<close>

datatype overview_event = Ov_reload | Ov_hover "nat option"

definition created_note :: "string \<Rightarrow> bool \<Rightarrow> overview_event node list" where
  "created_note appId created = opt created [El T_div [] [callout Tone_success
     [Text ''Signing group live'',
      info_tip [Text (''Next: an application key so your backend can authenticate to the nodes, and the origins your SDK will call from.'')]]
     [El T_div [] [El T_link [Href (''/apps/'' @ appId @ ''/credentials'')] [Text ''Create an application key''],
        El T_link [Href (''/apps/'' @ appId @ ''/settings/domains'')] [Text ''Add a domain'']]]]]"

definition no_group_note :: "string \<Rightarrow> app \<Rightarrow> overview_event node list" where
  "no_group_note appId a = opt (\<not> truthy_str (a_group_address a)) [El T_div [] [callout Tone_warn
     [Text ''No signing group attached'',
      info_tip [Text (''The app exists on the platform but has no group on-chain, so it cannot sign anything yet. Create one, or link a group you '' @
        ''already control.'')]]
     [El T_div [] [El T_link [Href (''/apps/'' @ appId @ ''/group'')] [Text ''Finish setup'']]]]]"

definition status_value :: "app \<Rightarrow> overview_event node list" where
  "status_value a = [El T_span [] (if truthy_str (a_group_address a)
     then [status_dot_view (fst (group_dot a)) (snd (group_dot a)), Text (group_status_text a)]
     else [El T_span [] [Text ''Not deployed'']])]"

definition app_status_tone :: "app \<Rightarrow> tone option" where
  "app_status_tone a = (case a_is_operational a of Some True \<Rightarrow> Some Tone_success | Some False \<Rightarrow> Some Tone_error | None \<Rightarrow> None)"

definition overview_card :: "app \<Rightarrow> string \<times> string \<times> string option \<Rightarrow> overview_event node" where
  "overview_card a r = (case r of (l, v, h) \<Rightarrow>
     stat_card l (if l = ''Group status'' then status_value a else [Text v]) (case h of None \<Rightarrow> [] | Some x \<Rightarrow> [Text x])
       (if l = ''Group status'' then app_status_tone a else None))"

definition overview_field :: "app \<Rightarrow> string \<times> string \<Rightarrow> overview_event node" where
  "overview_field a r = (case r of (l, v) \<Rightarrow> dl_field l
     [if l = ''App ID'' then Copy_value (a_id a) None (Some ''App ID'')
      else if l = ''Group address'' then Copy_value (case a_group_address a of None \<Rightarrow> [] | Some g \<Rightarrow> g) (Some v) (Some ''Group address'')
      else Text v])"

definition overview_node_view :: "group_node \<Rightarrow> overview_event node" where
  "overview_node_view n = (case overview_node n of (dot, name, tn) \<Rightarrow>
     El T_li [Key (gn_address n)]
       [El T_span [] [status_dot_view dot False, El T_span [] [Text name]],
        badge tn False [Text (case gn_status n of Node_active \<Rightarrow> ''active'' | Node_pending \<Rightarrow> ''pending'' | Node_removing \<Rightarrow> ''removing'')]])"

definition overview_nodes :: "string \<Rightarrow> group_view query \<Rightarrow> overview_event node" where
  "overview_nodes appId q =
     section_card ''Nodes'' [] []
       ((if q_loading q then [skeleton ''h-24 rounded-xl'']
         else (case q_data q of
             None \<Rightarrow> [El T_p [] [Text ''No membership cached yet. Open the group screen to sync it from the chain.'']]
           | Some g \<Rightarrow> if gv_nodes g = [] then [El T_p [] [Text ''No membership cached yet. Open the group screen to sync it from the chain.'']]
               else [El T_p [] [Text (overview_fleet g)], El T_ul [] (map overview_node_view (gv_nodes g))])) @
        [El T_link [Href (''/apps/'' @ appId @ ''/group'')] [Text ''Manage the group'']])"

definition overview_activity :: "string \<Rightarrow> intl \<Rightarrow> nat option \<Rightarrow> usage_summary query \<Rightarrow> overview_event node" where
  "overview_activity appId I hover q =
     section_card ''Activity'' [] [El T_link [Href (''/apps/'' @ appId @ ''/analytics'')] [Text (''Full analytics '' @ right_arrow)]]
       [if q_loading q then skeleton ''h-[220px] rounded-xl''
        else chart_view Ov_hover (in_number I) 220 hover (fst (overview_series (q_data q))) (snd (overview_series (q_data q)))]"

definition overview_shown :: "string \<Rightarrow> intl \<Rightarrow> int \<Rightarrow> bool \<Rightarrow> nat option \<Rightarrow> app \<Rightarrow> group_view query \<Rightarrow> usage_summary query \<Rightarrow> key_stats option \<Rightarrow> overview_event node list" where
  "overview_shown appId I now created hover a g u ks =
     [page_header (a_name a) []
        [El T_link [Href (''/apps/'' @ appId @ ''/group'')] [Text ''Signing group''], El T_link [Href (''/apps/'' @ appId @ ''/settings'')] [Text ''Settings'']]
        (environment_name (a_environment a))] @
     created_note appId created @ no_group_note appId a @
     [El T_div [] (map (overview_card a) (overview_cards I a (q_data g) (q_data u) ks)),
      El T_div []
        [overview_activity appId I hover u,
         El T_div []
           [section_card ''Integration'' [] []
              [El T_dl [] (map (overview_field a) (overview_identifiers I now a)),
               El T_link [Href (''/apps/'' @ appId @ ''/credentials'')] [Text ''Keys & credentials'']],
            overview_nodes appId g]]]"

definition overview_view :: "string \<Rightarrow> intl \<Rightarrow> int \<Rightarrow> bool \<Rightarrow> nat option \<Rightarrow> app query \<Rightarrow> group_view query \<Rightarrow> usage_summary query \<Rightarrow> key_stats option \<Rightarrow> overview_event node list" where
  "overview_view appId I now created hover q g u ks = (case q_error q of
     Some e \<Rightarrow> [error_view e (Some Ov_reload)]
   | None \<Rightarrow> (case q_data q of
       None \<Rightarrow> [El T_div [] [skeleton ''h-9 w-64'', skeleton ''h-32 w-full rounded-2xl'']]
     | Some a \<Rightarrow> overview_shown appId I now created hover a g u ks))"

subsection \<open>Analytics\<close>

datatype analytics_event = An_range string | An_reload | An_hover "nat option"

definition analytics_hints :: "string option list" where
  "analytics_hints =
     [Some (''Distinct users across the whole window '' @ em_dash @ '' not the sum of the daily counts, since a returning user is one wallet.''), None, None,
      Some ''Share of operations that failed, across auth, keygen, and signing.'']"

definition analytics_stats :: "intl \<Rightarrow> usage_summary option \<Rightarrow> analytics_event node" where
  "analytics_stats I u = El T_div []
     (map (\<lambda>((l, v), h). stat_card l [Text v] (case h of None \<Rightarrow> [] | Some x \<Rightarrow> [Text x]) (if l = ''Error rate'' then Some (error_rate_tone u) else None))
       (zip (analytics_cards I u) analytics_hints))"

definition analytics_charts :: "intl \<Rightarrow> (nat \<Rightarrow> nat option) \<Rightarrow> usage_summary query \<Rightarrow> analytics_event node list" where
  "analytics_charts I hover q = (let ps = usage_points (q_data q); lp = latency_points (q_data q) in
     [section_card ''Volume'' [] []
        [if q_loading q then skeleton ''h-[240px] rounded-xl'' else chart_view An_hover (in_number I) 260 (hover 0) (map up_day ps) (volume_series ps)],
      El T_div []
        [section_card ''Latency'' [] []
           [if q_loading q then skeleton ''h-[200px] rounded-xl''
            else if lp = [] then El T_p [] [Text ''No latency has been reported for this range.'']
            else chart_view An_hover (\<lambda>v. dec_of_int v @ ''ms'') 200 (hover 1) (map up_day lp) (latency_series lp)],
         section_card ''Failures'' [] []
           [if q_loading q then skeleton ''h-[200px] rounded-xl''
            else chart_view An_hover (in_number I) 200 (hover 2) (map up_day ps) (failure_series ps)]]])"

definition analytics_view :: "intl \<Rightarrow> string \<Rightarrow> (nat \<Rightarrow> nat option) \<Rightarrow> usage_summary query \<Rightarrow> analytics_event node list" where
  "analytics_view I rng hover q =
     [page_header ''Analytics''
        [Text (''Active wallets is a distinct count over the whole window, not the sum of the daily bars '' @ em_dash @ '' a returning user is one '' @
          ''wallet. It is the unit billing uses.'')]
        [tabs_view (map (\<lambda>(i, l). (i, l, None)) RANGES) rng An_range] []] @
     error_opt (q_error q) (Some An_reload) @
     [analytics_stats I (q_data q), El T_div [] (analytics_charts I hover q)]"

subsection \<open>Settings of an app\<close>

datatype app_event = As_name string | As_description string | As_website string | As_environment environment | As_submit | As_reload
  | As_open_archive | As_close_archive | As_confirm string | As_archive

definition environment_button :: "environment \<Rightarrow> environment_check option \<Rightarrow> environment \<Rightarrow> app_event node" where
  "environment_button chosen check e = (let blocked = environment_blocked check e in
     El T_button [Key (environment_name e), Kind ''button'', Title (if blocked then ''Requirements below are not met yet'' else []),
         Class (if chosen = e then ''border-accent-500 bg-accent-500/[0.08] text-fg''
           else if blocked then ''cursor-not-allowed text-faint hairline'' else ''text-muted hover:bg-fg/[0.03] hairline''),
         Disabled blocked, On_click (As_environment e)]
       [Text (environment_name e)])"

definition app_form_view :: "'t app_settings_tab_scheme \<Rightarrow> environment_check option \<Rightarrow> bool \<Rightarrow> jserr option \<Rightarrow> app_event node" where
  "app_form_view t check pending err =
     El T_form [On_event ''submit'' As_submit]
       ([labelled_input ''name'' ''App name'' ''text'' (as_name t) As_name,
         El T_div [] [label_for ''description'' ''Description'', El T_textarea [Ident ''description'', Value (as_description t), On_change As_description] []],
         El T_div [] [label_for ''website'' ''Website'', field ''website'' ''https://acme.dev'' (as_website t) As_website],
         El T_div [] [El T_span [] [Text ''Environment''],
           El T_div [] (map (environment_button (as_environment t) check) [Development, Production])]] @
        error_opt err None @
        [El T_button [Kind ''submit'', Disabled (\<not> save_app_enabled pending)] [Text (if pending then ''Saving'' @ ellipsis else ''Save changes'')]])"

definition danger_section :: "app_event node" where
  "danger_section = section_card ''Danger zone'' [] []
     [callout Tone_warn [Text ''Archiving does not stop your signing group'',
        info_tip [Text (''Its operators keep their shares and keep serving requests until you remove them yourself '' @ em_dash @ '' a queued, '' @
          ''timelocked removal each, from your own account. Archiving is bookkeeping, not a shutdown.'')]] [],
      button As_open_archive ''Archive this app'']"

definition requirement_item :: "bool \<times> string \<times> string \<Rightarrow> app_event node" where
  "requirement_item r = (case r of (met, l, d) \<Rightarrow>
     El T_li [] [El T_span [Class (if met then ''border-success-500 bg-success-500 text-white'' else ''border-accent-500 text-accent-600'')]
         [Text (if met then check_mark else ''!'')],
       El T_span [] [El T_span [] [Text l], El T_span [] [Text d]]])"

definition production_section :: "string \<Rightarrow> app option \<Rightarrow> environment_check query \<Rightarrow> app_event node" where
  "production_section appId a q =
     section_card ''Going to production'' [] []
       (if q_loading q then [skeleton_rows 3]
        else (case q_data q of None \<Rightarrow> []
          | Some c \<Rightarrow>
             opt (map_option a_environment a = Some Production)
               [callout Tone_success [Text ''In production'',
                  info_tip [Text (''These requirements were met at promotion. Removing operators can take a group back below them.'')]] []] @
             [El T_ul [] (map requirement_item (requirement_rows c))] @
             opt (\<not> ec_allowed c) [El T_div [] (map (\<lambda>(l, h). El T_link [Href h] [Text l]) (promotion_links appId a c))] @
             [callout Tone_neutral [Text ''Platform rules, not protocol ones'', info_tip [Text (ec_note c)]] []]))"

definition settings_field :: "string \<times> string \<Rightarrow> app_event node" where
  "settings_field r = (case r of (l, v) \<Rightarrow> dl_field l [if l = ''App ID'' \<or> l = ''Group address'' then Copy_value v None (Some l) else Text v])"

definition archive_modal :: "'t app_settings_tab_scheme \<Rightarrow> app option \<Rightarrow> bool \<Rightarrow> app_event node list" where
  "archive_modal t a archiving = (let name = (case a of None \<Rightarrow> [] | Some x \<Rightarrow> a_name x) in
     modal (as_archive_open t) As_close_archive ''Archive this app'' [Text (''Type \"'' @ name @ ''\" to confirm.'')] []
       [El T_input [Value (as_confirm t), Placeholder name, Aria_label ''Confirm app name'', On_change As_confirm] []]
       [button As_close_archive ''Cancel'',
        button_if (archive_enabled archiving (as_confirm t) a) As_archive (if archiving then ''Archiving'' @ ellipsis else ''Archive app'')] False)"

definition app_settings_view :: "string \<Rightarrow> intl \<Rightarrow> 't app_settings_tab_scheme \<Rightarrow> app query \<Rightarrow> environment_check query \<Rightarrow> bool \<Rightarrow> jserr option \<Rightarrow> bool \<Rightarrow>
    app_event node list" where
  "app_settings_view appId I t q check pending err archiving = (case q_error q of
     Some e \<Rightarrow> [error_view e (Some As_reload)]
   | None \<Rightarrow>
       [page_header ''Settings'' [Text (''Archiving removes the app from your console. It does not touch the chain '' @ em_dash @ '' your signing group keeps '' @
          ''running until you remove its operators yourself.'')] [] [],
        El T_div []
          [El T_div [] [section_card ''Basics'' [] [] [app_form_view t (q_data check) pending err], danger_section],
           El T_div [] [production_section appId (q_data q) check,
             section_card ''Identifiers'' [] [] [El T_dl [] (map settings_field (settings_identifiers I appId (q_data q)))]]]] @
       archive_modal t (q_data q) archiving)"

subsection \<open>What the screens offer\<close>

lemma overview_items: "read_node clicks (overview_card a c) = []" "read_node fors_of (overview_card a c) = []" "read_node hrefs_of (overview_card a c) = []"
    "read_node clicks (overview_field a r) = []" "read_node fors_of (overview_field a r) = []" "read_node hrefs_of (overview_field a r) = []"
    "read_node clicks (overview_node_view n) = []" "read_node fors_of (overview_node_view n) = []" "read_node hrefs_of (overview_node_view n) = []"
  by (simp_all add: overview_card_def status_value_def overview_field_def dl_field_def overview_node_view_def view_simps split_def split: option.split)

lemma overview_parts_ok [parts]: "parts_ok (created_note i b)" "parts_ok (no_group_note i a)" "node_ok (overview_card a c)" "node_ok (overview_field a r)"
    "node_ok (overview_node_view n)" "node_ok (overview_nodes i q)" "node_ok (overview_activity i I h u)"
  by (auto simp: created_note_def no_group_note_def overview_card_def status_value_def overview_field_def overview_node_view_def overview_nodes_def
      overview_activity_def parts split_def split: option.split)

lemma overview_links: "links (created_note i b) = (if b then [''/apps/'' @ i @ ''/credentials'', ''/apps/'' @ i @ ''/settings/domains''] else [])"
    "links (no_group_note i a) = (if truthy_str (a_group_address a) then [] else [''/apps/'' @ i @ ''/group''])"
    "read_node hrefs_of (overview_nodes i q) = [''/apps/'' @ i @ ''/group'']" "read_node hrefs_of (overview_activity i I h u) = [''/apps/'' @ i @ ''/analytics'']"
    "offers (created_note i b) = []" "offers (no_group_note i a) = []" "read_node clicks (overview_nodes i q) = []" "read_node clicks (overview_activity i I h u) = []"
    "label_targets (created_note i b) = []" "label_targets (no_group_note i a) = []" "read_node fors_of (overview_nodes i q) = []"
    "read_node fors_of (overview_activity i I h u) = []"
  by (simp_all add: created_note_def no_group_note_def overview_nodes_def overview_activity_def view_simps overview_items split: option.split)

lemma overview_read: "label_targets (overview_view i I now c h q g u ks) = []"
    "offers (overview_view i I now c h q g u ks) = (if q_error q = None then [] else [Ov_reload])"
    "links (overview_view i I now c h q g u ks) = (if q_error q \<noteq> None \<or> q_data q = None then [] else
       map (\<lambda>p. ''/apps/'' @ i @ p) ([''/group'', ''/settings''] @ (if c then [''/credentials'', ''/settings/domains''] else []) @
         (if truthy_str (a_group_address (the (q_data q))) then [] else [''/group'']) @ [''/analytics'', ''/credentials'', ''/group'']))"
  by (simp_all add: overview_view_def overview_shown_def view_simps overview_items overview_links split: option.split)

lemma overview_sound: "sound_view (overview_view i I now c h q g u ks)"
  by (rule sound_viewI) (simp add: overview_view_def overview_shown_def parts split: option.split, simp add: overview_read)

lemma analytics_read: "offers (analytics_view I r h q) = map (\<lambda>x. An_range (fst x)) RANGES @ (if q_error q = None then [] else [An_reload])"
    "label_targets (analytics_view I r h q) = []"
  by (simp_all add: analytics_view_def analytics_stats_def analytics_charts_def view_simps Let_def split_def comp_def split: option.split)

lemma analytics_sound: "sound_view (analytics_view I r h q)"
proof (rule sound_viewI)
  show "parts_ok (analytics_view I r h q)"
    by (auto simp: analytics_view_def analytics_stats_def analytics_charts_def parts Let_def split: option.split)
qed (simp add: analytics_read)

lemma app_items: "read_node clicks (environment_button e c v) = (if environment_blocked c v then [] else [As_environment v])"
    "read_node fors_of (environment_button e c v) = []" "read_node ids_of (environment_button e c v) = []" "read_node clicks (requirement_item r) = []"
    "read_node fors_of (requirement_item r) = []" "read_node clicks (settings_field f) = []" "read_node fors_of (settings_field f) = []"
  by (simp_all add: environment_button_def requirement_item_def settings_field_def dl_field_def view_simps Let_def split: prod.split)

lemma app_sections: "read_node clicks (app_form_view t c p e) = [As_environment Development] @
      (if environment_blocked c Production then [] else [As_environment Production])"
    "read_node fors_of (app_form_view t c p e) = read_node ids_of (app_form_view t c p e)"
    "read_node clicks danger_section = [As_open_archive]" "read_node fors_of danger_section = []"
    "read_node clicks (production_section i a q) = []" "read_node fors_of (production_section i a q) = []"
    "offers (archive_modal t a ar) = (if as_archive_open t then [As_close_archive, As_close_archive] @
       (if archive_enabled ar (as_confirm t) a then [As_archive] else []) else [])" "label_targets (archive_modal t a ar) = []"
  by (simp_all add: app_form_view_def danger_section_def production_section_def archive_modal_def view_simps app_items environment_blocked_def Let_def
      split_def split: option.split)

lemma app_items_ok [parts]: "node_ok (environment_button e c v)" "node_ok (requirement_item r)" "node_ok (settings_field f)"
  by (auto simp: environment_button_def requirement_item_def settings_field_def parts Let_def split: prod.split)

lemma app_parts_ok [parts]: "node_ok (app_form_view t c p e)" "node_ok danger_section" "node_ok (production_section i a q)" "parts_ok (archive_modal t a ar)"
  by (auto simp: app_form_view_def danger_section_def production_section_def archive_modal_def parts Let_def split: option.split prod.split)

lemma app_settings_sound: "sound_view (app_settings_view i I t q c p e ar)"
proof (rule sound_viewI)
  show "parts_ok (app_settings_view i I t q c p e ar)"
    by (auto simp: app_settings_view_def parts split: option.split)
qed (auto simp: app_settings_view_def view_simps app_sections app_items split: option.split)

subsection \<open>Properties\<close>

text \<open>What the settings screen of an app offers. Production is closed only by a check that has been read and says
  no: while the check is loading, and when reading it has failed, it can be chosen, and the server decides.
  Archiving needs the app to have been read and its name typed.\<close>

theorem app_settings_offer:
  "let v = app_settings_view appId I t q check pending err archiving in
     (As_environment e \<in> set (offers v) \<longleftrightarrow> q_error q = None \<and> \<not> (e = Production \<and> map_option ec_allowed (q_data check) = Some False)) \<and>
     (As_archive \<in> set (offers v) \<longleftrightarrow> q_error q = None \<and> as_archive_open t \<and> \<not> archiving \<and> map_option a_name (q_data q) = Some (as_confirm t))"
  by (cases e; cases "q_data q") (auto simp: app_settings_view_def view_simps app_sections app_items environment_blocked_def archive_enabled_def Let_def
      split: option.splits)

end
