(* ===== verification/Views_Account.thy ===== *)
theory Views_Account
  imports Views_Org Sign_In
begin

text \<open>
  The trees a person meets before and beside the apps: sign-in and its callback (\<open>web/app/login/page.tsx\<close>,
  \<open>web/app/auth/callback/page.tsx\<close>), an invitation (\<open>web/app/invite/[token]/page.tsx\<close>), and under \<open>web/app/(console)/\<close> the
  first organization, the profile, the list of apps and an app's users. What they run is in \<open>Sign_In\<close>, \<open>Console\<close>
  and \<open>Org_Pages\<close>; the logo is left out.
\<close>

subsection \<open>Sign-in\<close>

datatype sign_in_event = Lg_signet | Lg_wallet

definition login_route_button :: "login_tab \<Rightarrow> login_route \<Rightarrow> sign_in_event node" where
  "login_route_button t r = (case r of
     Busy_signet \<Rightarrow> El T_button [Kind ''button'', On_click Lg_signet, Disabled (lg_busy t \<noteq> None)]
       [Text (if lg_busy t = Some Busy_signet then ''Starting'' @ ellipsis else ''Continue with Signet'')]
   | Busy_siwe \<Rightarrow> El T_button [Kind ''button'', On_click Lg_wallet, Disabled (lg_busy t \<noteq> None)]
       [Text (if lg_busy t = Some Busy_siwe
          then (case lg_provisioning t of None \<Rightarrow> ''Waiting for your wallet'' @ ellipsis | Some s \<Rightarrow> s) else ''Sign in with Ethereum'')])"

definition login_pitch :: "sign_in_event node" where
  "login_pitch = El T_div []
     [El T_link [Href ''/''] [El T_span [] [Text ''Signet'']],
      El T_div []
        [El T_h1 [] [Text ''The console signs you in the same way your app will sign in your users.''],
         El T_p [] [Text (''Social login proves your credential to the bootstrap signing group in zero knowledge. The group threshold-signs a '' @
           ''challenge. We verify that signature '' @ em_dash @ '' not a password, not a session cookie you had to trust us with.'')]],
      El T_p [] [Text ''You are about to use the product before you build with it.'']]"

definition which_route :: "sign_in_event node" where
  "which_route = callout Tone_neutral [Text ''Which route should I use?'']
     [El T_p [] [El T_strong [] [Text ''Signet''], Text '' is the dogfooded route and the one your own users will take. '',
        El T_strong [] [Text ''Sign in with Ethereum''],
        Text ('' proves control of an EOA '' @ em_dash @ '' useful for node operators, and for teams who have not onboarded through Signet yet. They '' @
          ''are separate identities: proving control of an EOA is not proof of control of a Signet account, so the console treats them as '' @
          ''different people.'')]]"

definition sign_in_view :: "network_config option \<Rightarrow> bool \<Rightarrow> login_tab \<Rightarrow> sign_in_event node list" where
  "sign_in_view network has_wallet t =
     [El T_main []
       [login_pitch,
        El T_div []
          ([El T_link [Href ''/''] [El T_span [] [Text ''Signet'']],
            El T_h2 [] [Text ''Sign in''],
            El T_p [] [Text ''No password to set, and nothing replayable stored anywhere.''],
            El T_div [] (login_route_button t Busy_signet # opt (siwe_enabled network) [login_route_button t Busy_siwe])] @
           opt (siwe_enabled network \<and> \<not> has_wallet)
             [El T_p [] [Text ''Signing in with Ethereum needs a wallet extension in this browser.'']] @
           error_opt (lg_error t) None @
           [which_route,
            El T_p [] [Text ''By signing in you agree that this is pre-release software running against a testnet. Read the '',
              El T_link [Href ''/docs''] [Text ''documentation''], Text '' before pointing production traffic at it.'']])]]"

subsection \<open>The callback\<close>

datatype callback_event = Cb_back

definition callback_item :: "login_stage \<Rightarrow> login_stage \<Rightarrow> callback_event node" where
  "callback_item current s = (let is_done = step_done current s; is_active = (s = current) in
     El T_li [Key (login_stage_key s)]
       [El T_span [Class (if is_done then ''border-success-500 bg-success-500 text-white''
            else if is_active then ''border-accent-500 text-accent-600'' else ''border-fg/15 text-faint'')]
          [Text (if is_done then check_mark else [])],
        El T_span [Class (if is_active then ''text-fg'' else if is_done then ''text-muted'' else ''text-faint'')] [Text (stage_copy s)]])"

definition callback_view :: "jserr option \<Rightarrow> login_stage \<Rightarrow> callback_event node list" where
  "callback_view err stage =
     [El T_main [] (case err of
        Some e \<Rightarrow> [El T_div [] [error_view e None, button Cb_back ''Back to sign in'']]
      | None \<Rightarrow>
          [El T_h1 [] [Text (stage_copy stage)],
           El T_p [] [Text (if stage = L_proving then proving_copy else ''This takes a moment.'')],
           El T_ol [] (map (callback_item stage) callback_order)])]"

subsection \<open>Invitation, first organization, profile\<close>

datatype invite_event = Ip_accept | Ip_leave

definition invite_view :: "session_status \<Rightarrow> jserr option \<Rightarrow> bool \<Rightarrow> invite_event node list" where
  "invite_view status err accepting =
     opt (status = Signed_in)
       [El T_main []
         ([El T_h1 [] [Text ''You have been invited''],
           El T_p [] [Text ''Accepting adds your account to the organization with the role the invitation carries.'']] @
          error_opt err None @
          [El T_button [Kind ''button'', Disabled accepting, On_click Ip_accept]
             [Text (if accepting then ''Joining'' @ ellipsis else ''Accept invitation'')],
           button Ip_leave ''Not now''])]"

datatype onboarding_event = Ob_name string | Ob_email string | Ob_submit

definition onboarding_view :: "organization list \<Rightarrow> string \<Rightarrow> string \<Rightarrow> bool \<Rightarrow> jserr option \<Rightarrow> onboarding_event node list" where
  "onboarding_view os name email pending err =
     opt (os = [])
       [El T_div []
         [El T_h1 [] [Text ''Create your organization''],
          El T_p [] [Text (''An organization owns your apps, your team, and your billing. You can rename it later, and you can belong to more than '' @
            ''one.'')],
          El T_form [On_event ''submit'' Ob_submit]
            ([El T_div [] [label_for ''org-name'' ''Organization name'',
                El T_input [Ident ''org-name'', Placeholder ''Acme Labs'', Value name, On_change Ob_name, Auto_focus] []],
              El T_div [] [El T_label [For_id ''org-email''] [Text ''Billing email '', El T_span [] [Text ''(optional)'']],
                El T_input [Ident ''org-email'', Kind ''email'', Placeholder ''billing@acme.dev'', Value email, On_change Ob_email] []]] @
             error_opt err None @
             [El T_button [Kind ''submit'', Disabled (\<not> create_org_enabled pending name)]
                [Text (if pending then ''Creating'' @ ellipsis else ''Create organization'')]])]]"

text \<open>What submitting the form starts; the handler asks for a name by itself, too.\<close>

definition onboarding_submits :: "string \<Rightarrow> bool" where
  "onboarding_submits name \<longleftrightarrow> trim name \<noteq> []"

datatype account_event = Ac_name string | Ac_email string | Ac_submit

definition profile_form :: "string \<Rightarrow> string \<Rightarrow> bool \<Rightarrow> jserr option \<Rightarrow> account_event node" where
  "profile_form name email pending err =
     El T_form [On_event ''submit'' Ac_submit]
       ([El T_div [] [label_for ''name'' ''Display name'', field ''name'' ''Your name'' name Ac_name],
         El T_div [] [label_for ''email'' ''Email'',
           El T_input [Ident ''email'', Kind ''email'', Value email, On_change Ac_email, Placeholder ''you@example.com''] []]] @
        error_opt err None @
        [El T_button [Kind ''submit'', Disabled pending] [Text (if pending then ''Saving'' @ ellipsis else ''Save profile'')]])"

definition account_field :: "string \<times> string \<Rightarrow> account_event node" where
  "account_field r = (case r of (l, v) \<Rightarrow> dl_field l
     [if l = ''Subject'' \<or> l = ''Group public key'' then Copy_value v None (Some l)
      else if l = ''Account'' then Copy_value v None (Some ''Account address'') else Text v])"

definition account_view :: "intl \<Rightarrow> user option \<Rightarrow> string \<Rightarrow> string \<Rightarrow> bool \<Rightarrow> jserr option \<Rightarrow> account_event node list" where
  "account_view I u name email pending err = (case u of None \<Rightarrow> []
   | Some usr \<Rightarrow>
       [page_header ''Account'' [] [] [],
        El T_div []
          [El T_div []
             [section_card ''Profile'' [] [] [profile_form name email pending err],
              section_card ''How you signed in'' [] [] [El T_dl [] (map account_field (account_rows I usr))]],
           El T_div [] (opt (u_is_staff usr)
             [callout Tone_accent [Text ''Platform staff'',
                info_tip [Text (''Your account can curate the operator marketplace. That is separate from your role in any organization '' @ em_dash @
                  '' being staff grants no access to anyone'' @ right_quote @ ''s apps.'')]] []])]])"

subsection \<open>Apps and users\<close>

datatype apps_event = Ap_reload

definition app_card :: "intl \<Rightarrow> int \<Rightarrow> app \<Rightarrow> apps_event node" where
  "app_card I now a =
     El T_link [Key (a_id a), Href (''/apps/'' @ a_id a)]
       ([El T_div []
          [El T_div [] [El T_h2 [] [Text (a_name a)], El T_p [] [Text (''Updated '' @ relative_time I now (Some (a_updated_at a)))]],
           badge (env_tone (a_environment a)) False [Text (environment_name (a_environment a))]]] @
        opt (a_description a \<noteq> []) [El T_p [] [Text (a_description a)]] @
        [El T_div []
          ((case card_status a of (tn, pulse, l) \<Rightarrow> [El T_span [] [status_dot_view tn pulse, Text l]]) @
           (case card_ratio a of None \<Rightarrow> [] | Some r \<Rightarrow> [El T_span [] [Text r]]) @
           opt (truthy_str (a_deployed_at a)) [El T_span [] [Text (''Live since '' @ format_date I (a_deployed_at a))]])])"

definition apps_view :: "intl \<Rightarrow> int \<Rightarrow> app list query \<Rightarrow> apps_event node list" where
  "apps_view I now q =
     [page_header ''Apps'' [] [El T_link [Href ''/apps/new''] [Text ''New app'']] []] @
     error_opt (q_error q) (Some Ap_reload) @
     [if q_loading q then El T_div [] (replicate 3 (skeleton ''h-44 rounded-2xl''))
      else if or_empty q = [] then empty_state ''No apps yet'' [] [El T_link [Href ''/apps/new''] [Text ''Create your first app'']] []
      else El T_div [] (map (app_card I now) (or_empty q))]"

datatype users_event = Us_search string | Us_reload

definition user_item :: "intl \<Rightarrow> int \<Rightarrow> app_user \<Rightarrow> users_event node" where
  "user_item I now u = (case user_row I now u of (cells, tn) \<Rightarrow>
     El T_tr [Key (au_id u)]
       [El T_td [] [El T_div []
          (opt (au_label u \<noteq> []) [El T_p [] [Text (cells ! 0)]] @ [Copy_value (au_subject_hash u) (Some (cells ! 1)) (Some ''Subject hash'')])],
        El T_td [] [Text (cells ! 2)], El T_td [] [Text (cells ! 3)], El T_td [] [Text (cells ! 4)], El T_td [] [Text (cells ! 5)],
        El T_td [] [badge tn False [Text (cells ! 6)]]])"

definition users_view :: "intl \<Rightarrow> int \<Rightarrow> string \<Rightarrow> app_user list query \<Rightarrow> users_event node list" where
  "users_view I now search q =
     [page_header ''Users'' [Text (''Nodes meter a hash of (issuer, subject), never the subject. The platform can count active wallets and group a '' @
        ''person'' @ [CHR 0x27] @ ''s keys, and genuinely cannot tell you who they are.'')] [] [],
      section_card ''Directory'' []
        [El T_input [Placeholder (''Search by hash or label'' @ ellipsis), Value search, On_change Us_search, Aria_label ''Search users''] []]
        (error_opt (q_error q) (Some Us_reload) @
         [if q_loading q then skeleton_rows 5
          else if or_empty q = [] then empty_state (users_empty_title search) [] [] []
          else El T_div [] [El T_table []
            [head_row [''User'', ''Issuer'', ''Keys'', ''First seen'', ''Last active'', []], El T_tbody [] (map (user_item I now) (or_empty q))]]])]"

subsection \<open>What the screens offer\<close>

lemma sign_in_items [view_simps]:
  "read_node clicks (login_route_button t r) = (if lg_busy t = None then [if r = Busy_signet then Lg_signet else Lg_wallet] else [])"
  "read_node fors_of (login_route_button t r) = []" "read_node hrefs_of (login_route_button t r) = []"
  "read_node clicks login_pitch = []" "read_node fors_of login_pitch = []" "read_node hrefs_of login_pitch = [''/'']"
  "read_node clicks which_route = []" "read_node fors_of which_route = []" "read_node hrefs_of which_route = []"
  by (cases r; simp add: login_route_button_def login_pitch_def which_route_def view_simps)+

lemma sign_in_items_ok [parts]: "node_ok (login_route_button t r)" "node_ok login_pitch" "node_ok which_route"
  by (cases r; simp add: login_route_button_def login_pitch_def which_route_def parts)+

lemma sign_in_sound: "sound_view (sign_in_view nw hw t)"
  by (rule sound_viewI) (auto simp: sign_in_view_def parts, simp add: sign_in_view_def view_simps)

lemma callback_items [view_simps]: "read_node clicks (callback_item c s) = []" "read_node fors_of (callback_item c s) = []"
  by (simp_all add: callback_item_def view_simps Let_def)

lemma callback_item_ok [parts]: "node_ok (callback_item c s)"
  by (simp add: callback_item_def parts Let_def)

lemma callback_sound: "sound_view (callback_view e s)"
  by (rule sound_viewI) (simp_all add: callback_view_def parts view_simps concat_const split: option.split)

lemma invite_page_sound: "sound_view (invite_view st e b)"
  by (rule sound_viewI) (simp_all add: invite_view_def parts view_simps)

lemma onboarding_sound: "sound_view (onboarding_view os n m p e)"
  by (rule sound_viewI) (simp_all add: onboarding_view_def parts view_simps)

lemma account_items [view_simps]: "read_node clicks (profile_form n m p e) = []" "read_node fors_of (profile_form n m p e) = [''name'', ''email'']"
    "read_node ids_of (profile_form n m p e) = [''name'', ''email'']" "read_node clicks (account_field r) = []" "read_node fors_of (account_field r) = []"
  by (simp_all add: profile_form_def account_field_def dl_field_def view_simps split: prod.split)

lemma account_items_ok [parts]: "node_ok (profile_form n m p e)" "node_ok (account_field r)"
  by (simp_all add: profile_form_def account_field_def dl_field_def parts split: prod.split)

lemma account_sound: "sound_view (account_view I u n m p e)"
  by (rule sound_viewI) (auto simp: account_view_def parts view_simps concat_const split: option.split)

lemma app_card_read [view_simps]: "read_node clicks (app_card I now a) = []" "read_node fors_of (app_card I now a) = []"
    "read_node hrefs_of (app_card I now a) = [''/apps/'' @ a_id a]"
  by (simp_all add: app_card_def view_simps split: option.split prod.split)

lemma app_card_ok [parts]: "node_ok (app_card I now a)"
  by (simp add: app_card_def parts split: option.split prod.split)

lemma replicate_read: "gather f (replicate n (skeleton c)) = []" if "reader f"
  using that by (induction n) (simp_all add: reader.first reader.none reader.widget_parts)

lemma replicate_ok [parts]: "parts_ok (replicate n (skeleton c))"
  by (induction n) (simp_all add: parts)

lemma apps_sound: "sound_view (apps_view I now q)"
  by (rule sound_viewI) (auto simp: apps_view_def parts view_simps concat_const)

lemma user_item_read [view_simps]: "read_node clicks (user_item I now u) = []" "read_node edits_of (user_item I now u) = []"
    "read_node checks_of (user_item I now u) = []" "read_node fors_of (user_item I now u) = []" "read_node hrefs_of (user_item I now u) = []"
  by (simp_all add: user_item_def view_simps split: prod.split)

lemma user_item_ok [parts]: "node_ok (user_item I now u)"
  by (simp add: user_item_def parts split: prod.split)

lemma users_sound: "sound_view (users_view I now s q)"
  by (rule sound_viewI) (auto simp: users_view_def parts view_simps concat_const)

subsection \<open>Properties\<close>

text \<open>What the sign-in screen offers: the route with Signet whenever no sign-in is under way, even while the
  network's configuration it needs is missing, and the route with a wallet if the deployment allows it, even
  in a browser that has none.\<close>

theorem sign_in_offers:
  "set (offers (sign_in_view nw has_wallet t)) = (if lg_busy t \<noteq> None then {} else insert Lg_signet (if siwe_enabled nw then {Lg_wallet} else {}))"
  by (auto simp: sign_in_view_def view_simps)

text \<open>The callback ticks the stages before the one under way, and no other; what it offers is to go back, once it has failed.
  While the network's configuration is missing, also when reading it has failed, the callback does
  nothing: the screen stays at the first stage and offers nothing.\<close>

theorem callback_screen:
  "offers (callback_view err st) = (if err = None then [] else [Cb_back])"
  "st \<in> set callback_order \<Longrightarrow> filter (step_done st) callback_order = takeWhile (\<lambda>s. s \<noteq> st) callback_order"
  "callback_run E None t = (Inr (), t)"
proof -
  show "filter (step_done st) callback_order = takeWhile (\<lambda>s. s \<noteq> st) callback_order" if "st \<in> set callback_order"
    by (insert that, cases st) (auto simp: step_done_def callback_order_def Let_def)
qed (simp_all add: callback_view_def view_simps concat_const callback_run_def ret_def split: option.split)

text \<open>The screen of an app's users reads and searches; the action that labels a user is reached from none of its
  controls.\<close>

theorem users_screen_reads_only:
  "offers (users_view I now s q) = (if q_error q = None then [] else [Us_reload]) \<and> edits (users_view I now s q) = [Us_search] \<and>
   checks (users_view I now s q) = [] \<and> links (users_view I now s q) = []"
  by (auto simp: users_view_def view_simps concat_const attr_reads)

text \<open>The form of the first organization asks for the name twice: the button is off without one, and so is what
  pressing Enter does.\<close>

lemma onboarding_agrees: "create_org_enabled pending n \<longleftrightarrow> onboarding_submits n \<and> \<not> pending"
  by (auto simp: create_org_enabled_def onboarding_submits_def)

end
