(* ===== verification/Views_Config.thy ===== *)
theory Views_Config
  imports Views_Wizard Policies
begin

text \<open>
  The trees of the configuration screens (\<open>web/app/(console)/apps/[appId]/configuration/*/page.tsx\<close>) around the form of
  \<open>Settings_Form\<close>, and of the policies. The controls of a screen are those of \<open>Configuration\<close>, and what a tree can send
  is compared with what that model offers. Drawings and most class names are left out.
\<close>

subsection \<open>What a browser lets a tree send\<close>

text \<open>Besides presses: a text field sends any text, a select one of the values of its options, a box the value it has
  not; nothing comes from a disabled control.\<close>

definition option_values :: "'e node list \<Rightarrow> string list" where
  "option_values ns = concat (map (\<lambda>(t, as). if t = T_option then concat (map (\<lambda>a. case a of Value v \<Rightarrow> [v] | _ \<Rightarrow> []) as) else [])
     (elems_list ns))"

definition box_state :: "'e attr list \<Rightarrow> bool" where
  "box_state as = list_ex (\<lambda>a. case a of Checked b \<Rightarrow> b | _ \<Rightarrow> False) as"

definition handler_fires :: "tag \<Rightarrow> 'e attr list \<Rightarrow> string list \<Rightarrow> 'e \<Rightarrow> bool" where
  "handler_fires t as vals e \<longleftrightarrow> e \<in> set (clicks (t, as)) \<or>
     (\<exists>c \<in> set (edits_of (t, as)). if t = T_select then e \<in> c ` set vals else e \<in> range c) \<or>
     (\<exists>c \<in> set (checks_of (t, as)). e = c (\<not> box_state as))"

primrec fires :: "'e node \<Rightarrow> 'e \<Rightarrow> bool" and fires_list :: "'e node list \<Rightarrow> 'e \<Rightarrow> bool" where
  "fires (Text s) e = False"
| "fires (El t as ns) e = (handler_fires t as (option_values ns) e \<or> fires_list ns e)"
| "fires (Info_tip l sd ns) e = fires_list ns e"
| "fires (Copy_value v d l) e = False"
| "fires_list [] e = False"
| "fires_list (n # ns) e = (fires n e \<or> fires_list ns e)"

lemma fires_append [simp]: "fires_list (ns @ ms) e \<longleftrightarrow> fires_list ns e \<or> fires_list ms e"
  by (induction ns) auto

lemma fires_map [simp]: "fires_list (map f xs) e \<longleftrightarrow> (\<exists>x \<in> set xs. fires (f x) e)"
  by (induction xs) auto

lemma option_values_map [simp]: "option_values (map (\<lambda>x. El T_option [Key (k x), Value (v x)] [Text (l x)]) xs) = map v xs"
  by (induction xs) (simp_all add: option_values_def)

lemma handler_bare [simp]: "\<not> handler_fires t [] vals e" "handler_fires t (Key k # as) vals e \<longleftrightarrow> handler_fires t as vals e"
    "handler_fires t (Style c # as) vals e \<longleftrightarrow> handler_fires t as vals e" "handler_fires t (Class c # as) vals e \<longleftrightarrow> handler_fires t as vals e"
  by (simp_all add: handler_fires_def attr_reads box_state_def)

subsection \<open>Choices and fields\<close>

text \<open>\<open>Number(text)\<close> of a number field; such fields hold integers.\<close>

definition whole :: "string \<Rightarrow> int" where
  "whole s = (case number_of s of Finite r \<Rightarrow> \<lfloor>r\<rfloor> | _ \<Rightarrow> 0)"

definition choice_card :: "bool \<Rightarrow> string \<Rightarrow> 'e \<Rightarrow> string \<Rightarrow> string \<Rightarrow> 'e node" where
  "choice_card chosen i e l hint =
     El T_button [Key i, Kind ''button'', On_click e, Class (if chosen then ''border-accent-500 bg-accent-500/[0.08]'' else ''hover:bg-fg/[0.03] hairline'')]
       [El T_span [] [Text l], El T_span [] [Text hint]]"

definition choice_word :: "bool \<Rightarrow> string \<Rightarrow> 'e \<Rightarrow> string \<Rightarrow> 'e node" where
  "choice_word chosen i e l =
     El T_button [Key i, Kind ''button'', On_click e,
         Class (if chosen then ''border-accent-500 bg-accent-500/[0.08] text-fg'' else ''text-muted hover:bg-fg/[0.03] hairline'')]
       [Text l]"

definition text_row :: "string \<Rightarrow> string \<Rightarrow> string \<Rightarrow> string \<Rightarrow> (string \<Rightarrow> 'e) \<Rightarrow> 'e node" where
  "text_row i l ph v change = El T_div [] [label_for i l, field i ph v change]"

definition number_row :: "string \<Rightarrow> string \<Rightarrow> 'e attr list \<Rightarrow> int \<Rightarrow> (int \<Rightarrow> 'e) \<Rightarrow> 'e node" where
  "number_row i l bounds v change =
     El T_div [] [label_for i l, El T_input ([Ident i, Kind ''number''] @ bounds @ [Value (dec_of_int v), On_change (\<lambda>s. change (whole s))]) []]"

definition select_row :: "string \<Rightarrow> string \<Rightarrow> bool \<Rightarrow> string \<Rightarrow> (string \<times> string) list \<Rightarrow> (string \<Rightarrow> 'e) \<Rightarrow> 'e node" where
  "select_row i l enabled v options change =
     El T_div [] [label_for i l,
       El T_select [Ident i, Value v, Disabled (\<not> enabled), On_change change]
         (map (\<lambda>x. El T_option [Key (fst x), Value (fst x)] [Text (snd x)]) options)]"

lemma whole_dec: "whole (dec_of_int n) = n"
  by (simp add: whole_def number_of_dec)

lemma whole_any: "e \<in> range (\<lambda>s. f (whole s)) \<longleftrightarrow> e \<in> range f"
  by (auto simp: image_iff) (metis whole_dec)

lemma fires_controls [simp]:
  "fires (choice_card b i x l h) e \<longleftrightarrow> e = x" "fires (choice_word b i x l) e \<longleftrightarrow> e = x"
  "fires (text_row i l ph v c) e \<longleftrightarrow> e \<in> range c" "fires (label_for i l) e \<longleftrightarrow> False" "fires (button x l) e \<longleftrightarrow> e = x"
  "fires (toggle_view b t [Text l] [] d) e \<longleftrightarrow> \<not> d \<and> e = t (\<not> b)"
  "fires (select_row i l en v os g) e \<longleftrightarrow> en \<and> e \<in> g ` set (map fst os)"
  by (auto simp: choice_card_def choice_word_def text_row_def select_row_def control_defs toggle_view_def handler_fires_def attr_reads box_state_def
      opt_def)

lemma fires_number [simp]: "fires (number_row i l [] v f) e \<longleftrightarrow> e \<in> range f" "fires (number_row i l [Min_max a b] v f) e \<longleftrightarrow> e \<in> range f"
  by (simp_all add: number_row_def control_defs handler_fires_def attr_reads whole_any)

lemma fires_section [simp]: "fires (section_card s [] as ns) e \<longleftrightarrow> fires_list as e \<or> fires_list ns e"
  by (cases as; cases s) (simp_all add: section_card_def opt_def handler_fires_def attr_reads)

lemma fires_opt [simp]: "fires_list (opt b ns) e \<longleftrightarrow> b \<and> fires_list ns e"
  by (simp add: opt_def)

subsection \<open>Embedded wallets\<close>

definition CREATION_CARDS :: "((string \<times> string) \<times> string) list" where
  "CREATION_CARDS = zip CREATION_OPTIONS
     [''Every user gets a wallet the first time they sign in.'', ''Only when your app first needs one.'', ''Your backend creates keys explicitly.'']"

definition PROVER_CARDS :: "((string \<times> string) \<times> string) list" where
  "PROVER_CARDS = zip PROVER_OPTIONS
     [''Strongest. The credential never leaves the user'' @ [CHR 0x27] @ ''s device. Costs a few seconds at login.'',
      ''Faster. Suitable if your backend is already trusted with user data.'']"

definition option_text :: "json \<Rightarrow> string" where
  "option_text j = (case j of JStr s \<Rightarrow> s | JNum n \<Rightarrow> dec_of_int n | _ \<Rightarrow> [])"

definition chosen_text :: "json option \<Rightarrow> string" where
  "chosen_text j = (case j of None \<Rightarrow> [] | Some x \<Rightarrow> option_text x)"

definition chain_number :: "json \<Rightarrow> int" where
  "chain_number j = (case j of JNum n \<Rightarrow> n | _ \<Rightarrow> 0)"

definition wallets_children :: "json \<Rightarrow> (wallets_control \<Rightarrow> 'e) \<Rightarrow> 'e node list" where
  "wallets_children v set_value =
     [section_card ''Key creation'' [] []
        [El T_div [] (map (\<lambda>((i, l), h). choice_card (text_of [] ''creation'' v = i) i (set_value (Creation_button i)) l h) CREATION_CARDS)],
      section_card ''Signing schemes'' [] []
        [El T_div [] (map (\<lambda>c. toggle_view (JStr c \<in> set (list_of ''curves'' v)) (\<lambda>on. set_value (Scheme_toggle c on)) [Text (curve_label c)] [] False) CURVES),
         select_row ''default-curve'' ''Default scheme'' True (text_of ''frost_secp256k1'' ''default_curve'' v)
           (map (\<lambda>j. (option_text j, curve_label (option_text j))) (list_of ''curves'' v)) (\<lambda>s. set_value (Default_scheme s))],
      section_card ''Proving'' [] []
        [El T_div [] (map (\<lambda>((i, l), h). choice_card (text_of [] ''prover'' v = i) i (set_value (Prover_button i)) l h) PROVER_CARDS)],
      section_card ''Sessions and confirmation'' [] []
        [number_row ''ttl'' ''Session lifetime (seconds)'' [Min_max 60 86400] (int_of_field 3600 ''session_ttl_seconds'' v) (\<lambda>n. set_value (Session_ttl n)),
         toggle_view (flag_of False ''require_confirmation_on_sign'' v) (\<lambda>on. set_value (Confirm_sign on)) [Text ''Confirm every message signature''] [] False,
         toggle_view (flag_of True ''require_confirmation_on_transaction'' v) (\<lambda>on. set_value (Confirm_transaction on))
           [Text ''Confirm every transaction''] [] False],
      section_card ''Chains'' [] []
        ([El T_div [] (map (\<lambda>(i, l). choice_word (JNum i \<in> set (list_of ''chain_ids'' v)) (dec_of_int i) (set_value (Chain_button i)) l) CHAINS)] @
         opt (list_of ''chain_ids'' v \<noteq> [])
           [select_row ''default-chain'' ''Default chain'' True
              (chosen_text (case jget ''default_chain_id'' v of None \<Rightarrow> Some (hd (list_of ''chain_ids'' v)) | d \<Rightarrow> d))
              (map (\<lambda>j. (option_text j, chain_option (chain_number j))) (list_of ''chain_ids'' v)) (\<lambda>s. set_value (Default_chain (whole s)))])]"

definition wallets_view :: "settings_form \<Rightarrow> wallets_control form_event node list" where
  "wallets_view f =
     [page_header ''Embedded wallets'' [Text (''Confirmation prompts are enforced by your app, not by the operators, so a compromised client can skip them. '' @
        ''For a constraint the network enforces, use a scoped key.'')] [] []] @
     settings_form_view (\<lambda>e. e) wallets_children f"

subsection \<open>Smart accounts\<close>

definition IMPLEMENTATION_CARDS :: "((string \<times> string) \<times> string) list" where
  "IMPLEMENTATION_CARDS = zip IMPLEMENTATIONS
     [''ERC-7579 modular account with the FROST validator as its root signer.'', ''The reference SignetAccount. Smaller surface, fewer features.'',
      ''Any ERC-1271 account that accepts your group as a signer.'']"

definition network_text :: "(network_config \<Rightarrow> string) \<Rightarrow> string \<Rightarrow> network_config option \<Rightarrow> string" where
  "network_text get d network = or_else (map_option get network) d"

definition accounts_children :: "network_config option \<Rightarrow> json \<Rightarrow> (accounts_control \<Rightarrow> 'e) \<Rightarrow> 'e node list" where
  "accounts_children network v set_value =
     [section_card ''Account abstraction'' [] []
        [toggle_view (flag_of True ''enabled'' v) (\<lambda>on. set_value (Accounts_enabled on)) [Text ''Give each user a smart account''] [] False,
         El T_div [] [El T_span [] [Text ''Account implementation''],
           El T_div [] (map (\<lambda>((i, l), h). choice_card (text_of [] ''implementation'' v = i) i (set_value (Implementation_button i)) l h) IMPLEMENTATION_CARDS)]],
      section_card ''Infrastructure'' [] []
        [El T_div []
           [text_row ''entrypoint'' ''EntryPoint'' (network_text n_entrypoint_address (''0x'' @ ellipsis) network) (text_of [] ''entrypoint'' v)
              (\<lambda>s. set_value (Entrypoint s)),
            text_row ''bundler'' ''Bundler URL'' (network_text n_bundler_url (''https://'' @ ellipsis) network) (text_of [] ''bundler_url'' v)
              (\<lambda>s. set_value (Bundler s))]],
      section_card ''Gas sponsorship'' [] []
        ([toggle_view (flag_of False ''paymaster_enabled'' v) (\<lambda>on. set_value (Paymaster_toggle on)) [Text ''Sponsor gas with a paymaster''] [] False] @
         opt (flag_of False ''paymaster_enabled'' v)
           [text_row ''paymaster'' ''Paymaster URL (ERC-7677)'' ''https://paymaster.example.com'' (text_of [] ''paymaster_url'' v) (\<lambda>s. set_value (Paymaster s))] @
         [toggle_view (flag_of True ''sponsor_first_deployment'' v) (\<lambda>on. set_value (Sponsor_first on)) [Text ''Sponsor the first deployment''] [] False])]"

definition accounts_view :: "network_config option \<Rightarrow> settings_form \<Rightarrow> accounts_control form_event node list" where
  "accounts_view network f = [page_header ''Smart accounts'' [] [] []] @ settings_form_view (\<lambda>e. e) (accounts_children network) f"

subsection \<open>Session signers\<close>

definition signers_children :: "json \<Rightarrow> (signers_control \<Rightarrow> 'e) \<Rightarrow> 'e node list" where
  "signers_children v set_value =
     [section_card ''Policy'' [] []
        [toggle_view (flag_of True ''enabled'' v) (\<lambda>on. set_value (Signers_enabled on)) [Text ''Allow session signers''] [] False,
         toggle_view (flag_of True ''require_scope'' v) (\<lambda>on. set_value (Require_scope on)) [Text ''Require a scope on every delegated key''] [] False,
         El T_div []
           [number_row ''default-ttl'' ''Default lifetime (days)'' [] (default_days_shown v) (\<lambda>n. set_value (Default_days n)),
            number_row ''max-ttl'' ''Maximum lifetime (days)'' [] (max_days_shown v) (\<lambda>n. set_value (Max_days n))]]]"

datatype signers_event = Sg_form "signers_control form_event" | Sg_show bool | Sg_revoke string | Sg_reload

definition signer_item :: "intl \<Rightarrow> int \<Rightarrow> delegation \<Rightarrow> signers_event node" where
  "signer_item I now d = (case signer_row I now d of (cells, b, can_revoke) \<Rightarrow>
     El T_tr [Key (de_id d)]
       [El T_td [] [Text (cells ! 0)], El T_td [] [Copy_value (de_key_id d) (Some (cells ! 1)) None],
        El T_td [] [Text (cells ! 2)], El T_td [] [Text (cells ! 3)],
        El T_td [] [case b of Badge_revoked \<Rightarrow> badge Tone_error False [Text ''revoked''] | Badge_expired \<Rightarrow> badge Tone_neutral False [Text ''expired'']
          | Remaining r \<Rightarrow> El T_span [] [Text r]],
        El T_td [] (opt can_revoke [button (Sg_revoke (de_id d)) ''Revoke''])])"

definition signers_section_view :: "intl \<Rightarrow> int \<Rightarrow> bool \<Rightarrow> delegation list query \<Rightarrow> signers_event node" where
  "signers_section_view I now include_revoked q =
     section_card ''Issued signers'' []
       [El T_label [] [El T_input [Kind ''checkbox'', Checked include_revoked, On_check Sg_show] [], Text ''Show revoked'']]
       (error_opt (q_error q) (Some Sg_reload) @
        [if q_loading q then skeleton_rows 3
         else (case q_data q of
             None \<Rightarrow> empty_state ''No session signers issued'' [] [] []
           | Some ds \<Rightarrow> if ds = [] then empty_state ''No session signers issued'' [] [] []
               else El T_div [] [El T_table []
                 [El T_thead [] [El T_tr [] (map (\<lambda>h. El T_th [] [Text h]) [''Label'', ''Key'', ''Scheme'', ''Issued'', ''Expires'', []])],
                  El T_tbody [] (map (signer_item I now) ds)]])])"

definition signers_view :: "intl \<Rightarrow> int \<Rightarrow> bool \<Rightarrow> delegation list query \<Rightarrow> settings_form \<Rightarrow> signers_event node list" where
  "signers_view I now include_revoked q f =
     [page_header ''Session signers'' [Text (''Revoking here is a record, not enforcement. A delegation token is verified by the nodes against the '' @
        ''parent key, so it keeps working until you disable the sub-key from Wallets.'')] [] [],
      El T_div [] (settings_form_view Sg_form signers_children f @ [signers_section_view I now include_revoked q])]"

subsection \<open>Funding\<close>

definition funding_children :: "json \<Rightarrow> (funding_control \<Rightarrow> 'e) \<Rightarrow> 'e node list" where
  "funding_children v set_value = (let on = flag_of False ''enabled'' v in
     [section_card ''Providers'' [] []
        [toggle_view on (\<lambda>b. set_value (Funding_enabled b)) [Text ''Offer funding in your app''] [] False,
         El T_div [] (map (\<lambda>(i, l). toggle_view (JStr i \<in> set (list_of ''providers'' v)) (\<lambda>b. set_value (Provider_toggle i b)) [Text l] [] (\<not> on)) PROVIDERS),
         select_row ''asset'' ''Default asset'' on (text_of ''USDC'' ''default_asset'' v) (map (\<lambda>a. (a, a)) ASSETS) (\<lambda>s. set_value (Default_asset s))]])"

definition funding_view :: "settings_form \<Rightarrow> funding_control form_event node list" where
  "funding_view f =
     [page_header ''Funding'' [] [] [],
      El T_div [] [callout Tone_warn [Text ''Not implemented by the protocol'',
        info_tip [Text (''On-ramps sit outside Signet. These settings record which provider your app offers; wiring it up is work in your own '' @
          ''client.'')]] []]] @
     settings_form_view (\<lambda>e. e) funding_children f"

subsection \<open>Branding\<close>

definition preview_initial :: "json \<Rightarrow> string" where
  "preview_initial v = map upper_char (take 1 (text_of ''A'' ''app_name'' v))"

definition preview_view :: "json \<Rightarrow> 'e node" where
  "preview_view v = (case preview_colors v of (back, front, edge) \<Rightarrow>
     El T_div [Style (''background: '' @ back @ ''; color: '' @ front)]
       ([El T_div []
          [if text_of [] ''logo_url'' v \<noteq> [] then El T_img [Src (text_of [] ''logo_url'' v), Alt []] []
           else El T_div [Style (''background: '' @ preview_accent v)] [Text (preview_initial v)],
           El T_p [] [Text (preview_heading v)]]] @
        opt (text_of [] ''login_message'' v \<noteq> []) [El T_p [] [Text (text_of [] ''login_message'' v)]] @
        [El T_div []
          [El T_div [Style (''background: '' @ preview_accent v @ ''; border-radius: '' @ preview_radius v)] [Text ''Continue with Google''],
           El T_div [Style (''border-radius: '' @ preview_radius v @ ''; border-color: '' @ edge)] [Text ''Continue with email'']],
         El T_p [] [Text ''Secured by a {n}-of-{m} signing group'']]))"

definition branding_logo :: "json \<Rightarrow> (branding_control \<Rightarrow> 'e) \<Rightarrow> (string \<Rightarrow> 'e) \<Rightarrow> 'e node" where
  "branding_logo v set_value upload = (let logo = text_of [] ''logo_url'' v in
     El T_div []
       [El T_span [] [Text ''Logo''],
        El T_div []
          ([if logo \<noteq> [] then El T_img [Src logo, Alt []] [] else El T_div [] [Text ''none''],
            El T_label [] [Text ''Upload'', El T_input [Kind ''file'', On_change upload] []]] @
           opt (logo \<noteq> []) [button (set_value Logo_removed) ''Remove''])])"

definition branding_identity :: "json \<Rightarrow> (branding_control \<Rightarrow> 'e) \<Rightarrow> (string \<Rightarrow> 'e) \<Rightarrow> 'e node" where
  "branding_identity v set_value upload =
     section_card ''Identity'' [] []
       [El T_div []
          [text_row ''app-name'' ''Name shown to users'' ''Acme'' (text_of [] ''app_name'' v) (\<lambda>s. set_value (Branding_text ''app_name'' s)),
           branding_logo v set_value upload,
           text_row ''header'' ''Header text'' ''Sign in to Acme'' (text_of [] ''header_text'' v) (\<lambda>s. set_value (Branding_text ''header_text'' s)),
           El T_div [] [label_for ''message'' ''Login message'',
             El T_textarea [Ident ''message'', Placeholder ''A sentence explaining what signing in gives them.'',
               Value (text_of [] ''login_message'' v), On_change (\<lambda>s. set_value (Branding_text ''login_message'' s))] []]]]"

definition accent_button :: "json \<Rightarrow> (branding_control \<Rightarrow> 'e) \<Rightarrow> string \<Rightarrow> 'e node" where
  "accent_button v set_value c =
     El T_button [Key c, Kind ''button'', Aria_label c, On_click (set_value (Accent c)),
         Class (if jget ''accent_color'' v = Some (JStr c) then ''border-fg'' else ''border-transparent''), Style (''background: '' @ c)] []"

definition branding_appearance :: "json \<Rightarrow> (branding_control \<Rightarrow> 'e) \<Rightarrow> 'e node" where
  "branding_appearance v set_value =
     section_card ''Appearance'' [] []
       [El T_div []
          [El T_div [] [El T_span [] [Text ''Theme''],
             El T_div [] (map (\<lambda>t. choice_word (text_of [] ''theme'' v = t) t (set_value (Theme_button t)) t) [''light'', ''dark'', ''system''])],
           El T_div [] [El T_span [] [Text ''Accent colour''],
             El T_div [] (map (accent_button v set_value) ACCENTS @
               [El T_input [Kind ''color'', Value (text_of ''#e8873c'' ''accent_color'' v), On_change (\<lambda>s. set_value (Accent s)),
                  Aria_label ''Custom accent colour''] []])],
           El T_div [] [El T_span [] [Text ''Corner radius''],
             El T_div [] (map (\<lambda>r. choice_word (text_of [] ''corner_radius'' v = r) r (set_value (Corner_button r)) r) [''sharp'', ''soft'', ''round''])],
           toggle_view (flag_of True ''show_wallet_ui'' v) (\<lambda>on. set_value (Wallet_ui on)) [Text ''Show the built-in wallet screens''] [] False]]"

definition branding_legal :: "json \<Rightarrow> (branding_control \<Rightarrow> 'e) \<Rightarrow> 'e node" where
  "branding_legal v set_value =
     section_card ''Legal'' [] []
       [El T_div []
          [text_row ''terms'' ''Terms of service URL'' ''https://acme.dev/terms'' (text_of [] ''terms_url'' v) (\<lambda>s. set_value (Branding_text ''terms_url'' s)),
           text_row ''privacy'' ''Privacy policy URL'' ''https://acme.dev/privacy'' (text_of [] ''privacy_url'' v)
             (\<lambda>s. set_value (Branding_text ''privacy_url'' s))]]"

definition branding_children :: "(string \<Rightarrow> 'e) \<Rightarrow> json \<Rightarrow> (branding_control \<Rightarrow> 'e) \<Rightarrow> 'e node list" where
  "branding_children upload v set_value =
     [El T_div []
        [El T_div [] [branding_identity v set_value upload, branding_appearance v set_value, branding_legal v set_value],
         El T_div [] [section_card ''Preview'' [] [] [preview_view v]]]]"

datatype branding_event = Br_form "branding_control form_event" | Br_upload string

definition branding_view :: "settings_form \<Rightarrow> branding_event node list" where
  "branding_view f = [page_header ''Branding'' [] [] []] @ settings_form_view Br_form (branding_children Br_upload) f"

subsection \<open>Policies\<close>

text \<open>\<open>JSON.stringify(value, null, 2)\<close>.\<close>

definition line_at :: "nat \<Rightarrow> string" where
  "line_at depth = CHR 0x0A # replicate (2 * depth) (CHR '' '')"

fun pretty :: "nat \<Rightarrow> json \<Rightarrow> string"
  and pretty_elems :: "nat \<Rightarrow> json list \<Rightarrow> string"
  and pretty_members :: "nat \<Rightarrow> (string \<times> json) list \<Rightarrow> string" where
  "pretty d (JArr []) = ''[]''"
| "pretty d (JArr (j # js)) = ''['' @ pretty_elems (d + 1) (j # js) @ line_at d @ '']''"
| "pretty d (JObj []) = ''{}''"
| "pretty d (JObj (kv # kvs)) = ''{'' @ pretty_members (d + 1) (kv # kvs) @ line_at d @ ''}''"
| "pretty d j = json_print j"
| "pretty_elems d [] = []"
| "pretty_elems d [j] = line_at d @ pretty d j"
| "pretty_elems d (j # j' # js) = line_at d @ pretty d j @ '','' @ pretty_elems d (j' # js)"
| "pretty_members d [] = []"
| "pretty_members d [(k, v)] = line_at d @ print_string k @ '': '' @ pretty d v"
| "pretty_members d ((k, v) # kv # kvs) = line_at d @ print_string k @ '': '' @ pretty d v @ '','' @ pretty_members d (kv # kvs)"

datatype policies_event = Pl_new | Pl_first | Pl_edit policy | Pl_delete string | Pl_close | Pl_name string | Pl_kind policy_kind
  | Pl_config string | Pl_save | Pl_reload

definition policy_item :: "policy \<Rightarrow> policies_event node" where
  "policy_item p = (case policy_row p of (name, (l, tn), disabled, kind, has_config) \<Rightarrow>
     El T_li [Key (py_id p)]
       ([El T_div []
          [El T_div []
             [El T_div [] ([El T_p [] [Text name], badge tn True [Text l]] @ opt disabled [badge Tone_neutral False [Text ''disabled'']]),
              El T_p [] [Text kind]],
           El T_div [] [button (Pl_edit p) ''Edit'', button (Pl_delete (py_id p)) ''Delete'']]] @
        opt has_config [El T_pre [] [Text (pretty 0 (py_config p))]]))"

definition policies_section :: "policy list query \<Rightarrow> policies_event node" where
  "policies_section q =
     section_card [] [] []
       (error_opt (q_error q) (Some Pl_reload) @
        [if q_loading q then skeleton_rows 3
         else (case q_data q of
             None \<Rightarrow> empty_state ''No policies yet'' [] [button Pl_first ''Create a policy''] []
           | Some ps \<Rightarrow> if ps = [] then empty_state ''No policies yet'' [] [button Pl_first ''Create a policy''] []
               else El T_ul [] (map policy_item ps))])"

definition kind_choice :: "policy_kind \<Rightarrow> policy_kind \<times> string \<times> (string \<times> tone) \<times> string \<Rightarrow> policies_event node" where
  "kind_choice chosen r = (case r of (k, l, (el, tn), d) \<Rightarrow>
     El T_button [Key (policy_kind_name k), Kind ''button'', On_click (Pl_kind k),
         Class (if chosen = k then ''border-accent-500 bg-accent-500/[0.08]'' else ''hover:bg-fg/[0.03] hairline'')]
       [El T_span [] [El T_span [] [Text l], badge tn False [Text el]], El T_span [] [Text d]])"

definition policy_modal :: "policy_page \<Rightarrow> jserr option \<Rightarrow> policies_event node list" where
  "policy_modal s err =
     modal (pp_open s) Pl_close (policy_title s) [] []
       (error_opt err None @
        [El T_div []
          [El T_div [] [label_for ''policy-name'' ''Name'',
             El T_input [Ident ''policy-name'', Placeholder ''USDC payments on Base'', Value (pp_name s), Disabled (pp_editing s \<noteq> None), On_change Pl_name] []],
           El T_div [] [El T_span [] [Text ''Type''], El T_div [] (map (kind_choice (pp_kind s)) kind_buttons)],
           El T_div [] [label_for ''policy-config'' ''Configuration'',
             El T_textarea [Ident ''policy-config'', Value (pp_config s), Placeholder (pretty 0 (placeholder_for (pp_kind s))), On_change Pl_config] []]]])
       [button Pl_close ''Cancel'',
        button_if (save_policy_enabled s) Pl_save (if pp_saving s \<noteq> None then ''Saving'' @ ellipsis else ''Save policy'')] True"

definition policies_view :: "policy_page \<Rightarrow> jserr option \<Rightarrow> policy list query \<Rightarrow> policies_event node list" where
  "policies_view s err q =
     [page_header ''Policies'' [Text (''Watch the badge on each rule. A key scope is checked by every operator; a smart-account rule by the chain; '' @
        ''anything marked advisory is enforced by your own server, not the network.'')] [button Pl_new ''New policy''] [],
      policies_section q] @
     policy_modal s err"

subsection \<open>What the screens send\<close>

lemma fires_form: "fires_list (settings_form_view act children f) (act (Fm_control c)) \<longleftrightarrow>
    form_shown f \<and> fires_list (children (sf_value f) (\<lambda>c. act (Fm_control c))) (act (Fm_control c))" if "inj act"
  using that
  by (auto simp: settings_form_view_def form_shown_def error_view_def error_opt_def handler_fires_def attr_reads opt_def inj_eq split: option.split)

lemma fires_widgets [simp]: "fires (info_tip ns) e \<longleftrightarrow> fires_list ns e" "fires (badge tn d [Text l]) e \<longleftrightarrow> False"
    "fires (callout tn ts []) e \<longleftrightarrow> fires_list ts e" "fires (page_header t [Text i] [] eb) e \<longleftrightarrow> False" "fires (page_header t [] [] eb) e \<longleftrightarrow> False"
  by (cases ts; cases eb; simp add: handler_fires_def attr_reads info_tip_def badge_def opt_def callout_def page_header_def info_below_def)+

lemma fires_preview [simp]: "fires (preview_view v) e \<longleftrightarrow> False"
  by (simp add: preview_view_def handler_fires_def attr_reads split: prod.split)

lemmas card_defs = CREATION_CARDS_def CREATION_OPTIONS_def PROVER_CARDS_def PROVER_OPTIONS_def IMPLEMENTATION_CARDS_def IMPLEMENTATIONS_def

lemma accounts_send: "inj g \<Longrightarrow> fires_list (accounts_children nw v g) (g c) \<longleftrightarrow> accounts_offers v c"
  by (cases c) (auto simp: accounts_children_def accounts_offers_def card_defs inj_eq)

lemma signers_send: "inj g \<Longrightarrow> fires_list (signers_children v g) (g c) \<longleftrightarrow> signers_offers v c"
  by (cases c) (auto simp: signers_children_def signers_offers_def inj_eq)

lemma funding_send: "inj g \<Longrightarrow> fires_list (funding_children v g) (g c) \<longleftrightarrow> funding_offers v c"
  by (cases c) (auto simp: funding_children_def funding_offers_def PROVIDERS_def inj_eq Let_def image_iff)

lemma fires_texts [simp]: "fires (El T_img as ns) e \<longleftrightarrow> handler_fires T_img as (option_values ns) e \<or> fires_list ns e"
    "handler_fires T_img [Src u, Alt t] vs e \<longleftrightarrow> False"
    "handler_fires T_input [Kind k, On_change c] vs e \<longleftrightarrow> e \<in> range c"
    "handler_fires T_input [Kind k, Value v, On_change c, Aria_label l] vs e \<longleftrightarrow> e \<in> range c"
    "handler_fires T_textarea [Ident i, Placeholder ph, Value v, On_change c] vs e \<longleftrightarrow> e \<in> range c"
    "handler_fires T_button (Kind k # Aria_label l # On_click x # [Class cl, Style st]) vs e \<longleftrightarrow> e = x"
  by (simp_all add: handler_fires_def attr_reads)

lemma branding_send: "inj g \<Longrightarrow> (\<And>u. up u \<noteq> g c) \<Longrightarrow>
    fires_list (branding_children up v g) (g c) \<longleftrightarrow> branding_offers v c \<and> (case c of Logo_uploaded u \<Rightarrow> False | _ \<Rightarrow> True)"
  by (cases c) (auto simp: branding_children_def branding_identity_def branding_logo_def branding_appearance_def accent_button_def branding_legal_def
      branding_offers_def branding_texts_def ACCENTS_def inj_eq Let_def image_iff dest: sym)

lemma typed_lists:
  assumes "typed_section wallets_section v"
  shows "j \<in> set (list_of ''curves'' v) \<Longrightarrow> JStr (option_text j) = j" "j \<in> set (list_of ''chain_ids'' v) \<Longrightarrow> JNum (whole (option_text j)) = j"
proof -
  have t: "has_type (Some_of curve_names) (JArr xs)" if "jget ''curves'' v = Some (JArr xs)" for xs
    using assms that by (auto simp: typed_section_def wallets_section_def split: json.splits)
  have u: "has_type Ints (JArr xs)" if "jget ''chain_ids'' v = Some (JArr xs)" for xs
    using assms that by (auto simp: typed_section_def wallets_section_def split: json.splits)
  have c: "\<exists>s. j = JStr s" if "Some (JArr xs) = jget ''curves'' v" "j \<in> set xs" for xs
    using t [OF that(1) [symmetric]] that(2) by (cases j) (auto simp: list_all_iff split: json.splits)
  have i: "\<exists>n. j = JNum n" if "Some (JArr xs) = jget ''chain_ids'' v" "j \<in> set xs" for xs
    using u [OF that(1) [symmetric]] that(2) by (cases j) (auto simp: list_all_iff split: json.splits)
  show "JStr (option_text j) = j" if "j \<in> set (list_of ''curves'' v)"
    using that by (auto simp: list_of_def option_text_def split: option.splits json.splits dest!: c)
  show "JNum (whole (option_text j)) = j" if "j \<in> set (list_of ''chain_ids'' v)"
    using that by (auto simp: list_of_def option_text_def whole_dec split: option.splits json.splits dest!: i)
qed

lemma typed_options:
  assumes "typed_section wallets_section v"
  shows "s \<in> option_text ` set (list_of ''curves'' v) \<longleftrightarrow> JStr s \<in> set (list_of ''curves'' v)"
    "n \<in> (\<lambda>j. whole (option_text j)) ` set (list_of ''chain_ids'' v) \<longleftrightarrow> JNum n \<in> set (list_of ''chain_ids'' v)"
  using typed_lists [OF assms] by (force simp: option_text_def whole_dec)+

lemma wallets_send:
  assumes "inj g" "typed_section wallets_section v"
  shows "fires_list (wallets_children v g) (g c) \<longleftrightarrow> wallets_offers v c"
  using typed_options [OF assms(2)] assms(1)
  by (cases c) (auto simp: wallets_children_def wallets_offers_def card_defs CURVES_def CHAINS_def inj_eq image_iff comp_def)

lemma login_send: "inj g \<Longrightarrow> fires_list (login_children v g) (g c) \<longleftrightarrow> login_offers v c"
  by (cases c) (auto simp: login_children_def login_offers_def method_toggle_def inj_eq image_iff)

lemma fires_error [simp]: "fires_list (error_opt e (Some r)) x \<longleftrightarrow> e \<noteq> None \<and> x = r" "fires_list (error_opt e None) x \<longleftrightarrow> False"
  by (auto simp: error_opt_def error_view_def handler_fires_def attr_reads split: option.splits)

lemma skeletons_quiet [simp]: "fires (skeleton_rows n) e \<longleftrightarrow> False" "fires (skeleton c) e \<longleftrightarrow> False"
proof -
  show q: "fires (skeleton c) e \<longleftrightarrow> False" for c by (simp add: skeleton_def)
  have "fires_list (replicate n (skeleton c)) e \<longleftrightarrow> False" for c by (induction n) (simp_all add: q)
  then show "fires (skeleton_rows n) e \<longleftrightarrow> False" by (simp add: skeleton_rows_def)
qed

lemma signers_rest: "\<not> fires (signers_section_view I now b q) (Sg_form e)"
  by (auto simp: signers_section_view_def signer_item_def handler_fires_def attr_reads empty_state_def opt_def button_def
      split: option.split prod.split signer_badge.split)

lemma login_rest: "\<not> fires (issuers_section s q) (Lp_form e)" "\<not> fires_list (add_issuer_modal copy s) (Lp_form e)"
  by (auto simp: issuers_section_def issuer_item_def issuer_row_def no_issuers_def add_issuer_modal_def modal_def error_opt_def error_view_def info_tip_def
      handler_fires_def attr_reads opt_def control_defs section_card_def callout_def badge_def split: option.splits list.splits prod.splits)

subsection \<open>Soundness\<close>

lemma rows_read [view_simps]:
  "read_node fors_of (text_row i l ph v c) = [i]" "read_node ids_of (text_row i l ph v c) = [i]"
  "read_node fors_of (select_row i l en v os h) = [i]" "read_node ids_of (select_row i l en v os h) = [i]"
  "read_node fors_of (choice_card b i x l d) = []" "read_node fors_of (choice_word b i x l) = []"
  "read_node ids_of (choice_card b i x l d) = []" "read_node ids_of (choice_word b i x l) = []"
  "read_node fors_of (preview_view w) = []"
  by (simp_all add: text_row_def select_row_def choice_card_def choice_word_def preview_view_def view_simps split: prod.split)

lemma number_rows [view_simps]: "read_node fors_of (number_row i l [] n g) = [i]" "read_node ids_of (number_row i l [] n g) = [i]"
    "read_node fors_of (number_row i l [Min_max a b] n g) = [i]" "read_node ids_of (number_row i l [Min_max a b] n g) = [i]"
  by (simp_all add: number_row_def view_simps attr_reads)

lemma rows_ok [parts]: "node_ok (text_row i l ph v c)" "node_ok (select_row i l en v os h)" "node_ok (choice_card b i x l d)"
    "node_ok (choice_word b i x l)" "node_ok (preview_view w)" "node_ok (number_row i l [] n g)" "node_ok (number_row i l [Min_max lo hi] n g)"
  by (auto simp: text_row_def select_row_def choice_card_def choice_word_def preview_view_def number_row_def parts split: prod.split)

lemma wallets_config_sound: "sound_view (wallets_view f)"
proof (rule sound_viewI)
  show "parts_ok (wallets_view f)" by (auto simp: wallets_view_def settings_form_view_def wallets_children_def parts split: option.split)
qed (auto simp: wallets_view_def form_fields wallets_children_def card_defs CHAINS_def CURVES_def view_simps)

lemma accounts_sound: "sound_view (accounts_view nw f)"
proof (rule sound_viewI)
  show "parts_ok (accounts_view nw f)" by (auto simp: accounts_view_def settings_form_view_def accounts_children_def parts split: option.split)
qed (auto simp: accounts_view_def form_fields accounts_children_def card_defs view_simps)

lemma funding_sound: "sound_view (funding_view f)"
proof (rule sound_viewI)
  show "parts_ok (funding_view f)" by (auto simp: funding_view_def settings_form_view_def funding_children_def parts Let_def split: option.split)
qed (auto simp: funding_view_def form_fields funding_children_def PROVIDERS_def view_simps Let_def)

lemma signer_item_read: "read_node fors_of (signer_item I now d) = []"
  by (simp add: signer_item_def view_simps split: prod.split signer_badge.split)

lemma signers_sound: "sound_view (signers_view I now b q f)"
proof (rule sound_viewI)
  show "parts_ok (signers_view I now b q f)"
    by (auto simp: signers_view_def settings_form_view_def signers_children_def signers_section_view_def signer_item_def parts
        split: option.split prod.split signer_badge.split)
qed (auto simp: signers_view_def form_fields signers_children_def signers_section_view_def signer_item_read view_simps split: option.split)

lemma branding_sound: "sound_view (branding_view f)"
proof (rule sound_viewI)
  show "parts_ok (branding_view f)"
    by (auto simp: branding_view_def settings_form_view_def branding_children_def branding_identity_def branding_logo_def branding_appearance_def
        accent_button_def branding_legal_def parts Let_def split: option.split)
qed (auto simp: branding_view_def form_fields branding_children_def branding_identity_def branding_logo_def branding_appearance_def
    accent_button_def branding_legal_def ACCENTS_def view_simps Let_def)

lemma policy_items: "read_node fors_of (policy_item p) = []" "read_node clicks (policy_item p) = [Pl_edit p, Pl_delete (py_id p)]"
    "read_node edits_of (policy_item p) = []" "read_node fors_of (kind_choice k r) = []" "read_node clicks (kind_choice k r) = [Pl_kind (fst r)]"
    "read_node edits_of (kind_choice k r) = []" "node_ok (policy_item p)" "node_ok (kind_choice k r)"
  by (auto simp: policy_item_def kind_choice_def view_simps parts attr_reads split: prod.split)

lemma policies_sound: "sound_view (policies_view s e q)"
proof (rule sound_viewI)
  show "parts_ok (policies_view s e q)" by (auto simp: policies_view_def policies_section_def policy_modal_def policy_items parts split: option.split)
qed (auto simp: policies_view_def policies_section_def policy_modal_def policy_items view_simps split: option.split)

subsection \<open>Properties\<close>


definition demo_form :: settings_form where
  "demo_form = form_loaded wallets_defaults (JObj []) (form_init wallets_defaults JNull)"


text \<open>The policies' page: every policy listed can be edited and deleted; saving needs what the dialogue's model asks for,
  and the name is typed only for a new policy.\<close>

theorem policies_screen:
  "let v = policies_view s e q; ps = (if q_loading q then [] else case q_data q of None \<Rightarrow> [] | Some ps \<Rightarrow> ps) in
     {p. Pl_edit p \<in> set (offers v)} = set ps \<and> {i. Pl_delete i \<in> set (offers v)} = py_id ` set ps \<and>
     (Pl_save \<in> set (offers v) \<longleftrightarrow> save_policy_enabled s) \<and> (Pl_name \<in> set (edits v) \<longleftrightarrow> name_enabled s) \<and>
     (Pl_first \<in> set (offers v) \<longleftrightarrow> ps = [] \<and> \<not> q_loading q) \<and> Pl_new \<in> set (offers v)"
proof -
  have o: "offers (policies_view s e q) = Pl_new # (if q_error q = None then [] else [Pl_reload]) @
      (if q_loading q then [] else case q_data q of None \<Rightarrow> [Pl_first] | Some ps \<Rightarrow> if ps = [] then [Pl_first]
         else concat (map (\<lambda>p. [Pl_edit p, Pl_delete (py_id p)]) ps)) @
      (if pp_open s then Pl_close # map (\<lambda>r. Pl_kind (fst r)) kind_buttons @ [Pl_close] @ (if save_policy_enabled s then [Pl_save] else []) else [])"
    by (simp add: policies_view_def policies_section_def policy_modal_def policy_items view_simps concat_singles split: option.split)
  have d: "edits (policies_view s e q) = (if pp_open s then (if pp_editing s = None then [Pl_name] else []) @ [Pl_config] else [])"
    by (simp add: policies_view_def policies_section_def policy_modal_def policy_items view_simps split: option.split)
  have n: "Pl_name \<noteq> Pl_config" by (simp add: fun_eq_iff)
  show ?thesis
    unfolding Let_def o d
    by (intro conjI) (auto simp: save_policy_enabled_def name_enabled_def n split: option.split)
qed

end
