(* ===== verification/Screens.thy ===== *)
theory Screens
  imports Views_App Views_Hooks Views_Group Views_Wallets Views_Wizard Views_Config Views_Account
begin

text \<open>
  What holds of the screens together: every tree is sound, and which screens show a failed request as an
  empty answer. A screen shows the errors of the queries it passes to \<open>ErrorNote\<close>; the others only leave
  their data missing.
\<close>

text \<open>A query after its first request has failed, and after it has been answered with an empty list.\<close>

definition failed_first :: "jserr \<Rightarrow> 'a query" where
  "failed_first e = query_settle 1 (Inl e) (query_effect query_init)"

definition answered_first :: "'a \<Rightarrow> 'a query" where
  "answered_first x = query_settle 1 (Inr x) (query_effect query_init)"

lemma first_answers: "q_data (failed_first e) = None" "q_error (failed_first e) = Some e" "\<not> q_loading (failed_first e)"
    "q_data (answered_first x) = Some x" "q_error (answered_first x) = None" "\<not> q_loading (answered_first x)"
  by (simp_all add: failed_first_def answered_first_def query_settle_def query_effect_def query_run_def query_init_def Let_def)

lemmas shown_lists = first_answers or_empty_def

lemma silent_sections: "deliveries_modal I now w (failed_first e) = deliveries_modal I now w (answered_first [])"
    "status_operators (failed_first e) = status_operators (answered_first [])"
    "invites_section I (failed_first e) = invites_section I (answered_first [])"
    "invoices_section I (failed_first e) p = invoices_section I (answered_first []) p"
    "assets_section I (failed_first e) = assets_section I (answered_first [])"
    "invite_modal I gs g (q_data (failed_first e)) = invite_modal I gs g (q_data (answered_first []))"
  by (simp_all add: deliveries_modal_def deliveries_body_def status_operators_def invites_section_def pending_invites_def invoices_section_def
      assets_section_def invite_modal_def invitable_def shown_lists split: option.split)

lemma offered_first: "offered_operators net None = []" "offered_operators net (Some []) = []"
  by (simp_all add: offered_operators_def)

lemma silent_wizard: "operators_view I net (failed_first e) w = operators_view I net (answered_first []) w"
    "review_create_view net (failed_first e) cs nt w = review_create_view net (answered_first []) cs nt w"
  by (simp_all add: operators_view_def choose_operators_def review_create_view_def offered_first first_answers)

lemma silent_screens: "webhooks_view I now t q es p err w (failed_first e) = webhooks_view I now t q es p err w (answered_first [])"
    "status_view I n (failed_first e) = status_view I n (answered_first [])"
    "members_view I u mt ms (failed_first e) p err = members_view I u mt ms (answered_first []) p err"
    "billing_view I b (failed_first e) p = billing_view I b (answered_first []) p"
    "org_settings_view og I ot oq (failed_first e) p err = org_settings_view og I ot oq (answered_first []) p err"
    "wizard_view I net (failed_first e) cs u stage nerr wz = wizard_view I net (answered_first []) cs u stage nerr wz"
  by (simp_all add: webhooks_view_def status_view_def members_view_def billing_view_def org_settings_view_def wizard_view_def
      wizard_body_def silent_sections silent_wizard first_answers split: option.split wizard_step.split)

lemma outspoken_screens: "Wh_reload \<in> set (offers (webhooks_view I now t (failed_first e) es p err w ds))"
    "St_reload \<in> set (offers (status_view I (failed_first e) ops))"
    "Mb_reload \<in> set (offers (members_view I u mt (failed_first e) is p err))"
    "Bl_reload \<in> set (offers (billing_view I (failed_first e) iv p))"
    "Gp_reload \<in> set (offers (group_screen_view I now u m cs gs (failed_first e) gops))"
    "Ov_reload \<in> set (offers (overview_view a I now c h (failed_first e) g us ks))"
  by (simp_all add: webhooks_view_def webhooks_section_def status_view_def status_section_def members_view_def members_section_def billing_view_def
      group_screen_view_def overview_view_def view_simps first_answers)



end
