(* ===== verification/Spec2Isabelle.thy ===== *)
theory Spec2Isabelle
  imports Trust Nav Hooks Operators Settings_Form Console Wallets Webhooks Policies
    Chart App_Settings Org_Pages Overview Configuration Ui Market
    Reveal Frames Pages Views_Trust Views_Hooks Views_Market Views_Wizard Views_Group Views_Wallets Views_Org Views_App Views_Account Views_Config Screens
begin

text \<open>
  A model of the Signet console, the web application under \<open>web/\<close>, and of the parts of the platform's server
  (\<open>backend/\<close>) its promises depend on.

  \<^bold>\<open>The program.\<close> A developer signs in to the console with Google or a wallet and obtains a signing session: a
  session key and a claim that a group of operators (nodes) accepts, kept in the tab. With it the tab asks
  the group for threshold signatures and sends user operations or wallet transactions that create and
  change signing groups on-chain. Everything else is kept by the platform's server, which the console
  reads and writes over HTTP: organizations, apps, keys, policies, webhooks, settings.

  \<^bold>\<open>How code becomes definitions.\<close> A tab is a record (\<open>World\<close>): its storages and the trace of its effects
  (requests, calls of libraries, toasts, navigations). An \<open>async\<close> function is a function from a tab to an
  error or a value and the tab afterwards, composed by \<open>await\<close>, \<open>seq\<close>, \<open>try_catch\<close>, \<open>finally_do\<close> in the order of the
  code. What answers is an environment of functions over the trace so far, so that a second call may be
  answered differently: the clock, \<open>fetch\<close>, the wallet, storage that may refuse, and in its extensions the
  code that is not in the repository (the Signet SDK and its prover, viem's encoders and hashes, the
  bundler, the browser's confirmation). Where several things are under way at once (a query, an action,
  the wizard, a form, a dialogue, the provider) the component is an inductive step relation, and its
  invariant is proved once, in the locale \<open>machine\<close>. Errors are values of \<open>jserr\<close>. JSON is the type \<open>json\<close>, with
  a printer and a parser; strings are their UTF-8 bytes; numbers are integers or rationals.

  \<^bold>\<open>The theories\<close>, with the files under \<open>web/\<close> they model:

  \<^item> \<open>Prelude\<close>, \<open>World\<close>, \<open>Json\<close>, \<open>Codec\<close>: strings, reachability and the locale \<open>machine\<close>; tabs, effects, and the
    locale \<open>frame\<close> of what an effect keeps; JSON with its round trip; hexadecimal.
  \<^item> \<open>Types\<close>, \<open>Api\<close>: \<open>lib/types.ts\<close> with its decoders, \<open>lib/api.ts\<close> (every call as a route, the request and its
    errors, the node proxy, uploads, query strings and their decoding).
  \<^item> \<open>Session_Key\<close>: \<open>lib/session-key.ts\<close>. Round trip, expiry, what signing out and a 401 leave behind; the
    locale \<open>session_slot\<close> is the contract of the store.
  \<^item> \<open>Signet\<close>, \<open>Siwe\<close>, \<open>Provision\<close>: \<open>lib/signet.ts\<close>, with the server's parser of a sign-in message
    (\<open>backend/internal/auth/siwe.go\<close>); \<open>lib/provision.ts\<close>.
  \<^item> \<open>UserOp\<close>, \<open>Onchain\<close>: \<open>lib/userop.ts\<close>; \<open>lib/abi.ts\<close>, \<open>lib/onchain.ts\<close>, \<open>lib/deploy.ts\<close>.
  \<^item> \<open>Session_Provider\<close>, \<open>Sign_In\<close>: \<open>providers/SessionProvider.tsx\<close>; \<open>app/login/page.tsx\<close>,
    \<open>app/auth/callback/page.tsx\<close>.
  \<^item> \<open>Hooks\<close>: \<open>lib/hooks.ts\<close>, and that a query refines a cell which only newer answers overwrite.
  \<^item> \<open>Operators\<close>, \<open>Format\<close>, \<open>Nav\<close>, \<open>Routes\<close>: \<open>lib/operators.ts\<close>, \<open>lib/format.ts\<close>, \<open>components/console/nav.ts\<close>, the two
    server routes \<open>app/api/*/route.ts\<close>.
  \<^item> \<open>New_App\<close>, \<open>Group_Page\<close>, \<open>Trust\<close>: the wizard \<open>apps/new\<close>, the group screen, and the two screens that say whom a
    group trusts (\<open>credentials\<close>, \<open>configuration/login-methods\<close>), with the server's reading of their requests.
  \<^item> \<open>Settings_Form\<close>, \<open>Configuration\<close>: \<open>components/console/SettingsForm.tsx\<close> and the six screens built on it; the
    locale \<open>screen\<close> is what the form needs of a screen, and every screen is an interpretation.
  \<^item> \<open>Console\<close>, \<open>Ui\<close>: the frame of the console, notices, theme, toasts, invitations, onboarding, account;
    \<open>components/ui.tsx\<close>.
  \<^item> \<open>Wallets\<close>, \<open>Webhooks\<close>, \<open>Policies\<close>, \<open>App_Settings\<close>, \<open>Org_Pages\<close>: the screens of these names, with the server's signing
    of deliveries (\<open>backend/internal/webhook/dispatcher.go\<close>), its rules for environments
    (\<open>backend/internal/policy/policy.go\<close>) and its updates of an app and an organization.
  \<^item> \<open>Chart\<close>, \<open>Overview\<close>, \<open>Market\<close>: \<open>components/Chart.tsx\<close>, the screens that draw activity, the operator
    marketplace and the status page; the locale \<open>consistent\<close> is what sorting needs of a comparator.
  \<^item> \<open>Html\<close>, \<open>Pages\<close>: the trees the screens render, with the widgets of \<open>components/ui.tsx\<close> they are made of, what a
    reader finds in them (what can be pressed, typed and ticked, where the links lead, what is copied) and when
    a tree is sound; the pages of \<open>app/\<close> as the router serves them.
  \<^item> \<open>Reveal\<close>, \<open>Frames\<close>: \<open>components/ScrollFX.tsx\<close> with the marketplace's cards; the sidebar, the menus, header,
    footer and documentation frame, and the script that sets the theme (\<open>app/layout.tsx\<close>).
  \<^item> \<open>Views_Wizard\<close>, \<open>Views_Group\<close>, \<open>Views_Trust\<close>, \<open>Views_Wallets\<close>, \<open>Views_Hooks\<close>, \<open>Views_App\<close>, \<open>Views_Org\<close>,
    \<open>Views_Market\<close>, \<open>Views_Account\<close>, \<open>Views_Config\<close>: the trees of the screens modelled by the theories above, over
    the same states and queries, each with a type of events for its controls. Their theorems say which
    controls a state offers, that is, that the screen lets through what its model allows and nothing else.
    \<open>Screens\<close>: what holds of all of them.

  \<^bold>\<open>What the theorems show.\<close> Who acts: a group change is made by the group's manager or not at all, and a proof is
  returned only for a receipt that did not revert. What is signed: the final operation, whose flattening
  loses nothing. What is kept and revealed: a session is loaded as it was stored, signing out leaves
  nothing, a private key influences nothing but what is shown to its owner. What is sent and in which
  order: provisioning, deployment, status changes, syncs. What is shown: answers in the order of their
  questions, saved forms, charts inside their axes, nodes as filtered. What can be pressed: the wizard's page
  makes exactly the steps of its machine, the configuration pages send what their models offer, the group
  screen offers a change exactly to whom it is open, the links of the frames lead to pages, but for one; and
  which failures a screen does not tell. Round trips: JSON, hex, query strings,
  sign-in messages, login redirects. Several theorems describe behaviour the code did not
  mean to have; they are stated as it is.

  \<^bold>\<open>Bounds and termination.\<close> Two functions are not recursive on their data. Waiting for a receipt is a
  \<open>partial_function\<close>, and it returns after at most a hundred looks when a sleep of three seconds moves the
  clock by three seconds (five minutes in all). The JSON parser's fuel is the length of its text, which
  each nested value shortens; the round trip of printed values shows that it is enough.

  \<^bold>\<open>Assumptions.\<close> The hypotheses of a theorem are its premises; the recurring ones are that storage does not
  refuse, that the clock moves with a sleep, and that the encoder of a library has the documented shape.
  Doubles are exact; a JavaScript string is measured in bytes only where it is ASCII.

  \<^bold>\<open>Not modelled.\<close> Of the trees: class names, styles, icons and the paths of drawings, unless something depends
  on them, and decoration hidden from readers. React's commit and the router are modelled as documented. The
  landing, pricing, documentation and style pages and the logo, which are text and styles without state; the
  server apart from the handlers named above (its database, chain reader, storage and probes); the contracts;
  the SDK, the prover and viem, which are arguments of the model.
\<close>

end
